(* ===== verification/Prelude.thy ===== *)
theory Prelude
  imports Main "HOL-Library.Word" "HOL-Library.Multiset"
begin

text \<open>
  The prelude of the development: Go errors as a datatype, fallible values
  (\<open>error + 'a\<close>), computations over a state that may fail after having changed the
  state (\<open>('s, 'a) comp\<close>), the few functions of Go's \<open>strings\<close> and
  \<open>strconv\<close> packages the program uses, Go's machine integers, and the generic
  lemmas on lists, maps and words that the component theories share. The lemmas that
  invert a successful or failed run are collected in \<open>comp_inv\<close>.
\<close>

named_theorems comp_inv \<open>inversion of a run of a computation\<close>
named_theorems comp_simps \<open>unfolding of the computation combinators\<close>

section \<open>Errors and fallible values\<close>

text \<open>
  \<open>Err s\<close> is an error made by \<open>errors.New\<close> or by \<open>fmt.Errorf\<close> with only
  \<open>%v\<close>/\<open>%s\<close> verbs, \<open>Wrap s e\<close> one made by \<open>fmt.Errorf\<close> with a
  \<open>%w\<close> verb (so that \<open>errors.Is\<close> still finds \<open>e\<close>), \<open>Panic s\<close> a run-time
  panic (nil dereference, division by zero).
\<close>

datatype error = ErrRecordNotFound | Err string | Wrap string error | Panic string

type_synonym 'a result = "error + 'a"

fun error_text :: "error \<Rightarrow> string" where
  "error_text ErrRecordNotFound = ''record not found''"
| "error_text (Err s) = s"
| "error_text (Wrap s e) = s @ error_text e"
| "error_text (Panic s) = s"

text \<open>\<open>errors.Is(err, gorm.ErrRecordNotFound)\<close>.\<close>

fun errors_Is_NotFound :: "error \<Rightarrow> bool" where
  "errors_Is_NotFound ErrRecordNotFound = True"
| "errors_Is_NotFound (Wrap _ e) = errors_Is_NotFound e"
| "errors_Is_NotFound _ = False"

definition bindE :: "'a result \<Rightarrow> ('a \<Rightarrow> 'b result) \<Rightarrow> 'b result" where
  "bindE r f = (case r of Inl e \<Rightarrow> Inl e | Inr x \<Rightarrow> f x)"

lemma bindE_simps [simp]:
  "bindE (Inl e) f = Inl e" "bindE (Inr x) f = f x"
  by (simp_all add: bindE_def)

lemma bindE_Inr_iff [comp_inv]: "bindE r f = Inr y \<longleftrightarrow> (\<exists>x. r = Inr x \<and> f x = Inr y)"
  by (cases r) auto

lemma bindE_Inl_iff [comp_inv]:
  "bindE r f = Inl e \<longleftrightarrow> r = Inl e \<or> (\<exists>x. r = Inr x \<and> f x = Inl e)"
  by (cases r) auto

section \<open>Computations over a state\<close>

text \<open>
  A computation reads and writes a state and returns a result; when it fails the state
  it reached is kept, as the effects of a Go function that returns an error are.
\<close>

type_synonym ('s, 'a) comp = "'s \<Rightarrow> 'a result \<times> 's"

definition returnC :: "'a \<Rightarrow> ('s, 'a) comp" where
  "returnC x s = (Inr x, s)"

definition failC :: "error \<Rightarrow> ('s, 'a) comp" where
  "failC e s = (Inl e, s)"

definition bindC :: "('s, 'a) comp \<Rightarrow> ('a \<Rightarrow> ('s, 'b) comp) \<Rightarrow> ('s, 'b) comp" where
  "bindC m f s = (case m s of (Inl e, s') \<Rightarrow> (Inl e, s') | (Inr x, s') \<Rightarrow> f x s')"

text \<open>A read-only query, a pure fallible value, and a call whose error the caller inspects; a
  panic is no value and goes on to the caller.\<close>

definition queryC :: "('s \<Rightarrow> 'a result) \<Rightarrow> ('s, 'a) comp" where
  "queryC q s = (q s, s)"

definition liftC :: "'a result \<Rightarrow> ('s, 'a) comp" where
  "liftC r s = (r, s)"

definition tryE :: "'a result \<Rightarrow> 'a result result" where
  "tryE r = (case r of Inl (Panic p) \<Rightarrow> Inl (Panic p) | _ \<Rightarrow> Inr r)"

definition attemptC :: "('s, 'a) comp \<Rightarrow> ('s, 'a result) comp" where
  "attemptC m s = (case m s of (r, s') \<Rightarrow> (tryE r, s'))"

text \<open>Computations on the first half of a state: the database beside another component's state.\<close>

definition onDb :: "('db, 'a) comp \<Rightarrow> ('db \<times> 'c, 'a) comp" where
  "onDb f = (\<lambda>(db, c). case f db of (r, db') \<Rightarrow> (r, (db', c)))"

definition askDb :: "('db \<Rightarrow> 'a result) \<Rightarrow> ('db \<times> 'c, 'a) comp" where
  "askDb q = (\<lambda>(db, c). (q db, (db, c)))"

definition onSnd :: "('c, 'a) comp \<Rightarrow> ('db \<times> 'c, 'a) comp" where
  "onSnd f = (\<lambda>(db, c). case f c of (r, c') \<Rightarrow> (r, (db, c')))"

text \<open>Replaces the error of a failing call, as \<open>return fmt.Errorf(..., err)\<close> does; a panic stays.\<close>

definition on_error :: "(error \<Rightarrow> error) \<Rightarrow> error \<Rightarrow> error" where
  "on_error g e = (case e of Panic p \<Rightarrow> Panic p | _ \<Rightarrow> g e)"

definition mapErrC :: "(error \<Rightarrow> error) \<Rightarrow> ('s, 'a) comp \<Rightarrow> ('s, 'a) comp" where
  "mapErrC g m s = (case m s of (Inl e, s') \<Rightarrow> (Inl (on_error g e), s') | (Inr x, s') \<Rightarrow> (Inr x, s'))"

definition mapErrE :: "(error \<Rightarrow> error) \<Rightarrow> 'a result \<Rightarrow> 'a result" where
  "mapErrE g r = (case r of Inl e \<Rightarrow> Inl (on_error g e) | Inr x \<Rightarrow> Inr x)"

text \<open>The error of a call, with the value it returns dropped.\<close>

definition dropC :: "('s, 'a) comp \<Rightarrow> ('s, unit) comp" where
  "dropC f s = (case f s of (Inl e, s') \<Rightarrow> (Inl e, s') | (Inr _, s') \<Rightarrow> (Inr (), s'))"

text \<open>A \<open>for _, x := range xs\<close> loop whose body may return early with an error.\<close>

fun forC :: "('x \<Rightarrow> ('s, unit) comp) \<Rightarrow> 'x list \<Rightarrow> ('s, unit) comp" where
  "forC f [] s = (Inr (), s)"
| "forC f (x # xs) s = (case f x s of (Inl e, s') \<Rightarrow> (Inl e, s') | (Inr _, s') \<Rightarrow> forC f xs s')"

declare returnC_def [comp_simps] failC_def [comp_simps] bindC_def [comp_simps]
  queryC_def [comp_simps] liftC_def [comp_simps] attemptC_def [comp_simps]
  mapErrC_def [comp_simps] mapErrE_def [comp_simps]

lemma returnC_inv [comp_inv]: "returnC x s = (r, s') \<longleftrightarrow> r = Inr x \<and> s' = s"
  by (auto simp: returnC_def)

lemma failC_inv [comp_inv]: "failC e s = (r, s') \<longleftrightarrow> r = Inl e \<and> s' = s"
  by (auto simp: failC_def)

lemma queryC_inv [comp_inv]: "queryC q s = (r, s') \<longleftrightarrow> q s = r \<and> s' = s"
  by (auto simp: queryC_def)

lemma liftC_inv [comp_inv]: "liftC q s = (r, s') \<longleftrightarrow> q = r \<and> s' = s"
  by (auto simp: liftC_def)

lemma bindC_Inr_inv [comp_inv]:
  "bindC m f s = (Inr y, s'') \<longleftrightarrow> (\<exists>x s'. m s = (Inr x, s') \<and> f x s' = (Inr y, s''))"
  by (auto simp: bindC_def split: prod.splits sum.splits)

lemma bindC_Inl_inv [comp_inv]:
  "bindC m f s = (Inl e, s'') \<longleftrightarrow>
     m s = (Inl e, s'') \<or> (\<exists>x s'. m s = (Inr x, s') \<and> f x s' = (Inl e, s''))"
  by (auto simp: bindC_def split: prod.splits sum.splits)

lemma mapErrC_Inr_inv [comp_inv]: "mapErrC g m s = (Inr x, s') \<longleftrightarrow> m s = (Inr x, s')"
  by (auto simp: mapErrC_def split: prod.splits sum.splits)

lemma mapErrC_Inl_inv [comp_inv]:
  "mapErrC g m s = (Inl e, s') \<longleftrightarrow> (\<exists>e'. m s = (Inl e', s') \<and> e = on_error g e')"
  by (auto simp: mapErrC_def split: prod.splits sum.splits)

lemma mapErrE_Inr_inv [comp_inv]: "mapErrE g r = Inr x \<longleftrightarrow> r = Inr x"
  by (auto simp: mapErrE_def split: sum.splits)

lemma mapErrE_Inl_inv [comp_inv]: "mapErrE g r = Inl e \<longleftrightarrow> (\<exists>e'. r = Inl e' \<and> e = on_error g e')"
  by (auto simp: mapErrE_def split: sum.splits)

lemma tryE_Inr [comp_inv]: "tryE r = Inr q \<longleftrightarrow> q = r \<and> (\<forall>p. r \<noteq> Inl (Panic p))"
  by (auto simp: tryE_def split: sum.splits error.splits)

lemma tryE_Inl [comp_inv]: "tryE r = Inl e \<longleftrightarrow> (\<exists>p. r = Inl (Panic p) \<and> e = Panic p)"
  by (auto simp: tryE_def split: sum.splits error.splits)

lemma tryE_ok [simp]: "tryE (Inr x) = Inr (Inr x)"
  by (simp add: tryE_def)

lemma attemptC_inv [comp_inv]: "attemptC m s = (r, s') \<longleftrightarrow> (\<exists>q. m s = (q, s') \<and> tryE q = r)"
  by (auto simp: attemptC_def split: prod.splits)

lemma askDb_eq: "askDb q s = (r, s') \<longleftrightarrow> q (fst s) = r \<and> s' = s"
  by (cases s) (auto simp: askDb_def)

lemma onDb_eq: "onDb f s = (r, s') \<longleftrightarrow> f (fst s) = (r, fst s') \<and> snd s' = snd s"
  by (cases s; cases s') (auto simp: onDb_def split: prod.splits)

lemma onSnd_eq: "onSnd f s = (r, s') \<longleftrightarrow> f (snd s) = (r, snd s') \<and> fst s' = fst s"
  by (cases s; cases s') (auto simp: onSnd_def split: prod.splits)

lemma forC_Cons_Inr [comp_inv]:
  "forC f (x # xs) s = (Inr u, s') \<longleftrightarrow> (\<exists>s1. f x s = (Inr (), s1) \<and> forC f xs s1 = (Inr u, s'))"
  by (auto split: prod.splits sum.splits)

text \<open>
  The rule of the loop: what one round keeps, the loop keeps, whether it ends by running
  out of elements or by an error.
\<close>

lemma forC_invariant:
  assumes step: "\<And>x s r s'. x \<in> set xs \<Longrightarrow> I s \<Longrightarrow> f x s = (r, s') \<Longrightarrow> I s'"
    and run: "forC f xs s = (r, s')" and start: "I s"
  shows "I s'"
  using assms
proof (induction xs arbitrary: s)
  case Nil
  then show ?case by simp
next
  case (Cons x xs)
  obtain q s1 where one: "f x s = (q, s1)" by (cases "f x s")
  have I1: "I s1" using Cons.prems(1)[of x s q s1] one Cons.prems(3) by simp
  show ?case
  proof (cases q)
    case (Inl e)
    with one Cons.prems(2) I1 show ?thesis by simp
  next
    case (Inr u)
    with one Cons.prems(2) have rest: "forC f xs s1 = (r, s')" by simp
    show ?thesis
    proof (rule Cons.IH [OF _ rest I1])
      fix x' s2 r2 s2'
      assume "x' \<in> set xs" "I s2" "f x' s2 = (r2, s2')"
      then show "I s2'" using Cons.prems(1)[of x' s2 r2 s2'] by simp
    qed
  qed
qed

text \<open>A loop that fills a result slice with converted elements, stopping at the first error.\<close>

fun traverseE :: "('a \<Rightarrow> 'b result) \<Rightarrow> 'a list \<Rightarrow> 'b list result" where
  "traverseE f [] = Inr []"
| "traverseE f (x # xs) = bindE (f x) (\<lambda>y. bindE (traverseE f xs) (\<lambda>ys. Inr (y # ys)))"

lemma dropC_Inr [comp_inv]: "dropC f s = (Inr u, s') \<longleftrightarrow> (\<exists>x. f s = (Inr x, s'))"
  by (auto simp: dropC_def split: prod.splits sum.splits)

lemma dropC_Inl [comp_inv]: "dropC f s = (Inl e, s') \<longleftrightarrow> f s = (Inl e, s')"
  by (auto simp: dropC_def split: prod.splits sum.splits)

lemma traverseE_total: "(\<And>x. x \<in> set xs \<Longrightarrow> f x = Inr (h x)) \<Longrightarrow> traverseE f xs = Inr (map h xs)"
  by (induction xs) auto

lemma traverseE_Inr: "traverseE f xs = Inr ys \<longleftrightarrow> list_all2 (\<lambda>x y. f x = Inr y) xs ys"
  by (induction xs arbitrary: ys) (auto simp: bindE_Inr_iff list_all2_Cons1)

section \<open>Machine integers and floats\<close>

type_synonym u64 = "64 word"

text \<open>
  Go's \<open>int64\<close> values are \<open>int\<close>s (heights, epochs, gas limits, times: no
  arithmetic of the program brings them near the bounds); the conversions between the two
  64-bit types are written out.
\<close>

definition to_int64 :: "u64 \<Rightarrow> int" where
  "to_int64 w = sint w"

definition to_uint64 :: "int \<Rightarrow> u64" where
  "to_uint64 i = word_of_int i"

lemma to_int64_small: "unat w < 2 ^ 63 \<Longrightarrow> to_int64 w = int (unat w)"
proof -
  assume "unat w < 2 ^ 63"
  then have "int (unat w) < int (2 ^ 63)" by (simp only: of_nat_less_iff)
  then have u: "uint w < 2 ^ 63" by (simp only: of_nat_power of_nat_numeral uint_nat)
  have "sint w = signed_take_bit 63 (uint w)" by (simp only: sint_uint) simp
  also have "\<dots> = uint w"
    by (rule signed_take_bit_int_eq_self)
      (use u in \<open>simp_all only:\<close>, rule order_trans [OF _ uint_ge_0], simp)
  finally show ?thesis by (simp only: uint_nat to_int64_def)
qed

lemma to_uint64_to_int64 [simp]: "to_uint64 (to_int64 w) = w"
  by (simp add: to_uint64_def to_int64_def)

lemma uint_to_uint64: "0 \<le> i \<Longrightarrow> i < 2 ^ 64 \<Longrightarrow> uint (to_uint64 i) = i"
  by (simp add: to_uint64_def uint_word_of_int_eq take_bit_int_eq_self)

text \<open>
  A \<open>float64\<close> is its IEEE-754 bit pattern: the program only stores it and compares it
  with zero, and \<open>x != 0\<close> is false for exactly the two patterns of zero.
\<close>

type_synonym float64 = "64 word"

definition f64_nonzero :: "float64 \<Rightarrow> bool" where
  "f64_nonzero x \<longleftrightarrow> x \<noteq> 0 \<and> x \<noteq> 0x8000000000000000"

section \<open>Strings\<close>

fun has_prefix :: "string \<Rightarrow> string \<Rightarrow> bool" where
  "has_prefix s [] = True"
| "has_prefix [] (_ # _) = False"
| "has_prefix (c # s) (d # p) = (c = d \<and> has_prefix s p)"

text \<open>\<open>strings.Contains(s, sub)\<close>.\<close>

fun str_contains :: "string \<Rightarrow> string \<Rightarrow> bool" where
  "str_contains [] sub = (sub = [])"
| "str_contains (c # s) sub = (has_prefix (c # s) sub \<or> str_contains s sub)"

lemma has_prefix_append [simp]: "has_prefix (p @ s) p"
  by (induction p) auto

lemma str_contains_prefix: "has_prefix s sub \<Longrightarrow> str_contains s sub"
  by (cases s; cases sub) auto

text \<open>Decimal digits, as the verb \<open>%d\<close> prints an integer.\<close>

fun digits_of :: "nat \<Rightarrow> string" where
  "digits_of n = (if n < 10 then [char_of (48 + n)] else digits_of (n div 10) @ [char_of (48 + n mod 10)])"

declare digits_of.simps [simp del]

definition show_int :: "int \<Rightarrow> string" where
  "show_int i = (if i < 0 then ''-'' @ digits_of (nat (- i)) else digits_of (nat i))"

section \<open>Lists, maps and words\<close>

lemma map_upd_where_id:
  "(\<And>x. x \<in> set xs \<Longrightarrow> \<not> p x) \<Longrightarrow> map (\<lambda>x. if p x then f x else x) xs = xs"
  by (induction xs) auto

lemma filter_map_upd_where:
  "(\<And>x. p x \<Longrightarrow> \<not> q x \<and> \<not> q (f x)) \<Longrightarrow>
     filter q (map (\<lambda>x. if p x then f x else x) xs) = filter q xs"
  by (induction xs) auto

lemma mset_eq_set_eq: "mset xs = mset ys \<Longrightarrow> set xs = set ys"
  by (rule mset_eq_setD)

lemma unat_plus_one: "w \<noteq> - 1 \<Longrightarrow> unat (w + 1 :: u64) = unat w + 1"
proof -
  assume "w \<noteq> - 1"
  then have "1 + w \<noteq> 0" by (metis add_eq_0_iff)
  from unatSuc [OF this] show ?thesis by (simp only: add.commute Suc_eq_plus1)
qed

lemma unat_sub_le: "(b :: u64) \<le> a \<Longrightarrow> unat (a - b) = unat a - unat b"
  by (rule unat_sub)

lemma word_add_of_nat_unat:
  "unat (a :: u64) + k < 2 ^ 64 \<Longrightarrow> unat (a + of_nat k) = unat a + k"
  by (simp add: unat_word_ariths unat_of_nat mod_simps)

end
