(* ===== verification/Types.thy ===== *)
theory Types
  imports Prelude
begin

text \<open>
  The data the components exchange: addresses, content identifiers, token amounts, chain
  messages, the messager's own message, address and configuration records (the structs of
  \<open>venus-shared/types\<close> and \<open>venus-shared/types/messager\<close>, with the fields the
  program uses), and the column types of \<open>models/mtypes\<close> and
  \<open>models/repo/repo.go\<close> with their conversions.
\<close>

section \<open>Addresses, identifiers, amounts\<close>

text \<open>
  A Filecoin address is undefined (\<open>address.Undef\<close>) or a protocol number with a
  payload; protocol 0 is \<open>address.ID\<close>.
\<close>

datatype address = AddrUndef | Addr (addr_protocol: nat) (addr_payload: string)

fun Protocol_is_ID :: "address \<Rightarrow> bool" where
  "Protocol_is_ID (Addr p _) = (p = 0)"
| "Protocol_is_ID AddrUndef = False"

datatype cid = CidUndef | Cid string

type_synonym tipset_key = "cid list"
type_synonym uuid = string
type_synonym time = int
type_synonym epoch = int
type_synonym method_num = u64
type_synonym bytes = "8 word list option"

text \<open>
  \<open>big.Int\<close> wraps a pointer to \<open>math/big.Int\<close>: \<open>None\<close> is the nil pointer.
  Operations on nil dereference it, so they are partial here.
\<close>

type_synonym bigint = "int option"

definition NilOrZero :: "bigint \<Rightarrow> bool" where
  "NilOrZero b \<longleftrightarrow> b = None \<or> b = Some 0"

definition big_deref :: "bigint \<Rightarrow> int result" where
  "big_deref b = (case b of None \<Rightarrow> Inl (Panic ''nil big.Int'') | Some i \<Rightarrow> Inr i)"

lemma big_deref_simps [simp]:
  "big_deref (Some i) = Inr i" "big_deref None = Inl (Panic ''nil big.Int'')"
  by (simp_all add: big_deref_def)

lemma big_deref_Inr [comp_inv]: "big_deref b = Inr i \<longleftrightarrow> b = Some i"
  by (cases b) auto

lemma NilOrZero_simps [simp]:
  "NilOrZero None" "NilOrZero (Some i) \<longleftrightarrow> i = 0"
  by (simp_all add: NilOrZero_def)

section \<open>Messages\<close>

datatype message_state =
  UnKnown | UnFillMsg | FillMsg | OnChainMsg | FailedMsg | NonceConflictMsg

datatype address_state = AddressStateAlive | AddressStateRemoving | AddressStateRemoved
  | AddressStateForbbiden

text \<open>\<open>venusTypes.Message\<close>: the message as the chain sees it.\<close>

record chain_msg =
  c_Version :: u64
  c_To :: address
  c_From :: address
  c_Nonce :: u64
  c_Value :: bigint
  c_GasLimit :: int
  c_GasFeeCap :: bigint
  c_GasPremium :: bigint
  c_Method :: method_num
  c_Params :: bytes

type_synonym signature = string

record signed_msg =
  s_Message :: chain_msg
  s_Signature :: signature

record receipt =
  r_ExitCode :: int
  r_Return :: bytes
  r_GasUsed :: int

record send_spec =
  ss_ExpireEpoch :: epoch
  ss_GasOverEstimation :: float64
  ss_MaxFee :: bigint
  ss_GasOverPremium :: float64

text \<open>\<open>types.Message\<close>: the messager's message, embedding the chain message.\<close>

record message =
  m_ID :: string
  m_UnsignedCid :: "cid option"
  m_SignedCid :: "cid option"
  m_Message :: chain_msg
  m_Signature :: "signature option"
  m_Height :: int
  m_Confidence :: int
  m_Receipt :: "receipt option"
  m_TipSetKey :: tipset_key
  m_Meta :: "send_spec option"
  m_WalletName :: string
  m_State :: message_state
  m_ErrorMsg :: string
  m_UpdatedAt :: time
  m_CreatedAt :: time

abbreviation m_From :: "message \<Rightarrow> address" where "m_From m \<equiv> c_From (m_Message m)"
abbreviation m_To :: "message \<Rightarrow> address" where "m_To m \<equiv> c_To (m_Message m)"
abbreviation m_Nonce :: "message \<Rightarrow> u64" where "m_Nonce m \<equiv> c_Nonce (m_Message m)"
abbreviation m_GasFeeCap :: "message \<Rightarrow> bigint" where "m_GasFeeCap m \<equiv> c_GasFeeCap (m_Message m)"
abbreviation m_GasPremium :: "message \<Rightarrow> bigint" where "m_GasPremium m \<equiv> c_GasPremium (m_Message m)"
abbreviation m_GasLimit :: "message \<Rightarrow> int" where "m_GasLimit m \<equiv> c_GasLimit (m_Message m)"
abbreviation m_Method :: "message \<Rightarrow> method_num" where "m_Method m \<equiv> c_Method (m_Message m)"

abbreviation with_Message :: "(chain_msg \<Rightarrow> chain_msg) \<Rightarrow> message \<Rightarrow> message" where
  "with_Message f m \<equiv> m\<lparr>m_Message := f (m_Message m)\<rparr>"

section \<open>Addresses, fee specifications, nodes\<close>

record fee_spec =
  f_GasOverEstimation :: float64
  f_MaxFee :: bigint
  f_GasFeeCap :: bigint
  f_GasOverPremium :: float64
  f_BaseFee :: bigint

record address_info =
  a_ID :: uuid
  a_Addr :: address
  a_Nonce :: u64
  a_Weight :: int
  a_State :: address_state
  a_SelMsgNum :: u64
  a_FeeSpec :: fee_spec
  a_IsDeleted :: int
  a_CreatedAt :: time
  a_UpdatedAt :: time

record method_type =
  mt_Code :: cid
  mt_Method :: method_num

record actor_cfg =
  ac_ID :: uuid
  ac_ActorVersion :: int
  ac_MethodType :: method_type
  ac_FeeSpec :: fee_spec
  ac_CreatedAt :: time
  ac_UpdatedAt :: time

record shared_spec =
  sp_ID :: nat
  sp_SelMsgNum :: u64
  sp_FeeSpec :: fee_spec

record node =
  n_ID :: uuid
  n_Name :: string
  n_URL :: string
  n_Token :: string
  n_Type :: int
  n_CreatedAt :: time
  n_UpdatedAt :: time

text \<open>\<open>types.ChangeGasSpecParams\<close>: pointers and nil amounts mean "leave it".\<close>

record change_gas_spec =
  cg_GasOverEstimation :: "float64 option"
  cg_MaxFee :: bigint
  cg_GasFeeCap :: bigint
  cg_GasOverPremium :: "float64 option"
  cg_BaseFee :: bigint

text \<open>\<open>types.MsgQueryParams\<close>, the parameters of a message query.\<close>

record msg_query_params =
  q_From :: "address list"
  q_State :: "message_state list"
  q_Asc :: bool
  q_Limit :: int
  q_Offset :: int
  q_ByUpdateAt :: "time option"

definition empty_query :: msg_query_params where
  "empty_query = \<lparr>q_From = [], q_State = [], q_Asc = False, q_Limit = 0, q_Offset = 0,
     q_ByUpdateAt = None\<rparr>"

text \<open>\<open>repo.NotDeleted\<close> and \<open>repo.Deleted\<close> (models/repo/repo.go).\<close>

definition NotDeleted :: int where "NotDeleted = - 1"
definition Deleted :: int where "Deleted = 1"

section \<open>Chain data\<close>

record actor =
  act_Code :: cid
  act_Nonce :: u64

text \<open>
  A tipset with the fields the program reads: its key, its parents' key, its height and
  of its first block the identifier and the parent base fee.
\<close>

record tipset =
  ts_Key :: tipset_key
  ts_Parents :: tipset_key
  ts_Height :: epoch
  ts_Block0Cid :: cid
  ts_ParentBaseFee :: bigint

section \<open>Column types (models/mtypes, models/repo/repo.go)\<close>

text \<open>
  \<open>mtypes.Int\<close> is a pointer to \<open>math/big.Int\<close> as well; \<open>NewFromGo\<close> copies
  and so dereferences its argument, \<open>SafeFromGo\<close> maps nil to zero.
\<close>

definition mtypes_NewInt :: "int \<Rightarrow> bigint" where
  "mtypes_NewInt i = Some i"

definition NewFromGo :: "bigint \<Rightarrow> bigint result" where
  "NewFromGo i = bindE (big_deref i) (\<lambda>v. Inr (Some v))"

definition SafeFromGo :: "bigint \<Rightarrow> bigint" where
  "SafeFromGo i = (case i of None \<Rightarrow> mtypes_NewInt 0 | Some v \<Rightarrow> Some v)"

lemma SafeFromGo_simps [simp]:
  "SafeFromGo None = Some 0" "SafeFromGo (Some v) = Some v"
  by (simp_all add: SafeFromGo_def mtypes_NewInt_def)

lemma SafeFromGo_not_nil [simp]: "SafeFromGo i \<noteq> None"
  by (cases i) auto

lemma SafeFromGo_idem [simp]: "SafeFromGo (SafeFromGo i) = SafeFromGo i"
  by (cases i) auto

lemma NewFromGo_SafeFromGo [simp]: "NewFromGo (SafeFromGo i) = Inr (SafeFromGo i)"
  by (cases i) (auto simp: NewFromGo_def)

record msg_meta =
  mm_ExpireEpoch :: epoch
  mm_GasOverEstimation :: float64
  mm_MaxFee :: bigint
  mm_GasOverPremium :: float64

text \<open>\<open>(*MsgMeta).Meta\<close> and \<open>FromMeta\<close> (models/mtypes/msg_meta.go).\<close>

definition Meta :: "msg_meta option \<Rightarrow> send_spec" where
  "Meta meta = (case meta of
      None \<Rightarrow> \<lparr>ss_ExpireEpoch = 0, ss_GasOverEstimation = 0, ss_MaxFee = Some 0,
               ss_GasOverPremium = 0\<rparr>
    | Some mm \<Rightarrow> \<lparr>ss_ExpireEpoch = mm_ExpireEpoch mm,
               ss_GasOverEstimation = mm_GasOverEstimation mm,
               ss_MaxFee = SafeFromGo (mm_MaxFee mm),
               ss_GasOverPremium = mm_GasOverPremium mm\<rparr>)"

definition FromMeta :: "send_spec option \<Rightarrow> msg_meta" where
  "FromMeta srcMeta = (case srcMeta of
      None \<Rightarrow> \<lparr>mm_ExpireEpoch = 0, mm_GasOverEstimation = 0, mm_MaxFee = mtypes_NewInt 0,
               mm_GasOverPremium = 0\<rparr>
    | Some s \<Rightarrow> \<lparr>mm_ExpireEpoch = ss_ExpireEpoch s,
               mm_GasOverEstimation = ss_GasOverEstimation s,
               mm_MaxFee = SafeFromGo (ss_MaxFee s),
               mm_GasOverPremium = ss_GasOverPremium s\<rparr>)"

text \<open>\<open>SqlMsgReceipt\<close>, \<open>(*SqlMsgReceipt).MsgReceipt\<close> and \<open>FromMsgReceipt\<close>.\<close>

record sql_receipt =
  sr_ExitCode :: int
  sr_Return :: bytes
  sr_GasUsed :: int

definition MsgReceipt :: "sql_receipt option \<Rightarrow> receipt option" where
  "MsgReceipt s = (case s of None \<Rightarrow> None
    | Some r \<Rightarrow> Some \<lparr>r_ExitCode = sr_ExitCode r, r_Return = sr_Return r, r_GasUsed = sr_GasUsed r\<rparr>)"

definition FromMsgReceipt :: "receipt option \<Rightarrow> sql_receipt option" where
  "FromMsgReceipt receipt = (case receipt of None \<Rightarrow> None
    | Some r \<Rightarrow> Some \<lparr>sr_ExitCode = r_ExitCode r, sr_Return = r_Return r, sr_GasUsed = r_GasUsed r\<rparr>)"

lemma MsgReceipt_FromMsgReceipt [simp]: "MsgReceipt (FromMsgReceipt r) = r"
  by (cases r) (auto simp: MsgReceipt_def FromMsgReceipt_def)

lemma FromMsgReceipt_None_iff [simp]: "FromMsgReceipt r = None \<longleftrightarrow> r = None"
  by (cases r) (auto simp: FromMsgReceipt_def)

text \<open>What storing and loading a send specification makes of it: nil becomes zero.\<close>

definition norm_spec :: "send_spec option \<Rightarrow> send_spec" where
  "norm_spec s = Meta (Some (FromMeta s))"

lemma norm_spec_idem [simp]: "norm_spec (Some (norm_spec s)) = norm_spec s"
  by (cases s) (auto simp: norm_spec_def Meta_def FromMeta_def mtypes_NewInt_def)

lemma Meta_FromMeta:
  "Meta (Some (FromMeta s)) = (case s of
      None \<Rightarrow> Meta None | Some spec \<Rightarrow> spec\<lparr>ss_MaxFee := SafeFromGo (ss_MaxFee spec)\<rparr>)"
  by (cases s) (auto simp: Meta_def FromMeta_def mtypes_NewInt_def)

text \<open>The amounts of a fee specification, as the columns of every table hold them.\<close>

definition safe_fees :: "fee_spec \<Rightarrow> fee_spec" where
  "safe_fees f = f\<lparr>f_MaxFee := SafeFromGo (f_MaxFee f), f_GasFeeCap := SafeFromGo (f_GasFeeCap f),
      f_BaseFee := SafeFromGo (f_BaseFee f)\<rparr>"

lemma safe_fees_idem [simp]: "safe_fees (safe_fees f) = safe_fees f"
  by (simp add: safe_fees_def)

end
