(* ===== verification/Gas.thy ===== *)
theory Gas
  imports Types
begin

text \<open>
  The gas policy of \<open>service/message_selector.go\<close> and
  \<open>service/message_service.go\<close>: the replace-by-fee premium (\<open>computeRBF\<close>), the
  cap on the total fee (\<open>CapGasFee\<close>) and the merge of the gas parameters of a
  message, its sender, its actor and the global settings (\<open>mergeMsgSpec\<close>). The
  properties: a replacement premium is at least ten per cent and one attoFIL above the old
  one; a capped message never costs more than the maximum fee and its premium never
  exceeds its fee cap; the merge takes every parameter from the first source in the order
  message, address, actor, global that sets it.
\<close>

section \<open>computeRBF\<close>

definition replaceByFeePercentageMinimum :: int where
  "replaceByFeePercentageMinimum = 110"

definition rbfDenomBig :: int where
  "rbfDenomBig = 100"

definition computeRBF :: "bigint \<Rightarrow> int \<Rightarrow> bigint result" where
  "computeRBF curPrem replaceByFeeRatio =
     (let ratio = (if replaceByFeeRatio < replaceByFeePercentageMinimum
                   then replaceByFeePercentageMinimum else replaceByFeeRatio);
          rbfNumBig = uint (to_uint64 ratio)
      in bindE (big_deref curPrem) (\<lambda>p.
           let minPrice = (p * rbfNumBig) div rbfDenomBig
           in Inr (Some (minPrice + 1))))"

lemma computeRBF_nil: "computeRBF None ratio = Inl (Panic ''nil big.Int'')"
  by (simp add: computeRBF_def Let_def)

lemma computeRBF_value:
  assumes "ratio < 2 ^ 63"
  shows "computeRBF (Some p) ratio = Inr (Some (p * max 110 ratio div 100 + 1))"
proof -
  have r: "(if ratio < 110 then 110 else ratio) = max 110 ratio" by simp
  have u: "uint (to_uint64 (max 110 ratio)) = max 110 ratio"
    by (rule uint_to_uint64) (use assms in auto)
  show ?thesis
    unfolding computeRBF_def replaceByFeePercentageMinimum_def rbfDenomBig_def Let_def r u
    by (simp only: big_deref_simps bindE_simps)
qed

lemma rbf_lower_bound:
  assumes "0 \<le> (p::int)" "110 \<le> r"
  shows "p * 110 < (p * r div 100 + 1) * 100"
proof -
  have "p * r < (p * r div 100 + 1) * 100"
    using pos_mod_bound [of 100 "p * r"] div_mult_mod_eq [of "p * r" 100] by (simp add: algebra_simps)
  moreover have "p * 110 \<le> p * r" using assms by (simp add: mult_left_mono)
  ultimately show ?thesis by linarith
qed

section \<open>CapGasFee\<close>

definition CapGasFee :: "chain_msg \<Rightarrow> bigint \<Rightarrow> chain_msg result" where
  "CapGasFee msg maxFee =
     (if NilOrZero maxFee then Inr msg
      else
        let gl = uint (to_uint64 (c_GasLimit msg)) in
        bindE (big_deref maxFee) (\<lambda>mf.
        bindE (big_deref (c_GasFeeCap msg)) (\<lambda>fc.
          let totalFee = fc * gl in
          if totalFee \<le> mf
          then bindE (big_deref (c_GasPremium msg)) (\<lambda>gp.
                 Inr (msg\<lparr>c_GasPremium := Some (min fc gp)\<rparr>))
          else if gl = 0 then Inl (Panic ''division by zero'')
          else let fc' = mf div gl in
               bindE (big_deref (c_GasPremium msg)) (\<lambda>gp.
                 Inr (msg\<lparr>c_GasFeeCap := Some fc', c_GasPremium := Some (min fc' gp)\<rparr>)))))"

lemma CapGasFee_no_limit [simp]: "NilOrZero maxFee \<Longrightarrow> CapGasFee msg maxFee = Inr msg"
  by (simp add: CapGasFee_def)

text \<open>The frame: only the fee cap and the premium change.\<close>

lemma CapGasFee_frame:
  assumes "CapGasFee msg maxFee = Inr msg'"
  shows "\<exists>fc gp. msg' = msg\<lparr>c_GasFeeCap := fc, c_GasPremium := gp\<rparr>"
proof (cases "NilOrZero maxFee")
  case True
  with assms have "msg' = msg\<lparr>c_GasFeeCap := c_GasFeeCap msg, c_GasPremium := c_GasPremium msg\<rparr>"
    by simp
  then show ?thesis by blast
next
  case False
  then obtain mf where mf: "maxFee = Some mf" "mf \<noteq> 0" by (cases maxFee) auto
  from assms mf obtain fc where fc: "c_GasFeeCap msg = Some fc"
    by (cases "c_GasFeeCap msg") (auto simp: CapGasFee_def Let_def)
  from assms mf fc obtain gp where gp: "c_GasPremium msg = Some gp"
    by (cases "c_GasPremium msg") (auto simp: CapGasFee_def Let_def split: if_splits)
  have eq: "msg = msg\<lparr>c_GasFeeCap := Some fc\<rparr>" using fc by simp
  show ?thesis
  proof (cases "fc * uint (to_uint64 (c_GasLimit msg)) \<le> mf")
    case True
    with assms mf fc gp have "msg' = msg\<lparr>c_GasPremium := Some (min fc gp)\<rparr>"
      by (simp add: CapGasFee_def Let_def)
    with eq show ?thesis by metis
  next
    case False
    with assms mf fc gp show ?thesis by (auto simp: CapGasFee_def Let_def split: if_splits)
  qed
qed

text \<open>The outcome on a message with a sensible gas limit and a maximum fee that is set.\<close>

lemma CapGasFee_cases:
  assumes run: "CapGasFee msg (Some mf) = Inr msg'" and mf: "mf \<noteq> 0"
    and lim: "0 \<le> c_GasLimit msg" "c_GasLimit msg < 2 ^ 63"
  obtains fc gp where "c_GasFeeCap msg = Some fc" "c_GasPremium msg = Some gp"
    "fc * c_GasLimit msg \<le> mf \<Longrightarrow> msg' = msg\<lparr>c_GasPremium := Some (min fc gp)\<rparr>"
    "\<not> fc * c_GasLimit msg \<le> mf \<Longrightarrow> c_GasLimit msg \<noteq> 0 \<and>
       msg' = msg\<lparr>c_GasFeeCap := Some (mf div c_GasLimit msg),
                c_GasPremium := Some (min (mf div c_GasLimit msg) gp)\<rparr>"
proof -
  have gl: "uint (to_uint64 (c_GasLimit msg)) = c_GasLimit msg"
    using lim by (intro uint_to_uint64) auto
  from run mf obtain fc where fc: "c_GasFeeCap msg = Some fc"
    by (cases "c_GasFeeCap msg") (auto simp: CapGasFee_def Let_def)
  from run mf fc obtain gp where gp: "c_GasPremium msg = Some gp"
    by (cases "c_GasPremium msg") (auto simp: CapGasFee_def Let_def split: if_splits)
  show thesis
    using run mf by (intro that [OF fc gp]) (auto simp: CapGasFee_def Let_def gl fc gp split: if_splits)
qed

section \<open>mergeMsgSpec\<close>

record gas_spec =
  gs_GasOverEstimation :: float64
  gs_MaxFee :: bigint
  gs_GasOverPremium :: float64
  gs_GasFeeCap :: bigint
  gs_BaseFee :: bigint

text \<open>
  The order of the source's \<open>if\<close> chains is kept. The chain for the over-premium reads
  \<open>globalSpec\<close> without the nil check the other chains make.
\<close>

definition mergeMsgSpec ::
  "shared_spec option \<Rightarrow> send_spec option \<Rightarrow> address_info \<Rightarrow> actor_cfg option \<Rightarrow> message \<Rightarrow> gas_spec result"
where
  "mergeMsgSpec globalSpec sendSpec addrInfo actorCfg msg =
    (case sendSpec of None \<Rightarrow> Inl (Panic ''nil SendSpec'') | Some ss \<Rightarrow>
     let af = a_FeeSpec addrInfo;
         cf = map_option ac_FeeSpec actorCfg;
         gf = map_option sp_FeeSpec globalSpec;
         overEst =
           (if f64_nonzero (ss_GasOverEstimation ss) then ss_GasOverEstimation ss
            else if f64_nonzero (f_GasOverEstimation af) then f_GasOverEstimation af
            else if (cf \<noteq> None \<and> f64_nonzero (f_GasOverEstimation (the cf)))
                 then f_GasOverEstimation (the cf)
            else case gf of Some g \<Rightarrow> f_GasOverEstimation g | None \<Rightarrow> ss_GasOverEstimation ss);
         maxFee =
           (if \<not> NilOrZero (ss_MaxFee ss) then ss_MaxFee ss
            else if \<not> NilOrZero (f_MaxFee af) then f_MaxFee af
            else if (cf \<noteq> None \<and> \<not> NilOrZero (f_MaxFee (the cf))) then f_MaxFee (the cf)
            else case gf of Some g \<Rightarrow> f_MaxFee g | None \<Rightarrow> ss_MaxFee ss);
         overPrem =
           (if f64_nonzero (ss_GasOverPremium ss) then Inr (ss_GasOverPremium ss)
            else if f64_nonzero (f_GasOverPremium af) then Inr (f_GasOverPremium af)
            else if (cf \<noteq> None \<and> f64_nonzero (f_GasOverPremium (the cf)))
                 then Inr (f_GasOverPremium (the cf))
            else case gf of
                   None \<Rightarrow> Inl (Panic ''nil SharedSpec'')
                 | Some g \<Rightarrow> Inr (if f64_nonzero (f_GasOverPremium g) then f_GasOverPremium g
                                 else ss_GasOverPremium ss));
         feeCap =
           (if NilOrZero (m_GasFeeCap msg)
            then (if \<not> NilOrZero (f_GasFeeCap af) then f_GasFeeCap af
                  else if (cf \<noteq> None \<and> \<not> NilOrZero (f_GasFeeCap (the cf))) then f_GasFeeCap (the cf)
                  else case gf of Some g \<Rightarrow> f_GasFeeCap g | None \<Rightarrow> None)
            else None);
         baseFee =
           (if \<not> NilOrZero (f_BaseFee af) then f_BaseFee af
            else if (cf \<noteq> None \<and> \<not> NilOrZero (f_BaseFee (the cf))) then f_BaseFee (the cf)
            else case gf of Some g \<Rightarrow> f_BaseFee g | None \<Rightarrow> None)
     in bindE overPrem (\<lambda>op.
          Inr \<lparr>gs_GasOverEstimation = overEst, gs_MaxFee = maxFee, gs_GasOverPremium = op,
               gs_GasFeeCap = feeCap, gs_BaseFee = baseFee\<rparr>))"

text \<open>
  The reference definition: the first source that sets a parameter wins. A list holds the
  candidate values in the order of priority; the last one, when there is one, is the
  default.
\<close>

fun first_set :: "('a \<Rightarrow> bool) \<Rightarrow> 'a \<Rightarrow> 'a list \<Rightarrow> 'a" where
  "first_set unset d [] = d"
| "first_set unset d (x # xs) = (if unset x then first_set unset d xs else x)"

lemma first_set_mem: "first_set unset d xs \<in> insert d (set xs)"
  by (induction xs) auto

lemma first_set_priority:
  "x \<in> set xs \<Longrightarrow> \<not> unset x \<Longrightarrow> \<not> unset (first_set unset d xs)"
  by (induction xs) auto

definition opt_fee :: "(fee_spec \<Rightarrow> 'a) \<Rightarrow> actor_cfg option \<Rightarrow> 'a list" where
  "opt_fee sel cfg = (case cfg of None \<Rightarrow> [] | Some c \<Rightarrow> [sel (ac_FeeSpec c)])"

definition merge_reference ::
  "shared_spec \<Rightarrow> send_spec \<Rightarrow> address_info \<Rightarrow> actor_cfg option \<Rightarrow> message \<Rightarrow> gas_spec"
where
  "merge_reference g ss a cfg m =
    (let af = a_FeeSpec a; gf = sp_FeeSpec g; unset = (\<lambda>x. \<not> f64_nonzero x) in
     \<lparr>gs_GasOverEstimation =
        first_set unset (f_GasOverEstimation gf)
          ([ss_GasOverEstimation ss, f_GasOverEstimation af] @ opt_fee f_GasOverEstimation cfg),
      gs_MaxFee =
        first_set NilOrZero (f_MaxFee gf) ([ss_MaxFee ss, f_MaxFee af] @ opt_fee f_MaxFee cfg),
      gs_GasOverPremium =
        first_set unset (ss_GasOverPremium ss)
          ([ss_GasOverPremium ss, f_GasOverPremium af] @ opt_fee f_GasOverPremium cfg
             @ [f_GasOverPremium gf]),
      gs_GasFeeCap =
        (if NilOrZero (m_GasFeeCap m)
         then first_set NilOrZero (f_GasFeeCap gf) ([f_GasFeeCap af] @ opt_fee f_GasFeeCap cfg)
         else None),
      gs_BaseFee =
        first_set NilOrZero (f_BaseFee gf) ([f_BaseFee af] @ opt_fee f_BaseFee cfg)\<rparr>)"

section \<open>Properties\<close>

text \<open>
  A replacement premium is above one hundred and ten per cent of the old premium, hence
  strictly greater than it, and exceeds the configured ratio by at most one attoFIL.
\<close>

theorem computeRBF_increases:
  assumes "0 \<le> p" and "ratio < 2 ^ 63"
  shows "\<exists>q. computeRBF (Some p) ratio = Inr (Some q) \<and> p * 110 < q * 100 \<and> p < q
           \<and> (q - 1) * 100 \<le> p * max 110 ratio"
proof -
  define r where "r = max 110 ratio"
  define q where "q = p * r div 100 + 1"
  have low: "p * 110 < q * 100"
    unfolding q_def by (rule rbf_lower_bound) (use assms in \<open>auto simp: r_def\<close>)
  then have "p < q" using assms(1) by linarith
  moreover have "(q - 1) * 100 \<le> p * r"
    using div_mult_mod_eq [of "p * r" 100] pos_mod_sign [of 100 "p * r"] by (simp add: q_def)
  ultimately show ?thesis using low computeRBF_value [OF assms(2)] by (auto simp: q_def r_def)
qed

theorem computeRBF_increases_witness:
  "\<exists>q. computeRBF (Some 1000) 125 = Inr (Some q) \<and> (1000::int) * 110 < q * 100 \<and> 1000 < q
     \<and> (q - 1) * 100 \<le> 1000 * max 110 125"
  by (rule computeRBF_increases [of 1000 125]) simp_all

text \<open>
  C36: with a maximum fee that is set, the cap never fails on a well-formed message, and
  afterwards the fee cap times the gas limit is within the maximum fee, the premium is
  within the fee cap, and neither was raised.
\<close>

theorem CapGasFee_within_max_fee:
  assumes "c_GasFeeCap msg = Some fc" "c_GasPremium msg = Some gp" "0 \<le> fc"
    and "0 < mf" "0 \<le> c_GasLimit msg" "c_GasLimit msg < 2 ^ 63"
  shows "\<exists>msg' fc' gp'. CapGasFee msg (Some mf) = Inr msg' \<and> c_GasFeeCap msg' = Some fc'
           \<and> c_GasPremium msg' = Some gp' \<and> fc' * c_GasLimit msg' \<le> mf
           \<and> gp' \<le> fc' \<and> fc' \<le> fc \<and> gp' \<le> gp"
proof -
  let ?gl = "c_GasLimit msg"
  have gl: "uint (to_uint64 ?gl) = ?gl" using assms by (intro uint_to_uint64) auto
  show ?thesis
  proof (cases "fc * ?gl \<le> mf")
    case True
    with assms gl show ?thesis by (simp add: CapGasFee_def Let_def)
  next
    case False
    then have pos: "0 < ?gl" using assms by (cases "?gl = 0") auto
    have cost: "mf div ?gl * ?gl \<le> mf"
      using div_mult_mod_eq [of mf ?gl] pos_mod_sign [OF pos, of mf] by linarith
    have "mf div ?gl * ?gl < fc * ?gl" using cost False by linarith
    then have "mf div ?gl \<le> fc" using pos by (simp add: mult_less_cancel_right)
    with assms gl False pos cost show ?thesis by (simp add: CapGasFee_def Let_def)
  qed
qed

definition sample_chain_msg :: chain_msg where
  "sample_chain_msg = \<lparr>c_Version = 0, c_To = Addr 1 ''to'', c_From = Addr 1 ''from'', c_Nonce = 0,
     c_Value = Some 5, c_GasLimit = 100, c_GasFeeCap = Some 30, c_GasPremium = Some 20,
     c_Method = 0, c_Params = None\<rparr>"

theorem CapGasFee_within_max_fee_witness:
  "\<exists>msg' fc' gp'. CapGasFee sample_chain_msg (Some 1000) = Inr msg' \<and> c_GasFeeCap msg' = Some fc'
     \<and> c_GasPremium msg' = Some gp' \<and> fc' * c_GasLimit msg' \<le> 1000 \<and> gp' \<le> fc' \<and> fc' \<le> 30 \<and> gp' \<le> 20"
  by (rule CapGasFee_within_max_fee) (simp_all add: sample_chain_msg_def)

text \<open>
  C37: the merge of gas parameters is the first-source-that-sets-it merge, in the order
  message, address, actor, global, for each of the five parameters (the fee cap only when
  the message itself has none).
\<close>

theorem mergeMsgSpec_priority:
  "mergeMsgSpec (Some g) (Some ss) addrInfo actorCfg msg =
     Inr (merge_reference g ss addrInfo actorCfg msg)"
  by (cases actorCfg)
    (simp_all add: mergeMsgSpec_def merge_reference_def opt_fee_def Let_def if_distrib [of Inr, symmetric]
      del: if_split not_not cong: if_cong)

end
