(* ===== verification/Utils.thy ===== *)
theory Utils
  imports Types "HOL-Library.AList"
begin

text \<open>
  The package \<open>utils\<close>: the nonce map of \<open>nonceMap.go\<close>, the tipset-key parser and
  the grouping of messages by sender of \<open>util.go\<close>, and the printing of bit fields as
  ranges of \<open>convert_params.go\<close>. The properties: grouping is a partition that keeps
  each sender's order, the ranges printed for a bit field expand to exactly its elements
  and are as long as possible, and the parser inverts the printed form of a tipset key.
\<close>

section \<open>NonceMap (utils/nonceMap.go)\<close>

type_synonym nonce_map = "(address \<times> u64) list"

definition NewNonceMap :: nonce_map where
  "NewNonceMap = []"

definition nonce_Get :: "nonce_map \<Rightarrow> address \<Rightarrow> u64 \<times> bool" where
  "nonce_Get nm addr = (case map_of nm addr of Some val \<Rightarrow> (val, True) | None \<Rightarrow> (0, False))"

definition nonce_Add :: "nonce_map \<Rightarrow> address \<Rightarrow> u64 \<Rightarrow> nonce_map" where
  "nonce_Add nm addr val = AList.update addr val nm"

definition nonce_Len :: "nonce_map \<Rightarrow> nat" where
  "nonce_Len nm = length nm"

lemma nonce_Get_New [simp]: "nonce_Get NewNonceMap addr = (0, False)"
  by (simp add: nonce_Get_def NewNonceMap_def)

lemma nonce_Get_Add [simp]:
  "nonce_Get (nonce_Add nm a v) b = (if b = a then (v, True) else nonce_Get nm b)"
  by (simp add: nonce_Get_def nonce_Add_def update_conv')

lemma nonce_Len_Add:
  "nonce_Len (nonce_Add nm a v) = nonce_Len nm + (if snd (nonce_Get nm a) then 0 else 1)"
proof -
  have "length (AList.update a v nm) = length nm + (if map_of nm a = None then 1 else 0)"
    by (induction nm) auto
  then show ?thesis by (simp add: nonce_Len_def nonce_Add_def nonce_Get_def split: option.splits)
qed

section \<open>StringToTipsetKey (utils/util.go)\<close>

fun TrimLeft :: "string \<Rightarrow> string \<Rightarrow> string" where
  "TrimLeft [] cutset = []"
| "TrimLeft (c # s) cutset = (if c \<in> set cutset then TrimLeft s cutset else c # s)"

definition TrimRight :: "string \<Rightarrow> string \<Rightarrow> string" where
  "TrimRight s cutset = rev (TrimLeft (rev s) cutset)"

text \<open>\<open>strings.Split(s, sep)\<close> for a separator of one character.\<close>

fun Split :: "string \<Rightarrow> char \<Rightarrow> string list" where
  "Split [] sep = [[]]"
| "Split (c # s) sep =
     (if c = sep then [] # Split s sep
      else case Split s sep of [] \<Rightarrow> [[c]] | w # ws \<Rightarrow> (c # w) # ws)"

text \<open>\<open>decode\<close> is \<open>cid.Decode\<close>.\<close>

fun decode_all :: "(string \<Rightarrow> cid result) \<Rightarrow> string list \<Rightarrow> cid list result" where
  "decode_all decode [] = Inr []"
| "decode_all decode (s # ss) =
     bindE (decode s) (\<lambda>c. bindE (decode_all decode ss) (\<lambda>cs. Inr (c # cs)))"

definition StringToTipsetKey :: "(string \<Rightarrow> cid result) \<Rightarrow> string \<Rightarrow> tipset_key result" where
  "StringToTipsetKey decode str =
     (let str = TrimLeft str ''{ '';
          str = TrimRight str '' }''
      in decode_all decode (Split str (CHR '' '')))"

lemma Split_not_Nil [simp]: "Split s sep \<noteq> []"
  by (induction s) (auto split: list.splits)

lemma Split_word: "sep \<notin> set w \<Longrightarrow> Split w sep = [w]"
  by (induction w) auto

lemma Split_append: "sep \<notin> set w \<Longrightarrow> Split (w @ sep # s) sep = w # Split s sep"
  by (induction w) auto

lemma TrimLeft_skip: "set p \<subseteq> set cutset \<Longrightarrow> TrimLeft (p @ s) cutset = TrimLeft s cutset"
  by (induction p) auto

lemma TrimLeft_stop: "s = [] \<or> hd s \<notin> set cutset \<Longrightarrow> TrimLeft s cutset = s"
  by (cases s) auto

lemma TrimRight_skip: "set p \<subseteq> set cutset \<Longrightarrow> TrimRight (s @ p) cutset = TrimRight s cutset"
  by (simp add: TrimRight_def TrimLeft_skip)

lemma TrimRight_stop: "s = [] \<or> last s \<notin> set cutset \<Longrightarrow> TrimRight s cutset = s"
  by (simp add: TrimRight_def TrimLeft_stop hd_rev)

text \<open>Words joined by single spaces.\<close>

fun unwords :: "string list \<Rightarrow> string" where
  "unwords [] = []"
| "unwords [w] = w"
| "unwords (w # v # ws) = w @ CHR '' '' # unwords (v # ws)"

text \<open>A word a content identifier prints as: not empty, no blank, no brace.\<close>

definition plain_word :: "string \<Rightarrow> bool" where
  "plain_word w \<longleftrightarrow> w \<noteq> [] \<and> set w \<inter> set ''{ }'' = {}"

lemma plain_word_edges:
  assumes "plain_word w"
  shows "hd w \<notin> set ''{ ''" and "last w \<notin> set '' }''"
proof -
  have "hd w \<in> set w" "last w \<in> set w" using assms by (auto simp: plain_word_def)
  with assms have "hd w \<notin> set ''{ }''" "last w \<notin> set ''{ }''"
    unfolding plain_word_def by blast+
  then show "hd w \<notin> set ''{ ''" "last w \<notin> set '' }''" by auto
qed

lemma Split_unwords:
  "ws \<noteq> [] \<Longrightarrow> \<forall>w \<in> set ws. CHR '' '' \<notin> set w \<Longrightarrow> Split (unwords ws) (CHR '' '') = ws"
  by (induction ws rule: unwords.induct) (auto simp: Split_word Split_append)

lemma hd_unwords: "ws \<noteq> [] \<Longrightarrow> hd ws \<noteq> [] \<Longrightarrow> hd (unwords ws) = hd (hd ws)"
  by (induction ws rule: unwords.induct) auto

lemma unwords_not_Nil: "ws \<noteq> [] \<Longrightarrow> \<forall>w \<in> set ws. w \<noteq> [] \<Longrightarrow> unwords ws \<noteq> []"
  by (induction ws rule: unwords.induct) auto

lemma last_unwords:
  "ws \<noteq> [] \<Longrightarrow> \<forall>w \<in> set ws. w \<noteq> [] \<Longrightarrow> last (unwords ws) = last (last ws)"
proof (induction ws rule: unwords.induct)
  case (3 w v ws)
  then have "unwords (v # ws) \<noteq> []" by (intro unwords_not_Nil) auto
  with 3 show ?case by simp
qed auto

lemma decode_all_map:
  "(\<And>c. c \<in> set cs \<Longrightarrow> decode (enc c) = Inr c) \<Longrightarrow> decode_all decode (map enc cs) = Inr cs"
  by (induction cs) auto

lemma StringToTipsetKey_braced:
  assumes ne: "cs \<noteq> []" and word: "\<And>c. c \<in> set cs \<Longrightarrow> plain_word (enc c)"
    and dec: "\<And>c. c \<in> set cs \<Longrightarrow> decode (enc c) = Inr c"
  shows "StringToTipsetKey decode (''{ '' @ unwords (map enc cs) @ '' }'') = Inr cs"
proof -
  let ?ws = "map enc cs"
  have ws: "?ws \<noteq> []" "\<forall>w \<in> set ?ws. w \<noteq> []" "\<forall>w \<in> set ?ws. CHR '' '' \<notin> set w"
    using ne word by (auto simp: plain_word_def)
  have cs: "hd cs \<in> set cs" "last cs \<in> set cs" using ne by auto
  have edge: "hd (unwords ?ws) \<notin> set ''{ ''" "last (unwords ?ws) \<notin> set '' }''"
    using ne ws(2) last_unwords [OF ws(1,2)] hd_unwords [OF ws(1)]
      plain_word_edges(1) [OF word [OF cs(1)]] plain_word_edges(2) [OF word [OF cs(2)]]
    by (simp_all add: hd_map last_map)
  have "TrimLeft (''{ '' @ unwords ?ws @ '' }'') ''{ '' = unwords ?ws @ '' }''"
    using edge(1) unwords_not_Nil [OF ws(1,2)] by (subst TrimLeft_skip) (auto simp: TrimLeft_stop)
  moreover have "TrimRight (unwords ?ws @ '' }'') '' }'' = unwords ?ws"
    using edge(2) by (subst TrimRight_skip) (auto simp: TrimRight_stop)
  ultimately show ?thesis
    using Split_unwords [OF ws(1,3)] decode_all_map [of cs decode enc] dec
    by (simp add: StringToTipsetKey_def Let_def)
qed

section \<open>MsgsGroupByAddress (utils/util.go)\<close>

type_synonym msg_groups = "address \<Rightarrow> signed_msg list option"

definition group_add :: "signed_msg \<Rightarrow> msg_groups \<Rightarrow> msg_groups" where
  "group_add msg msgMap =
     (let from = c_From (s_Message msg)
      in msgMap(from \<mapsto> (case msgMap from of None \<Rightarrow> [] | Some l \<Rightarrow> l) @ [msg]))"

definition MsgsGroupByAddress :: "signed_msg list \<Rightarrow> msg_groups" where
  "MsgsGroupByAddress msgs = fold group_add msgs (\<lambda>_. None)"

lemma fold_group_add:
  "fold group_add msgs g a =
     (let own = filter (\<lambda>m. c_From (s_Message m) = a) msgs
      in if own = [] then g a else Some ((case g a of None \<Rightarrow> [] | Some l \<Rightarrow> l) @ own))"
  by (induction msgs arbitrary: g) (auto simp: group_add_def Let_def split: option.splits)

lemma MsgsGroupByAddress_eq:
  "MsgsGroupByAddress msgs a =
     (let own = filter (\<lambda>m. c_From (s_Message m) = a) msgs in if own = [] then None else Some own)"
  by (simp add: MsgsGroupByAddress_def fold_group_add Let_def)

lemma dom_MsgsGroupByAddress:
  "dom (MsgsGroupByAddress msgs) = (\<lambda>m. c_From (s_Message m)) ` set msgs"
  by (auto simp: MsgsGroupByAddress_eq Let_def filter_empty_conv split: if_splits)

section \<open>merge and convertBitFieldToString (utils/convert_params.go)\<close>

function merge_inner :: "u64 list \<Rightarrow> u64 \<Rightarrow> nat \<Rightarrow> u64 \<times> nat" where
  "merge_inner list cur stop =
     (if stop < length list \<and> cur + 1 = list ! stop then merge_inner list (list ! stop) (stop + 1)
      else (cur, stop))"
  by pat_completeness auto
termination by (relation "measure (\<lambda>(list, cur, stop). length list - stop)") auto

declare merge_inner.simps [simp del]

lemma merge_inner_end: "stop \<le> snd (merge_inner list cur stop)"
proof (induction list cur stop rule: merge_inner.induct)
  case (1 list cur stop)
  then show ?case by (subst merge_inner.simps) (auto intro: Suc_leD)
qed

function merge_outer :: "u64 list \<Rightarrow> nat \<Rightarrow> u64 list list \<Rightarrow> u64 list list" where
  "merge_outer list start res =
     (if start < length list then
        let (cur, stop) = merge_inner list (list ! start) (start + 1);
            res = (if start + 1 < stop then res @ [[list ! start, cur]] else res @ [[list ! start]])
        in merge_outer list stop res
      else res)"
  by pat_completeness auto
termination
proof (relation "measure (\<lambda>(list, start, res). length list - start)", simp, clarsimp)
  fix list :: "u64 list" and start cur stop
  assume "start < length list" and "(cur, stop) = merge_inner list (list ! start) (Suc start)"
  moreover have "Suc start \<le> snd (merge_inner list (list ! start) (Suc start))"
    by (rule merge_inner_end)
  ultimately show "length list - stop < length list - start" by (metis Suc_le_lessD diff_less_mono2 snd_conv)
qed

declare merge_outer.simps [simp del]

definition merge :: "u64 list \<Rightarrow> u64 list list" where
  "merge list = merge_outer list 0 []"

definition range_text :: "u64 list \<Rightarrow> string" where
  "range_text r =
     (if length r = 2 then show_int (uint (r ! 0)) @ ''-'' @ show_int (uint (r ! 1))
      else show_int (uint (r ! 0)))"

fun join_ranges :: "u64 list list \<Rightarrow> string" where
  "join_ranges [] = []"
| "join_ranges [r] = range_text r"
| "join_ranges (r # s # rs) = range_text r @ '', '' @ join_ranges (s # rs)"

text \<open>\<open>all\<close> is the result of \<open>val.All(math.MaxInt64)\<close> of the bit field.\<close>

definition convertBitFieldToString :: "u64 list result \<Rightarrow> string result" where
  "convertBitFieldToString all =
     bindE all (\<lambda>list. if length list = 0 then Inr [] else Inr (join_ranges (merge list)))"

text \<open>
  The reference: the list cut into runs of consecutive numbers, by recursion on the list.
\<close>

fun take_run :: "u64 \<Rightarrow> u64 list \<Rightarrow> u64 \<times> u64 list" where
  "take_run cur [] = (cur, [])"
| "take_run cur (y # ys) = (if cur + 1 = y then take_run y ys else (cur, y # ys))"

lemma take_run_length: "length (snd (take_run cur ys)) \<le> length ys"
  by (induction cur ys rule: take_run.induct) auto

function runs :: "u64 list \<Rightarrow> u64 list list" where
  "runs [] = []"
| "runs (x # xs) =
     (let (cur, rest) = take_run x xs
      in (if length rest < length xs then [x, cur] else [x]) # runs rest)"
  by pat_completeness auto
termination
proof (relation "measure length", simp, clarsimp)
  fix x :: u64 and xs cur rest
  assume "(cur, rest) = take_run x xs"
  then show "length rest < Suc (length xs)" using take_run_length [of x xs] by (cases "take_run x xs") auto
qed

lemma merge_inner_take_run:
  "stop \<le> length list \<Longrightarrow>
     merge_inner list cur stop =
       (let (c, rest) = take_run cur (drop stop list) in (c, length list - length rest))"
proof (induction list cur stop rule: merge_inner.induct)
  case (1 list cur stop)
  show ?case
  proof (cases "stop < length list")
    case True
    then have "drop stop list = list ! stop # drop (Suc stop) list" by (simp add: Cons_nth_drop_Suc)
    with 1 True show ?thesis by (subst merge_inner.simps) auto
  next
    case False
    with 1 show ?thesis by (subst merge_inner.simps) auto
  qed
qed

lemma take_run_suffix: "\<exists>run. ys = run @ snd (take_run cur ys)"
proof (induction cur ys rule: take_run.induct)
  case (2 cur y ys)
  then show ?case by (cases "cur + 1 = y") (auto, metis append_Cons)
qed auto

lemma merge_outer_runs:
  "start \<le> length list \<Longrightarrow> merge_outer list start res = res @ runs (drop start list)"
proof (induction list start res rule: merge_outer.induct)
  case (1 list start res)
  show ?case
  proof (cases "start < length list")
    case True
    obtain c rest where tr: "take_run (list ! start) (drop (Suc start) list) = (c, rest)" by force
    have inner: "merge_inner list (list ! start) (start + 1) = (c, length list - length rest)"
      using merge_inner_take_run [of "Suc start" list "list ! start"] True tr by simp
    obtain run where run: "drop (Suc start) list = run @ rest"
      using take_run_suffix [of "drop (Suc start) list" "list ! start"] tr by auto
    have len: "length rest \<le> length list - Suc start"
      using take_run_length [of "list ! start" "drop (Suc start) list"] tr by simp
    have dr: "drop (length list - length rest) list = rest"
    proof -
      have "list = take (Suc start) list @ run @ rest" using run by (metis append_take_drop_id)
      then show ?thesis by (metis append_assoc append_eq_conv_conj length_append add_diff_cancel_right')
    qed
    have cond: "start + 1 < length list - length rest \<longleftrightarrow> length rest < length (drop (Suc start) list)"
      using True len by auto
    have "drop start list = list ! start # drop (Suc start) list" using True by (simp add: Cons_nth_drop_Suc)
    then show ?thesis
      using 1 True inner tr dr cond by (subst merge_outer.simps) (auto simp: Let_def)
  next
    case False
    then show ?thesis using 1 by (subst merge_outer.simps) auto
  qed
qed

lemma merge_runs: "merge list = runs list"
  by (simp add: merge_def merge_outer_runs)

text \<open>What a range stands for: the numbers from its first to its last element.\<close>

definition expand_range :: "u64 list \<Rightarrow> u64 list" where
  "expand_range r = (if length r = 2 then map of_nat [unat (r ! 0)..<unat (r ! 1) + 1] else r)"

lemma take_run_expand:
  "sorted_wrt (<) (x # xs) \<Longrightarrow> take_run x xs = (c, rest) \<Longrightarrow>
     x \<le> c \<and> x # xs = map of_nat [unat x..<unat c + 1] @ rest"
proof (induction x xs arbitrary: c rest rule: take_run.induct)
  case (1 cur)
  then show ?case by simp
next
  case (2 cur y ys)
  show ?case
  proof (cases "cur + 1 = y")
    case True
    have lt: "cur < y" using 2 by simp
    then have "cur \<noteq> - 1" by (metis word_n1_ge linorder_not_less)
    then have uy: "unat y = unat cur + 1" using True unat_plus_one by blast
    have IH: "y \<le> c \<and> y # ys = map of_nat [unat y..<unat c + 1] @ rest"
      using 2 True by simp
    then have "unat y \<le> unat c" by (simp add: word_le_nat_alt)
    then have "[unat cur..<unat c + 1] = unat cur # [unat y..<unat c + 1]"
      using uy by (simp add: upt_conv_Cons)
    then show ?thesis using IH lt by auto
  next
    case False
    with 2 show ?thesis by simp
  qed
qed

lemma take_run_rest:
  "take_run x xs = (c, rest) \<Longrightarrow> rest \<noteq> [] \<Longrightarrow> hd rest \<noteq> c + 1"
  by (induction x xs arbitrary: c rest rule: take_run.induct) (auto split: if_splits)

lemma take_run_same: "take_run x xs = (c, rest) \<Longrightarrow> length rest = length xs \<Longrightarrow> c = x"
  by (cases xs) (auto split: if_splits dest: take_run_length [THEN le_less_trans, of _ "length xs"]
      simp: le_Suc_eq, metis Suc_n_not_le_n snd_conv take_run_length)

lemma runs_expand: "sorted_wrt (<) list \<Longrightarrow> concat (map expand_range (runs list)) = list"
proof (induction list rule: runs.induct)
  case 1
  then show ?case by simp
next
  case (2 x xs)
  obtain c rest where tr: "take_run x xs = (c, rest)" by force
  have ex: "x # xs = map of_nat [unat x..<unat c + 1] @ rest"
    using take_run_expand [OF "2.prems" tr] by simp
  then have "sorted_wrt (<) rest" using "2.prems" by (metis sorted_wrt_append)
  with "2.IH" tr have IH: "concat (map expand_range (runs rest)) = rest" by simp
  define r where "r = (if length rest < length xs then [x, c] else [x])"
  have "expand_range r = map of_nat [unat x..<unat c + 1]"
  proof (cases "length rest < length xs")
    case True
    then show ?thesis by (simp add: expand_range_def r_def)
  next
    case False
    then have "length rest = length xs" using take_run_length [of x xs] tr by simp
    with tr take_run_same have "c = x" by blast
    with False show ?thesis by (simp add: expand_range_def r_def)
  qed
  moreover have "runs (x # xs) = r # runs rest" using tr by (simp add: r_def)
  ultimately show ?case using IH ex by (simp only: list.map concat.simps)
qed

text \<open>Two ranges next to each other leave a gap: a run is never cut short.\<close>

fun gaps :: "u64 list list \<Rightarrow> bool" where
  "gaps (r # s # rs) = (hd s \<noteq> last r + 1 \<and> gaps (s # rs))"
| "gaps _ = True"

lemma runs_head: "rest \<noteq> [] \<Longrightarrow> \<exists>r rs. runs rest = r # rs \<and> hd r = hd rest"
  by (cases rest) (auto simp: Let_def split: prod.splits)

lemma runs_gaps: "gaps (runs list)"
proof (induction list rule: runs.induct)
  case (2 x xs)
  obtain c rest where tr: "take_run x xs = (c, rest)" by force
  have IH: "gaps (runs rest)" using "2.IH" tr by simp
  have last_c: "last (if length rest < length xs then [x, c] else [x]) = c"
    using take_run_same [OF tr] take_run_length [of x xs] tr by auto
  show ?case
  proof (cases "rest = []")
    case True
    with tr show ?thesis by simp
  next
    case False
    then obtain r rs where r: "runs rest = r # rs" "hd r = hd rest" using runs_head by blast
    have "hd rest \<noteq> c + 1" using take_run_rest [OF tr False] .
    with r IH last_c tr show ?thesis by (simp add: r(1))
  qed
qed simp

section \<open>Properties\<close>

text \<open>
  Grouping is a partition: the group of a sender is exactly its messages, in their
  order, and a sender has a group if and only if it sent one of them.
\<close>

theorem MsgsGroupByAddress_partition:
  "MsgsGroupByAddress msgs a = Some grp \<longleftrightarrow>
     grp = filter (\<lambda>m. c_From (s_Message m) = a) msgs \<and> grp \<noteq> []"
  by (auto simp: MsgsGroupByAddress_eq Let_def)

text \<open>
  C39: the ranges that a bit field's sorted elements are merged into expand to exactly those
  elements in order, and no two neighbouring ranges could have been joined.
\<close>

theorem merge_expands_and_is_maximal:
  assumes "sorted_wrt (<) list"
  shows "concat (map expand_range (merge list)) = list \<and> gaps (merge list)"
  using runs_expand [OF assms] runs_gaps by (simp add: merge_runs)

theorem merge_expands_and_is_maximal_witness:
  "concat (map expand_range (merge [1, 2, 3, 7, 9, 10])) = [1, 2, 3, 7, 9, 10 :: u64]
     \<and> gaps (merge [1, 2, 3, 7, 9, 10])"
  by (rule merge_expands_and_is_maximal) simp


fun sample_cid_text :: "cid \<Rightarrow> string" where
  "sample_cid_text (Cid s) = s"
| "sample_cid_text CidUndef = ''b''"

definition sample_cid_decode :: "string \<Rightarrow> cid result" where
  "sample_cid_decode s = Inr (if s = ''b'' then CidUndef else Cid s)"


end
