(* ===== verification/Tipsets.thy ===== *)
theory Tipsets
  imports Types "HOL-Library.AList"
begin

text \<open>
  The tipset cache of \<open>service/cache.go\<close> and the search for the common ancestor of the
  cached chain and a new head (\<open>lookAncestors\<close>), with the two callers that decide from
  it which tipsets to apply and to revert (\<open>ProcessNewHead\<close>, \<open>ReconnectCheck\<close> of
  \<open>service/message_service.go\<close>). The properties: the cache stays keyed by height and
  bounded; the search ends, follows parent links from the head, and reverts only cached
  tipsets that are not on the new chain.
\<close>

section \<open>TipsetCache (service/cache.go)\<close>

definition maxStoreTipsetCount :: nat where
  "maxStoreTipsetCount = 900"

text \<open>The map from height to tipset is an association list with distinct keys.\<close>

record tipset_cache =
  Cache :: "(int \<times> tipset) list"
  CurrHeight :: int
  NetworkName :: string

definition newTipsetCache :: tipset_cache where
  "newTipsetCache = \<lparr>Cache = [], CurrHeight = 0, NetworkName = ''''\<rparr>"

text \<open>
  \<open>Load\<close>: what \<open>os.ReadFile\<close> returned and \<open>json.Unmarshal\<close> are parameters.
\<close>

datatype file_read = NotExist | ReadErr error | Contents string

definition cache_Load ::
  "(string \<Rightarrow> tipset_cache result) \<Rightarrow> file_read \<Rightarrow> tipset_cache \<Rightarrow> unit result \<times> tipset_cache"
where
  "cache_Load unmarshal file tsCache =
     (case file of
        NotExist \<Rightarrow> (Inr (), tsCache)
      | ReadErr e \<Rightarrow> (Inl e, tsCache)
      | Contents b \<Rightarrow> (case unmarshal b of
            Inl e \<Rightarrow> (Inl e, tsCache)
          | Inr tmp \<Rightarrow> (Inr (), tsCache\<lparr>Cache := Cache tmp, CurrHeight := CurrHeight tmp,
                                   NetworkName := NetworkName tmp\<rparr>)))"

definition cache_Add :: "tipset list \<Rightarrow> tipset_cache \<Rightarrow> tipset_cache" where
  "cache_Add ts_list tsCache =
     tsCache\<lparr>Cache := fold (\<lambda>ts. AList.update (ts_Height ts) ts) ts_list (Cache tsCache)\<rparr>"

definition reduce :: "tipset_cache \<Rightarrow> tipset_cache" where
  "reduce tsCache =
     (if length (Cache tsCache) < maxStoreTipsetCount then tsCache
      else
        let minHeight = CurrHeight tsCache - int maxStoreTipsetCount
        in tsCache\<lparr>Cache := fold (\<lambda>(k, v) c. if ts_Height v < minHeight
                                          then AList.delete (ts_Height v) c else c)
                               (Cache tsCache) (Cache tsCache)\<rparr>)"

definition cache_List :: "tipset_cache \<Rightarrow> tipset list" where
  "cache_List tsCache = map snd (Cache tsCache)"

text \<open>\<open>Save\<close>: \<open>write\<close> stands for \<open>utils.WriteJson\<close> on the tipset file.\<close>

definition cache_Save ::
  "(tipset_cache \<Rightarrow> unit result) \<Rightarrow> tipset_cache \<Rightarrow> unit result \<times> tipset_cache" where
  "cache_Save write tsCache = (let tsCache' = reduce tsCache in (write tsCache', tsCache'))"

text \<open>The invariant: every tipset is filed under its height, once.\<close>

definition cache_ok :: "tipset_cache \<Rightarrow> bool" where
  "cache_ok tc \<longleftrightarrow> distinct (map fst (Cache tc)) \<and> (\<forall>(h, ts) \<in> set (Cache tc). h = ts_Height ts)"

lemma cache_ok_new: "cache_ok newTipsetCache"
  by (simp add: cache_ok_def newTipsetCache_def)

lemma alist_update_ok:
  fixes t :: tipset
  assumes "distinct (map fst c)" "\<forall>(h, ts) \<in> set c. h = ts_Height ts"
  shows "distinct (map fst (AList.update (ts_Height t) t c))"
    "\<forall>(h, ts) \<in> set (AList.update (ts_Height t) t c). h = ts_Height ts"
  using assms(1) distinct_update [of c "ts_Height t" t] apply simp
  using assms(2) by (induction c) auto

lemma cache_ok_Add: "cache_ok tc \<Longrightarrow> cache_ok (cache_Add l tc)"
proof (induction l arbitrary: tc)
  case Nil
  then show ?case by (simp add: cache_Add_def)
next
  case (Cons t l)
  let ?tc = "tc\<lparr>Cache := AList.update (ts_Height t) t (Cache tc)\<rparr>"
  have "cache_ok ?tc"
    using Cons.prems alist_update_ok [of "Cache tc" t] by (simp add: cache_ok_def)
  from Cons.IH [OF this] show ?case by (simp add: cache_Add_def)
qed

lemma lookup_Add:
  "map_of (Cache (cache_Add l tc)) =
     map_of (Cache tc) ++ map_of (rev (map (\<lambda>t. (ts_Height t, t)) l))"
proof (induction l arbitrary: tc)
  case Nil
  then show ?case by (simp add: cache_Add_def)
next
  case (Cons t l)
  let ?tc = "tc\<lparr>Cache := AList.update (ts_Height t) t (Cache tc)\<rparr>"
  have "map_of (Cache (cache_Add (t # l) tc)) = map_of (Cache (cache_Add l ?tc))"
    by (simp add: cache_Add_def)
  also have "\<dots> = map_of (Cache tc) ++ map_of (rev (map (\<lambda>t. (ts_Height t, t)) (t # l)))"
    by (simp add: Cons.IH update_conv' map_add_assoc) (simp only: fun_upd_def)
  finally show ?case .
qed

text \<open>The deletions of \<open>reduce\<close> amount to one filter on the entries.\<close>

lemma fold_delete_filter:
  fixes P :: "tipset \<Rightarrow> bool"
  shows "fold (\<lambda>(k, v) c. if P v then AList.delete (ts_Height v) c else c) xs c =
     filter (\<lambda>e. fst e \<notin> ts_Height ` {v'. v' \<in> snd ` set xs \<and> P v'}) c"
proof (induction xs arbitrary: c)
  case Nil
  then show ?case by simp
next
  case (Cons x xs)
  obtain k v where x: "x = (k, v)" by force
  show ?case
  proof (cases "P v")
    case True
    then have "{v'. v' \<in> snd ` set (x # xs) \<and> P v'} = insert v {v'. v' \<in> snd ` set xs \<and> P v'}"
      by (auto simp: x)
    with True show ?thesis
      by (simp add: x Cons.IH AList.delete_eq) (auto intro!: filter_cong)
  next
    case False
    then have "{v'. v' \<in> snd ` set (x # xs) \<and> P v'} = {v'. v' \<in> snd ` set xs \<and> P v'}"
      by (auto simp: x)
    with False show ?thesis by (simp add: x Cons.IH)
  qed
qed

lemma reduce_filter:
  assumes "cache_ok tc" "maxStoreTipsetCount \<le> length (Cache tc)"
  shows "Cache (reduce tc) =
     filter (\<lambda>e. CurrHeight tc - int maxStoreTipsetCount \<le> fst e) (Cache tc)"
proof -
  let ?min = "CurrHeight tc - int maxStoreTipsetCount"
  have "Cache (reduce tc) =
     filter (\<lambda>e. fst e \<notin> ts_Height ` {v'. v' \<in> snd ` set (Cache tc) \<and> ts_Height v' < ?min}) (Cache tc)"
    using assms(2) by (simp add: reduce_def Let_def fold_delete_filter)
  also have "\<dots> = filter (\<lambda>e. ?min \<le> fst e) (Cache tc)"
  proof (rule filter_cong [OF refl])
    fix e assume e: "e \<in> set (Cache tc)"
    then have h: "fst e = ts_Height (snd e)" using assms(1) by (auto simp: cache_ok_def)
    with e show "fst e \<notin> ts_Height ` {v'. v' \<in> snd ` set (Cache tc) \<and> ts_Height v' < ?min} \<longleftrightarrow> ?min \<le> fst e"
      by force
  qed
  finally show ?thesis .
qed

lemma cache_ok_reduce: "cache_ok tc \<Longrightarrow> cache_ok (reduce tc)"
proof -
  assume ok: "cache_ok tc"
  show ?thesis
  proof (cases "length (Cache tc) < maxStoreTipsetCount")
    case True
    with ok show ?thesis by (simp add: reduce_def)
  next
    case False
    with ok reduce_filter [OF ok] show ?thesis by (auto simp: cache_ok_def distinct_map_filter)
  qed
qed

lemma reduce_bounded:
  assumes ok: "cache_ok tc" and top: "\<forall>(h, ts) \<in> set (Cache tc). h \<le> CurrHeight tc"
  shows "length (Cache (reduce tc)) \<le> maxStoreTipsetCount + 1"
proof (cases "length (Cache tc) < maxStoreTipsetCount")
  case True
  then show ?thesis by (simp add: reduce_def)
next
  case False
  let ?keys = "map fst (Cache (reduce tc))"
  have dist: "distinct ?keys" using cache_ok_reduce [OF ok] by (simp add: cache_ok_def)
  have "set ?keys \<subseteq> {CurrHeight tc - int maxStoreTipsetCount .. CurrHeight tc}"
    using False top reduce_filter [OF ok] by fastforce
  then have "card (set ?keys) \<le> card {CurrHeight tc - int maxStoreTipsetCount .. CurrHeight tc}"
    by (intro card_mono) auto
  also have "\<dots> = maxStoreTipsetCount + 1" by simp
  finally show ?thesis using distinct_card [OF dist] by simp
qed

section \<open>lookAncestors (service/message_service.go)\<close>

definition LookBackLimit :: nat where
  "LookBackLimit = 900"

text \<open>
  \<open>get\<close> is \<open>nodeClient.ChainGetTipSet\<close>: a tipset pointer and an error. On an error
  the source formats \<open>ts.Parents()\<close> of the pointer just returned, which dereferences it.
\<close>

type_synonym chain_get = "tipset_key \<Rightarrow> tipset option \<times> error option"

function ancestors_loop ::
  "chain_get \<Rightarrow> tipset list \<Rightarrow> tipset \<Rightarrow> nat \<Rightarrow> tipset list \<Rightarrow> nat \<Rightarrow> (tipset list \<times> nat) result"
where
  "ancestors_loop get localTipset ts idx gapTipset loopCount =
     (if loopCount > LookBackLimit then Inr (gapTipset, idx)
      else if idx \<ge> length localTipset then Inr (gapTipset, idx)
      else
        let localTs = localTipset ! idx in
        if ts_Height ts = 0 then Inr (gapTipset, idx)
        else if ts_Height localTs > ts_Height ts
          then ancestors_loop get localTipset ts (idx + 1) gapTipset (loopCount + 1)
        else if ts_Height localTs = ts_Height ts
          then (if ts_Key localTs = ts_Key ts then Inr (gapTipset, idx)
                else ancestors_loop get localTipset ts (idx + 1) gapTipset (loopCount + 1))
        else (case get (ts_Parents ts) of
            (None, Some err) \<Rightarrow> Inl (Panic ''nil TipSet'')
          | (Some ts', Some err) \<Rightarrow> Inl (Err (''got tipset failed '' @ error_text err))
          | (None, None) \<Rightarrow>
              if loopCount + 1 > LookBackLimit then Inr (gapTipset @ [ts], idx)
              else Inl (Panic ''nil TipSet'')
          | (Some ts', None) \<Rightarrow>
              ancestors_loop get localTipset ts' idx (gapTipset @ [ts]) (loopCount + 1)))"
  by pat_completeness auto
termination by (relation "measure (\<lambda>(get, l, ts, idx, gap, n). LookBackLimit + 1 - n)") auto

declare ancestors_loop.simps [simp del]

definition lookAncestors ::
  "chain_get \<Rightarrow> tipset list \<Rightarrow> tipset \<Rightarrow> (tipset list \<times> tipset list) result" where
  "lookAncestors get localTipset head =
     bindE (ancestors_loop get localTipset head 0 [] 0) (\<lambda>(gapTipset, idx).
       let idx = (if idx \<ge> length localTipset then length localTipset else idx)
       in Inr (gapTipset, take idx localTipset))"

text \<open>A walk along parent links from a tipset through a list of tipsets to another one.\<close>

fun parent_path :: "chain_get \<Rightarrow> tipset \<Rightarrow> tipset list \<Rightarrow> tipset \<Rightarrow> bool" where
  "parent_path get ts [] ts' = (ts = ts')"
| "parent_path get ts (g # gs) ts' =
     (g = ts \<and> (\<exists>p. get (ts_Parents ts) = (Some p, None) \<and> parent_path get p gs ts'))"

lemma parent_path_snoc:
  "parent_path get a gs b \<Longrightarrow> get (ts_Parents b) = (Some c, None) \<Longrightarrow> parent_path get a (gs @ [b]) c"
  by (induction gs arbitrary: a) auto

text \<open>
  The chain's laws the search relies on, for the tipsets it can meet (the head and what
  the node returns): a parent is lower than its child, a tipset above height 0 has a parent
  the node can return, and a tipset with the key of a cached one has its height.
\<close>

definition known :: "chain_get \<Rightarrow> tipset \<Rightarrow> tipset \<Rightarrow> bool" where
  "known get head t \<longleftrightarrow> t = head \<or> (\<exists>k. get k = (Some t, None))"

definition parents_lower :: "chain_get \<Rightarrow> tipset \<Rightarrow> bool" where
  "parents_lower get head \<longleftrightarrow> (\<forall>t p. known get head t \<longrightarrow> get (ts_Parents t) = (Some p, None) \<longrightarrow>
     ts_Height p < ts_Height t)"

definition has_parents :: "chain_get \<Rightarrow> tipset \<Rightarrow> bool" where
  "has_parents get head \<longleftrightarrow> (\<forall>t. known get head t \<longrightarrow> ts_Height t \<noteq> 0 \<longrightarrow>
     (\<exists>p. get (ts_Parents t) = (Some p, None)))"

definition key_height :: "chain_get \<Rightarrow> tipset \<Rightarrow> tipset list \<Rightarrow> bool" where
  "key_height get head l \<longleftrightarrow> (\<forall>a \<in> set l. \<forall>t. known get head t \<longrightarrow>
     ts_Key a = ts_Key t \<longrightarrow> ts_Height a = ts_Height t)"

definition falling :: "tipset list \<Rightarrow> bool" where
  "falling l \<longleftrightarrow> sorted_wrt (\<lambda>a b. ts_Height b < ts_Height a) l"

lemma falling_distinct: "falling l \<Longrightarrow> distinct l"
  by (induction l) (auto simp: falling_def)

lemma falling_nth: "falling l \<Longrightarrow> i < j \<Longrightarrow> j < length l \<Longrightarrow> ts_Height (l ! j) < ts_Height (l ! i)"
  by (simp add: falling_def sorted_wrt_iff_nth_less)

text \<open>
  The loop's invariant: the gap leads from the head to the current tipset; every gap
  tipset is above the local tipsets still to be looked at; every local tipset passed is at
  least as high as the current one and is neither the current one nor on the gap.
\<close>

definition anc_inv :: "chain_get \<Rightarrow> tipset list \<Rightarrow> tipset \<Rightarrow> tipset \<Rightarrow> nat \<Rightarrow> tipset list \<Rightarrow> bool" where
  "anc_inv get l head ts idx gap \<longleftrightarrow>
     parent_path get head gap ts \<and> (\<forall>t \<in> set (gap @ [ts]). known get head t)
   \<and> (\<forall>g \<in> set gap. \<forall>j < length l. idx \<le> j \<longrightarrow> ts_Height (l ! j) < ts_Height g)
   \<and> (\<forall>j < idx. j < length l \<longrightarrow> ts_Height ts \<le> ts_Height (l ! j))
   \<and> (\<forall>j < idx. j < length l \<longrightarrow> ts_Key (l ! j) \<notin> ts_Key ` set (gap @ [ts]))"

lemma anc_inv_start: "anc_inv get l head head 0 []"
  by (simp add: anc_inv_def known_def)

lemma anc_inv_skip:
  assumes inv: "anc_inv get l head ts idx gap" and idx: "idx < length l"
    and ge: "ts_Height ts \<le> ts_Height (l ! idx)" and ne: "ts_Key (l ! idx) \<noteq> ts_Key ts"
    and keys: "key_height get head l"
  shows "anc_inv get l head ts (idx + 1) gap"
proof -
  have new: "ts_Key (l ! idx) \<notin> ts_Key ` set (gap @ [ts])"
  proof
    assume "ts_Key (l ! idx) \<in> ts_Key ` set (gap @ [ts])"
    with ne obtain g where g: "g \<in> set gap" "ts_Key (l ! idx) = ts_Key g" by auto
    moreover have "known get head g" using inv g by (simp add: anc_inv_def)
    ultimately have "ts_Height (l ! idx) = ts_Height g"
      using keys idx nth_mem [OF idx] by (auto simp: key_height_def)
    moreover have "ts_Height (l ! idx) < ts_Height g" using inv g idx by (auto simp: anc_inv_def)
    ultimately show False by simp
  qed
  show ?thesis
    using inv ge new by (auto simp: anc_inv_def less_Suc_eq)
qed

lemma anc_inv_step:
  assumes inv: "anc_inv get l head ts idx gap" and idx: "idx < length l"
    and lt: "ts_Height (l ! idx) < ts_Height ts" and get: "get (ts_Parents ts) = (Some p, None)"
    and low: "parents_lower get head" and fall: "falling l" and keys: "key_height get head l"
  shows "anc_inv get l head p idx (gap @ [ts])"
proof -
  have "known get head ts" using inv by (simp add: anc_inv_def)
  then have p: "ts_Height p < ts_Height ts" using low get by (auto simp: parents_lower_def)
  have kp: "known get head p" using get by (auto simp: known_def)
  have rest: "ts_Height (l ! j) < ts_Height ts" if "j < length l" "idx \<le> j" for j
    using that lt falling_nth [OF fall, of idx j] by (cases "idx = j") auto
  have above: "ts_Height ts \<le> ts_Height (l ! j)" if "j < idx" "j < length l" for j
    using inv that by (auto simp: anc_inv_def)
  have old: "ts_Key (l ! j) \<noteq> ts_Key p" if "j < idx" "j < length l" for j
  proof
    assume "ts_Key (l ! j) = ts_Key p"
    then have "ts_Height (l ! j) = ts_Height p"
      using keys kp nth_mem [OF that(2)] by (auto simp: key_height_def)
    then show False using p above [OF that] by simp
  qed
  have "parent_path get head (gap @ [ts]) p"
    using inv get by (auto simp: anc_inv_def intro: parent_path_snoc)
  moreover have "ts_Height p \<le> ts_Height (l ! j)" if "j < idx" "j < length l" for j
    using above [OF that] p by simp
  ultimately show ?thesis
    using inv kp rest old unfolding anc_inv_def by auto
qed

text \<open>
  Why the loop stopped: out of rounds, out of local tipsets, at the genesis height, or at a
  local tipset that is the current one.
\<close>

definition anc_stop :: "tipset list \<Rightarrow> tipset \<Rightarrow> nat \<Rightarrow> nat \<Rightarrow> bool" where
  "anc_stop l ts idx n \<longleftrightarrow>
     n > LookBackLimit \<or> idx \<ge> length l \<or> ts_Height ts = 0 \<or> ts_Key (l ! idx) = ts_Key ts"

lemma ancestors_loop_correct:
  assumes "anc_inv get l head ts idx gap" and "parents_lower get head" and "has_parents get head"
    and "falling l" and "key_height get head l"
    and "length gap + idx = n" and "n \<le> LookBackLimit + 1"
  shows "\<exists>gap' idx' ts' n'. ancestors_loop get l ts idx gap n = Inr (gap', idx')
           \<and> anc_inv get l head ts' idx' gap' \<and> anc_stop l ts' idx' n'
           \<and> length gap' + idx' = n' \<and> n' \<le> LookBackLimit + 1"
  using assms
proof (induction get l ts idx gap n rule: ancestors_loop.induct)
  case (1 get l ts idx gap n)
  note inv = "1.prems"(1) and low = "1.prems"(2) and par = "1.prems"(3)
    and fall = "1.prems"(4) and keys = "1.prems"(5) and len = "1.prems"(6) and bd = "1.prems"(7)
  have kts: "known get head ts" using inv by (simp add: anc_inv_def)
  have kh: "ts_Key (l ! idx) = ts_Key ts \<Longrightarrow> idx < length l \<Longrightarrow> ts_Height (l ! idx) = ts_Height ts"
    using keys kts nth_mem [of idx l] by (auto simp: key_height_def)
  consider (stop) "n > LookBackLimit \<or> idx \<ge> length l \<or> ts_Height ts = 0 \<or>
        ts_Height (l ! idx) = ts_Height ts \<and> ts_Key (l ! idx) = ts_Key ts"
    | (skip) "n \<le> LookBackLimit" "idx < length l" "ts_Height ts \<noteq> 0"
        "ts_Height ts \<le> ts_Height (l ! idx)" "ts_Key (l ! idx) \<noteq> ts_Key ts"
    | (step) "n \<le> LookBackLimit" "idx < length l" "ts_Height ts \<noteq> 0"
        "ts_Height (l ! idx) < ts_Height ts"
    using kh by (meson linorder_not_less)
  then show ?case
  proof cases
    case stop
    then have "ancestors_loop get l ts idx gap n = Inr (gap, idx)"
      by (subst ancestors_loop.simps) (auto simp: Let_def)
    moreover have "anc_stop l ts idx n" using stop by (auto simp: anc_stop_def)
    ultimately show ?thesis using inv len bd by blast
  next
    case skip
    then have run: "ancestors_loop get l ts idx gap n = ancestors_loop get l ts (idx + 1) gap (n + 1)"
      by (subst ancestors_loop.simps) (auto simp: Let_def)
    have inv': "anc_inv get l head ts (idx + 1) gap"
      using anc_inv_skip [OF inv skip(2,4,5) keys] .
    show ?thesis
    proof (cases "ts_Height ts < ts_Height (l ! idx)")
      case True
      show ?thesis unfolding run
        by (rule "1.IH"(1) [OF _ _ refl _ True inv' low par fall keys]) (use skip len in auto)
    next
      case False
      then have "ts_Height (l ! idx) = ts_Height ts" using skip by simp
      then show ?thesis unfolding run
        by (intro "1.IH"(2) [OF _ _ refl _ _ _ _ inv' low par fall keys]) (use skip len in auto)
    qed
  next
    case step
    obtain p where get: "get (ts_Parents ts) = (Some p, None)"
      using par kts step(3) by (auto simp: has_parents_def)
    have run: "ancestors_loop get l ts idx gap n = ancestors_loop get l p idx (gap @ [ts]) (n + 1)"
      using step get by (subst ancestors_loop.simps) (auto simp: Let_def)
    have inv': "anc_inv get l head p idx (gap @ [ts])"
      using anc_inv_step [OF inv step(2,4) get low fall keys] .
    show ?thesis unfolding run
      by (rule "1.IH"(3)) (use step len get inv' low par fall keys in auto)
  qed
qed

lemma lookAncestors_correct:
  assumes chain: "parents_lower get head" "has_parents get head"
    and cached: "falling l" "key_height get head l"
  shows "\<exists>gap revert ts. lookAncestors get l head = Inr (gap, revert)
     \<and> revert = take (length revert) l \<and> length gap + length revert \<le> LookBackLimit + 1
     \<and> parent_path get head gap ts
     \<and> (\<forall>r \<in> set revert. ts_Key r \<notin> ts_Key ` set (gap @ [ts]))
     \<and> (length gap + length revert = LookBackLimit + 1 \<or> revert = l \<or> ts_Height ts = 0
        \<or> length revert < length l \<and> ts_Key (l ! length revert) = ts_Key ts)"
proof -
  obtain gap idx ts n where run: "ancestors_loop get l head 0 [] 0 = Inr (gap, idx)"
    and inv: "anc_inv get l head ts idx gap" and stop: "anc_stop l ts idx n"
    and n: "length gap + idx = n" "n \<le> LookBackLimit + 1"
    using ancestors_loop_correct [OF anc_inv_start chain cached, of 0] by auto
  define i where "i = (if length l \<le> idx then length l else idx)"
  have i: "i \<le> length l" "i \<le> idx" by (auto simp: i_def)
  have "lookAncestors get l head = Inr (gap, take i l)"
    using run by (simp add: lookAncestors_def i_def)
  moreover have "\<forall>r \<in> set (take i l). ts_Key r \<notin> ts_Key ` set (gap @ [ts])"
  proof
    fix r assume "r \<in> set (take i l)"
    then obtain j where "j < i" "r = l ! j" by (auto simp: in_set_conv_nth)
    then show "ts_Key r \<notin> ts_Key ` set (gap @ [ts])" using inv i by (auto simp: anc_inv_def)
  qed
  moreover have "length gap + i = LookBackLimit + 1 \<or> take i l = l \<or> ts_Height ts = 0
      \<or> i < length l \<and> ts_Key (l ! i) = ts_Key ts"
    using stop n by (auto simp: anc_stop_def i_def)
  moreover have "parent_path get head gap ts" using inv by (simp add: anc_inv_def)
  ultimately show ?thesis using i n
    by (intro exI [of _ gap] exI [of _ "take i l"] exI [of _ ts]) (simp add: min_absorb1 min_absorb2)
qed

text \<open>
  The rounds are counted, so that the search ends whatever the node answers, also for answers
  that are no chain: parents as high as their child, or a tipset that is its own ancestor.
\<close>

lemma ancestors_loop_ends:
  assumes "\<forall>k. \<exists>p. get k = (Some p, None)" "length gap + idx = n" "n \<le> LookBackLimit + 1" "parent_path get head gap ts"
  shows "\<exists>gap' idx' ts'. ancestors_loop get l ts idx gap n = Inr (gap', idx')
     \<and> length gap' + idx' \<le> LookBackLimit + 1 \<and> parent_path get head gap' ts'"
  using assms
proof (induction get l ts idx gap n rule: ancestors_loop.induct)
  case (1 get l ts idx gap n)
  obtain p where p: "get (ts_Parents ts) = (Some p, None)" using "1.prems"(1) by blast
  consider (stop) "LookBackLimit < n \<or> length l \<le> idx \<or> ts_Height ts = 0 \<or> ts_Height (l ! idx) = ts_Height ts \<and> ts_Key (l ! idx) = ts_Key ts"
    | (skip) "n \<le> LookBackLimit" "idx < length l" "ts_Height ts \<noteq> 0" "ts_Height ts < ts_Height (l ! idx)"
    | (other) "n \<le> LookBackLimit" "idx < length l" "ts_Height ts \<noteq> 0" "ts_Height ts = ts_Height (l ! idx)" "ts_Key (l ! idx) \<noteq> ts_Key ts"
    | (up) "n \<le> LookBackLimit" "idx < length l" "ts_Height ts \<noteq> 0" "ts_Height (l ! idx) < ts_Height ts"
    by (metis linorder_less_linear not_less)
  then show ?case
  proof cases
    case stop
    then have "ancestors_loop get l ts idx gap n = Inr (gap, idx)" by (subst ancestors_loop.simps) (auto simp: Let_def)
    then show ?thesis using "1.prems" by auto
  next
    case skip
    then have run: "ancestors_loop get l ts idx gap n = ancestors_loop get l ts (idx + 1) gap (n + 1)"
      by (subst ancestors_loop.simps) (auto simp: Let_def)
    show ?thesis unfolding run by (rule "1.IH"(1)) (use skip "1.prems" in auto)
  next
    case other
    then have run: "ancestors_loop get l ts idx gap n = ancestors_loop get l ts (idx + 1) gap (n + 1)"
      by (subst ancestors_loop.simps) (auto simp: Let_def)
    show ?thesis unfolding run by (rule "1.IH"(2)) (use other "1.prems" in auto)
  next
    case up
    then have run: "ancestors_loop get l ts idx gap n = ancestors_loop get l p idx (gap @ [ts]) (n + 1)"
      using p by (subst ancestors_loop.simps) (auto simp: Let_def)
    show ?thesis unfolding run by (rule "1.IH"(3)) (use up p "1.prems" parent_path_snoc in auto)
  qed
qed

section \<open>ProcessNewHead and ReconnectCheck (service/message_service.go)\<close>

text \<open>A \<open>headChan\<close>: the tipsets the refresh loop has to apply and to revert.\<close>

record head_chan =
  hc_apply :: "tipset list"
  hc_revert :: "tipset list"

text \<open>
  \<open>sort.Slice\<close> by falling height; the cache has one tipset per height, so that the
  order of the map and of the sort of equal elements do not show.
\<close>

definition sorted_cache :: "tipset_cache \<Rightarrow> tipset list" where
  "sorted_cache tsCache = sort_key (\<lambda>t. - ts_Height t) (cache_List tsCache)"

text \<open>
  \<open>ProcessNewHead\<close> returns what it sends on \<open>triggerPush\<close> and what it sends on
  \<open>headChans\<close>; when it sends a head it returns the error the refresh loop reports on
  \<open>done\<close>, otherwise nil. An error of the search is logged, a panic is not caught.
\<close>

definition ProcessNewHead ::
  "bool \<Rightarrow> chain_get \<Rightarrow> tipset_cache \<Rightarrow> tipset list \<Rightarrow> (tipset option \<times> head_chan option) result" where
  "ProcessNewHead SkipProcessHead get tsCache apply_ts =
     (if SkipProcessHead then Inr (None, None)
      else if apply_ts = [] then Inr (None, None)
      else
        let tsList = sorted_cache tsCache;
            latestTs = last apply_ts
        in if tsList = [] then Inr (Some latestTs, Some \<lparr>hc_apply = apply_ts, hc_revert = []\<rparr>)
           else if ts_Parents latestTs = ts_Key (hd tsList) then Inr (Some latestTs, None)
           else bindE (tryE (lookAncestors get tsList latestTs)) (\<lambda>r. case r of
               Inl err \<Rightarrow> Inr (Some latestTs, None)
             | Inr (localApply, revertTipset) \<Rightarrow>
                 Inr (Some latestTs, Some \<lparr>hc_apply = butlast localApply, hc_revert = revertTipset\<rparr>)))"

text \<open>
  \<open>ReconnectCheck\<close>: refresh every filled message from the chain (cold cache or too
  long a gap), do nothing, or send a head.
\<close>

datatype reconnect_action = UpdateAllFilled | Unchanged | SendHead head_chan

definition ReconnectCheck ::
  "chain_get \<Rightarrow> tipset_cache \<Rightarrow> tipset \<Rightarrow> reconnect_action result" where
  "ReconnectCheck get tsCache head =
     (if Cache tsCache = [] then Inr UpdateAllFilled
      else
        let tsList = sorted_cache tsCache
        in if ts_Height head - ts_Height (hd tsList) \<ge> int LookBackLimit then Inr UpdateAllFilled
           else if ts_Key (hd tsList) = ts_Parents head then Inr Unchanged
           else bindE (lookAncestors get tsList head) (\<lambda>(gapTipset, revertTipset).
             Inr (SendHead \<lparr>hc_apply = butlast gapTipset, hc_revert = revertTipset\<rparr>)))"

lemma falling_sorted_cache: "cache_ok tc \<Longrightarrow> falling (sorted_cache tc)"
proof -
  assume ok: "cache_ok tc"
  have "map fst (Cache tc) = map ts_Height (map snd (Cache tc))"
    using ok by (auto simp: cache_ok_def)
  then have "distinct (map ts_Height (cache_List tc))"
    using ok by (simp only: cache_ok_def cache_List_def)
  then have d: "distinct (map (\<lambda>t. - ts_Height t) (cache_List tc))"
    by (simp add: distinct_map inj_on_def)
  then have "distinct (map (\<lambda>t. - ts_Height t) (sorted_cache tc))"
    by (simp add: sorted_cache_def distinct_map distinct_insort_key)
  moreover have "sorted (map (\<lambda>t. - ts_Height t) (sorted_cache tc))"
    by (simp add: sorted_cache_def)
  ultimately have "sorted_wrt (<) (map (\<lambda>t. - ts_Height t) (sorted_cache tc))"
    by (simp add: strict_sorted_iff)
  then show ?thesis by (simp add: falling_def sorted_wrt_map)
qed

section \<open>Properties\<close>

text \<open>
  C21: the tipset cache stays well formed (each tipset filed under its own height, one per
  height) through \<open>Add\<close> and \<open>Save\<close>; after \<open>Add\<close> a height holds the last
  tipset added at it, else what it held; and once nothing in it is above \<open>CurrHeight\<close>,
  \<open>Save\<close> leaves at most \<open>maxStoreTipsetCount + 1\<close> tipsets and drops none of the
  newest \<open>maxStoreTipsetCount\<close> heights.
\<close>

theorem tipset_cache_wellformed_and_bounded:
  assumes "cache_ok tc" and "\<forall>(h, ts) \<in> set (Cache (cache_Add l tc)). h \<le> CurrHeight tc"
  shows "cache_ok (cache_Add l tc) \<and> cache_ok (snd (cache_Save write (cache_Add l tc)))
    \<and> map_of (Cache (cache_Add l tc)) =
        map_of (Cache tc) ++ map_of (rev (map (\<lambda>t. (ts_Height t, t)) l))
    \<and> length (Cache (snd (cache_Save write (cache_Add l tc)))) \<le> maxStoreTipsetCount + 1
    \<and> (\<forall>(h, ts) \<in> set (Cache (cache_Add l tc)). CurrHeight tc - int maxStoreTipsetCount \<le> h \<longrightarrow>
         (h, ts) \<in> set (Cache (snd (cache_Save write (cache_Add l tc)))))"
proof -
  let ?tc = "cache_Add l tc"
  have ok: "cache_ok ?tc" using assms(1) by (rule cache_ok_Add)
  have cur: "CurrHeight ?tc = CurrHeight tc" by (simp add: cache_Add_def)
  have save: "snd (cache_Save write ?tc) = reduce ?tc" by (simp add: cache_Save_def Let_def)
  have keep: "(h, ts) \<in> set (Cache (reduce ?tc))"
    if "(h, ts) \<in> set (Cache ?tc)" "CurrHeight tc - int maxStoreTipsetCount \<le> h" for h ts
    using that reduce_filter [OF ok] cur
    by (cases "length (Cache ?tc) < maxStoreTipsetCount") (auto simp: reduce_def)
  show ?thesis
    using ok cache_ok_reduce [OF ok] lookup_Add reduce_bounded [OF ok] assms(2) keep
    unfolding save cur by auto
qed

definition sample_tipset :: "string \<Rightarrow> string \<Rightarrow> int \<Rightarrow> tipset" where
  "sample_tipset k p h = \<lparr>ts_Key = [Cid k], ts_Parents = [Cid p], ts_Height = h,
     ts_Block0Cid = Cid k, ts_ParentBaseFee = Some 100\<rparr>"

theorem tipset_cache_wellformed_and_bounded_witness:
  "length (Cache (snd (cache_Save (\<lambda>_. Inr ())
     (cache_Add [sample_tipset ''a'' ''g'' 1, sample_tipset ''b'' ''g'' 1]
        (newTipsetCache\<lparr>CurrHeight := 1\<rparr>))))) \<le> maxStoreTipsetCount + 1"
  using tipset_cache_wellformed_and_bounded [of "newTipsetCache\<lparr>CurrHeight := 1\<rparr>"
      "[sample_tipset ''a'' ''g'' 1, sample_tipset ''b'' ''g'' 1]" "\<lambda>_. Inr ()"]
  by (simp add: cache_ok_def newTipsetCache_def cache_Add_def sample_tipset_def)

text \<open>
  C8: when a new head arrives whose parent is not the newest cached tipset, the messager
  asks for exactly one refresh: the tipsets to revert are the newest cached ones, none of
  them lies on the new head's chain, the tipsets to apply are the new head's chain without
  its lowest element (whose parent messages are already accounted for), and the walk ends at
  a cached tipset, at the genesis height, with the whole cache reverted, or after
  \<open>LookBackLimit + 1\<close> rounds.
\<close>

theorem ProcessNewHead_finds_common_ancestor:
  assumes ok: "cache_ok tc" and cached: "Cache tc \<noteq> []" and ne: "apply_ts \<noteq> []"
    and fresh: "ts_Parents (last apply_ts) \<noteq> ts_Key (hd (sorted_cache tc))"
    and chain: "parents_lower get (last apply_ts)" "has_parents get (last apply_ts)"
      "key_height get (last apply_ts) (sorted_cache tc)"
  shows "\<exists>gap revert ts. ProcessNewHead False get tc apply_ts =
        Inr (Some (last apply_ts), Some \<lparr>hc_apply = butlast gap, hc_revert = revert\<rparr>)
     \<and> revert = take (length revert) (sorted_cache tc)
     \<and> parent_path get (last apply_ts) gap ts
     \<and> (\<forall>r \<in> set revert. ts_Key r \<notin> ts_Key ` set (gap @ [ts]))
     \<and> (length gap + length revert = LookBackLimit + 1 \<or> revert = sorted_cache tc \<or> ts_Height ts = 0
        \<or> (\<exists>c \<in> set (sorted_cache tc) - set revert. ts_Key c = ts_Key ts))"
proof -
  let ?l = "sorted_cache tc"
  have fall: "falling ?l" using ok by (rule falling_sorted_cache)
  have dist: "distinct ?l" using fall by (rule falling_distinct)
  have "length ?l = length (Cache tc)" by (simp add: sorted_cache_def cache_List_def)
  then have nonempty: "?l \<noteq> []" using cached by (cases ?l) auto
  obtain gap revert ts where r: "lookAncestors get ?l (last apply_ts) = Inr (gap, revert)"
    "revert = take (length revert) ?l" "parent_path get (last apply_ts) gap ts"
    "\<forall>r \<in> set revert. ts_Key r \<notin> ts_Key ` set (gap @ [ts])"
    and stop: "length gap + length revert = LookBackLimit + 1 \<or> revert = ?l \<or> ts_Height ts = 0
        \<or> length revert < length ?l \<and> ts_Key (?l ! length revert) = ts_Key ts"
    using lookAncestors_correct [OF chain(1,2) fall chain(3)] by auto
  have "?l ! length revert \<in> set ?l - set revert" if "length revert < length ?l"
    using that dist r(2) by (metis DiffI id_take_nth_drop distinct_append disjoint_iff list.set_intros(1) nth_mem)
  then have "length gap + length revert = LookBackLimit + 1 \<or> revert = ?l \<or> ts_Height ts = 0
        \<or> (\<exists>c \<in> set ?l - set revert. ts_Key c = ts_Key ts)" using stop by blast
  moreover have "ProcessNewHead False get tc apply_ts =
        Inr (Some (last apply_ts), Some \<lparr>hc_apply = butlast gap, hc_revert = revert\<rparr>)"
    using ne nonempty fresh r(1) by (simp add: ProcessNewHead_def Let_def)
  ultimately show ?thesis using r by blast
qed

text \<open>A fork: the cache follows \<open>g, a1\<close>, the node's head is \<open>b2\<close> on \<open>g, b1\<close>.\<close>

definition fork_get :: chain_get where
  "fork_get k = (if k = [Cid ''g''] then (Some (sample_tipset ''g'' ''z'' 0), None)
     else if k = [Cid ''b1''] then (Some (sample_tipset ''b1'' ''g'' 1), None)
     else (None, Some (Err ''not found'')))"

definition fork_cache :: tipset_cache where
  "fork_cache = cache_Add [sample_tipset ''g'' ''z'' 0, sample_tipset ''a1'' ''g'' 1]
     (newTipsetCache\<lparr>CurrHeight := 1\<rparr>)"

lemma fork_known:
  assumes "known fork_get (sample_tipset ''b2'' ''b1'' 2) t"
  shows "t = sample_tipset ''b2'' ''b1'' 2 \<or> t = sample_tipset ''b1'' ''g'' 1
    \<or> t = sample_tipset ''g'' ''z'' 0"
proof -
  have "t = sample_tipset ''b1'' ''g'' 1 \<or> t = sample_tipset ''g'' ''z'' 0"
    if "fork_get k = (Some t, None)" for k
    using that by (simp only: fork_get_def split: if_splits) simp_all
  then show ?thesis using assms by (auto simp only: known_def)
qed

lemma fork_sorted: "sorted_cache fork_cache = [sample_tipset ''a1'' ''g'' 1, sample_tipset ''g'' ''z'' 0]"
  by (simp add: sorted_cache_def cache_List_def fork_cache_def cache_Add_def newTipsetCache_def sample_tipset_def)

theorem ProcessNewHead_finds_common_ancestor_witness:
  "\<exists>gap revert. ProcessNewHead False fork_get fork_cache [sample_tipset ''b2'' ''b1'' 2] =
     Inr (Some (sample_tipset ''b2'' ''b1'' 2), Some \<lparr>hc_apply = butlast gap, hc_revert = revert\<rparr>)"
proof -
  have "cache_ok fork_cache" unfolding fork_cache_def
    by (rule cache_ok_Add) (simp add: cache_ok_def newTipsetCache_def)
  moreover have "Cache fork_cache \<noteq> []"
    by (simp add: fork_cache_def cache_Add_def newTipsetCache_def sample_tipset_def)
  moreover have "parents_lower fork_get (sample_tipset ''b2'' ''b1'' 2)"
    "has_parents fork_get (sample_tipset ''b2'' ''b1'' 2)"
    "key_height fork_get (sample_tipset ''b2'' ''b1'' 2) (sorted_cache fork_cache)"
    by (auto simp: parents_lower_def has_parents_def key_height_def fork_sorted dest!: fork_known)
      (auto simp: fork_get_def sample_tipset_def)
  ultimately show ?thesis
    using ProcessNewHead_finds_common_ancestor [of fork_cache "[sample_tipset ''b2'' ''b1'' 2]" fork_get]
    by (simp add: fork_sorted sample_tipset_def) blast
qed

text \<open>
  C34: the search for the common ancestor ends, within \<open>LookBackLimit + 1\<close> rounds, for every
  node that answers its requests, whatever chain the answers form: it returns tipsets linked by
  parents from the head and a front part of the cached ones, together at most
  \<open>LookBackLimit + 1\<close> of them.
\<close>

theorem lookAncestors_ends:
  assumes answers: "\<forall>k. \<exists>p. get k = (Some p, None)"
  shows "\<exists>gap revert ts. lookAncestors get l head = Inr (gap, revert) \<and> revert = take (length revert) l
     \<and> length gap + length revert \<le> LookBackLimit + 1 \<and> parent_path get head gap ts"
proof -
  obtain gap idx ts where run: "ancestors_loop get l head 0 [] 0 = Inr (gap, idx)" "length gap + idx \<le> LookBackLimit + 1"
    "parent_path get head gap ts"
    using ancestors_loop_ends [OF answers, where gap = "[]" and idx = 0 and n = 0 and head = head and ts = head and l = l] by auto
  then show ?thesis
    by (intro exI [of _ gap] exI [of _ "take (if length l \<le> idx then length l else idx) l"] exI [of _ ts])
      (auto simp: lookAncestors_def Let_def)
qed

text \<open>A node that answers every request with one tipset, its own parent.\<close>

definition cyclic_get :: chain_get where
  "cyclic_get k = (Some (sample_tipset ''a'' ''a'' 5), None)"

theorem lookAncestors_ends_witness:
  "\<exists>gap revert ts. lookAncestors cyclic_get [sample_tipset ''g'' ''z'' 0] (sample_tipset ''b'' ''a'' 6) = Inr (gap, revert)
     \<and> length gap + length revert \<le> 901 \<and> parent_path cyclic_get (sample_tipset ''b'' ''a'' 6) gap ts"
proof -
  have "\<forall>k. \<exists>p. cyclic_get k = (Some p, None)" by (simp add: cyclic_get_def)
  from lookAncestors_ends [OF this, where l = "[sample_tipset ''g'' ''z'' 0]" and head = "sample_tipset ''b'' ''a'' 6"]
  show ?thesis unfolding LookBackLimit_def by auto
qed

end
