(* ===== verification/Codec.thy ===== *)
theory Codec
  imports Utils
begin

text \<open>
  The textual forms of addresses, content identifiers and tipset keys come from
  \<open>go-address\<close>, \<open>go-cid\<close> and \<open>venus-shared\<close>, which are not part of the
  repository: they are a parameter, with the round trips the program relies on as the
  locale \<open>text_codec\<close>. A concrete codec shows that the laws can be met.
\<close>

record codec =
  ad_str :: "address \<Rightarrow> string"
  ad_parse :: "string \<Rightarrow> address result"
  cid_str :: "cid \<Rightarrow> string"
  cid_dec :: "string \<Rightarrow> cid result"
  key_str :: "tipset_key \<Rightarrow> string"

text \<open>A decoding whose error the source drops leaves the zero value.\<close>

definition addr_or_undef :: "address result \<Rightarrow> address" where
  "addr_or_undef r = (case r of Inl _ \<Rightarrow> AddrUndef | Inr a \<Rightarrow> a)"

definition cid_or_undef :: "cid result \<Rightarrow> cid" where
  "cid_or_undef r = (case r of Inl _ \<Rightarrow> CidUndef | Inr c \<Rightarrow> c)"

definition key_or_empty :: "tipset_key result \<Rightarrow> tipset_key" where
  "key_or_empty r = (case r of Inl _ \<Rightarrow> [] | Inr k \<Rightarrow> k)"

locale text_codec =
  fixes C :: codec
  assumes ad_roundtrip: "ad_parse C (ad_str C a) = Inr a"
    and cid_roundtrip: "cid_or_undef (cid_dec C (cid_str C c)) = c"
    and cid_nonempty: "cid_str C c \<noteq> ''''"
    and key_roundtrip: "k \<noteq> [] \<Longrightarrow> CidUndef \<notin> set k \<Longrightarrow> StringToTipsetKey (cid_dec C) (key_str C k) = Inr k"
    and key_empty: "\<exists>e. StringToTipsetKey (cid_dec C) (key_str C []) = Inl e"
    and key_nonempty: "key_str C k \<noteq> ''''"
begin

lemma ad_inj [simp]: "ad_str C a = ad_str C b \<longleftrightarrow> a = b"
  using ad_roundtrip [of a] ad_roundtrip [of b] by (metis sum.inject(2))

lemma cid_inj [simp]: "cid_str C c = cid_str C d \<longleftrightarrow> c = d"
  using cid_roundtrip by metis

lemma ad_or_undef [simp]: "addr_or_undef (ad_parse C (ad_str C a)) = a"
  by (simp add: ad_roundtrip addr_or_undef_def)

lemma key_or_empty_str: "CidUndef \<notin> set k \<Longrightarrow>
    key_or_empty (StringToTipsetKey (cid_dec C) (key_str C k)) = k"
  using key_empty by (cases "k = []") (auto simp: key_roundtrip key_or_empty_def)

lemmas codec_simps = cid_roundtrip cid_nonempty ad_roundtrip

end

section \<open>A concrete codec\<close>

text \<open>Two letters per character, so that no blank or brace occurs.\<close>

definition letter :: "nat \<Rightarrow> char" where
  "letter d = char_of (97 + d)"

definition enc_char :: "char \<Rightarrow> string" where
  "enc_char c = [letter (of_char c div 16), letter (of_char c mod 16)]"

definition dec_pair :: "char \<Rightarrow> char \<Rightarrow> char" where
  "dec_pair a b = char_of ((of_char a - 97) * 16 + (of_char b - 97) :: nat)"

fun dec_pairs :: "string \<Rightarrow> string" where
  "dec_pairs (a # b # s) = dec_pair a b # dec_pairs s"
| "dec_pairs _ = []"

definition enc_str :: "string \<Rightarrow> string" where
  "enc_str s = concat (map enc_char s)"

lemma of_char_letter: "d < 16 \<Longrightarrow> of_char (letter d) = (97 + d :: nat)"
  by (simp add: letter_def)

lemma of_char_lt: "(of_char c :: nat) < 256"
  by (metis less_eq_Suc_le nat_of_char_less_256)

lemma dec_pair_enc: "dec_pair (letter (of_char c div 16)) (letter (of_char c mod 16)) = c"
proof -
  define n :: nat where "n = of_char c"
  have n: "n < 256" by (simp add: n_def of_char_lt)
  then have "n div 16 < 16" "n mod 16 < 16" by auto
  then have "dec_pair (letter (n div 16)) (letter (n mod 16)) = char_of (n div 16 * 16 + n mod 16)"
    by (simp add: dec_pair_def of_char_letter)
  then show ?thesis by (simp add: n_def)
qed

lemma dec_enc [simp]: "dec_pairs (enc_str s) = s"
  by (induction s) (simp_all add: enc_str_def enc_char_def dec_pair_enc)

lemma letter_plain: "d < 16 \<Longrightarrow> letter d \<notin> set ''{ }''"
proof
  assume d: "d < 16" and "letter d \<in> set ''{ }''"
  then have "(of_char (letter d) :: nat) \<in> {123, 32, 125}" by auto
  with of_char_letter [OF d] d show False by auto
qed

lemma enc_str_plain: "x \<in> set (enc_str s) \<Longrightarrow> x \<notin> set ''{ }''"
proof -
  assume "x \<in> set (enc_str s)"
  then obtain c where "x \<in> set (enc_char c)" by (auto simp: enc_str_def)
  then obtain d where "x = letter d" "d < 16"
    using of_char_lt [of c] by (auto simp: enc_char_def less_mult_imp_div_less)
  then show ?thesis using letter_plain by simp
qed

fun plain_cid_str :: "cid \<Rightarrow> string" where
  "plain_cid_str CidUndef = ''b''"
| "plain_cid_str (Cid s) = CHR ''c'' # enc_str s"

fun plain_cid_dec :: "string \<Rightarrow> cid result" where
  "plain_cid_dec [] = Inl (Err ''cid too short'')"
| "plain_cid_dec (x # s) = (if x = CHR ''c'' then Inr (Cid (dec_pairs s)) else Inl (Err ''cid too short''))"

fun plain_ad_str :: "address \<Rightarrow> string" where
  "plain_ad_str AddrUndef = ''<empty>''"
| "plain_ad_str (Addr p s) = CHR ''f'' # replicate p (CHR ''1'') @ CHR ''-'' # s"

fun count_ones :: "string \<Rightarrow> nat \<times> string" where
  "count_ones [] = (0, [])"
| "count_ones (x # s) = (if x = CHR ''1'' then (case count_ones s of (n, r) \<Rightarrow> (Suc n, r)) else (0, s))"

fun plain_ad_parse :: "string \<Rightarrow> address result" where
  "plain_ad_parse [] = Inl (Err ''invalid address'')"
| "plain_ad_parse (x # s) = (if x = CHR ''f'' then (case count_ones s of (n, r) \<Rightarrow> Inr (Addr n r))
     else if x # s = ''<empty>'' then Inr AddrUndef else Inl (Err ''invalid address''))"

lemma count_ones_enc: "count_ones (replicate p (CHR ''1'') @ CHR ''-'' # s) = (p, s)"
  by (induction p) auto

definition plain_codec :: codec where
  "plain_codec = \<lparr>ad_str = plain_ad_str, ad_parse = plain_ad_parse, cid_str = plain_cid_str,
     cid_dec = plain_cid_dec, key_str = (\<lambda>k. ''{ '' @ unwords (map plain_cid_str k) @ '' }'')\<rparr>"

interpretation plain: text_codec plain_codec
proof
  fix a c k
  show "ad_parse plain_codec (ad_str plain_codec a) = Inr a"
    by (cases a) (simp_all add: plain_codec_def count_ones_enc)
  show "cid_or_undef (cid_dec plain_codec (cid_str plain_codec c)) = c"
    by (cases c) (simp_all add: plain_codec_def cid_or_undef_def)
  show "cid_str plain_codec c \<noteq> ''''" by (cases c) (simp_all add: plain_codec_def)
  show "key_str plain_codec k \<noteq> ''''" by (simp add: plain_codec_def)
  show "\<exists>e. StringToTipsetKey (cid_dec plain_codec) (key_str plain_codec []) = Inl e"
    by (simp add: plain_codec_def StringToTipsetKey_def TrimRight_def)
  have word: "plain_word (plain_cid_str d)" if "d \<noteq> CidUndef" for d
    using that enc_str_plain by (cases d) (auto simp: plain_word_def)
  have dec: "plain_cid_dec (plain_cid_str d) = Inr d" if "d \<noteq> CidUndef" for d
    using that by (cases d) auto
  assume "k \<noteq> []" "CidUndef \<notin> set k"
  then have "StringToTipsetKey plain_cid_dec (''{ '' @ unwords (map plain_cid_str k) @ '' }'') = Inr k"
    by (intro StringToTipsetKey_braced word dec) auto
  then show "StringToTipsetKey (cid_dec plain_codec) (key_str plain_codec k) = Inr k"
    by (simp add: plain_codec_def)
qed

end
