(* ===== verification/Repo.thy ===== *)
theory Repo
  imports Types
begin

text \<open>
  The storage interfaces of \<open>models/repo\<close>: one record of operations per Go interface,
  over an arbitrary type of database states, and the combined \<open>Repo\<close> with its
  \<open>Transaction\<close>. The services are written against these records; the contracts they
  rely on are the locales below, which the two back ends of \<open>models/sqlite\<close> and
  \<open>models/mysql\<close> are shown to meet.

  A query returns a result and leaves the state; an update is a computation over the
  state. \<open>time.Now()\<close> inside a back end is a parameter of the record's construction.
\<close>

section \<open>The interfaces\<close>

text \<open>\<open>MessageRepo\<close> (models/repo/message_repo.go).\<close>

record 'db message_repo =
  mr_ExpireMessage :: "message list \<Rightarrow> ('db, unit) comp"
  mr_BatchSaveMessage :: "message list \<Rightarrow> ('db, unit) comp"
  mr_CreateMessage :: "message \<Rightarrow> ('db, unit) comp"
  mr_UpdateMessage :: "message \<Rightarrow> ('db, unit) comp"
  mr_UpdateMessageByState :: "message \<Rightarrow> message_state \<Rightarrow> ('db, unit) comp"
  mr_GetMessageByFromAndNonce :: "address \<Rightarrow> u64 \<Rightarrow> 'db \<Rightarrow> message result"
  mr_GetMessageByFromNonceAndState :: "address \<Rightarrow> u64 \<Rightarrow> message_state \<Rightarrow> 'db \<Rightarrow> message result"
  mr_GetMessageByUid :: "string \<Rightarrow> 'db \<Rightarrow> message result"
  mr_HasMessageByUid :: "string \<Rightarrow> 'db \<Rightarrow> bool result"
  mr_GetMessageState :: "string \<Rightarrow> 'db \<Rightarrow> message_state result"
  mr_GetMessageByCid :: "cid \<Rightarrow> 'db \<Rightarrow> message result"
  mr_GetMessageBySignedCid :: "cid \<Rightarrow> 'db \<Rightarrow> message result"
  mr_GetSignedMessageByTime :: "time \<Rightarrow> 'db \<Rightarrow> message list result"
  mr_GetSignedMessageByHeight :: "epoch \<Rightarrow> 'db \<Rightarrow> message list result"
  mr_GetSignedMessageFromFailedMsg :: "address \<Rightarrow> 'db \<Rightarrow> message list result"
  mr_ListMessage :: "'db \<Rightarrow> message list result"
  mr_ListMessageByFromState ::
    "address \<Rightarrow> message_state \<Rightarrow> bool \<Rightarrow> int \<Rightarrow> int \<Rightarrow> time \<Rightarrow> 'db \<Rightarrow> message list result"
  mr_ListMessageByAddress :: "address \<Rightarrow> 'db \<Rightarrow> message list result"
  mr_ListFailedMessage :: "msg_query_params \<Rightarrow> 'db \<Rightarrow> message list result"
  mr_ListBlockedMessage :: "msg_query_params \<Rightarrow> time \<Rightarrow> 'db \<Rightarrow> message list result"
  mr_ListUnChainMessageByAddress :: "address \<Rightarrow> int \<Rightarrow> 'db \<Rightarrow> message list result"
  mr_ListFilledMessageByAddress :: "address \<Rightarrow> 'db \<Rightarrow> message list result"
  mr_ListChainMessageByHeight :: "epoch \<Rightarrow> 'db \<Rightarrow> message list result"
  mr_ListUnFilledMessage :: "address \<Rightarrow> 'db \<Rightarrow> message list result"
  mr_ListSignedMsgs :: "'db \<Rightarrow> message list result"
  mr_ListFilledMessageBelowNonce :: "address \<Rightarrow> u64 \<Rightarrow> 'db \<Rightarrow> message list result"
  mr_ListMessageByParams :: "msg_query_params \<Rightarrow> 'db \<Rightarrow> message list result"
  mr_UpdateMessageInfoByCid ::
    "string \<Rightarrow> receipt option \<Rightarrow> epoch \<Rightarrow> message_state \<Rightarrow> tipset_key \<Rightarrow> ('db, unit) comp"
  mr_UpdateMessageStateByCid :: "string \<Rightarrow> message_state \<Rightarrow> ('db, unit) comp"
  mr_UpdateMessageStateByID :: "string \<Rightarrow> message_state \<Rightarrow> ('db, unit) comp"
  mr_MarkBadMessage :: "string \<Rightarrow> ('db, unit) comp"
  mr_UpdateErrMsg :: "string \<Rightarrow> string \<Rightarrow> ('db, unit) comp"

text \<open>\<open>AddressRepo\<close> (models/repo/address_repo.go).\<close>

record 'db address_repo =
  ar_SaveAddress :: "address_info \<Rightarrow> ('db, unit) comp"
  ar_GetAddress :: "address \<Rightarrow> 'db \<Rightarrow> address_info result"
  ar_GetAddressByID :: "uuid \<Rightarrow> 'db \<Rightarrow> address_info result"
  ar_GetOneRecord :: "string \<Rightarrow> 'db \<Rightarrow> address_info result"
  ar_HasAddress :: "address \<Rightarrow> 'db \<Rightarrow> bool result"
  ar_ListAddress :: "'db \<Rightarrow> address_info list result"
  ar_ListActiveAddress :: "'db \<Rightarrow> address_info list result"
  ar_DelAddress :: "string \<Rightarrow> ('db, unit) comp"
  ar_UpdateNonce :: "address \<Rightarrow> u64 \<Rightarrow> ('db, int) comp"
  ar_UpdateState :: "address \<Rightarrow> address_state \<Rightarrow> ('db, unit) comp"
  ar_UpdateSelectMsgNum :: "address \<Rightarrow> u64 \<Rightarrow> ('db, unit) comp"
  ar_UpdateFeeParams ::
    "address \<Rightarrow> float64 \<Rightarrow> float64 \<Rightarrow> bigint \<Rightarrow> bigint \<Rightarrow> bigint \<Rightarrow> ('db, unit) comp"

text \<open>\<open>ActorCfgRepo\<close>, \<open>SharedParamsRepo\<close> and \<open>NodeRepo\<close>.\<close>

record 'db actor_cfg_repo =
  cr_SaveActorCfg :: "actor_cfg \<Rightarrow> ('db, unit) comp"
  cr_HasActorCfg :: "method_type \<Rightarrow> 'db \<Rightarrow> bool result"
  cr_GetActorCfgByMethodType :: "method_type \<Rightarrow> 'db \<Rightarrow> actor_cfg result"
  cr_GetActorCfgByID :: "uuid \<Rightarrow> 'db \<Rightarrow> actor_cfg result"
  cr_ListActorCfg :: "'db \<Rightarrow> actor_cfg list result"
  cr_DelActorCfgByMethodType :: "method_type \<Rightarrow> ('db, unit) comp"
  cr_DelActorCfgById :: "uuid \<Rightarrow> ('db, unit) comp"
  cr_UpdateSelectSpecById :: "uuid \<Rightarrow> change_gas_spec \<Rightarrow> ('db, unit) comp"

record 'db shared_params_repo =
  pr_GetSharedParams :: "'db \<Rightarrow> shared_spec result"
  pr_SetSharedParams :: "shared_spec \<Rightarrow> ('db, nat) comp"

record 'db node_repo =
  nr_CreateNode :: "node \<Rightarrow> ('db, unit) comp"
  nr_SaveNode :: "node \<Rightarrow> ('db, unit) comp"
  nr_GetNode :: "string \<Rightarrow> 'db \<Rightarrow> node result"
  nr_HasNode :: "string \<Rightarrow> 'db \<Rightarrow> bool result"
  nr_ListNode :: "'db \<Rightarrow> node list result"
  nr_DelNode :: "string \<Rightarrow> ('db, unit) comp"

text \<open>\<open>Repo\<close> with \<open>TxRepo\<close> (models/repo/repo.go): inside a transaction the same
  operations run on the transaction's connection.\<close>

record 'db repo =
  MessageRepo :: "'db message_repo"
  AddressRepo :: "'db address_repo"
  ActorCfgRepo :: "'db actor_cfg_repo"
  SharedParamsRepo :: "'db shared_params_repo"
  NodeRepo :: "'db node_repo"
  Transaction :: "('db, unit) comp \<Rightarrow> ('db, unit) comp"


section \<open>The contracts\<close>

text \<open>
  What a table makes of a message handed to it: nil amounts become zero, the confidence
  (which is computed from the chain head) is not kept, times, a nil receipt and the two
  floating point columns of the send specification are the engine's business; everything
  else is kept, an absent send specification becoming a zero one.
\<close>

definition norm_chain :: "chain_msg \<Rightarrow> chain_msg" where
  "norm_chain c = c\<lparr>c_Value := SafeFromGo (c_Value c), c_GasFeeCap := SafeFromGo (c_GasFeeCap c),
     c_GasPremium := SafeFromGo (c_GasPremium c)\<rparr>"

definition stored_as :: "message \<Rightarrow> message \<Rightarrow> bool" where
  "stored_as m m' \<longleftrightarrow>
     m_ID m' = m_ID m \<and> m_Message m' = norm_chain (m_Message m)
   \<and> m_UnsignedCid m' = m_UnsignedCid m \<and> m_SignedCid m' = m_SignedCid m
   \<and> m_Signature m' = m_Signature m \<and> m_Height m' = m_Height m
   \<and> (m_Receipt m \<noteq> None \<longrightarrow> m_Receipt m' = m_Receipt m)
   \<and> (CidUndef \<notin> set (m_TipSetKey m) \<longrightarrow> m_TipSetKey m' = m_TipSetKey m) \<and> m_WalletName m' = m_WalletName m
   \<and> m_State m' = m_State m \<and> m_ErrorMsg m' = m_ErrorMsg m
   \<and> (\<exists>s'. m_Meta m' = Some s' \<and> ss_ExpireEpoch s' = ss_ExpireEpoch (norm_spec (m_Meta m))
         \<and> ss_MaxFee s' = ss_MaxFee (norm_spec (m_Meta m)))"

lemma norm_chain_simps [simp]:
  "c_From (norm_chain c) = c_From c" "c_To (norm_chain c) = c_To c"
  "c_Nonce (norm_chain c) = c_Nonce c" "c_Method (norm_chain c) = c_Method c"
  "c_GasLimit (norm_chain c) = c_GasLimit c" "c_Params (norm_chain c) = c_Params c"
  "c_Version (norm_chain c) = c_Version c"
  by (simp_all add: norm_chain_def)

lemma stored_as_simps:
  assumes "stored_as m m'"
  shows "m_ID m' = m_ID m" "m_From m' = m_From m" "m_Nonce m' = m_Nonce m"
    "m_State m' = m_State m" "m_UnsignedCid m' = m_UnsignedCid m" "m_SignedCid m' = m_SignedCid m"
    "m_Signature m' = m_Signature m" "m_ErrorMsg m' = m_ErrorMsg m"
  using assms by (simp_all add: stored_as_def)

text \<open>One row written under its primary key: an update where it exists, else an insertion.\<close>

definition upsert :: "('r \<Rightarrow> 'k) \<Rightarrow> 'r \<Rightarrow> 'r list \<Rightarrow> 'r list" where
  "upsert pk r l = (if pk r \<in> pk ` set l then map (\<lambda>x. if pk x = pk r then r else x) l else l @ [r])"

definition upd_where :: "('r \<Rightarrow> bool) \<Rightarrow> ('r \<Rightarrow> 'r) \<Rightarrow> 'r list \<Rightarrow> 'r list" where
  "upd_where p f l = map (\<lambda>x. if p x then f x else x) l"

lemma upsert_pks: "distinct (map pk l) \<Longrightarrow> distinct (map pk (upsert pk r l))"
proof -
  assume d: "distinct (map pk l)"
  have "map pk (map (\<lambda>x. if pk x = pk r then r else x) l) = map pk l" by (induction l) auto
  with d show ?thesis by (auto simp: upsert_def simp del: map_map)
qed

lemma no_clash:
  assumes "\<forall>x \<in> set l. uk x = uk r \<longrightarrow> pk x = pk r" and "pk r \<notin> pk ` set l"
  shows "uk r \<notin> uk ` set l"
proof
  assume "uk r \<in> uk ` set l"
  then obtain x where "x \<in> set l" "uk x = uk r" by auto
  then have "x \<in> set l" "pk x = pk r" using assms(1) by auto
  then show False using assms(2) by (auto simp: image_iff)
qed

lemma upsert_unique:
  assumes d: "distinct (map uk l)" and pks: "distinct (map pk l)"
    and uk: "\<forall>x \<in> set l. uk x = uk r \<longrightarrow> pk x = pk r"
  shows "distinct (map uk (upsert pk r l))"
proof (cases "pk r \<in> pk ` set l")
  case False
  have "uk r \<notin> uk ` set l" by (rule no_clash [OF uk False])
  with d False show ?thesis by (simp add: upsert_def)
next
  case True
  have "distinct (map uk (map (\<lambda>x. if pk x = pk r then r else x) l))"
    using d pks uk
  proof (induction l)
    case (Cons y l)
    show ?case
    proof (cases "pk y = pk r")
      case True
      then have nin: "pk r \<notin> pk ` set l" using Cons.prems(2) by simp
      then have no: "pk x \<noteq> pk r" if "x \<in> set l" for x using that by (auto simp: image_iff)
      then have "map (\<lambda>x. if pk x = pk r then r else x) l = l" by (simp add: map_idI)
      moreover have "uk r \<notin> uk ` set l" by (rule no_clash [OF _ nin]) (use Cons.prems(3) in simp)
      ultimately show ?thesis using True Cons.prems(1) by simp
    next
      case False
      have "uk y \<noteq> uk r" using False Cons.prems(3) by auto
      then have "uk y \<notin> (\<lambda>x. uk (if pk x = pk r then r else x)) ` set l"
        using Cons.prems(1) by (auto split: if_splits)
      then show ?thesis using False Cons by simp
    qed
  qed simp
  with True show ?thesis by (simp add: upsert_def)
qed

lemma set_upsert: "x \<in> set (upsert pk r l) \<Longrightarrow> x = r \<or> x \<in> set l"
  by (auto simp: upsert_def split: if_splits)

lemma upsert_mem [simp]: "r \<in> set (upsert pk r l)"
  by (force simp: upsert_def)

lemma upsert_keep: "x \<in> set l \<Longrightarrow> pk x \<noteq> pk r \<Longrightarrow> x \<in> set (upsert pk r l)"
  by (force simp: upsert_def)

lemma upsert_map_on:
  assumes "\<And>x. x \<in> set (r # l) \<Longrightarrow> pk' (g x) = pk x"
  shows "map g (upsert pk r l) = upsert pk' (g r) (map g l)"
proof -
  have "pk r \<in> pk ` set l \<longleftrightarrow> pk' (g r) \<in> pk' ` set (map g l)" using assms by (auto simp: image_iff)
  then show ?thesis using assms by (auto simp: upsert_def)
qed

lemma upd_where_pks: "(\<And>x. p x \<Longrightarrow> pk (f x) = pk x) \<Longrightarrow> map pk (upd_where p f l) = map pk l"
  by (simp add: upd_where_def)

lemma set_upd_where: "set (upd_where p f l) = (\<lambda>x. if p x then f x else x) ` set l"
  by (simp add: upd_where_def)

lemma upd_where_map:
  assumes "\<And>x. x \<in> set l \<Longrightarrow> p' (g x) = p x" and "\<And>x. x \<in> set l \<Longrightarrow> p x \<Longrightarrow> f' (g x) = g (f x)"
  shows "map g (upd_where p f l) = upd_where p' f' (map g l)"
  using assms by (simp add: upd_where_def)

text \<open>Rows before and after an update, position by position.\<close>

lemma list_all2_upd_where:
  assumes "\<And>x. x \<in> set l \<Longrightarrow> p x \<Longrightarrow> P x (f x)" "\<And>x. x \<in> set l \<Longrightarrow> \<not> p x \<Longrightarrow> P x x"
  shows "list_all2 P l (upd_where p f l)"
  using assms unfolding upd_where_def by (auto simp: list_all2_map2 list.rel_refl_strong intro!: list_all2_all_nthI)

lemma list_all2_upsert:
  assumes "pk r \<in> pk ` set l" "\<And>x. x \<in> set l \<Longrightarrow> pk x = pk r \<Longrightarrow> P x r" "\<And>x. x \<in> set l \<Longrightarrow> P x x"
  shows "list_all2 P l (upsert pk r l)"
  using assms by (auto simp: upsert_def list_all2_map2 intro!: list_all2_all_nthI)

lemma list_all2_preimage: "list_all2 P l l' \<Longrightarrow> y \<in> set l' \<Longrightarrow> \<exists>x \<in> set l. P x y"
  by (induction rule: list_all2_induct) auto

text \<open>The rows a message query asks for.\<close>

definition params_match :: "msg_query_params \<Rightarrow> message \<Rightarrow> bool" where
  "params_match q m \<longleftrightarrow> (q_From q = [] \<or> m_From m \<in> set (q_From q))
     \<and> (q_State q = [] \<or> m_State m \<in> set (q_State q))
     \<and> (case q_ByUpdateAt q of None \<Rightarrow> True | Some t \<Rightarrow> t \<le> m_UpdatedAt m)"

text \<open>
  \<open>message_store\<close>: the message operations, seen on the list of messages a database
  state holds. A failed statement leaves the state as it was. \<open>cstr\<close> is the text of a
  content identifier.
\<close>

text \<open>
  An update by a struct writes the columns the struct has a value for (not nil, zero or empty)
  and keeps the others: \<open>merged m x y\<close> says that \<open>y\<close> is the row \<open>x\<close> after an update by
  \<open>m\<close>, as far as the services look at it.
\<close>

definition over :: "'a \<Rightarrow> 'a \<Rightarrow> 'a \<Rightarrow> 'a" where
  "over zero new old = (if new = zero then old else new)"

definition merged :: "message \<Rightarrow> message \<Rightarrow> message \<Rightarrow> bool" where
  "merged m x y \<longleftrightarrow> m_ID y = m_ID x \<and> (m_From y = m_From m \<or> m_From y = m_From x) \<and> (m_To y = m_To m \<or> m_To y = m_To x)
     \<and> m_Nonce y = over 0 (m_Nonce m) (m_Nonce x) \<and> m_State y = over UnKnown (m_State m) (m_State x)
     \<and> m_Method y = over 0 (m_Method m) (m_Method x) \<and> c_Params (m_Message y) = over None (c_Params (m_Message m)) (c_Params (m_Message x))
     \<and> c_Value (m_Message y) = SafeFromGo (c_Value (m_Message m)) \<and> m_GasLimit y = over 0 (m_GasLimit m) (m_GasLimit x)
     \<and> m_GasFeeCap y = SafeFromGo (m_GasFeeCap m) \<and> m_GasPremium y = SafeFromGo (m_GasPremium m)
     \<and> m_Signature y = over None (m_Signature m) (m_Signature x)
     \<and> m_UnsignedCid y = over None (m_UnsignedCid m) (m_UnsignedCid x) \<and> m_SignedCid y = over None (m_SignedCid m) (m_SignedCid x)"

locale message_store =
  fixes M :: "'db message_repo" and inv :: "'db \<Rightarrow> bool" and msgs :: "'db \<Rightarrow> message list"
    and cstr :: "cid \<Rightarrow> string"
  assumes ids: "inv db \<Longrightarrow> distinct (map m_ID (msgs db))"
    and Create: "inv db \<Longrightarrow> mr_CreateMessage M m db = (Inr (), db') \<Longrightarrow>
      inv db' \<and> m_ID m \<notin> m_ID ` set (msgs db) \<and> (\<exists>m'. stored_as m m' \<and> msgs db' = msgs db @ [m'])"
    and Create_err: "mr_CreateMessage M m db = (Inl e, db') \<Longrightarrow> db' = db"
    and Update: "inv db \<Longrightarrow> mr_UpdateMessage M m db = (Inr (), db') \<Longrightarrow>
      inv db' \<and> (\<exists>m'. stored_as m m' \<and> msgs db' = upsert m_ID m' (msgs db))"
    and Update_err: "mr_UpdateMessage M m db = (Inl e, db') \<Longrightarrow> db' = db"
    and BatchSave: "mr_BatchSaveMessage M ms db = forC (mr_UpdateMessage M) ms db"
    and InfoByCid: "inv db \<Longrightarrow> 0 \<le> h \<Longrightarrow> h < 2 ^ 63 \<Longrightarrow> CidUndef \<notin> set k \<Longrightarrow>
      mr_UpdateMessageInfoByCid M (cstr c) (Some rcp) h st k db = (Inr (), db') \<Longrightarrow>
      inv db' \<and> (\<exists>t. msgs db' = upd_where (\<lambda>m. m_UnsignedCid m = Some c)
        (\<lambda>m. m\<lparr>m_Height := h, m_Receipt := Some rcp, m_State := st, m_TipSetKey := k,
               m_UpdatedAt := t\<rparr>) (msgs db))"
    and InfoByCid_err: "mr_UpdateMessageInfoByCid M cs rcpo h st k db = (Inl e, db') \<Longrightarrow> db' = db"
    and StateByID: "inv db \<Longrightarrow> mr_UpdateMessageStateByID M i st db = (Inr (), db') \<Longrightarrow>
      inv db' \<and> (\<exists>t. msgs db' = upd_where (\<lambda>m. m_ID m = i)
        (\<lambda>m. m\<lparr>m_State := st, m_UpdatedAt := t\<rparr>) (msgs db))"
    and StateByID_err: "mr_UpdateMessageStateByID M i st db = (Inl e, db') \<Longrightarrow> db' = db"
    and MarkBad: "inv db \<Longrightarrow> mr_MarkBadMessage M i db = (Inr (), db') \<Longrightarrow>
      inv db' \<and> (\<exists>t. msgs db' = upd_where (\<lambda>m. m_ID m = i)
        (\<lambda>m. m\<lparr>m_State := FailedMsg, m_UpdatedAt := t\<rparr>) (msgs db))"
    and MarkBad_err: "mr_MarkBadMessage M i db = (Inl e, db') \<Longrightarrow> db' = db"
    and ErrMsg: "inv db \<Longrightarrow> mr_UpdateErrMsg M i txt db = (Inr (), db') \<Longrightarrow>
      inv db' \<and> (\<exists>t. msgs db' = upd_where (\<lambda>m. m_ID m = i)
        (\<lambda>m. m\<lparr>m_ErrorMsg := txt, m_UpdatedAt := t\<rparr>) (msgs db))"
    and ErrMsg_err: "mr_UpdateErrMsg M i txt db = (Inl e, db') \<Longrightarrow> db' = db"
    and ListFilled: "inv db \<Longrightarrow> mr_ListFilledMessageByAddress M a db = Inr l \<Longrightarrow>
      mset l = mset (filter (\<lambda>m. m_From m = a \<and> m_State m = FillMsg) (msgs db))"
    and ListUnFilled: "inv db \<Longrightarrow> mr_ListUnFilledMessage M a db = Inr l \<Longrightarrow>
      mset l = mset (filter (\<lambda>m. m_From m = a \<and> m_State m = UnFillMsg) (msgs db))"
    and ListUnChain: "inv db \<Longrightarrow> mr_ListUnChainMessageByAddress M a topN db = Inr l \<Longrightarrow>
      mset l \<subseteq># mset (filter (\<lambda>m. m_From m = a \<and> m_State m = UnFillMsg) (msgs db))
      \<and> (0 < topN \<longrightarrow> int (length l) \<le> topN)"
    and ListChain: "inv db \<Longrightarrow> mr_ListChainMessageByHeight M h db = Inr l \<Longrightarrow>
      mset l = mset (filter (\<lambda>m. m_Height m = h \<and> m_State m = OnChainMsg) (msgs db))"
    and ListFailedSigned: "inv db \<Longrightarrow> mr_GetSignedMessageFromFailedMsg M a db = Inr l \<Longrightarrow>
      mset l = mset (filter (\<lambda>m. m_State m = FailedMsg \<and> m_From m = a \<and> m_Signature m \<noteq> None) (msgs db))"
    and ListParams: "inv db \<Longrightarrow> mr_ListMessageByParams M q db = Inr l \<Longrightarrow>
      mset l \<subseteq># mset (filter (params_match q) (msgs db))
      \<and> (q_Limit q = 0 \<longrightarrow> q_Offset q = 0 \<longrightarrow> mset l = mset (filter (params_match q) (msgs db)))"
    and GetByUid: "inv db \<Longrightarrow> mr_GetMessageByUid M i db = Inr m \<Longrightarrow> m \<in> set (msgs db) \<and> m_ID m = i"
    and GetByState: "inv db \<Longrightarrow> mr_GetMessageByFromNonceAndState M a n st db = Inr m \<Longrightarrow>
      m \<in> set (msgs db) \<and> m_From m = a \<and> m_Nonce m = n \<and> m_State m = st"
    and GetByState_none: "inv db \<Longrightarrow> mr_GetMessageByFromNonceAndState M a n st db = Inl e \<Longrightarrow>
      errors_Is_NotFound e \<Longrightarrow> m \<in> set (msgs db) \<Longrightarrow> \<not> (m_From m = a \<and> m_Nonce m = n \<and> m_State m = st)"
    and GetByCid: "inv db \<Longrightarrow> mr_GetMessageByCid M c db = Inr m \<Longrightarrow> m \<in> set (msgs db) \<and> m_UnsignedCid m = Some c"
    and ByState: "inv db \<Longrightarrow> mr_UpdateMessageByState M m st db = (Inr (), db') \<Longrightarrow>
      inv db' \<and> (\<exists>h. msgs db' = upd_where (\<lambda>x. m_ID x = m_ID m \<and> m_State x = st) h (msgs db)
        \<and> (\<forall>x \<in> set (msgs db). m_ID x = m_ID m \<longrightarrow> m_State x = st \<longrightarrow> merged m x (h x)))"
    and ByState_err: "mr_UpdateMessageByState M m st db = (Inl e, db') \<Longrightarrow> db' = db"
    and ListByAddress: "inv db \<Longrightarrow> mr_ListMessageByAddress M a db = Inr l \<Longrightarrow>
      mset l = mset (filter (\<lambda>m. m_From m = a) (msgs db))"
    and ListBlocked: "inv db \<Longrightarrow> mr_ListBlockedMessage M q d db = Inr l \<Longrightarrow> m \<in> set l \<Longrightarrow>
      m \<in> set (msgs db) \<and> (q_From q = [] \<or> m_From m \<in> set (q_From q)) \<and> (m_State m = FillMsg \<or> m_State m = UnFillMsg)"
begin

lemma BatchSave_effect:
  assumes "inv db" "mr_BatchSaveMessage M ms db = (Inr (), db')"
  shows "inv db' \<and> (\<exists>ms'. list_all2 stored_as ms ms' \<and> msgs db' = fold (upsert m_ID) ms' (msgs db))"
  using assms unfolding BatchSave
proof (induction ms arbitrary: db)
  case Nil
  then show ?case by auto
next
  case (Cons m ms)
  obtain q db1 where one: "mr_UpdateMessage M m db = (q, db1)" by (cases "mr_UpdateMessage M m db")
  with Cons.prems have run: "mr_UpdateMessage M m db = (Inr (), db1)" "forC (mr_UpdateMessage M) ms db1 = (Inr (), db')"
    by (auto split: sum.splits)
  from Update [OF Cons.prems(1) run(1)] obtain m' where m': "inv db1" "stored_as m m'"
    "msgs db1 = upsert m_ID m' (msgs db)" by auto
  from Cons.IH [OF m'(1) run(2)] obtain ms' where "inv db'" "list_all2 stored_as ms ms'"
    "msgs db' = fold (upsert m_ID) ms' (msgs db1)" by auto
  with m' show ?case by (intro conjI exI [of _ "m' # ms'"]) auto
qed

lemma ListFilled_set: "inv db \<Longrightarrow> mr_ListFilledMessageByAddress M a db = Inr l \<Longrightarrow>
    set l = {m \<in> set (msgs db). m_From m = a \<and> m_State m = FillMsg}"
  using mset_eq_setD [OF ListFilled, of db a l] by auto

lemma ListUnFilled_set: "inv db \<Longrightarrow> mr_ListUnFilledMessage M a db = Inr l \<Longrightarrow>
    set l = {m \<in> set (msgs db). m_From m = a \<and> m_State m = UnFillMsg}"
  using mset_eq_setD [OF ListUnFilled, of db a l] by auto

lemma ListChain_set: "inv db \<Longrightarrow> mr_ListChainMessageByHeight M h db = Inr l \<Longrightarrow>
    set l = {m \<in> set (msgs db). m_Height m = h \<and> m_State m = OnChainMsg}"
  using mset_eq_setD [OF ListChain, of db h l] by auto

lemma ListFailedSigned_set: "inv db \<Longrightarrow> mr_GetSignedMessageFromFailedMsg M a db = Inr l \<Longrightarrow>
    set l = {m \<in> set (msgs db). m_State m = FailedMsg \<and> m_From m = a \<and> m_Signature m \<noteq> None}"
  using mset_eq_setD [OF ListFailedSigned, of db a l] by auto

lemma ListUnChain_set:
  assumes "inv db" "mr_ListUnChainMessageByAddress M a topN db = Inr l" "m \<in> set l"
  shows "m \<in> set (msgs db) \<and> m_From m = a \<and> m_State m = UnFillMsg"
  using mset_subset_eqD [of "mset l"] ListUnChain [OF assms(1,2)] assms(3) by fastforce

lemma Get_unique:
  assumes "inv db" "mr_GetMessageByUid M i db = Inr m" "m2 \<in> set (msgs db)" "m_ID m2 = i"
  shows "m2 = m"
  using ids [OF assms(1)] GetByUid [OF assms(1,2)] assms(3,4) by (metis distinct_map inj_onD)

end

text \<open>\<open>address_store\<close>: the address operations. Only live records (not deleted) count.\<close>

definition live :: "address_info list \<Rightarrow> address_info list" where
  "live l = filter (\<lambda>a. a_IsDeleted a = NotDeleted) l"

definition addr_stored_as :: "address_info \<Rightarrow> address_info \<Rightarrow> bool" where
  "addr_stored_as a a' \<longleftrightarrow> a_ID a' = a_ID a \<and> a_Addr a' = a_Addr a \<and> a_Nonce a' = a_Nonce a
     \<and> a_Weight a' = a_Weight a \<and> a_State a' = a_State a \<and> a_SelMsgNum a' = a_SelMsgNum a
     \<and> f_MaxFee (a_FeeSpec a') = SafeFromGo (f_MaxFee (a_FeeSpec a))
     \<and> f_GasFeeCap (a_FeeSpec a') = SafeFromGo (f_GasFeeCap (a_FeeSpec a))
     \<and> f_BaseFee (a_FeeSpec a') = SafeFromGo (f_BaseFee (a_FeeSpec a))
     \<and> a_IsDeleted a' = a_IsDeleted a"

locale address_store =
  fixes A :: "'db address_repo" and inv :: "'db \<Rightarrow> bool" and addrs :: "'db \<Rightarrow> address_info list"
  assumes addr_ids: "inv db \<Longrightarrow> distinct (map a_ID (addrs db))"
    and addr_unique: "inv db \<Longrightarrow> distinct (map a_Addr (addrs db))"
    and SaveAddress: "inv db \<Longrightarrow> ar_SaveAddress A ai db = (Inr (), db') \<Longrightarrow>
      inv db' \<and> (\<exists>a'. addr_stored_as ai a' \<and> addrs db' = upsert a_ID a' (addrs db))"
    and SaveAddress_err: "ar_SaveAddress A ai db = (Inl e, db') \<Longrightarrow> db' = db"
    and GetAddress: "inv db \<Longrightarrow> ar_GetAddress A a db = Inr i \<Longrightarrow> i \<in> set (live (addrs db)) \<and> a_Addr i = a"
    and GetAddress_none: "inv db \<Longrightarrow> ar_GetAddress A a db = Inl e \<Longrightarrow> errors_Is_NotFound e \<Longrightarrow>
      a \<notin> a_Addr ` set (live (addrs db))"
    and HasAddress: "inv db \<Longrightarrow> ar_HasAddress A a db = Inr b \<Longrightarrow> b \<longleftrightarrow> a \<in> a_Addr ` set (live (addrs db))"
    and ListAddress: "inv db \<Longrightarrow> ar_ListAddress A db = Inr l \<Longrightarrow> mset l = mset (live (addrs db))"
    and ListActive: "inv db \<Longrightarrow> ar_ListActiveAddress A db = Inr l \<Longrightarrow>
      mset l = mset (filter (\<lambda>a. a_State a = AddressStateAlive) (live (addrs db)))"
    and UpdateNonce: "inv db \<Longrightarrow> ar_UpdateNonce A a n db = (Inr k, db') \<Longrightarrow>
      inv db' \<and> (\<exists>t. addrs db' = upd_where (\<lambda>x. a_Addr x = a \<and> a_IsDeleted x = NotDeleted)
        (\<lambda>x. x\<lparr>a_Nonce := n, a_UpdatedAt := t\<rparr>) (addrs db))"
    and UpdateNonce_err: "ar_UpdateNonce A a n db = (Inl e, db') \<Longrightarrow> db' = db"
    and UpdateState: "inv db \<Longrightarrow> ar_UpdateState A a st db = (Inr (), db') \<Longrightarrow>
      inv db' \<and> (\<exists>t. addrs db' = upd_where (\<lambda>x. a_Addr x = a \<and> a_IsDeleted x = NotDeleted)
        (\<lambda>x. x\<lparr>a_State := st, a_UpdatedAt := t\<rparr>) (addrs db))"
    and UpdateState_err: "ar_UpdateState A a st db = (Inl e, db') \<Longrightarrow> db' = db"
begin

lemma ListActive_set: "inv db \<Longrightarrow> ar_ListActiveAddress A db = Inr l \<Longrightarrow>
    set l = {x \<in> set (addrs db). a_IsDeleted x = NotDeleted \<and> a_State x = AddressStateAlive}"
  using mset_eq_setD [OF ListActive, of db l] by (auto simp: live_def)

lemma live_unique:
  assumes "inv db" "i \<in> set (live (addrs db))" "j \<in> set (live (addrs db))" "a_Addr i = a_Addr j"
  shows "i = j"
  using addr_unique [OF assms(1)] assms(2-) by (auto simp: live_def distinct_map inj_on_def)

end

text \<open>
  \<open>repo_store\<close>: both stores over one state, each leaving the other's records alone,
  with transactions that take effect as a whole or not at all.
\<close>

locale repo_store = message_store M inv msgs cstr + address_store A inv addrs
  for M :: "'db message_repo" and A :: "'db address_repo" and inv msgs cstr addrs +
  fixes tx :: "('db, unit) comp \<Rightarrow> ('db, unit) comp"
  assumes msg_frame:
      "mr_CreateMessage M m db = (r, db') \<Longrightarrow> addrs db' = addrs db"
      "mr_UpdateMessage M m db = (r, db') \<Longrightarrow> addrs db' = addrs db"
      "mr_UpdateErrMsg M i txt db = (r, db') \<Longrightarrow> addrs db' = addrs db"
      "mr_UpdateMessageInfoByCid M cs rcp h st k db = (r, db') \<Longrightarrow> addrs db' = addrs db"
      "mr_MarkBadMessage M i db = (r, db') \<Longrightarrow> addrs db' = addrs db"
      "mr_UpdateMessageStateByID M i st db = (r, db') \<Longrightarrow> addrs db' = addrs db"
      "mr_UpdateMessageByState M m st db = (r, db') \<Longrightarrow> addrs db' = addrs db"
    and addr_frame:
      "ar_SaveAddress A ai db = (r, db') \<Longrightarrow> msgs db' = msgs db"
      "ar_UpdateNonce A ad n db = (rn, db') \<Longrightarrow> msgs db' = msgs db"
      "ar_UpdateState A ad ast db = (r, db') \<Longrightarrow> msgs db' = msgs db"
    and tx_commit: "tx body db = (Inr (), db') \<Longrightarrow> body db = (Inr (), db')"
    and tx_rollback: "tx body db = (Inl e, db') \<Longrightarrow> db' = db"
begin

lemma BatchSave_frame: "mr_BatchSaveMessage M ms db = (r, db') \<Longrightarrow> addrs db' = addrs db"
  unfolding BatchSave
  by (rule forC_invariant [where I = "\<lambda>s. addrs s = addrs db" and f = "mr_UpdateMessage M" and xs = ms and s = db and r = r])
    (auto dest: msg_frame)

lemma tx_cases:
  assumes "tx body db = (r, db')"
  obtains (commit) "r = Inr ()" "body db = (Inr (), db')" | (rollback) e where "r = Inl e" "db' = db"
  using assms tx_commit tx_rollback by (cases r) auto

end

end
