(* ===== verification/Gorm.thy ===== *)
theory Gorm
  imports Repo
begin

text \<open>
  The object-relational mapper the back ends call (\<open>gorm.DB\<close>, not part of the
  repository) as a parameter: a record of the statements the code issues on one table,
  over the list of the table's rows, with the documented behaviour of a successful and of a
  failed statement as the locale \<open>gorm_table\<close>. Any statement may fail. A plain list
  engine instantiates it.
\<close>

section \<open>Queries\<close>

text \<open>
  A chain of \<open>Where\<close>, \<open>Order\<close>, \<open>Offset\<close> and \<open>Limit\<close> calls. Conditions
  are conjoined, order keys appended (a descending key is negated). A chain method mutates
  the statement it is called on once the chain has begun, so that a call whose result the
  source drops, like \<open>query.Where(...)\<close>, still counts.
\<close>

record 'r query =
  qu_where :: "'r \<Rightarrow> bool"
  qu_order :: "('r \<Rightarrow> int) list"
  qu_offset :: "int option"
  qu_limit :: "int option"

definition q_all :: "'r query" where
  "q_all = \<lparr>qu_where = (\<lambda>_. True), qu_order = [], qu_offset = None, qu_limit = None\<rparr>"

definition Where :: "('r \<Rightarrow> bool) \<Rightarrow> 'r query \<Rightarrow> 'r query" where
  "Where c q = q\<lparr>qu_where := (\<lambda>r. qu_where q r \<and> c r)\<rparr>"

definition Order :: "('r \<Rightarrow> int) \<Rightarrow> 'r query \<Rightarrow> 'r query" where
  "Order k q = q\<lparr>qu_order := qu_order q @ [k]\<rparr>"

definition Offset :: "int \<Rightarrow> 'r query \<Rightarrow> 'r query" where
  "Offset n q = q\<lparr>qu_offset := Some n\<rparr>"

definition Limit :: "int \<Rightarrow> 'r query \<Rightarrow> 'r query" where
  "Limit n q = q\<lparr>qu_limit := Some n\<rparr>"

lemma query_simps [simp]:
  "qu_where q_all r" "qu_where (Where c q) r \<longleftrightarrow> qu_where q r \<and> c r"
  "qu_where (Order k q) r = qu_where q r" "qu_where (Offset n q) r = qu_where q r"
  "qu_where (Limit n q) r = qu_where q r"
  "qu_limit q_all = None" "qu_limit (Where c q) = qu_limit q" "qu_limit (Order k q) = qu_limit q"
  "qu_limit (Offset n q) = qu_limit q" "qu_limit (Limit n q) = Some n"
  "qu_offset q_all = None" "qu_offset (Where c q) = qu_offset q" "qu_offset (Order k q) = qu_offset q"
  "qu_offset (Offset n q) = Some n" "qu_offset (Limit n q) = qu_offset q"
  "qu_order q_all = []" "qu_order (Where c q) = qu_order q" "qu_order (Order k q) = qu_order q @ [k]"
  "qu_order (Offset n q) = qu_order q" "qu_order (Limit n q) = qu_order q"
  by (simp_all add: q_all_def Where_def Order_def Offset_def Limit_def)

lemma filter_Where: "filter (qu_where (Where c q)) l = filter c (filter (qu_where q) l)"
  by (induction l) auto

lemma filter_q_all [simp]: "filter (qu_where q_all) l = l"
  by (induction l) auto

section \<open>Statements\<close>

record 'r gorm =
  g_Find :: "'r query \<Rightarrow> 'r list \<Rightarrow> 'r list result"
  g_Take :: "'r query \<Rightarrow> 'r list \<Rightarrow> 'r result"
  g_Count :: "'r query \<Rightarrow> 'r list \<Rightarrow> int result"
  g_Create :: "'r \<Rightarrow> ('r list, unit) comp"
  g_Save :: "'r \<Rightarrow> ('r list, unit) comp"
  g_UpdateColumns :: "'r query \<Rightarrow> ('r \<Rightarrow> 'r) \<Rightarrow> ('r list, int) comp"
  g_Updates :: "'r query \<Rightarrow> 'r \<Rightarrow> ('r list, unit) comp"
  g_Delete :: "'r query \<Rightarrow> ('r list, unit) comp"

text \<open>
  The laws. \<open>pk\<close> is the primary key, \<open>uk\<close> a unique index (the primary key again
  where the table has no other), \<open>stored r r'\<close> says that \<open>r'\<close> is what the engine
  keeps of a written row \<open>r\<close>, \<open>wrote\<close> the same for the columns of an update.
\<close>

locale gorm_table =
  fixes g :: "'r gorm" and pk :: "'r \<Rightarrow> 'k" and uk :: "'r \<Rightarrow> 'u"
    and stored :: "'r \<Rightarrow> 'r \<Rightarrow> bool" and wrote :: "'r \<Rightarrow> 'r \<Rightarrow> bool"
  assumes Find_sub: "g_Find g q rows = Inr l \<Longrightarrow> mset l \<subseteq># mset (filter (qu_where q) rows)"
    and Find_all: "g_Find g q rows = Inr l \<Longrightarrow> qu_limit q = None \<Longrightarrow> qu_offset q = None \<Longrightarrow>
      mset l = mset (filter (qu_where q) rows)"
    and Find_limit: "g_Find g q rows = Inr l \<Longrightarrow> qu_limit q = Some n \<Longrightarrow> 0 < n \<Longrightarrow> int (length l) \<le> n"
    and Find_sorted: "g_Find g q rows = Inr l \<Longrightarrow> qu_order q = key # keys \<Longrightarrow> sorted (map key l)"
    and Take: "g_Take g q rows = Inr r \<Longrightarrow> r \<in> set rows \<and> qu_where q r"
    and Take_none: "g_Take g q rows = Inl e \<Longrightarrow> errors_Is_NotFound e \<Longrightarrow> r \<in> set rows \<Longrightarrow> \<not> qu_where q r"
    and Count: "g_Count g q rows = Inr n \<Longrightarrow> n = int (length (filter (qu_where q) rows))"
    and Create: "g_Create g r rows = (Inr (), rows') \<Longrightarrow>
      pk r \<notin> pk ` set rows \<and> uk r \<notin> uk ` set rows \<and> (\<exists>r'. stored r r' \<and> rows' = rows @ [r'])"
    and Create_err: "g_Create g r rows = (Inl e, rows') \<Longrightarrow> rows' = rows"
    and Save: "g_Save g r rows = (Inr (), rows') \<Longrightarrow>
      (\<forall>x \<in> set rows. uk x = uk r \<longrightarrow> pk x = pk r) \<and> (\<exists>r'. stored r r' \<and> rows' = upsert pk r' rows)"
    and Save_err: "g_Save g r rows = (Inl e, rows') \<Longrightarrow> rows' = rows"
    and Columns: "g_UpdateColumns g q f rows = (Inr n, rows') \<Longrightarrow>
      (\<exists>h. rows' = upd_where (qu_where q) h rows \<and> (\<forall>x \<in> set rows. qu_where q x \<longrightarrow> wrote (f x) (h x)))"
    and Columns_err: "g_UpdateColumns g q f rows = (Inl e, rows') \<Longrightarrow> rows' = rows"
    and Updates: "g_Updates g q r rows = (Inr (), rows') \<Longrightarrow>
      (\<exists>h. rows' = upd_where (\<lambda>x. qu_where q x \<and> pk x = pk r) h rows
           \<and> (\<forall>x. pk (h x) = pk x))"
    and Updates_err: "g_Updates g q r rows = (Inl e, rows') \<Longrightarrow> rows' = rows"
    and Delete: "g_Delete g q rows = (Inr (), rows') \<Longrightarrow> rows' = filter (\<lambda>x. \<not> qu_where q x) rows"
    and Delete_err: "g_Delete g q rows = (Inl e, rows') \<Longrightarrow> rows' = rows"
    and stored_keys: "stored r r' \<Longrightarrow> pk r' = pk r \<and> uk r' = uk r"
begin

lemma Save_pks: "g_Save g r rows = (x, rows') \<Longrightarrow> distinct (map pk rows) \<Longrightarrow> distinct (map pk rows')"
  by (cases x) (auto dest!: Save Save_err intro: upsert_pks)

lemma Find_set: "g_Find g q rows = Inr l \<Longrightarrow> x \<in> set l \<Longrightarrow> x \<in> set rows \<and> qu_where q x"
  by (drule Find_sub) (auto dest!: mset_subset_eqD [of _ _ x])

end

section \<open>A list engine\<close>

text \<open>
  The plain engine: filter, stable sort by the order keys, skip, take; statements that
  violate a key fail, \<open>norm\<close> is what it makes of a row it stores, and \<open>mix r x\<close> the row
  \<open>x\<close> after an update by the struct \<open>r\<close>.
\<close>

fun sort_by :: "('r \<Rightarrow> int) list \<Rightarrow> 'r list \<Rightarrow> 'r list" where
  "sort_by [] l = l"
| "sort_by (k # ks) l = sort_key k (sort_by ks l)"

definition list_Find :: "'r query \<Rightarrow> 'r list \<Rightarrow> 'r list" where
  "list_Find q rows =
     (let l = sort_by (qu_order q) (filter (qu_where q) rows);
          l = (case qu_offset q of None \<Rightarrow> l | Some n \<Rightarrow> drop (nat n) l)
      in (case qu_limit q of None \<Rightarrow> l | Some n \<Rightarrow> if n \<le> 0 then l else take (nat n) l))"

definition list_gorm :: "('r \<Rightarrow> 'r) \<Rightarrow> ('r \<Rightarrow> 'r \<Rightarrow> 'r) \<Rightarrow> ('r \<Rightarrow> 'k) \<Rightarrow> ('r \<Rightarrow> 'u) \<Rightarrow> 'r gorm" where
  "list_gorm norm mix pk uk = \<lparr>
     g_Find = (\<lambda>q rows. Inr (list_Find q rows)),
     g_Take = (\<lambda>q rows. case filter (qu_where q) rows of [] \<Rightarrow> Inl ErrRecordNotFound | r # _ \<Rightarrow> Inr r),
     g_Count = (\<lambda>q rows. Inr (int (length (filter (qu_where q) rows)))),
     g_Create = (\<lambda>r rows. if list_ex (\<lambda>x. pk x = pk r \<or> uk x = uk r) rows
                          then (Inl (Err ''UNIQUE constraint failed''), rows) else (Inr (), rows @ [norm r])),
     g_Save = (\<lambda>r rows. if list_ex (\<lambda>x. uk x = uk r \<and> pk x \<noteq> pk r) rows
                        then (Inl (Err ''UNIQUE constraint failed''), rows) else (Inr (), upsert pk (norm r) rows)),
     g_UpdateColumns = (\<lambda>q f rows. (Inr (int (length (filter (qu_where q) rows))), upd_where (qu_where q) f rows)),
     g_Updates = (\<lambda>q r rows. (Inr (), upd_where (\<lambda>x. qu_where q x \<and> pk x = pk r)
                                (mix r) rows)),
     g_Delete = (\<lambda>q rows. (Inr (), filter (\<lambda>x. \<not> qu_where q x) rows))\<rparr>"

lemma mset_sort_by [simp]: "mset (sort_by ks l) = mset l"
  by (induction ks) auto

lemma mset_drop_sub: "mset (drop n l) \<subseteq># mset l"
  by (metis append_take_drop_id mset_append mset_subset_eq_add_right)

lemma mset_take_sub: "mset (take n l) \<subseteq># mset l"
  by (metis append_take_drop_id mset_append mset_subset_eq_add_left)

lemma list_Find_sub: "mset (list_Find q rows) \<subseteq># mset (filter (qu_where q) rows)"
proof -
  let ?l = "sort_by (qu_order q) (filter (qu_where q) rows)"
  have "mset (drop n ?l) \<subseteq># mset (filter (qu_where q) rows)" for n
    using mset_drop_sub [of n ?l] by simp
  moreover have "mset (take m (drop n ?l)) \<subseteq># mset (filter (qu_where q) rows)" for m n
    using mset_take_sub [of m "drop n ?l"] mset_drop_sub [of n ?l] by (auto dest: subset_mset.order_trans)
  moreover have "mset (take m ?l) \<subseteq># mset (filter (qu_where q) rows)" for m
    using mset_take_sub [of m ?l] by simp
  ultimately show ?thesis by (auto simp: list_Find_def Let_def split: option.splits)
qed

lemma list_Find_sorted: "qu_order q = key # keys \<Longrightarrow> sorted (map key (list_Find q rows))"
  by (auto simp: list_Find_def Let_def sorted_wrt_drop sorted_wrt_take
      simp flip: drop_map take_map split: option.splits)

lemma list_gorm_table:
  assumes "\<And>r. stored r (norm r)" and "\<And>r r'. stored r r' \<Longrightarrow> pk r' = pk r \<and> uk r' = uk r"
    and "\<And>r x. pk (mix r x) = pk x"
  shows "gorm_table (list_gorm norm mix pk uk) pk uk stored (=)"
proof (unfold_locales, goal_cases)
  case (1 q rows l)
  then show ?case using list_Find_sub [of q rows] by (simp add: list_gorm_def)
next
  case (4 q rows l key keys)
  then show ?case using list_Find_sorted by (auto simp: list_gorm_def)
next
  case (6 q rows e r)
  then show ?case by (auto simp: list_gorm_def filter_empty_conv split: list.splits)
next
  case (14 q r rows rows')
  then show ?case
    using assms(3) by (intro exI [of _ "mix r"]) (auto simp: list_gorm_def)
qed (use assms in \<open>auto simp: list_gorm_def list_Find_def Let_def list_ex_iff upd_where_def image_iff
    split: list.splits if_splits option.splits dest: filter_eq_ConsD\<close>)

end
