(* ===== verification/Sqlite.thy ===== *)
theory Sqlite
  imports Codec Gorm
begin

text \<open>
  The SQLite back end (\<open>models/sqlite\<close>): the row structs of its five tables, their
  conversions from and to the shared types, and every operation of its repositories over
  the list of rows, with the mapper (\<open>Gorm\<close>), the text forms (\<open>Codec\<close>) and the
  clock as parameters.
\<close>

section \<open>Rows and conversions\<close>

text \<open>\<open>sqliteMessage\<close> (models/sqlite/message.go).\<close>

record sqliteMessage =
  sm_ID :: string
  sm_Version :: u64
  sm_From :: string
  sm_Nonce :: u64
  sm_To :: string
  sm_Value :: bigint
  sm_GasLimit :: int
  sm_GasFeeCap :: bigint
  sm_GasPremium :: bigint
  sm_Method :: u64
  sm_Params :: bytes
  sm_Signature :: "signature option"
  sm_UnsignedCid :: string
  sm_SignedCid :: string
  sm_Height :: int
  sm_Receipt :: "sql_receipt option"
  sm_TipsetKey :: string
  sm_Meta :: "msg_meta option"
  sm_WalletName :: string
  sm_State :: message_state
  sm_ErrorMsg :: string
  sm_IsDeleted :: int
  sm_CreatedAt :: time
  sm_UpdatedAt :: time

text \<open>\<open>(*sqliteMessage).Message\<close>: \<open>NewFromGo\<close> dereferences the fee cap.\<close>

definition sqlite_Message :: "codec \<Rightarrow> sqliteMessage \<Rightarrow> message result" where
  "sqlite_Message C sqlMsg =
     bindE (NewFromGo (sm_GasFeeCap sqlMsg)) (\<lambda>feeCap. Inr
       \<lparr>m_ID = sm_ID sqlMsg,
        m_UnsignedCid = (if sm_UnsignedCid sqlMsg \<noteq> '''' then Some (cid_or_undef (cid_dec C (sm_UnsignedCid sqlMsg))) else None),
        m_SignedCid = (if sm_SignedCid sqlMsg \<noteq> '''' then Some (cid_or_undef (cid_dec C (sm_SignedCid sqlMsg))) else None),
        m_Message = \<lparr>c_Version = sm_Version sqlMsg,
          c_To = addr_or_undef (ad_parse C (sm_To sqlMsg)),
          c_From = addr_or_undef (ad_parse C (sm_From sqlMsg)),
          c_Nonce = sm_Nonce sqlMsg,
          c_Value = SafeFromGo (sm_Value sqlMsg),
          c_GasLimit = sm_GasLimit sqlMsg,
          c_GasFeeCap = feeCap,
          c_GasPremium = SafeFromGo (sm_GasPremium sqlMsg),
          c_Method = sm_Method sqlMsg,
          c_Params = sm_Params sqlMsg\<rparr>,
        m_Signature = sm_Signature sqlMsg,
        m_Height = sm_Height sqlMsg,
        m_Confidence = 0,
        m_Receipt = MsgReceipt (sm_Receipt sqlMsg),
        m_TipSetKey = (if sm_TipsetKey sqlMsg \<noteq> '''' then key_or_empty (StringToTipsetKey (cid_dec C) (sm_TipsetKey sqlMsg)) else []),
        m_Meta = Some (Meta (sm_Meta sqlMsg)),
        m_WalletName = sm_WalletName sqlMsg,
        m_State = sm_State sqlMsg,
        m_ErrorMsg = sm_ErrorMsg sqlMsg,
        m_UpdatedAt = sm_UpdatedAt sqlMsg,
        m_CreatedAt = sm_CreatedAt sqlMsg\<rparr>)"

definition sqlite_fromMessage :: "codec \<Rightarrow> message \<Rightarrow> sqliteMessage" where
  "sqlite_fromMessage C srcMsg = (let c = m_Message srcMsg in
     \<lparr>sm_ID = m_ID srcMsg,
      sm_Version = c_Version c,
      sm_From = ad_str C (c_From c),
      sm_Nonce = c_Nonce c,
      sm_To = ad_str C (c_To c),
      sm_Value = SafeFromGo (c_Value c),
      sm_GasLimit = c_GasLimit c,
      sm_GasFeeCap = SafeFromGo (c_GasFeeCap c),
      sm_GasPremium = SafeFromGo (c_GasPremium c),
      sm_Method = c_Method c,
      sm_Params = c_Params c,
      sm_Signature = m_Signature srcMsg,
      sm_UnsignedCid = (case m_UnsignedCid srcMsg of None \<Rightarrow> '''' | Some u \<Rightarrow> cid_str C u),
      sm_SignedCid = (case m_SignedCid srcMsg of None \<Rightarrow> '''' | Some u \<Rightarrow> cid_str C u),
      sm_Height = m_Height srcMsg,
      sm_Receipt = FromMsgReceipt (m_Receipt srcMsg),
      sm_TipsetKey = (if m_TipSetKey srcMsg \<noteq> [] then key_str C (m_TipSetKey srcMsg) else ''''),
      sm_Meta = Some (FromMeta (m_Meta srcMsg)),
      sm_WalletName = m_WalletName srcMsg,
      sm_State = m_State srcMsg,
      sm_ErrorMsg = m_ErrorMsg srcMsg,
      sm_IsDeleted = NotDeleted,
      sm_CreatedAt = m_CreatedAt srcMsg,
      sm_UpdatedAt = m_UpdatedAt srcMsg\<rparr>)"

text \<open>\<open>sqliteAddress\<close>, \<open>fromAddress\<close>, \<open>Address\<close> (models/sqlite/address.go);
  \<open>FeeSpec\<close> is the embedded struct of models/sqlite/types.go.\<close>

record sqliteAddress =
  sa_ID :: uuid
  sa_Addr :: string
  sa_Nonce :: u64
  sa_Weight :: int
  sa_State :: address_state
  sa_SelMsgNum :: u64
  sa_FeeSpec :: fee_spec
  sa_IsDeleted :: int
  sa_CreatedAt :: time
  sa_UpdatedAt :: time

definition sqlite_fromAddress :: "codec \<Rightarrow> address_info \<Rightarrow> sqliteAddress" where
  "sqlite_fromAddress C addr =
     \<lparr>sa_ID = a_ID addr, sa_Addr = ad_str C (a_Addr addr), sa_Nonce = a_Nonce addr,
      sa_Weight = a_Weight addr, sa_State = a_State addr, sa_SelMsgNum = a_SelMsgNum addr,
      sa_FeeSpec = safe_fees (a_FeeSpec addr), sa_IsDeleted = a_IsDeleted addr,
      sa_CreatedAt = a_CreatedAt addr, sa_UpdatedAt = a_UpdatedAt addr\<rparr>"

definition sqlite_Address :: "codec \<Rightarrow> sqliteAddress \<Rightarrow> address_info result" where
  "sqlite_Address C s = bindE (ad_parse C (sa_Addr s)) (\<lambda>addr. Inr
     \<lparr>a_ID = sa_ID s, a_Addr = addr, a_Nonce = sa_Nonce s, a_Weight = sa_Weight s,
      a_State = sa_State s, a_SelMsgNum = sa_SelMsgNum s, a_FeeSpec = safe_fees (sa_FeeSpec s),
      a_IsDeleted = sa_IsDeleted s, a_CreatedAt = sa_CreatedAt s, a_UpdatedAt = sa_UpdatedAt s\<rparr>)"

text \<open>\<open>sqliteActorCfg\<close> (models/sqlite/actor_cfg.go).\<close>

record sqliteActorCfg =
  sc_ID :: uuid
  sc_ActorVersion :: int
  sc_Code :: cid
  sc_Method :: u64
  sc_FeeSpec :: fee_spec
  sc_CreatedAt :: time
  sc_UpdatedAt :: time

definition sqlite_fromActorCfg :: "actor_cfg \<Rightarrow> sqliteActorCfg" where
  "sqlite_fromActorCfg actorCfg =
     \<lparr>sc_ID = ac_ID actorCfg, sc_ActorVersion = ac_ActorVersion actorCfg,
      sc_Code = mt_Code (ac_MethodType actorCfg), sc_Method = mt_Method (ac_MethodType actorCfg),
      sc_FeeSpec = safe_fees (ac_FeeSpec actorCfg),
      sc_CreatedAt = ac_CreatedAt actorCfg, sc_UpdatedAt = ac_UpdatedAt actorCfg\<rparr>"

definition sqlite_ActorCfg :: "sqliteActorCfg \<Rightarrow> actor_cfg" where
  "sqlite_ActorCfg c =
     \<lparr>ac_ID = sc_ID c, ac_ActorVersion = sc_ActorVersion c,
      ac_MethodType = \<lparr>mt_Code = sc_Code c, mt_Method = sc_Method c\<rparr>,
      ac_FeeSpec = safe_fees (sc_FeeSpec c), ac_CreatedAt = sc_CreatedAt c, ac_UpdatedAt = sc_UpdatedAt c\<rparr>"

text \<open>\<open>sqliteSharedParams\<close> and \<open>sqliteNode\<close>.\<close>

record sqliteSharedParams =
  sp_row_ID :: nat
  sp_row_SelMsgNum :: u64
  sp_row_FeeSpec :: fee_spec

definition sqlite_fromSharedParams :: "shared_spec \<Rightarrow> sqliteSharedParams" where
  "sqlite_fromSharedParams sp = \<lparr>sp_row_ID = sp_ID sp, sp_row_SelMsgNum = sp_SelMsgNum sp,
     sp_row_FeeSpec = safe_fees (sp_FeeSpec sp)\<rparr>"

definition sqlite_SharedParams :: "sqliteSharedParams \<Rightarrow> shared_spec" where
  "sqlite_SharedParams ssp = \<lparr>sp_ID = sp_row_ID ssp, sp_SelMsgNum = sp_row_SelMsgNum ssp,
     sp_FeeSpec = safe_fees (sp_row_FeeSpec ssp)\<rparr>"

record sqliteNode =
  sn_ID :: uuid
  sn_Name :: string
  sn_URL :: string
  sn_Token :: string
  sn_Type :: int
  sn_IsDeleted :: int
  sn_CreatedAt :: time
  sn_UpdatedAt :: time

definition sqlite_fromNode :: "node \<Rightarrow> sqliteNode" where
  "sqlite_fromNode nd = \<lparr>sn_ID = n_ID nd, sn_Name = n_Name nd, sn_URL = n_URL nd, sn_Token = n_Token nd,
     sn_Type = n_Type nd, sn_IsDeleted = NotDeleted, sn_CreatedAt = n_CreatedAt nd, sn_UpdatedAt = n_UpdatedAt nd\<rparr>"

definition sqlite_Node :: "sqliteNode \<Rightarrow> node" where
  "sqlite_Node s = \<lparr>n_ID = sn_ID s, n_Name = sn_Name s, n_URL = sn_URL s, n_Token = sn_Token s,
     n_Type = sn_Type s, n_CreatedAt = sn_CreatedAt s, n_UpdatedAt = sn_UpdatedAt s\<rparr>"

section \<open>The database\<close>

record sqlite_db =
  t_messages :: "sqliteMessage list"
  t_addresses :: "sqliteAddress list"
  t_actor_cfg :: "sqliteActorCfg list"
  t_shared_params :: "sqliteSharedParams list"
  t_nodes :: "sqliteNode list"

record sqlite_engine =
  e_msg :: "sqliteMessage gorm"
  e_addr :: "sqliteAddress gorm"
  e_cfg :: "sqliteActorCfg gorm"
  e_sp :: "sqliteSharedParams gorm"
  e_node :: "sqliteNode gorm"
  e_tx :: "(sqlite_db, unit) comp \<Rightarrow> (sqlite_db, unit) comp"

text \<open>A statement on one table of the database.\<close>

definition on_messages :: "(sqliteMessage list, 'a) comp \<Rightarrow> (sqlite_db, 'a) comp" where
  "on_messages f db = (case f (t_messages db) of (r, rows) \<Rightarrow> (r, db\<lparr>t_messages := rows\<rparr>))"

definition on_addresses :: "(sqliteAddress list, 'a) comp \<Rightarrow> (sqlite_db, 'a) comp" where
  "on_addresses f db = (case f (t_addresses db) of (r, rows) \<Rightarrow> (r, db\<lparr>t_addresses := rows\<rparr>))"

definition on_actor_cfg :: "(sqliteActorCfg list, 'a) comp \<Rightarrow> (sqlite_db, 'a) comp" where
  "on_actor_cfg f db = (case f (t_actor_cfg db) of (r, rows) \<Rightarrow> (r, db\<lparr>t_actor_cfg := rows\<rparr>))"

definition on_shared_params :: "(sqliteSharedParams list, 'a) comp \<Rightarrow> (sqlite_db, 'a) comp" where
  "on_shared_params f db = (case f (t_shared_params db) of (r, rows) \<Rightarrow> (r, db\<lparr>t_shared_params := rows\<rparr>))"

definition on_nodes :: "(sqliteNode list, 'a) comp \<Rightarrow> (sqlite_db, 'a) comp" where
  "on_nodes f db = (case f (t_nodes db) of (r, rows) \<Rightarrow> (r, db\<lparr>t_nodes := rows\<rparr>))"

end
