(* ===== verification/SqliteRepo.thy ===== *)
theory SqliteRepo
  imports Sqlite
begin

text \<open>
  The operations of the SQLite repositories, one definition per method, and their assembly
  into the interface records. \<open>E\<close> is the engine, \<open>C\<close> the text codec, \<open>now\<close> the
  value of \<open>time.Now()\<close>.
\<close>

section \<open>sqliteMessageRepo (models/sqlite/message.go)\<close>

text \<open>Run a \<open>Find\<close> and convert the rows.\<close>

definition sqlite_find_msgs ::
  "sqlite_engine \<Rightarrow> codec \<Rightarrow> sqliteMessage query \<Rightarrow> sqlite_db \<Rightarrow> message list result" where
  "sqlite_find_msgs E C q db = bindE (g_Find (e_msg E) q (t_messages db)) (traverseE (sqlite_Message C))"

definition sqlite_take_msg ::
  "sqlite_engine \<Rightarrow> codec \<Rightarrow> sqliteMessage query \<Rightarrow> sqlite_db \<Rightarrow> message result" where
  "sqlite_take_msg E C q db = bindE (g_Take (e_msg E) q (t_messages db)) (sqlite_Message C)"

definition sqlite_update_msgs ::
  "sqlite_engine \<Rightarrow> sqliteMessage query \<Rightarrow> (sqliteMessage \<Rightarrow> sqliteMessage) \<Rightarrow> (sqlite_db, unit) comp" where
  "sqlite_update_msgs E q f = on_messages (dropC (g_UpdateColumns (e_msg E) q f))"

text \<open>\<open>Scan\<close> into a zero \<open>Result\<close>: no row leaves state 0, which is \<open>UnKnown\<close>.\<close>

definition sqlite_GetMessageState ::
  "sqlite_engine \<Rightarrow> string \<Rightarrow> sqlite_db \<Rightarrow> message_state result" where
  "sqlite_GetMessageState E uid db =
     bindE (g_Find (e_msg E) (Where (\<lambda>r. sm_ID r = uid) q_all) (t_messages db)) (\<lambda>rows.
       Inr (case rows of [] \<Rightarrow> UnKnown | r # _ \<Rightarrow> sm_State r))"

definition sqlite_HasMessageByUid :: "sqlite_engine \<Rightarrow> string \<Rightarrow> sqlite_db \<Rightarrow> bool result" where
  "sqlite_HasMessageByUid E uid db =
     bindE (g_Count (e_msg E) (Where (\<lambda>r. sm_ID r = uid) q_all) (t_messages db)) (\<lambda>count. Inr (count > 0))"

definition sqlite_ExpireMessage ::
  "sqlite_engine \<Rightarrow> time \<Rightarrow> message list \<Rightarrow> (sqlite_db, unit) comp" where
  "sqlite_ExpireMessage E now msgs = forC (\<lambda>msg.
     sqlite_update_msgs E (Where (\<lambda>r. sm_ID r = m_ID msg) q_all)
       (\<lambda>r. r\<lparr>sm_State := FailedMsg, sm_UpdatedAt := now\<rparr>)) msgs"

definition sqlite_parseQueryParams ::
  "codec \<Rightarrow> msg_query_params \<Rightarrow> sqliteMessage query \<Rightarrow> sqliteMessage query" where
  "sqlite_parseQueryParams C params query =
     (let query = (if \<not> q_Asc params then Order (\<lambda>r. - sm_UpdatedAt r) query else query);
          query = (if length (q_From params) > 0
                   then Where (\<lambda>r. sm_From r \<in> set (map (ad_str C) (q_From params))) query else query);
          query = (if length (q_State params) > 0
                   then Where (\<lambda>r. sm_State r \<in> set (q_State params)) query else query);
          query = (if q_Offset params \<noteq> 0 then Offset (q_Offset params) query else query);
          query = (if q_Limit params \<noteq> 0 then Limit (q_Limit params) query else query)
      in case q_ByUpdateAt params of None \<Rightarrow> query | Some t \<Rightarrow> Where (\<lambda>r. sm_UpdatedAt r \<ge> t) query)"

definition sqlite_ListMessageByParams ::
  "sqlite_engine \<Rightarrow> codec \<Rightarrow> msg_query_params \<Rightarrow> sqlite_db \<Rightarrow> message list result" where
  "sqlite_ListMessageByParams E C params = sqlite_find_msgs E C (sqlite_parseQueryParams C params q_all)"

definition sqlite_ListFilledMessageByAddress ::
  "sqlite_engine \<Rightarrow> codec \<Rightarrow> address \<Rightarrow> sqlite_db \<Rightarrow> message list result" where
  "sqlite_ListFilledMessageByAddress E C addr =
     sqlite_find_msgs E C (Where (\<lambda>r. sm_From r = ad_str C addr \<and> sm_State r = FillMsg) q_all)"

definition sqlite_ListFilledMessageBelowNonce ::
  "sqlite_engine \<Rightarrow> codec \<Rightarrow> address \<Rightarrow> u64 \<Rightarrow> sqlite_db \<Rightarrow> message list result" where
  "sqlite_ListFilledMessageBelowNonce E C addr nonce =
     sqlite_find_msgs E C (Where (\<lambda>r. sm_From r = ad_str C addr \<and> sm_State r = FillMsg \<and> sm_Nonce r < nonce) q_all)"

definition sqlite_ListChainMessageByHeight ::
  "sqlite_engine \<Rightarrow> codec \<Rightarrow> epoch \<Rightarrow> sqlite_db \<Rightarrow> message list result" where
  "sqlite_ListChainMessageByHeight E C height =
     sqlite_find_msgs E C (Where (\<lambda>r. sm_Height r = height \<and> sm_State r = OnChainMsg) q_all)"

definition sqlite_ListUnChainMessageByAddress ::
  "sqlite_engine \<Rightarrow> codec \<Rightarrow> address \<Rightarrow> int \<Rightarrow> sqlite_db \<Rightarrow> message list result" where
  "sqlite_ListUnChainMessageByAddress E C addr topN =
     sqlite_find_msgs E C (Where (\<lambda>r. sm_From r = ad_str C addr \<and> sm_State r = UnFillMsg)
       (Order (\<lambda>r. - sm_CreatedAt r) (Limit topN q_all)))"

definition sqlite_CreateMessage :: "sqlite_engine \<Rightarrow> codec \<Rightarrow> message \<Rightarrow> (sqlite_db, unit) comp" where
  "sqlite_CreateMessage E C msg = on_messages (g_Create (e_msg E) (sqlite_fromMessage C msg))"

definition sqlite_UpdateMessage ::
  "sqlite_engine \<Rightarrow> codec \<Rightarrow> time \<Rightarrow> message \<Rightarrow> (sqlite_db, unit) comp" where
  "sqlite_UpdateMessage E C now msg =
     on_messages (g_Save (e_msg E) ((sqlite_fromMessage C msg)\<lparr>sm_UpdatedAt := now\<rparr>))"

definition sqlite_BatchSaveMessage ::
  "sqlite_engine \<Rightarrow> codec \<Rightarrow> time \<Rightarrow> message list \<Rightarrow> (sqlite_db, unit) comp" where
  "sqlite_BatchSaveMessage E C now msgs = forC (sqlite_UpdateMessage E C now) msgs"

definition sqlite_UpdateMessageByState ::
  "sqlite_engine \<Rightarrow> codec \<Rightarrow> time \<Rightarrow> message \<Rightarrow> message_state \<Rightarrow> (sqlite_db, unit) comp" where
  "sqlite_UpdateMessageByState E C now msg state =
     on_messages (g_Updates (e_msg E) (Where (\<lambda>r. sm_State r = state) q_all)
       ((sqlite_fromMessage C msg)\<lparr>sm_UpdatedAt := now\<rparr>))"

definition sqlite_GetMessageByUid ::
  "sqlite_engine \<Rightarrow> codec \<Rightarrow> string \<Rightarrow> sqlite_db \<Rightarrow> message result" where
  "sqlite_GetMessageByUid E C uid = sqlite_take_msg E C (Where (\<lambda>r. sm_ID r = uid) q_all)"

definition sqlite_GetMessageByCid ::
  "sqlite_engine \<Rightarrow> codec \<Rightarrow> cid \<Rightarrow> sqlite_db \<Rightarrow> message result" where
  "sqlite_GetMessageByCid E C unsignedCid =
     sqlite_take_msg E C (Where (\<lambda>r. sm_UnsignedCid r = cid_str C unsignedCid) q_all)"

definition sqlite_GetMessageBySignedCid ::
  "sqlite_engine \<Rightarrow> codec \<Rightarrow> cid \<Rightarrow> sqlite_db \<Rightarrow> message result" where
  "sqlite_GetMessageBySignedCid E C signedCid =
     sqlite_take_msg E C (Where (\<lambda>r. sm_SignedCid r = cid_str C signedCid) q_all)"

definition sqlite_GetSignedMessageByTime ::
  "sqlite_engine \<Rightarrow> codec \<Rightarrow> time \<Rightarrow> sqlite_db \<Rightarrow> message list result" where
  "sqlite_GetSignedMessageByTime E C start =
     sqlite_find_msgs E C (Where (\<lambda>r. sm_CreatedAt r \<ge> start \<and> sm_Signature r \<noteq> None) q_all)"

definition sqlite_GetSignedMessageByHeight ::
  "sqlite_engine \<Rightarrow> codec \<Rightarrow> epoch \<Rightarrow> sqlite_db \<Rightarrow> message list result" where
  "sqlite_GetSignedMessageByHeight E C height =
     sqlite_find_msgs E C (Where (\<lambda>r. sm_Height r \<ge> uint (to_uint64 height) \<and> sm_Signature r \<noteq> None) q_all)"

definition sqlite_GetSignedMessageFromFailedMsg ::
  "sqlite_engine \<Rightarrow> codec \<Rightarrow> address \<Rightarrow> sqlite_db \<Rightarrow> message list result" where
  "sqlite_GetSignedMessageFromFailedMsg E C addr =
     sqlite_find_msgs E C (Where (\<lambda>r. sm_State r = FailedMsg \<and> sm_From r = ad_str C addr \<and> sm_Signature r \<noteq> None) q_all)"

definition sqlite_GetMessageByFromAndNonce ::
  "sqlite_engine \<Rightarrow> codec \<Rightarrow> address \<Rightarrow> u64 \<Rightarrow> sqlite_db \<Rightarrow> message result" where
  "sqlite_GetMessageByFromAndNonce E C frm nonce =
     sqlite_take_msg E C (Where (\<lambda>r. sm_From r = ad_str C frm \<and> sm_Nonce r = nonce) q_all)"

definition sqlite_GetMessageByFromNonceAndState ::
  "sqlite_engine \<Rightarrow> codec \<Rightarrow> address \<Rightarrow> u64 \<Rightarrow> message_state \<Rightarrow> sqlite_db \<Rightarrow> message result" where
  "sqlite_GetMessageByFromNonceAndState E C frm nonce state =
     sqlite_take_msg E C (Where (\<lambda>r. sm_From r = ad_str C frm \<and> sm_Nonce r = nonce \<and> sm_State r = state) q_all)"

definition sqlite_ListMessage :: "sqlite_engine \<Rightarrow> codec \<Rightarrow> sqlite_db \<Rightarrow> message list result" where
  "sqlite_ListMessage E C = sqlite_find_msgs E C q_all"

definition sqlite_ListMessageByAddress ::
  "sqlite_engine \<Rightarrow> codec \<Rightarrow> address \<Rightarrow> sqlite_db \<Rightarrow> message list result" where
  "sqlite_ListMessageByAddress E C addr = sqlite_find_msgs E C (Where (\<lambda>r. sm_From r = ad_str C addr) q_all)"

definition sqlite_ListMessageByFromState ::
  "sqlite_engine \<Rightarrow> codec \<Rightarrow> time \<Rightarrow> address \<Rightarrow> message_state \<Rightarrow> bool \<Rightarrow> int \<Rightarrow> int \<Rightarrow> time \<Rightarrow>
     sqlite_db \<Rightarrow> message list result" where
  "sqlite_ListMessageByFromState E C now frm state isAsc pageIndex pageSize d =
     (let query = Limit pageSize (Offset ((pageIndex - 1) * pageSize) q_all);
          query = (if frm \<noteq> AddrUndef then Where (\<lambda>r. sm_From r = ad_str C frm) query else query);
          query = (if isAsc then Order sm_CreatedAt query else Order (\<lambda>r. - sm_CreatedAt r) query);
          query = (if d \<noteq> 0 then Where (\<lambda>r. sm_CreatedAt r < now - d) query else query);
          query = Where (\<lambda>r. sm_State r = state) query
      in sqlite_find_msgs E C query)"

definition sqlite_ListFailedMessage ::
  "sqlite_engine \<Rightarrow> codec \<Rightarrow> msg_query_params \<Rightarrow> sqlite_db \<Rightarrow> message list result" where
  "sqlite_ListFailedMessage E C params =
     (let params = params\<lparr>q_State := [UnFillMsg]\<rparr>;
          query = Where (\<lambda>r. sm_ErrorMsg r \<noteq> '''') (Order sm_CreatedAt q_all)
      in sqlite_find_msgs E C (sqlite_parseQueryParams C params query))"

definition sqlite_ListBlockedMessage ::
  "sqlite_engine \<Rightarrow> codec \<Rightarrow> time \<Rightarrow> msg_query_params \<Rightarrow> time \<Rightarrow> sqlite_db \<Rightarrow> message list result" where
  "sqlite_ListBlockedMessage E C now params d =
     (let t = now - d;
          params = params\<lparr>q_State := [FillMsg, UnFillMsg]\<rparr>;
          query = sqlite_parseQueryParams C params q_all
      in sqlite_find_msgs E C (Where (\<lambda>r. sm_CreatedAt r < t) (Order sm_CreatedAt query)))"

definition sqlite_ListUnFilledMessage ::
  "sqlite_engine \<Rightarrow> codec \<Rightarrow> address \<Rightarrow> sqlite_db \<Rightarrow> message list result" where
  "sqlite_ListUnFilledMessage E C addr =
     sqlite_find_msgs E C (Where (\<lambda>r. sm_From r = ad_str C addr \<and> sm_State r = UnFillMsg) q_all)"

definition sqlite_ListSignedMsgs :: "sqlite_engine \<Rightarrow> codec \<Rightarrow> sqlite_db \<Rightarrow> message list result" where
  "sqlite_ListSignedMsgs E C =
     sqlite_find_msgs E C (Where (\<lambda>r. sm_Height r = 0 \<and> sm_Signature r \<noteq> None) q_all)"

text \<open>A nil receipt is dereferenced when the update clause is built.\<close>

definition sqlite_UpdateMessageInfoByCid ::
  "sqlite_engine \<Rightarrow> codec \<Rightarrow> time \<Rightarrow> string \<Rightarrow> receipt option \<Rightarrow> epoch \<Rightarrow> message_state \<Rightarrow> tipset_key \<Rightarrow>
     (sqlite_db, unit) comp" where
  "sqlite_UpdateMessageInfoByCid E C now unsignedCid receipt height state tsKey =
     (case FromMsgReceipt receipt of
        None \<Rightarrow> failC (Panic ''nil receipt'')
      | Some rcp \<Rightarrow> sqlite_update_msgs E (Where (\<lambda>r. sm_UnsignedCid r = unsignedCid) q_all)
          (\<lambda>r. r\<lparr>sm_Height := uint (to_uint64 height), sm_Receipt := Some rcp, sm_State := state,
                 sm_TipsetKey := key_str C tsKey, sm_UpdatedAt := now\<rparr>))"

definition sqlite_UpdateMessageStateByCid ::
  "sqlite_engine \<Rightarrow> time \<Rightarrow> string \<Rightarrow> message_state \<Rightarrow> (sqlite_db, unit) comp" where
  "sqlite_UpdateMessageStateByCid E now c state =
     sqlite_update_msgs E (Where (\<lambda>r. sm_UnsignedCid r = c) q_all)
       (\<lambda>r. r\<lparr>sm_State := state, sm_UpdatedAt := now\<rparr>)"

definition sqlite_UpdateMessageStateByID ::
  "sqlite_engine \<Rightarrow> time \<Rightarrow> string \<Rightarrow> message_state \<Rightarrow> (sqlite_db, unit) comp" where
  "sqlite_UpdateMessageStateByID E now uid state =
     sqlite_update_msgs E (Where (\<lambda>r. sm_ID r = uid) q_all)
       (\<lambda>r. r\<lparr>sm_State := state, sm_UpdatedAt := now\<rparr>)"

definition sqlite_MarkBadMessage :: "sqlite_engine \<Rightarrow> time \<Rightarrow> string \<Rightarrow> (sqlite_db, unit) comp" where
  "sqlite_MarkBadMessage E now uid =
     sqlite_update_msgs E (Where (\<lambda>r. sm_ID r = uid) q_all)
       (\<lambda>r. r\<lparr>sm_State := FailedMsg, sm_UpdatedAt := now\<rparr>)"

definition sqlite_UpdateErrMsg :: "sqlite_engine \<Rightarrow> time \<Rightarrow> string \<Rightarrow> string \<Rightarrow> (sqlite_db, unit) comp" where
  "sqlite_UpdateErrMsg E now uid errMsg =
     sqlite_update_msgs E (Where (\<lambda>r. sm_ID r = uid) q_all)
       (\<lambda>r. r\<lparr>sm_ErrorMsg := errMsg, sm_UpdatedAt := now\<rparr>)"

section \<open>sqliteAddressRepo (models/sqlite/address.go)\<close>

definition sqlite_SaveAddress :: "sqlite_engine \<Rightarrow> codec \<Rightarrow> address_info \<Rightarrow> (sqlite_db, unit) comp" where
  "sqlite_SaveAddress E C addr = on_addresses (g_Save (e_addr E) (sqlite_fromAddress C addr))"

definition sqlite_take_addr ::
  "sqlite_engine \<Rightarrow> codec \<Rightarrow> sqliteAddress query \<Rightarrow> sqlite_db \<Rightarrow> address_info result" where
  "sqlite_take_addr E C q db = bindE (g_Take (e_addr E) q (t_addresses db)) (sqlite_Address C)"

definition sqlite_GetAddress ::
  "sqlite_engine \<Rightarrow> codec \<Rightarrow> address \<Rightarrow> sqlite_db \<Rightarrow> address_info result" where
  "sqlite_GetAddress E C addr =
     sqlite_take_addr E C (Where (\<lambda>r. sa_Addr r = ad_str C addr \<and> sa_IsDeleted r = - 1) q_all)"

definition sqlite_GetAddressByID ::
  "sqlite_engine \<Rightarrow> codec \<Rightarrow> uuid \<Rightarrow> sqlite_db \<Rightarrow> address_info result" where
  "sqlite_GetAddressByID E C uid = sqlite_take_addr E C (Where (\<lambda>r. sa_ID r = uid \<and> sa_IsDeleted r = - 1) q_all)"

definition sqlite_GetOneRecord ::
  "sqlite_engine \<Rightarrow> codec \<Rightarrow> string \<Rightarrow> sqlite_db \<Rightarrow> address_info result" where
  "sqlite_GetOneRecord E C addr = sqlite_take_addr E C (Where (\<lambda>r. sa_Addr r = addr) q_all)"

definition sqlite_HasAddress :: "sqlite_engine \<Rightarrow> codec \<Rightarrow> address \<Rightarrow> sqlite_db \<Rightarrow> bool result" where
  "sqlite_HasAddress E C addr db =
     bindE (g_Count (e_addr E) (Where (\<lambda>r. sa_Addr r = ad_str C addr \<and> sa_IsDeleted r = - 1) q_all)
        (t_addresses db)) (\<lambda>count. Inr (count > 0))"

definition sqlite_ListAddress :: "sqlite_engine \<Rightarrow> codec \<Rightarrow> sqlite_db \<Rightarrow> address_info list result" where
  "sqlite_ListAddress E C db =
     bindE (g_Find (e_addr E) (Where (\<lambda>r. sa_IsDeleted r = - 1) q_all) (t_addresses db))
       (traverseE (sqlite_Address C))"

definition sqlite_ListActiveAddress :: "sqlite_engine \<Rightarrow> codec \<Rightarrow> sqlite_db \<Rightarrow> address_info list result" where
  "sqlite_ListActiveAddress E C db =
     bindE (g_Find (e_addr E) (Where (\<lambda>r. sa_IsDeleted r = - 1 \<and> sa_State r = AddressStateAlive) q_all)
       (t_addresses db)) (traverseE (sqlite_Address C))"

definition sqlite_UpdateNonce ::
  "sqlite_engine \<Rightarrow> codec \<Rightarrow> time \<Rightarrow> address \<Rightarrow> u64 \<Rightarrow> (sqlite_db, int) comp" where
  "sqlite_UpdateNonce E C now addr nonce = on_addresses (g_UpdateColumns (e_addr E)
     (Where (\<lambda>r. sa_Addr r = ad_str C addr \<and> sa_IsDeleted r = - 1) q_all)
     (\<lambda>r. r\<lparr>sa_Nonce := nonce, sa_UpdatedAt := now\<rparr>))"

definition sqlite_UpdateState ::
  "sqlite_engine \<Rightarrow> codec \<Rightarrow> time \<Rightarrow> address \<Rightarrow> address_state \<Rightarrow> (sqlite_db, unit) comp" where
  "sqlite_UpdateState E C now addr state = on_addresses (dropC (g_UpdateColumns (e_addr E)
     (Where (\<lambda>r. sa_Addr r = ad_str C addr \<and> sa_IsDeleted r = - 1) q_all)
     (\<lambda>r. r\<lparr>sa_State := state, sa_UpdatedAt := now\<rparr>)))"

definition sqlite_UpdateSelectMsgNum ::
  "sqlite_engine \<Rightarrow> codec \<Rightarrow> time \<Rightarrow> address \<Rightarrow> u64 \<Rightarrow> (sqlite_db, unit) comp" where
  "sqlite_UpdateSelectMsgNum E C now addr num = on_addresses (dropC (g_UpdateColumns (e_addr E)
     (Where (\<lambda>r. sa_Addr r = ad_str C addr \<and> sa_IsDeleted r = - 1) q_all)
     (\<lambda>r. r\<lparr>sa_SelMsgNum := num, sa_UpdatedAt := now\<rparr>)))"

text \<open>The columns \<open>UpdateFeeParams\<close> puts in its update map; nil amounts and zero factors stay out.\<close>

definition fee_columns ::
  "float64 \<Rightarrow> float64 \<Rightarrow> bigint \<Rightarrow> bigint \<Rightarrow> bigint \<Rightarrow> fee_spec \<Rightarrow> fee_spec" where
  "fee_columns gasOverEstimation gasOverPremium maxFee gasFeeCap baseFee f =
     (let f = (if maxFee \<noteq> None then f\<lparr>f_MaxFee := maxFee\<rparr> else f);
          f = (if gasFeeCap \<noteq> None then f\<lparr>f_GasFeeCap := gasFeeCap\<rparr> else f);
          f = (if baseFee \<noteq> None then f\<lparr>f_BaseFee := baseFee\<rparr> else f);
          f = (if f64_nonzero gasOverEstimation then f\<lparr>f_GasOverEstimation := gasOverEstimation\<rparr> else f)
      in if f64_nonzero gasOverPremium then f\<lparr>f_GasOverPremium := gasOverPremium\<rparr> else f)"

definition sqlite_UpdateFeeParams ::
  "sqlite_engine \<Rightarrow> codec \<Rightarrow> time \<Rightarrow> address \<Rightarrow> float64 \<Rightarrow> float64 \<Rightarrow> bigint \<Rightarrow> bigint \<Rightarrow> bigint \<Rightarrow>
     (sqlite_db, unit) comp" where
  "sqlite_UpdateFeeParams E C now addr gasOverEstimation gasOverPremium maxFee gasFeeCap baseFee =
     (if maxFee = None \<and> gasFeeCap = None \<and> baseFee = None \<and>
         \<not> f64_nonzero gasOverEstimation \<and> \<not> f64_nonzero gasOverPremium then returnC ()
      else on_addresses (dropC (g_UpdateColumns (e_addr E)
        (Where (\<lambda>r. sa_Addr r = ad_str C addr \<and> sa_IsDeleted r = - 1) q_all)
        (\<lambda>r. r\<lparr>sa_FeeSpec := fee_columns gasOverEstimation gasOverPremium maxFee gasFeeCap baseFee (sa_FeeSpec r),
               sa_UpdatedAt := now\<rparr>))))"

definition sqlite_DelAddress :: "sqlite_engine \<Rightarrow> string \<Rightarrow> (sqlite_db, unit) comp" where
  "sqlite_DelAddress E addr = on_addresses (g_Delete (e_addr E) (Where (\<lambda>r. sa_Addr r = addr) q_all))"

section \<open>sqliteActorCfgRepo (models/sqlite/actor_cfg.go)\<close>

definition sqlite_SaveActorCfg :: "sqlite_engine \<Rightarrow> actor_cfg \<Rightarrow> (sqlite_db, unit) comp" where
  "sqlite_SaveActorCfg E actorCfg =
     (if mt_Code (ac_MethodType actorCfg) = CidUndef then failC (Err ''code cid is undefined'')
      else on_actor_cfg (g_Save (e_cfg E) (sqlite_fromActorCfg actorCfg)))"

definition sqlite_by_method :: "method_type \<Rightarrow> sqliteActorCfg query" where
  "sqlite_by_method mt = Where (\<lambda>r. sc_Code r = mt_Code mt \<and> sc_Method r = mt_Method mt) q_all"

definition sqlite_HasActorCfg :: "sqlite_engine \<Rightarrow> method_type \<Rightarrow> sqlite_db \<Rightarrow> bool result" where
  "sqlite_HasActorCfg E mt db =
     bindE (g_Count (e_cfg E) (sqlite_by_method mt) (t_actor_cfg db)) (\<lambda>count. Inr (count > 0))"

definition sqlite_GetActorCfgByMethodType :: "sqlite_engine \<Rightarrow> method_type \<Rightarrow> sqlite_db \<Rightarrow> actor_cfg result" where
  "sqlite_GetActorCfgByMethodType E mt db =
     bindE (g_Take (e_cfg E) (sqlite_by_method mt) (t_actor_cfg db)) (\<lambda>a. Inr (sqlite_ActorCfg a))"

definition sqlite_GetActorCfgByID :: "sqlite_engine \<Rightarrow> uuid \<Rightarrow> sqlite_db \<Rightarrow> actor_cfg result" where
  "sqlite_GetActorCfgByID E uid db =
     bindE (g_Take (e_cfg E) (Where (\<lambda>r. sc_ID r = uid) q_all) (t_actor_cfg db)) (\<lambda>a. Inr (sqlite_ActorCfg a))"

definition sqlite_ListActorCfg :: "sqlite_engine \<Rightarrow> sqlite_db \<Rightarrow> actor_cfg list result" where
  "sqlite_ListActorCfg E db = bindE (g_Find (e_cfg E) q_all (t_actor_cfg db)) (\<lambda>l. Inr (map sqlite_ActorCfg l))"

definition sqlite_DelActorCfgByMethodType :: "sqlite_engine \<Rightarrow> method_type \<Rightarrow> (sqlite_db, unit) comp" where
  "sqlite_DelActorCfgByMethodType E mt = on_actor_cfg (g_Delete (e_cfg E) (sqlite_by_method mt))"

definition sqlite_DelActorCfgById :: "sqlite_engine \<Rightarrow> uuid \<Rightarrow> (sqlite_db, unit) comp" where
  "sqlite_DelActorCfgById E uid = on_actor_cfg (g_Delete (e_cfg E) (Where (\<lambda>r. sc_ID r = uid) q_all))"

text \<open>The columns of \<open>UpdateSelectSpecById\<close>: here a pointer tells an absent factor from zero.\<close>

definition spec_columns :: "change_gas_spec \<Rightarrow> fee_spec \<Rightarrow> fee_spec" where
  "spec_columns spec f =
     (let f = (if cg_GasFeeCap spec \<noteq> None then f\<lparr>f_GasFeeCap := cg_GasFeeCap spec\<rparr> else f);
          f = (if cg_BaseFee spec \<noteq> None then f\<lparr>f_BaseFee := cg_BaseFee spec\<rparr> else f);
          f = (if cg_MaxFee spec \<noteq> None then f\<lparr>f_MaxFee := cg_MaxFee spec\<rparr> else f);
          f = (case cg_GasOverEstimation spec of None \<Rightarrow> f | Some x \<Rightarrow> f\<lparr>f_GasOverEstimation := x\<rparr>)
      in case cg_GasOverPremium spec of None \<Rightarrow> f | Some x \<Rightarrow> f\<lparr>f_GasOverPremium := x\<rparr>)"

definition sqlite_UpdateSelectSpecById ::
  "sqlite_engine \<Rightarrow> time \<Rightarrow> uuid \<Rightarrow> change_gas_spec \<Rightarrow> (sqlite_db, unit) comp" where
  "sqlite_UpdateSelectSpecById E now uid spec =
     (if cg_GasFeeCap spec = None \<and> cg_BaseFee spec = None \<and> cg_MaxFee spec = None \<and>
         cg_GasOverEstimation spec = None \<and> cg_GasOverPremium spec = None then returnC ()
      else on_actor_cfg (dropC (g_UpdateColumns (e_cfg E) (Where (\<lambda>r. sc_ID r = uid) q_all)
        (\<lambda>r. r\<lparr>sc_FeeSpec := spec_columns spec (sc_FeeSpec r), sc_UpdatedAt := now\<rparr>))))"

section \<open>sqliteSharedParamsRepo and sqliteNodeRepo\<close>

definition sqlite_GetSharedParams :: "sqlite_engine \<Rightarrow> sqlite_db \<Rightarrow> shared_spec result" where
  "sqlite_GetSharedParams E db =
     bindE (g_Take (e_sp E) q_all (t_shared_params db)) (\<lambda>ssp. Inr (sqlite_SharedParams ssp))"

definition sqlite_SetSharedParams :: "sqlite_engine \<Rightarrow> shared_spec \<Rightarrow> (sqlite_db, nat) comp" where
  "sqlite_SetSharedParams E params =
     (let params = params\<lparr>sp_ID := 1\<rparr>;
          save = bindC (on_shared_params (g_Save (e_sp E) (sqlite_fromSharedParams params)))
                   (\<lambda>_. returnC (sp_ID params))
      in bindC (queryC (\<lambda>db. Inr (g_Take (e_sp E) (Where (\<lambda>r. sp_row_ID r = 1) q_all) (t_shared_params db))))
        (\<lambda>r. case r of
            Inl err \<Rightarrow> if err = ErrRecordNotFound then save else failC err
          | Inr ssp \<Rightarrow> save))"

definition sqlite_CreateNode :: "sqlite_engine \<Rightarrow> time \<Rightarrow> node \<Rightarrow> (sqlite_db, unit) comp" where
  "sqlite_CreateNode E now nd = on_nodes (g_Create (e_node E) ((sqlite_fromNode nd)\<lparr>sn_CreatedAt := now\<rparr>))"

definition sqlite_SaveNode :: "sqlite_engine \<Rightarrow> time \<Rightarrow> node \<Rightarrow> (sqlite_db, unit) comp" where
  "sqlite_SaveNode E now nd = on_nodes (g_Save (e_node E) ((sqlite_fromNode nd)\<lparr>sn_UpdatedAt := now\<rparr>))"

definition sqlite_live_node :: "string \<Rightarrow> sqliteNode query" where
  "sqlite_live_node name = Where (\<lambda>r. sn_Name r = name \<and> sn_IsDeleted r = NotDeleted) q_all"

definition sqlite_GetNode :: "sqlite_engine \<Rightarrow> string \<Rightarrow> sqlite_db \<Rightarrow> node result" where
  "sqlite_GetNode E name db =
     bindE (g_Take (e_node E) (sqlite_live_node name) (t_nodes db)) (\<lambda>nd. Inr (sqlite_Node nd))"

definition sqlite_HasNode :: "sqlite_engine \<Rightarrow> string \<Rightarrow> sqlite_db \<Rightarrow> bool result" where
  "sqlite_HasNode E name db =
     bindE (g_Count (e_node E) (sqlite_live_node name) (t_nodes db)) (\<lambda>count. Inr (count > 0))"

text \<open>\<open>automapper\<close> copies the fields the two structs share.\<close>

definition sqlite_ListNode :: "sqlite_engine \<Rightarrow> sqlite_db \<Rightarrow> node list result" where
  "sqlite_ListNode E db =
     bindE (g_Find (e_node E) (Where (\<lambda>r. sn_IsDeleted r = NotDeleted) q_all) (t_nodes db))
       (\<lambda>l. Inr (map sqlite_Node l))"

definition sqlite_DelNode :: "sqlite_engine \<Rightarrow> time \<Rightarrow> string \<Rightarrow> (sqlite_db, unit) comp" where
  "sqlite_DelNode E now name =
     bindC (queryC (\<lambda>db. g_Take (e_node E) (sqlite_live_node name) (t_nodes db)))
       (\<lambda>nd. on_nodes (g_Save (e_node E) (nd\<lparr>sn_IsDeleted := Deleted, sn_UpdatedAt := now\<rparr>)))"

end
