(* ===== verification/SqliteContract.thy ===== *)
theory SqliteContract
  imports SqliteRepo
begin

text \<open>
  The SQLite repositories as interface records, and the proof that they meet the contract
  \<open>repo_store\<close> for every engine that obeys the laws of \<open>gorm_table\<close> and every codec
  that obeys those of \<open>text_codec\<close>.
\<close>

section \<open>Assembly (models/sqlite/db.go)\<close>

definition sqlite_message_repo :: "sqlite_engine \<Rightarrow> codec \<Rightarrow> time \<Rightarrow> sqlite_db message_repo" where
  "sqlite_message_repo E C now = \<lparr>
     mr_ExpireMessage = sqlite_ExpireMessage E now,
     mr_BatchSaveMessage = sqlite_BatchSaveMessage E C now,
     mr_CreateMessage = sqlite_CreateMessage E C,
     mr_UpdateMessage = sqlite_UpdateMessage E C now,
     mr_UpdateMessageByState = sqlite_UpdateMessageByState E C now,
     mr_GetMessageByFromAndNonce = sqlite_GetMessageByFromAndNonce E C,
     mr_GetMessageByFromNonceAndState = sqlite_GetMessageByFromNonceAndState E C,
     mr_GetMessageByUid = sqlite_GetMessageByUid E C,
     mr_HasMessageByUid = sqlite_HasMessageByUid E,
     mr_GetMessageState = sqlite_GetMessageState E,
     mr_GetMessageByCid = sqlite_GetMessageByCid E C,
     mr_GetMessageBySignedCid = sqlite_GetMessageBySignedCid E C,
     mr_GetSignedMessageByTime = sqlite_GetSignedMessageByTime E C,
     mr_GetSignedMessageByHeight = sqlite_GetSignedMessageByHeight E C,
     mr_GetSignedMessageFromFailedMsg = sqlite_GetSignedMessageFromFailedMsg E C,
     mr_ListMessage = sqlite_ListMessage E C,
     mr_ListMessageByFromState = sqlite_ListMessageByFromState E C now,
     mr_ListMessageByAddress = sqlite_ListMessageByAddress E C,
     mr_ListFailedMessage = sqlite_ListFailedMessage E C,
     mr_ListBlockedMessage = sqlite_ListBlockedMessage E C now,
     mr_ListUnChainMessageByAddress = sqlite_ListUnChainMessageByAddress E C,
     mr_ListFilledMessageByAddress = sqlite_ListFilledMessageByAddress E C,
     mr_ListChainMessageByHeight = sqlite_ListChainMessageByHeight E C,
     mr_ListUnFilledMessage = sqlite_ListUnFilledMessage E C,
     mr_ListSignedMsgs = sqlite_ListSignedMsgs E C,
     mr_ListFilledMessageBelowNonce = sqlite_ListFilledMessageBelowNonce E C,
     mr_ListMessageByParams = sqlite_ListMessageByParams E C,
     mr_UpdateMessageInfoByCid = sqlite_UpdateMessageInfoByCid E C now,
     mr_UpdateMessageStateByCid = sqlite_UpdateMessageStateByCid E now,
     mr_UpdateMessageStateByID = sqlite_UpdateMessageStateByID E now,
     mr_MarkBadMessage = sqlite_MarkBadMessage E now,
     mr_UpdateErrMsg = sqlite_UpdateErrMsg E now\<rparr>"

definition sqlite_address_repo :: "sqlite_engine \<Rightarrow> codec \<Rightarrow> time \<Rightarrow> sqlite_db address_repo" where
  "sqlite_address_repo E C now = \<lparr>
     ar_SaveAddress = sqlite_SaveAddress E C,
     ar_GetAddress = sqlite_GetAddress E C,
     ar_GetAddressByID = sqlite_GetAddressByID E C,
     ar_GetOneRecord = sqlite_GetOneRecord E C,
     ar_HasAddress = sqlite_HasAddress E C,
     ar_ListAddress = sqlite_ListAddress E C,
     ar_ListActiveAddress = sqlite_ListActiveAddress E C,
     ar_DelAddress = sqlite_DelAddress E,
     ar_UpdateNonce = sqlite_UpdateNonce E C now,
     ar_UpdateState = sqlite_UpdateState E C now,
     ar_UpdateSelectMsgNum = sqlite_UpdateSelectMsgNum E C now,
     ar_UpdateFeeParams = sqlite_UpdateFeeParams E C now\<rparr>"

definition sqlite_repo :: "sqlite_engine \<Rightarrow> codec \<Rightarrow> time \<Rightarrow> sqlite_db repo" where
  "sqlite_repo E C now = \<lparr>
     MessageRepo = sqlite_message_repo E C now,
     AddressRepo = sqlite_address_repo E C now,
     ActorCfgRepo = \<lparr>cr_SaveActorCfg = sqlite_SaveActorCfg E, cr_HasActorCfg = sqlite_HasActorCfg E,
       cr_GetActorCfgByMethodType = sqlite_GetActorCfgByMethodType E,
       cr_GetActorCfgByID = sqlite_GetActorCfgByID E, cr_ListActorCfg = sqlite_ListActorCfg E,
       cr_DelActorCfgByMethodType = sqlite_DelActorCfgByMethodType E,
       cr_DelActorCfgById = sqlite_DelActorCfgById E,
       cr_UpdateSelectSpecById = sqlite_UpdateSelectSpecById E now\<rparr>,
     SharedParamsRepo = \<lparr>pr_GetSharedParams = sqlite_GetSharedParams E,
       pr_SetSharedParams = sqlite_SetSharedParams E\<rparr>,
     NodeRepo = \<lparr>nr_CreateNode = sqlite_CreateNode E now, nr_SaveNode = sqlite_SaveNode E now,
       nr_GetNode = sqlite_GetNode E, nr_HasNode = sqlite_HasNode E, nr_ListNode = sqlite_ListNode E,
       nr_DelNode = sqlite_DelNode E now\<rparr>,
     Transaction = e_tx E\<rparr>"

lemma sqlite_repo_simps [simp]:
  "MessageRepo (sqlite_repo E C now) = sqlite_message_repo E C now"
  "AddressRepo (sqlite_repo E C now) = sqlite_address_repo E C now"
  "Transaction (sqlite_repo E C now) = e_tx E"
  by (simp_all add: sqlite_repo_def)

lemma sqlite_message_repo_simps [simp]:
  "mr_ExpireMessage (sqlite_message_repo E C now) = sqlite_ExpireMessage E now"
  "mr_BatchSaveMessage (sqlite_message_repo E C now) = sqlite_BatchSaveMessage E C now"
  "mr_CreateMessage (sqlite_message_repo E C now) = sqlite_CreateMessage E C"
  "mr_UpdateMessage (sqlite_message_repo E C now) = sqlite_UpdateMessage E C now"
  "mr_UpdateMessageByState (sqlite_message_repo E C now) = sqlite_UpdateMessageByState E C now"
  "mr_GetMessageByFromAndNonce (sqlite_message_repo E C now) = sqlite_GetMessageByFromAndNonce E C"
  "mr_GetMessageByFromNonceAndState (sqlite_message_repo E C now) = sqlite_GetMessageByFromNonceAndState E C"
  "mr_GetMessageByUid (sqlite_message_repo E C now) = sqlite_GetMessageByUid E C"
  "mr_HasMessageByUid (sqlite_message_repo E C now) = sqlite_HasMessageByUid E"
  "mr_GetMessageState (sqlite_message_repo E C now) = sqlite_GetMessageState E"
  "mr_GetMessageByCid (sqlite_message_repo E C now) = sqlite_GetMessageByCid E C"
  "mr_GetMessageBySignedCid (sqlite_message_repo E C now) = sqlite_GetMessageBySignedCid E C"
  "mr_GetSignedMessageByTime (sqlite_message_repo E C now) = sqlite_GetSignedMessageByTime E C"
  "mr_GetSignedMessageByHeight (sqlite_message_repo E C now) = sqlite_GetSignedMessageByHeight E C"
  "mr_GetSignedMessageFromFailedMsg (sqlite_message_repo E C now) = sqlite_GetSignedMessageFromFailedMsg E C"
  "mr_ListMessage (sqlite_message_repo E C now) = sqlite_ListMessage E C"
  "mr_ListMessageByFromState (sqlite_message_repo E C now) = sqlite_ListMessageByFromState E C now"
  "mr_ListMessageByAddress (sqlite_message_repo E C now) = sqlite_ListMessageByAddress E C"
  "mr_ListFailedMessage (sqlite_message_repo E C now) = sqlite_ListFailedMessage E C"
  "mr_ListBlockedMessage (sqlite_message_repo E C now) = sqlite_ListBlockedMessage E C now"
  "mr_ListUnChainMessageByAddress (sqlite_message_repo E C now) = sqlite_ListUnChainMessageByAddress E C"
  "mr_ListFilledMessageByAddress (sqlite_message_repo E C now) = sqlite_ListFilledMessageByAddress E C"
  "mr_ListChainMessageByHeight (sqlite_message_repo E C now) = sqlite_ListChainMessageByHeight E C"
  "mr_ListUnFilledMessage (sqlite_message_repo E C now) = sqlite_ListUnFilledMessage E C"
  "mr_ListSignedMsgs (sqlite_message_repo E C now) = sqlite_ListSignedMsgs E C"
  "mr_ListFilledMessageBelowNonce (sqlite_message_repo E C now) = sqlite_ListFilledMessageBelowNonce E C"
  "mr_ListMessageByParams (sqlite_message_repo E C now) = sqlite_ListMessageByParams E C"
  "mr_UpdateMessageInfoByCid (sqlite_message_repo E C now) = sqlite_UpdateMessageInfoByCid E C now"
  "mr_UpdateMessageStateByCid (sqlite_message_repo E C now) = sqlite_UpdateMessageStateByCid E now"
  "mr_UpdateMessageStateByID (sqlite_message_repo E C now) = sqlite_UpdateMessageStateByID E now"
  "mr_MarkBadMessage (sqlite_message_repo E C now) = sqlite_MarkBadMessage E now"
  "mr_UpdateErrMsg (sqlite_message_repo E C now) = sqlite_UpdateErrMsg E now"
  by (simp_all add: sqlite_message_repo_def)

lemma sqlite_address_repo_simps [simp]:
  "ar_SaveAddress (sqlite_address_repo E C now) = sqlite_SaveAddress E C"
  "ar_GetAddress (sqlite_address_repo E C now) = sqlite_GetAddress E C"
  "ar_GetAddressByID (sqlite_address_repo E C now) = sqlite_GetAddressByID E C"
  "ar_GetOneRecord (sqlite_address_repo E C now) = sqlite_GetOneRecord E C"
  "ar_HasAddress (sqlite_address_repo E C now) = sqlite_HasAddress E C"
  "ar_ListAddress (sqlite_address_repo E C now) = sqlite_ListAddress E C"
  "ar_ListActiveAddress (sqlite_address_repo E C now) = sqlite_ListActiveAddress E C"
  "ar_DelAddress (sqlite_address_repo E C now) = sqlite_DelAddress E"
  "ar_UpdateNonce (sqlite_address_repo E C now) = sqlite_UpdateNonce E C now"
  "ar_UpdateState (sqlite_address_repo E C now) = sqlite_UpdateState E C now"
  "ar_UpdateSelectMsgNum (sqlite_address_repo E C now) = sqlite_UpdateSelectMsgNum E C now"
  "ar_UpdateFeeParams (sqlite_address_repo E C now) = sqlite_UpdateFeeParams E C now"
  by (simp_all add: sqlite_address_repo_def)

section \<open>The view of the tables\<close>

text \<open>What the engine keeps of a written row.\<close>

definition sm_stored :: "sqliteMessage \<Rightarrow> sqliteMessage \<Rightarrow> bool" where
  "sm_stored r r' \<longleftrightarrow> (\<exists>rc mt t u.
     r' = r\<lparr>sm_Value := SafeFromGo (sm_Value r), sm_GasFeeCap := SafeFromGo (sm_GasFeeCap r),
            sm_GasPremium := SafeFromGo (sm_GasPremium r), sm_Receipt := rc, sm_Meta := mt,
            sm_CreatedAt := t, sm_UpdatedAt := u\<rparr>
   \<and> (sm_Receipt r \<noteq> None \<longrightarrow> rc = sm_Receipt r)
   \<and> (\<forall>mm. sm_Meta r = Some mm \<longrightarrow> (\<exists>mm'. mt = Some mm' \<and> mm_ExpireEpoch mm' = mm_ExpireEpoch mm
         \<and> mm_MaxFee mm' = SafeFromGo (mm_MaxFee mm))))"

definition sa_stored :: "sqliteAddress \<Rightarrow> sqliteAddress \<Rightarrow> bool" where
  "sa_stored r r' \<longleftrightarrow> (\<exists>t u. r' = r\<lparr>sa_FeeSpec := safe_fees (sa_FeeSpec r), sa_CreatedAt := t, sa_UpdatedAt := u\<rparr>)"

definition msg_row_ok :: "codec \<Rightarrow> sqliteMessage \<Rightarrow> bool" where
  "msg_row_ok C r \<longleftrightarrow> sm_From r \<in> range (ad_str C) \<and> sm_GasFeeCap r \<noteq> None
     \<and> (sm_UnsignedCid r = '''' \<or> sm_UnsignedCid r \<in> range (cid_str C))"

definition addr_row_ok :: "codec \<Rightarrow> sqliteAddress \<Rightarrow> bool" where
  "addr_row_ok C r \<longleftrightarrow> sa_Addr r \<in> range (ad_str C)"

definition sqlite_inv :: "codec \<Rightarrow> sqlite_db \<Rightarrow> bool" where
  "sqlite_inv C db \<longleftrightarrow> distinct (map sm_ID (t_messages db)) \<and> (\<forall>r \<in> set (t_messages db). msg_row_ok C r)
     \<and> distinct (map sa_ID (t_addresses db)) \<and> distinct (map sa_Addr (t_addresses db))
     \<and> (\<forall>r \<in> set (t_addresses db). addr_row_ok C r)"

definition msg_of :: "codec \<Rightarrow> sqliteMessage \<Rightarrow> message" where
  "msg_of C r = projr (sqlite_Message C r)"

definition addr_of :: "codec \<Rightarrow> sqliteAddress \<Rightarrow> address_info" where
  "addr_of C r = projr (sqlite_Address C r)"

definition sqlite_msgs :: "codec \<Rightarrow> sqlite_db \<Rightarrow> message list" where
  "sqlite_msgs C db = map (msg_of C) (t_messages db)"

definition sqlite_addrs :: "codec \<Rightarrow> sqlite_db \<Rightarrow> address_info list" where
  "sqlite_addrs C db = map (addr_of C) (t_addresses db)"

lemma sqlite_Message_total: "msg_row_ok C r \<Longrightarrow> sqlite_Message C r = Inr (msg_of C r)"
  by (auto simp: msg_row_ok_def msg_of_def sqlite_Message_def NewFromGo_def)

lemma msg_of_simps [simp]:
  assumes "msg_row_ok C r"
  shows "m_ID (msg_of C r) = sm_ID r" "m_Nonce (msg_of C r) = sm_Nonce r" "m_State (msg_of C r) = sm_State r"
    "m_From (msg_of C r) = addr_or_undef (ad_parse C (sm_From r))" "m_Height (msg_of C r) = sm_Height r"
    "m_Signature (msg_of C r) = sm_Signature r" "m_UpdatedAt (msg_of C r) = sm_UpdatedAt r"
    "m_UnsignedCid (msg_of C r) = (if sm_UnsignedCid r \<noteq> '''' then Some (cid_or_undef (cid_dec C (sm_UnsignedCid r))) else None)"
    "m_SignedCid (msg_of C r) = (if sm_SignedCid r \<noteq> '''' then Some (cid_or_undef (cid_dec C (sm_SignedCid r))) else None)"
    "m_TipSetKey (msg_of C r) = (if sm_TipsetKey r \<noteq> '''' then key_or_empty (StringToTipsetKey (cid_dec C) (sm_TipsetKey r)) else [])"
    "m_Receipt (msg_of C r) = MsgReceipt (sm_Receipt r)" "m_Meta (msg_of C r) = Some (Meta (sm_Meta r))"
    "m_WalletName (msg_of C r) = sm_WalletName r" "m_ErrorMsg (msg_of C r) = sm_ErrorMsg r"
    "m_CreatedAt (msg_of C r) = sm_CreatedAt r"
    "m_Message (msg_of C r) = \<lparr>c_Version = sm_Version r, c_To = addr_or_undef (ad_parse C (sm_To r)),
       c_From = addr_or_undef (ad_parse C (sm_From r)), c_Nonce = sm_Nonce r, c_Value = SafeFromGo (sm_Value r),
       c_GasLimit = sm_GasLimit r, c_GasFeeCap = SafeFromGo (sm_GasFeeCap r),
       c_GasPremium = SafeFromGo (sm_GasPremium r), c_Method = sm_Method r, c_Params = sm_Params r\<rparr>"
  using assms by (auto simp: msg_row_ok_def msg_of_def sqlite_Message_def NewFromGo_def)

context text_codec
begin

lemma row_From_iff: "msg_row_ok C r \<Longrightarrow> m_From (msg_of C r) = a \<longleftrightarrow> sm_From r = ad_str C a"
  by (auto simp: msg_row_ok_def)

lemma row_From_str: "msg_row_ok C r \<Longrightarrow> ad_str C (addr_or_undef (ad_parse C (sm_From r))) = sm_From r"
  by (auto simp: msg_row_ok_def)

lemma row_Cid_iff: "msg_row_ok C r \<Longrightarrow> m_UnsignedCid (msg_of C r) = Some c \<longleftrightarrow> sm_UnsignedCid r = cid_str C c"
  by (auto simp: msg_row_ok_def cid_roundtrip cid_nonempty cid_nonempty [THEN not_sym])

lemma addr_of_simps [simp]:
  assumes "addr_row_ok C r"
  shows "sqlite_Address C r = Inr (addr_of C r)" "a_ID (addr_of C r) = sa_ID r"
    "a_State (addr_of C r) = sa_State r" "a_IsDeleted (addr_of C r) = sa_IsDeleted r"
    "a_Addr (addr_of C r) = a \<longleftrightarrow> sa_Addr r = ad_str C a"
  using assms by (auto simp: addr_row_ok_def addr_of_def sqlite_Address_def ad_roundtrip)

lemma from_row_ok: "msg_row_ok C (sqlite_fromMessage C m)"
  by (auto simp: msg_row_ok_def sqlite_fromMessage_def Let_def split: option.splits)

lemma stored_row_ok: "sm_stored r r' \<Longrightarrow> msg_row_ok C r \<Longrightarrow> msg_row_ok C r'"
  by (auto simp: sm_stored_def msg_row_ok_def)

lemma stored_row:
  assumes "sm_stored ((sqlite_fromMessage C m)\<lparr>sm_UpdatedAt := t\<rparr>) r'"
  shows "stored_as m (msg_of C r')"
proof -
  obtain rc mt t1 u where r': "r' = (sqlite_fromMessage C m)\<lparr>sm_Receipt := rc, sm_Meta := mt, sm_CreatedAt := t1, sm_UpdatedAt := u\<rparr>"
    and rc: "m_Receipt m \<noteq> None \<longrightarrow> rc = FromMsgReceipt (m_Receipt m)"
    and mt: "\<exists>mm'. mt = Some mm' \<and> mm_ExpireEpoch mm' = mm_ExpireEpoch (FromMeta (m_Meta m))
               \<and> mm_MaxFee mm' = SafeFromGo (mm_MaxFee (FromMeta (m_Meta m)))"
    using assms by (auto simp: sm_stored_def sqlite_fromMessage_def Let_def)
  have ok: "msg_row_ok C r'" using from_row_ok [of m] by (simp add: r' msg_row_ok_def)
  have key: "CidUndef \<notin> set (m_TipSetKey m) \<Longrightarrow> m_TipSetKey (msg_of C r') = m_TipSetKey m"
    using key_or_empty_str [of "m_TipSetKey m"] key_nonempty
    by (simp add: ok) (simp add: r' sqlite_fromMessage_def Let_def)
  have cids: "m_UnsignedCid (msg_of C r') = m_UnsignedCid m" "m_SignedCid (msg_of C r') = m_SignedCid m"
    by (simp_all add: ok)
      (simp_all add: r' sqlite_fromMessage_def Let_def cid_roundtrip cid_nonempty split: option.split)
  have meta: "\<exists>s'. m_Meta (msg_of C r') = Some s' \<and> ss_ExpireEpoch s' = ss_ExpireEpoch (norm_spec (m_Meta m))
      \<and> ss_MaxFee s' = ss_MaxFee (norm_spec (m_Meta m))"
    using mt by (simp add: ok) (auto simp: r' Meta_def norm_spec_def)
  have msg: "m_Message (msg_of C r') = norm_chain (m_Message m)"
    by (simp add: ok) (simp add: r' sqlite_fromMessage_def Let_def norm_chain_def)
  have rcp: "m_Receipt m \<noteq> None \<longrightarrow> m_Receipt (msg_of C r') = m_Receipt m"
    using rc by (simp add: ok) (simp add: r')
  have rest: "m_ID (msg_of C r') = m_ID m" "m_Signature (msg_of C r') = m_Signature m"
    "m_Height (msg_of C r') = m_Height m" "m_WalletName (msg_of C r') = m_WalletName m"
    "m_State (msg_of C r') = m_State m" "m_ErrorMsg (msg_of C r') = m_ErrorMsg m"
    by (simp_all add: ok) (simp_all add: r' sqlite_fromMessage_def Let_def)
  show ?thesis
    unfolding stored_as_def by (intro conjI cids msg rcp rest meta impI key)
qed

end

section \<open>The contract\<close>

text \<open>
  An update of a message row by a struct: gorm skips the columns that have the zero value of
  their type.
\<close>

definition sm_merged :: "sqliteMessage \<Rightarrow> sqliteMessage \<Rightarrow> sqliteMessage \<Rightarrow> bool" where
  "sm_merged r x y \<longleftrightarrow> sm_ID y = sm_ID x \<and> sm_From y = over '''' (sm_From r) (sm_From x) \<and> sm_To y = over '''' (sm_To r) (sm_To x)
     \<and> sm_Method y = over 0 (sm_Method r) (sm_Method x) \<and> sm_Params y = over None (sm_Params r) (sm_Params x)
     \<and> sm_Value y = over None (sm_Value r) (sm_Value x)
     \<and> sm_Nonce y = over 0 (sm_Nonce r) (sm_Nonce x) \<and> sm_State y = over UnKnown (sm_State r) (sm_State x)
     \<and> sm_GasLimit y = over 0 (sm_GasLimit r) (sm_GasLimit x) \<and> sm_GasFeeCap y = over None (sm_GasFeeCap r) (sm_GasFeeCap x)
     \<and> sm_GasPremium y = over None (sm_GasPremium r) (sm_GasPremium x) \<and> sm_Signature y = over None (sm_Signature r) (sm_Signature x)
     \<and> sm_UnsignedCid y = over '''' (sm_UnsignedCid r) (sm_UnsignedCid x) \<and> sm_SignedCid y = over '''' (sm_SignedCid r) (sm_SignedCid x)"

lemma sm_stored_keys: "sm_stored r r' \<Longrightarrow> sm_ID r' = sm_ID r"
  by (auto simp: sm_stored_def)

text \<open>
  The engine and codec laws the back end rests on: each table is a \<open>gorm_table\<close>, a
  transaction commits what its body did or rolls everything back, and an update by a struct
  merges it into the rows it meets.
\<close>

locale sqlite_backend = text_codec C + m: gorm_table "e_msg E" sm_ID sm_ID sm_stored "(=)"
    + a: gorm_table "e_addr E" sa_ID sa_Addr sa_stored "(=)"
  for C :: codec and E :: sqlite_engine +
  fixes now :: time
  assumes e_commit: "e_tx E body db = (Inr (), db') \<Longrightarrow> body db = (Inr (), db')"
    and e_rollback: "e_tx E body db = (Inl e, db') \<Longrightarrow> db' = db"
    and e_updates: "g_Updates (e_msg E) q r rows = (Inr (), rows') \<Longrightarrow>
      \<exists>h. rows' = upd_where (\<lambda>x. qu_where q x \<and> sm_ID x = sm_ID r) h rows \<and> (\<forall>x. sm_merged r x (h x))"
begin

lemma inv_rows: "sqlite_inv C db \<Longrightarrow> r \<in> set (t_messages db) \<Longrightarrow> msg_row_ok C r"
  by (simp add: sqlite_inv_def)

lemma find_rows:
  assumes "sqlite_inv C db" "sqlite_find_msgs E C q db = Inr l"
  obtains rows where "g_Find (e_msg E) q (t_messages db) = Inr rows" "l = map (msg_of C) rows"
proof -
  obtain rows where rows: "g_Find (e_msg E) q (t_messages db) = Inr rows"
    "traverseE (sqlite_Message C) rows = Inr l"
    using assms(2) by (auto simp: sqlite_find_msgs_def bindE_Inr_iff)
  have "msg_row_ok C r" if "r \<in> set rows" for r
    using m.Find_set [OF rows(1) that] inv_rows [OF assms(1)] by blast
  then have "traverseE (sqlite_Message C) rows = Inr (map (msg_of C) rows)"
    by (intro traverseE_total sqlite_Message_total)
  with rows that show ?thesis by simp
qed

lemma msgs_filter:
  assumes "sqlite_inv C db" "\<And>r. msg_row_ok C r \<Longrightarrow> qu_where q r \<longleftrightarrow> P (msg_of C r)"
  shows "filter P (sqlite_msgs C db) = map (msg_of C) (filter (qu_where q) (t_messages db))"
proof -
  have "filter (P \<circ> msg_of C) (t_messages db) = filter (qu_where q) (t_messages db)"
    using assms inv_rows [OF assms(1)] by (intro filter_cong) auto
  then show ?thesis by (simp add: sqlite_msgs_def filter_map)
qed

lemma find_sub:
  assumes "sqlite_inv C db" "sqlite_find_msgs E C q db = Inr l"
    "\<And>r. msg_row_ok C r \<Longrightarrow> qu_where q r \<longleftrightarrow> P (msg_of C r)"
  shows "mset l \<subseteq># mset (filter P (sqlite_msgs C db))"
proof -
  obtain rows where rows: "g_Find (e_msg E) q (t_messages db) = Inr rows" "l = map (msg_of C) rows"
    using find_rows [OF assms(1,2)] .
  have "filter P (sqlite_msgs C db) = map (msg_of C) (filter (qu_where q) (t_messages db))"
    by (rule msgs_filter [OF assms(1)]) (rule assms(3))
  then show ?thesis using m.Find_sub [OF rows(1)] rows(2)
    by (simp only: mset_map image_mset_subseteq_mono)
qed

lemma find_all:
  assumes "sqlite_inv C db" "sqlite_find_msgs E C q db = Inr l" "qu_limit q = None" "qu_offset q = None"
    "\<And>r. msg_row_ok C r \<Longrightarrow> qu_where q r \<longleftrightarrow> P (msg_of C r)"
  shows "mset l = mset (filter P (sqlite_msgs C db))"
proof -
  obtain rows where rows: "g_Find (e_msg E) q (t_messages db) = Inr rows" "l = map (msg_of C) rows"
    using find_rows [OF assms(1,2)] .
  have "filter P (sqlite_msgs C db) = map (msg_of C) (filter (qu_where q) (t_messages db))"
    by (rule msgs_filter [OF assms(1)]) (rule assms(5))
  then show ?thesis using m.Find_all [OF rows(1) assms(3,4)] rows(2) by (simp only: mset_map)
qed

lemma find_length:
  assumes "sqlite_inv C db" "sqlite_find_msgs E C q db = Inr l" "qu_limit q = Some n" "0 < n"
  shows "int (length l) \<le> n"
  using find_rows [OF assms(1,2)] m.Find_limit assms(3,4) by (metis length_map)

lemma take_row:
  assumes "sqlite_inv C db" "sqlite_take_msg E C q db = Inr msg"
    "\<And>r. msg_row_ok C r \<Longrightarrow> qu_where q r \<longleftrightarrow> P (msg_of C r)"
  shows "msg \<in> set (sqlite_msgs C db) \<and> P msg"
proof -
  obtain r where r: "g_Take (e_msg E) q (t_messages db) = Inr r" "sqlite_Message C r = Inr msg"
    using assms(2) by (auto simp: sqlite_take_msg_def bindE_Inr_iff)
  from m.Take [OF r(1)] inv_rows [OF assms(1)] assms(3) r(2) show ?thesis
    by (auto simp: sqlite_msgs_def sqlite_Message_total)
qed

lemma take_none:
  assumes "sqlite_inv C db" "sqlite_take_msg E C q db = Inl e" "errors_Is_NotFound e"
    "\<And>r. msg_row_ok C r \<Longrightarrow> qu_where q r \<longleftrightarrow> P (msg_of C r)" "msg \<in> set (sqlite_msgs C db)"
  shows "\<not> P msg"
proof -
  have "\<exists>m. sqlite_Message C r = Inr m" if "g_Take (e_msg E) q (t_messages db) = Inr r" for r
    using m.Take [OF that] inv_rows [OF assms(1)] by (auto simp: sqlite_Message_total)
  then have "g_Take (e_msg E) q (t_messages db) = Inl e"
    using assms(2) by (fastforce simp: sqlite_take_msg_def bindE_Inl_iff)
  from m.Take_none [OF this assms(3)] show ?thesis
    using assms(4,5) inv_rows [OF assms(1)] by (auto simp: sqlite_msgs_def)
qed

lemma update_rows:
  assumes "sqlite_inv C db" "sqlite_update_msgs E q f db = (Inr (), db')"
    "\<And>r. msg_row_ok C r \<Longrightarrow> qu_where q r \<longleftrightarrow> P (msg_of C r)"
    "\<And>r. msg_row_ok C r \<Longrightarrow> msg_row_ok C (f r) \<and> sm_ID (f r) = sm_ID r \<and> msg_of C (f r) = F (msg_of C r)"
  shows "sqlite_inv C db' \<and> sqlite_msgs C db' = upd_where P F (sqlite_msgs C db)"
proof -
  obtain n rows where n: "g_UpdateColumns (e_msg E) q f (t_messages db) = (Inr n, rows)"
    and db': "db' = db\<lparr>t_messages := rows\<rparr>"
    using assms(2) by (auto simp: sqlite_update_msgs_def on_messages_def dropC_def split: prod.splits sum.splits)
  from m.Columns [OF n] have rows: "rows = upd_where (qu_where q) f (t_messages db)"
    by (auto simp: upd_where_def)
  have "map sm_ID rows = map sm_ID (t_messages db)"
    unfolding rows using assms(4) inv_rows [OF assms(1)] by (auto simp: upd_where_def)
  moreover have "\<forall>r \<in> set rows. msg_row_ok C r"
    unfolding rows using assms(4) inv_rows [OF assms(1)] by (auto simp: upd_where_def)
  moreover have "map (msg_of C) rows = upd_where P F (map (msg_of C) (t_messages db))"
    unfolding rows using assms(3,4) inv_rows [OF assms(1)] by (intro upd_where_map) auto
  ultimately show ?thesis using assms(1) by (auto simp: db' sqlite_inv_def sqlite_msgs_def)
qed

lemma update_rows_now:
  assumes "sqlite_inv C db" "sqlite_update_msgs E q f db = (Inr (), db')"
    "\<And>r. msg_row_ok C r \<Longrightarrow> qu_where q r \<longleftrightarrow> P (msg_of C r)"
    "\<And>r. msg_row_ok C r \<Longrightarrow> msg_row_ok C (f r) \<and> sm_ID (f r) = sm_ID r \<and> msg_of C (f r) = F now (msg_of C r)"
  shows "sqlite_inv C db' \<and> (\<exists>t. sqlite_msgs C db' = upd_where P (F t) (sqlite_msgs C db))"
  using update_rows [OF assms(1,2,3), of "F now"] assms(4) by blast

lemma update_err: "sqlite_update_msgs E q f db = (Inl e, db') \<Longrightarrow> db' = db"
  by (auto simp: sqlite_update_msgs_def on_messages_def comp_inv dest!: m.Columns_err split: prod.splits)

lemma update_addrs: "sqlite_update_msgs E q f db = (r, db') \<Longrightarrow> sqlite_addrs C db' = sqlite_addrs C db"
  by (auto simp: sqlite_update_msgs_def on_messages_def sqlite_addrs_def split: prod.splits)

lemma msg_of_update:
  "msg_row_ok C r \<Longrightarrow> msg_of C (r\<lparr>sm_State := st, sm_UpdatedAt := now\<rparr>) = (msg_of C r)\<lparr>m_State := st, m_UpdatedAt := now\<rparr>"
  "msg_row_ok C r \<Longrightarrow> msg_of C (r\<lparr>sm_ErrorMsg := txt, sm_UpdatedAt := now\<rparr>) = (msg_of C r)\<lparr>m_ErrorMsg := txt, m_UpdatedAt := now\<rparr>"
  "msg_row_ok C r \<Longrightarrow> CidUndef \<notin> set k \<Longrightarrow>
     msg_of C (r\<lparr>sm_Height := h, sm_Receipt := FromMsgReceipt rcp, sm_State := st, sm_TipsetKey := key_str C k, sm_UpdatedAt := now\<rparr>)
     = (msg_of C r)\<lparr>m_Height := h, m_Receipt := rcp, m_State := st, m_TipSetKey := k, m_UpdatedAt := now\<rparr>"
  by (auto simp: msg_of_def sqlite_Message_def msg_row_ok_def NewFromGo_def key_nonempty key_or_empty_str)

lemma row_ok_update:
  "msg_row_ok C (r\<lparr>sm_State := st, sm_UpdatedAt := t\<rparr>) = msg_row_ok C r"
  "msg_row_ok C (r\<lparr>sm_ErrorMsg := txt, sm_UpdatedAt := t\<rparr>) = msg_row_ok C r"
  "msg_row_ok C (r\<lparr>sm_Height := h, sm_Receipt := rc, sm_State := st, sm_TipsetKey := ks, sm_UpdatedAt := t\<rparr>) = msg_row_ok C r"
  by (simp_all add: msg_row_ok_def)

lemma create_row:
  assumes "sqlite_inv C db" "sqlite_CreateMessage E C msg db = (Inr (), db')"
  shows "sqlite_inv C db' \<and> m_ID msg \<notin> m_ID ` set (sqlite_msgs C db)
    \<and> (\<exists>m'. stored_as msg m' \<and> sqlite_msgs C db' = sqlite_msgs C db @ [m'])"
proof -
  let ?r = "sqlite_fromMessage C msg"
  obtain rows where c: "g_Create (e_msg E) ?r (t_messages db) = (Inr (), rows)" and db': "db' = db\<lparr>t_messages := rows\<rparr>"
    using assms(2) by (auto simp: sqlite_CreateMessage_def on_messages_def split: prod.splits)
  from m.Create [OF c] obtain r' where r': "sm_ID ?r \<notin> sm_ID ` set (t_messages db)" "sm_stored ?r r'"
    "rows = t_messages db @ [r']" by auto
  have "sm_stored (?r\<lparr>sm_UpdatedAt := sm_UpdatedAt ?r\<rparr>) r'" using r'(2) by simp
  then have st: "stored_as msg (msg_of C r')" by (rule stored_row)
  have id: "sm_ID ?r = m_ID msg" by (simp add: sqlite_fromMessage_def Let_def)
  have ids: "m_ID ` set (sqlite_msgs C db) = sm_ID ` set (t_messages db)"
    using inv_rows [OF assms(1)] by (force simp: sqlite_msgs_def)
  show ?thesis
    using assms(1) r' st id ids sm_stored_keys [OF r'(2)] stored_row_ok [OF r'(2) from_row_ok]
    by (auto simp: db' sqlite_inv_def sqlite_msgs_def)
qed

lemma save_row:
  assumes "sqlite_inv C db" "sqlite_UpdateMessage E C now msg db = (Inr (), db')"
  shows "sqlite_inv C db' \<and> (\<exists>m'. stored_as msg m' \<and> sqlite_msgs C db' = upsert m_ID m' (sqlite_msgs C db))"
proof -
  let ?r = "(sqlite_fromMessage C msg)\<lparr>sm_UpdatedAt := now\<rparr>"
  obtain rows where c: "g_Save (e_msg E) ?r (t_messages db) = (Inr (), rows)" and db': "db' = db\<lparr>t_messages := rows\<rparr>"
    using assms(2) by (auto simp: sqlite_UpdateMessage_def on_messages_def split: prod.splits)
  from m.Save [OF c] obtain r' where r': "sm_stored ?r r'" "rows = upsert sm_ID r' (t_messages db)" by auto
  have ok: "msg_row_ok C r'"
    by (rule stored_row_ok [OF r'(1)]) (use from_row_ok [of msg] in \<open>simp add: msg_row_ok_def\<close>)
  have pks: "m_ID (msg_of C x) = sm_ID x" if "x \<in> set (r' # t_messages db)" for x
    using that ok inv_rows [OF assms(1)] by auto
  have "map (msg_of C) rows = upsert m_ID (msg_of C r') (map (msg_of C) (t_messages db))"
    unfolding r'(2) by (rule upsert_map_on) (use pks in auto)
  moreover have "\<forall>r \<in> set rows. msg_row_ok C r"
    unfolding r'(2) using ok inv_rows [OF assms(1)] by (auto dest: set_upsert)
  moreover have "distinct (map sm_ID rows)" unfolding r'(2)
    using assms(1) by (intro upsert_pks) (simp add: sqlite_inv_def)
  ultimately show ?thesis
    using assms(1) stored_row [OF r'(1)] by (auto simp: db' sqlite_inv_def sqlite_msgs_def)
qed

lemma params_where:
  assumes "msg_row_ok C r"
  shows "qu_where (sqlite_parseQueryParams C q q_all) r \<longleftrightarrow> params_match q (msg_of C r)"
proof -
  have "sm_From r \<in> ad_str C ` set (q_From q) \<longleftrightarrow> m_From (msg_of C r) \<in> set (q_From q)"
    using row_From_iff [OF assms] by (metis ad_inj image_iff)
  then show ?thesis
    using assms by (auto simp: sqlite_parseQueryParams_def params_match_def Let_def split: option.splits)
qed

lemma blocked_where:
  assumes "msg_row_ok C r"
  shows "qu_where (Where (\<lambda>r. sm_CreatedAt r < t) (Order sm_CreatedAt (sqlite_parseQueryParams C q q_all))) r
    \<longleftrightarrow> params_match q (msg_of C r) \<and> m_CreatedAt (msg_of C r) < t"
  using assms params_where [OF assms, of q] by (auto simp: Where_def Order_def)

lemma params_no_limit:
  "q_Limit q = 0 \<Longrightarrow> q_Offset q = 0 \<Longrightarrow> qu_limit (sqlite_parseQueryParams C q q_all) = None
     \<and> qu_offset (sqlite_parseQueryParams C q q_all) = None"
  by (auto simp: sqlite_parseQueryParams_def Let_def split: option.splits)

lemma merged_row:
  assumes "sm_merged ((sqlite_fromMessage C msg)\<lparr>sm_UpdatedAt := t\<rparr>) x y" and x: "msg_row_ok C x"
  shows "msg_row_ok C y" and "merged msg (msg_of C x) (msg_of C y)"
proof -
  have c: "sm_ID y = sm_ID x" "sm_From y = sm_From x \<or> sm_From y = ad_str C (m_From msg)"
    "sm_Nonce y = over 0 (m_Nonce msg) (sm_Nonce x)" "sm_State y = over UnKnown (m_State msg) (sm_State x)"
    "sm_GasLimit y = over 0 (m_GasLimit msg) (sm_GasLimit x)"
    "sm_GasFeeCap y = SafeFromGo (m_GasFeeCap msg)" "sm_GasPremium y = SafeFromGo (m_GasPremium msg)"
    "sm_Signature y = over None (m_Signature msg) (sm_Signature x)" "sm_To y = sm_To x \<or> sm_To y = ad_str C (m_To msg)"
    "sm_Method y = over 0 (m_Method msg) (sm_Method x)" "sm_Params y = over None (c_Params (m_Message msg)) (sm_Params x)"
    "sm_Value y = SafeFromGo (c_Value (m_Message msg))"
    using assms(1) by (auto simp: sm_merged_def over_def sqlite_fromMessage_def Let_def)
  have u: "sm_UnsignedCid y = (case m_UnsignedCid msg of None \<Rightarrow> sm_UnsignedCid x | Some u \<Rightarrow> cid_str C u)"
    "sm_SignedCid y = (case m_SignedCid msg of None \<Rightarrow> sm_SignedCid x | Some u \<Rightarrow> cid_str C u)"
    using assms(1) cid_nonempty by (auto simp: sm_merged_def over_def sqlite_fromMessage_def Let_def split: option.splits)
  show ok: "msg_row_ok C y" using x c(2,6) u(1) by (auto simp: msg_row_ok_def split: option.splits)
  have cids: "m_UnsignedCid (msg_of C y) = over None (m_UnsignedCid msg) (m_UnsignedCid (msg_of C x))"
    "m_SignedCid (msg_of C y) = over None (m_SignedCid msg) (m_SignedCid (msg_of C x))"
    using x ok u cid_nonempty by (auto simp: cid_roundtrip over_def split: option.splits)
  have frm: "m_From (msg_of C y) = m_From msg \<or> m_From (msg_of C y) = m_From (msg_of C x)"
    "m_To (msg_of C y) = m_To msg \<or> m_To (msg_of C y) = m_To (msg_of C x)"
    using c(2,9) x ok by auto
  show "merged msg (msg_of C x) (msg_of C y)"
    unfolding merged_def by (intro conjI frm cids) (use x ok c in simp_all)
qed

lemma merge_row:
  assumes inv: "sqlite_inv C db" and run: "sqlite_UpdateMessageByState E C now msg st db = (Inr (), db')"
  shows "sqlite_inv C db' \<and> (\<exists>h. sqlite_msgs C db' = upd_where (\<lambda>x. m_ID x = m_ID msg \<and> m_State x = st) h (sqlite_msgs C db)
    \<and> (\<forall>x \<in> set (sqlite_msgs C db). m_ID x = m_ID msg \<longrightarrow> m_State x = st \<longrightarrow> merged msg x (h x)))"
proof -
  let ?r = "(sqlite_fromMessage C msg)\<lparr>sm_UpdatedAt := now\<rparr>"
  obtain rows where up: "g_Updates (e_msg E) (Where (\<lambda>r. sm_State r = st) q_all) ?r (t_messages db) = (Inr (), rows)"
    and db': "db' = db\<lparr>t_messages := rows\<rparr>"
    using run by (auto simp: sqlite_UpdateMessageByState_def on_messages_def split: prod.splits)
  have rid: "sm_ID ?r = m_ID msg" by (simp add: sqlite_fromMessage_def Let_def)
  obtain h where rows: "rows = upd_where (\<lambda>x. sm_State x = st \<and> sm_ID x = m_ID msg) h (t_messages db)"
    and h: "\<And>x. sm_merged ?r x (h x)" using e_updates [OF up] by (auto simp: rid)
  note ok = inv_rows [OF inv]
  have keep: "map sm_ID rows = map sm_ID (t_messages db)"
    unfolding rows by (rule upd_where_pks) (use h in \<open>simp add: sm_merged_def\<close>)
  have "msg_row_ok C r" if "r \<in> set rows" for r
    using that merged_row(1) [OF h] ok unfolding rows set_upd_where by auto
  then have inv': "sqlite_inv C db'" using inv keep by (simp add: sqlite_inv_def db')
  let ?row = "\<lambda>m. SOME x. x \<in> set (t_messages db) \<and> msg_of C x = m"
  let ?h = "\<lambda>m. msg_of C (h (?row m))"
  have inj: "x = y" if "x \<in> set (t_messages db)" "y \<in> set (t_messages db)" "msg_of C x = msg_of C y" for x y
  proof -
    have "sm_ID x = sm_ID y" using that ok msg_of_simps(1) by metis
    then show ?thesis using inv that by (auto simp: sqlite_inv_def distinct_map inj_on_def)
  qed
  have row_eq: "?row (msg_of C x) = x" if "x \<in> set (t_messages db)" for x
    by (rule some_equality) (use that inj in blast)+
  have view: "sqlite_msgs C db' = upd_where (\<lambda>m. m_ID m = m_ID msg \<and> m_State m = st) ?h (sqlite_msgs C db)"
    unfolding sqlite_msgs_def db' by (simp, unfold rows, rule upd_where_map) (use ok row_eq in auto)
  have "merged msg m (?h m)" if "m \<in> set (sqlite_msgs C db)" for m
    using that merged_row(2) [OF h] ok row_eq by (auto simp: sqlite_msgs_def)
  then show ?thesis using inv' view by blast
qed

lemma stmt_frame:
  "on_messages f db = (r, db') \<Longrightarrow> sqlite_addrs C db' = sqlite_addrs C db"
  "on_addresses h db = (r', db') \<Longrightarrow> sqlite_msgs C db' = sqlite_msgs C db"
  by (auto simp: on_messages_def on_addresses_def sqlite_addrs_def sqlite_msgs_def split: prod.splits)

end

sublocale sqlite_backend \<subseteq> message_store "sqlite_message_repo E C now" "sqlite_inv C" "sqlite_msgs C" "cid_str C"
proof (unfold_locales, goal_cases)
  case (1 db)
  then have "map m_ID (sqlite_msgs C db) = map sm_ID (t_messages db)"
    using inv_rows by (auto simp: sqlite_msgs_def)
  with 1 show ?case by (simp add: sqlite_inv_def)
next
  case (2 db m db')
  then show ?case using create_row by simp
next
  case (3 m db e db')
  then show ?case
    by (auto simp: sqlite_CreateMessage_def on_messages_def dest!: m.Create_err split: prod.splits)
next
  case (4 db m db')
  then show ?case using save_row by simp
next
  case (5 m db e db')
  then show ?case
    by (auto simp: sqlite_UpdateMessage_def on_messages_def dest!: m.Save_err split: prod.splits)
next
  case (6 ms db)
  then show ?case by (simp add: sqlite_BatchSaveMessage_def)
next
  case (7 db h k c rcp st db')
  have h: "uint (to_uint64 h) = h" using 7(2,3) by (intro uint_to_uint64) auto
  obtain x where x: "FromMsgReceipt (Some rcp) = Some x" by (simp add: FromMsgReceipt_def)
  from 7(5) have run: "sqlite_update_msgs E (Where (\<lambda>r. sm_UnsignedCid r = cid_str C c) q_all)
     (\<lambda>r. r\<lparr>sm_Height := h, sm_Receipt := FromMsgReceipt (Some rcp), sm_State := st,
            sm_TipsetKey := key_str C k, sm_UpdatedAt := now\<rparr>) db = (Inr (), db')"
    by (simp add: sqlite_UpdateMessageInfoByCid_def h x)
  show ?case
    by (rule update_rows_now [OF 7(1) run])
      (use 7(4) in \<open>auto simp: row_ok_update msg_of_update row_Cid_iff simp del: msg_of_simps\<close>)
next
  case (8 cs rcpo h st k db e db')
  then show ?case
    by (auto simp: sqlite_UpdateMessageInfoByCid_def comp_inv dest: update_err split: option.splits)
next
  case (9 db i st db')
  then have run: "sqlite_update_msgs E (Where (\<lambda>r. sm_ID r = i) q_all) (\<lambda>r. r\<lparr>sm_State := st, sm_UpdatedAt := now\<rparr>) db = (Inr (), db')"
    by (simp add: sqlite_UpdateMessageStateByID_def)
  show ?case by (rule update_rows_now [OF 9(1) run]) (auto simp: row_ok_update msg_of_update)
next
  case (10 i st db e db')
  then show ?case by (auto simp: sqlite_UpdateMessageStateByID_def dest: update_err)
next
  case (11 db i db')
  then have run: "sqlite_update_msgs E (Where (\<lambda>r. sm_ID r = i) q_all) (\<lambda>r. r\<lparr>sm_State := FailedMsg, sm_UpdatedAt := now\<rparr>) db = (Inr (), db')"
    by (simp add: sqlite_MarkBadMessage_def)
  show ?case by (rule update_rows_now [OF 11(1) run]) (auto simp: row_ok_update msg_of_update)
next
  case (12 i db e db')
  then show ?case by (auto simp: sqlite_MarkBadMessage_def dest: update_err)
next
  case (13 db i w db')
  then have run: "sqlite_update_msgs E (Where (\<lambda>r. sm_ID r = i) q_all) (\<lambda>r. r\<lparr>sm_ErrorMsg := w, sm_UpdatedAt := now\<rparr>) db = (Inr (), db')"
    by (simp add: sqlite_UpdateErrMsg_def)
  show ?case by (rule update_rows_now [OF 13(1) run]) (auto simp: row_ok_update msg_of_update)
next
  case (14 i w db e db')
  then show ?case by (auto simp: sqlite_UpdateErrMsg_def dest: update_err)
next
  case (15 db a l)
  show ?case
    by (rule find_all [OF 15(1)], use 15(2) in \<open>simp add: sqlite_ListFilledMessageByAddress_def\<close>)
      (auto simp: row_From_str)
next
  case (16 db a l)
  show ?case
    by (rule find_all [OF 16(1)], use 16(2) in \<open>simp add: sqlite_ListUnFilledMessage_def\<close>)
      (auto simp: row_From_str)
next
  case (17 db a topN l)
  then have run: "sqlite_find_msgs E C (Where (\<lambda>r. sm_From r = ad_str C a \<and> sm_State r = UnFillMsg)
       (Order (\<lambda>r. - sm_CreatedAt r) (Limit topN q_all))) db = Inr l"
    by (simp add: sqlite_ListUnChainMessageByAddress_def)
  show ?case
    by (rule conjI, rule find_sub [OF 17(1) run]) (use find_length [OF 17(1) run, of topN] in \<open>auto simp: row_From_str\<close>)
next
  case (18 db h l)
  show ?case
    by (rule find_all [OF 18(1)], use 18(2) in \<open>simp add: sqlite_ListChainMessageByHeight_def\<close>) auto
next
  case (19 db a l)
  show ?case
    by (rule find_all [OF 19(1)], use 19(2) in \<open>simp add: sqlite_GetSignedMessageFromFailedMsg_def\<close>)
      (auto simp: row_From_str)
next
  case (20 db q l)
  then have run: "sqlite_find_msgs E C (sqlite_parseQueryParams C q q_all) db = Inr l"
    by (simp add: sqlite_ListMessageByParams_def)
  have "mset l \<subseteq># mset (filter (params_match q) (sqlite_msgs C db))"
    by (rule find_sub [OF 20(1) run params_where])
  moreover have "mset l = mset (filter (params_match q) (sqlite_msgs C db))" if "q_Limit q = 0" "q_Offset q = 0"
    by (rule find_all [OF 20(1) run _ _ params_where]) (use params_no_limit [OF that] in auto)
  ultimately show ?case by blast
next
  case (21 db i m)
  show ?case
    by (rule take_row [OF 21(1)], use 21(2) in \<open>simp add: sqlite_GetMessageByUid_def\<close>) auto
next
  case (22 db a n st m)
  show ?case
    by (rule take_row [OF 22(1)], use 22(2) in \<open>simp add: sqlite_GetMessageByFromNonceAndState_def\<close>)
      (auto simp: row_From_str)
next
  case (23 db a n st e m)
  show ?case
    by (rule take_none [OF 23(1) _ 23(3) _ 23(4)],
        use 23(2) in \<open>simp add: sqlite_GetMessageByFromNonceAndState_def\<close>)
      (auto simp: row_From_str)
next
  case (24 db c m)
  show ?case
    by (rule take_row [OF 24(1)], use 24(2) in \<open>simp add: sqlite_GetMessageByCid_def\<close>)
      (simp add: row_Cid_iff del: msg_of_simps)
next
  case (25 db m st db')
  then show ?case using merge_row by simp
next
  case (26 m st db e db')
  then show ?case
    by (auto simp: sqlite_UpdateMessageByState_def on_messages_def dest!: m.Updates_err split: prod.splits)
next
  case (27 db a l)
  show ?case
    by (rule find_all [OF 27(1)], use 27(2) in \<open>simp add: sqlite_ListMessageByAddress_def\<close>) (auto simp: row_From_str)
next
  case (28 db q d l m)
  let ?q = "q\<lparr>q_State := [FillMsg, UnFillMsg]\<rparr>" and ?P = "\<lambda>m. params_match (q\<lparr>q_State := [FillMsg, UnFillMsg]\<rparr>) m \<and> m_CreatedAt m < now - d"
  from 28(2) have run: "sqlite_find_msgs E C (Where (\<lambda>r. sm_CreatedAt r < now - d) (Order sm_CreatedAt (sqlite_parseQueryParams C ?q q_all))) db = Inr l"
    by (simp add: sqlite_ListBlockedMessage_def Let_def)
  have "mset l \<subseteq># mset (filter ?P (sqlite_msgs C db))"
    by (rule find_sub [OF 28(1) run blocked_where])
  from set_mset_mono [OF this] have "set l \<subseteq> set (filter ?P (sqlite_msgs C db))" by (simp only: set_mset_mset)
  then have "m \<in> set (filter ?P (sqlite_msgs C db))" using 28(3) by (rule subsetD)
  then show ?case by (auto simp: params_match_def)
qed

context sqlite_backend
begin

lemma inv_addr_rows: "sqlite_inv C db \<Longrightarrow> r \<in> set (t_addresses db) \<Longrightarrow> addr_row_ok C r"
  by (simp add: sqlite_inv_def)

lemma addr_or_str: "addr_row_ok C r \<Longrightarrow> ad_str C (a_Addr (addr_of C r)) = sa_Addr r"
  by (auto simp: addr_row_ok_def addr_of_def sqlite_Address_def ad_roundtrip)

lemma addrs_filter:
  assumes "sqlite_inv C db" "\<And>r. addr_row_ok C r \<Longrightarrow> qu_where q r \<longleftrightarrow> P (addr_of C r)"
  shows "filter P (sqlite_addrs C db) = map (addr_of C) (filter (qu_where q) (t_addresses db))"
proof -
  have "filter (P \<circ> addr_of C) (t_addresses db) = filter (qu_where q) (t_addresses db)"
    using assms inv_addr_rows [OF assms(1)] by (intro filter_cong) auto
  then show ?thesis by (simp add: sqlite_addrs_def filter_map)
qed

lemma find_addrs:
  assumes "sqlite_inv C db" "bindE (g_Find (e_addr E) q (t_addresses db)) (traverseE (sqlite_Address C)) = Inr l"
    "qu_limit q = None" "qu_offset q = None" "\<And>r. addr_row_ok C r \<Longrightarrow> qu_where q r \<longleftrightarrow> P (addr_of C r)"
  shows "mset l = mset (filter P (sqlite_addrs C db))"
proof -
  obtain rows where rows: "g_Find (e_addr E) q (t_addresses db) = Inr rows" "traverseE (sqlite_Address C) rows = Inr l"
    using assms(2) by (auto simp: bindE_Inr_iff)
  have "traverseE (sqlite_Address C) rows = Inr (map (addr_of C) rows)"
    using a.Find_set [OF rows(1)] inv_addr_rows [OF assms(1)] by (intro traverseE_total) auto
  then have l: "l = map (addr_of C) rows" using rows(2) by simp
  have "filter P (sqlite_addrs C db) = map (addr_of C) (filter (qu_where q) (t_addresses db))"
    by (rule addrs_filter [OF assms(1)]) (rule assms(5))
  then show ?thesis using a.Find_all [OF rows(1) assms(3,4)] l by (simp only: mset_map)
qed

lemma take_addr:
  assumes "sqlite_inv C db" "sqlite_take_addr E C q db = Inr i"
    "\<And>r. addr_row_ok C r \<Longrightarrow> qu_where q r \<longleftrightarrow> P (addr_of C r)"
  shows "i \<in> set (sqlite_addrs C db) \<and> P i"
proof -
  obtain r where r: "g_Take (e_addr E) q (t_addresses db) = Inr r" "sqlite_Address C r = Inr i"
    using assms(2) by (auto simp: sqlite_take_addr_def bindE_Inr_iff)
  from a.Take [OF r(1)] inv_addr_rows [OF assms(1)] assms(3) r(2) show ?thesis
    by (auto simp: sqlite_addrs_def)
qed

lemma take_addr_none:
  assumes "sqlite_inv C db" "sqlite_take_addr E C q db = Inl e" "errors_Is_NotFound e"
    "\<And>r. addr_row_ok C r \<Longrightarrow> qu_where q r \<longleftrightarrow> P (addr_of C r)" "i \<in> set (sqlite_addrs C db)"
  shows "\<not> P i"
proof -
  have "\<exists>m. sqlite_Address C r = Inr m" if "g_Take (e_addr E) q (t_addresses db) = Inr r" for r
    using a.Take [OF that] inv_addr_rows [OF assms(1)] by auto
  then have "g_Take (e_addr E) q (t_addresses db) = Inl e"
    using assms(2) by (fastforce simp: sqlite_take_addr_def bindE_Inl_iff)
  from a.Take_none [OF this assms(3)] show ?thesis
    using assms(4,5) inv_addr_rows [OF assms(1)] by (auto simp: sqlite_addrs_def)
qed

lemma update_addr_rows:
  assumes "sqlite_inv C db" "on_addresses (g_UpdateColumns (e_addr E) q f) db = (Inr n, db')"
    "\<And>r. addr_row_ok C r \<Longrightarrow> qu_where q r \<longleftrightarrow> P (addr_of C r)"
    "\<And>r. addr_row_ok C r \<Longrightarrow> sa_ID (f r) = sa_ID r \<and> sa_Addr (f r) = sa_Addr r \<and> addr_of C (f r) = F now (addr_of C r)"
  shows "sqlite_inv C db' \<and> (\<exists>t. sqlite_addrs C db' = upd_where P (F t) (sqlite_addrs C db))"
proof -
  obtain rows where n: "g_UpdateColumns (e_addr E) q f (t_addresses db) = (Inr n, rows)"
    and db': "db' = db\<lparr>t_addresses := rows\<rparr>"
    using assms(2) by (auto simp: on_addresses_def split: prod.splits)
  from a.Columns [OF n] have rows: "rows = upd_where (qu_where q) f (t_addresses db)"
    by (auto simp: upd_where_def)
  have "map sa_ID rows = map sa_ID (t_addresses db)" "map sa_Addr rows = map sa_Addr (t_addresses db)"
    unfolding rows using assms(4) inv_addr_rows [OF assms(1)] by (auto simp: upd_where_def)
  moreover have "\<forall>r \<in> set rows. addr_row_ok C r"
    unfolding rows using assms(4) inv_addr_rows [OF assms(1)] by (auto simp: upd_where_def addr_row_ok_def)
  moreover have "map (addr_of C) rows = upd_where P (F now) (map (addr_of C) (t_addresses db))"
    unfolding rows using assms(3,4) inv_addr_rows [OF assms(1)] by (intro upd_where_map) auto
  ultimately show ?thesis using assms(1) by (auto simp: db' sqlite_inv_def sqlite_addrs_def)
qed

lemma save_addr:
  assumes "sqlite_inv C db" "sqlite_SaveAddress E C ai db = (Inr (), db')"
  shows "sqlite_inv C db' \<and> (\<exists>a'. addr_stored_as ai a' \<and> sqlite_addrs C db' = upsert a_ID a' (sqlite_addrs C db))"
proof -
  let ?r = "sqlite_fromAddress C ai"
  obtain rows where c: "g_Save (e_addr E) ?r (t_addresses db) = (Inr (), rows)" and db': "db' = db\<lparr>t_addresses := rows\<rparr>"
    using assms(2) by (auto simp: sqlite_SaveAddress_def on_addresses_def split: prod.splits)
  from a.Save [OF c] obtain r' where uk: "\<forall>x \<in> set (t_addresses db). sa_Addr x = sa_Addr ?r \<longrightarrow> sa_ID x = sa_ID ?r"
    and r': "sa_stored ?r r'" "rows = upsert sa_ID r' (t_addresses db)" by auto
  have keys: "sa_ID r' = sa_ID ?r" "sa_Addr r' = sa_Addr ?r" using r'(1) by (auto simp: sa_stored_def)
  have ok: "addr_row_ok C r'" using r'(1) by (auto simp: sa_stored_def addr_row_ok_def sqlite_fromAddress_def)
  have st: "addr_stored_as ai (addr_of C r')"
    using r'(1) by (auto simp: sa_stored_def addr_stored_as_def addr_of_def sqlite_Address_def
        sqlite_fromAddress_def safe_fees_def ad_roundtrip)
  have "map (addr_of C) rows = upsert a_ID (addr_of C r') (map (addr_of C) (t_addresses db))"
    unfolding r'(2) by (rule upsert_map_on) (use ok inv_addr_rows [OF assms(1)] in auto)
  moreover have "\<forall>r \<in> set rows. addr_row_ok C r"
    unfolding r'(2) using ok inv_addr_rows [OF assms(1)] by (auto dest: set_upsert)
  moreover have "distinct (map sa_ID rows)" unfolding r'(2)
    using assms(1) by (intro upsert_pks) (simp add: sqlite_inv_def)
  moreover have "distinct (map sa_Addr rows)" unfolding r'(2)
    using assms(1) uk keys by (intro upsert_unique) (auto simp: sqlite_inv_def)
  ultimately show ?thesis using assms(1) st by (auto simp: db' sqlite_inv_def sqlite_addrs_def)
qed

lemma live_addrs: "mset (filter P (live (sqlite_addrs C db))) = mset (filter (\<lambda>a. a_IsDeleted a = - 1 \<and> P a) (sqlite_addrs C db))"
  by (simp add: live_def NotDeleted_def)

lemma has_addr:
  assumes "sqlite_inv C db" "sqlite_HasAddress E C a db = Inr b"
  shows "b \<longleftrightarrow> a \<in> a_Addr ` set (live (sqlite_addrs C db))"
proof -
  let ?q = "Where (\<lambda>r. sa_Addr r = ad_str C a \<and> sa_IsDeleted r = - 1) q_all"
  obtain n where n: "g_Count (e_addr E) ?q (t_addresses db) = Inr n" "b = (n > 0)"
    using assms(2) by (auto simp: sqlite_HasAddress_def bindE_Inr_iff)
  have "filter (\<lambda>x. a_Addr x = a \<and> a_IsDeleted x = - 1) (sqlite_addrs C db)
      = map (addr_of C) (filter (qu_where ?q) (t_addresses db))"
    by (rule addrs_filter [OF assms(1)]) auto
  then have len: "n = int (length (filter (\<lambda>x. a_Addr x = a \<and> a_IsDeleted x = - 1) (sqlite_addrs C db)))"
    using a.Count [OF n(1)] by simp
  have "b \<longleftrightarrow> filter (\<lambda>x. a_Addr x = a \<and> a_IsDeleted x = - 1) (sqlite_addrs C db) \<noteq> []"
    unfolding n(2) len by simp
  then show ?thesis by (auto simp: filter_empty_conv live_def NotDeleted_def)
qed

end

sublocale sqlite_backend \<subseteq> address_store "sqlite_address_repo E C now" "sqlite_inv C" "sqlite_addrs C"
proof (unfold_locales, goal_cases)
  case (1 db)
  then have "map a_ID (sqlite_addrs C db) = map sa_ID (t_addresses db)"
    using inv_addr_rows by (auto simp: sqlite_addrs_def)
  with 1 show ?case by (simp add: sqlite_inv_def)
next
  case (2 db)
  have "map (ad_str C) (map a_Addr (sqlite_addrs C db)) = map sa_Addr (t_addresses db)"
    using inv_addr_rows [OF 2] addr_or_str by (auto simp: sqlite_addrs_def)
  with 2 show ?case by (metis distinct_map sqlite_inv_def)
next
  case (3 db ai db')
  then show ?case using save_addr by simp
next
  case (4 ai db e db')
  then show ?case
    by (auto simp: sqlite_SaveAddress_def on_addresses_def dest!: a.Save_err split: prod.splits)
next
  case (5 db a i)
  have "i \<in> set (sqlite_addrs C db) \<and> (a_Addr i = a \<and> a_IsDeleted i = - 1)"
    by (rule take_addr [OF 5(1)], use 5(2) in \<open>simp add: sqlite_GetAddress_def\<close>) auto
  then show ?case by (simp add: live_def NotDeleted_def)
next
  case (6 db a e)
  have "\<not> (a_Addr i = a \<and> a_IsDeleted i = - 1)" if "i \<in> set (sqlite_addrs C db)" for i
    by (rule take_addr_none [OF 6(1) _ 6(3) _ that],
        use 6(2) in \<open>simp add: sqlite_GetAddress_def\<close>) auto
  then show ?case by (auto simp: live_def NotDeleted_def)
next
  case (7 db a b)
  then show ?case using has_addr by simp
next
  case (8 db l)
  have "mset l = mset (filter (\<lambda>a. a_IsDeleted a = - 1) (sqlite_addrs C db))"
    by (rule find_addrs [OF 8(1)], use 8(2) in \<open>simp add: sqlite_ListAddress_def\<close>) auto
  then show ?case by (simp add: live_def NotDeleted_def)
next
  case (9 db l)
  have "mset l = mset (filter (\<lambda>a. a_IsDeleted a = - 1 \<and> a_State a = AddressStateAlive) (sqlite_addrs C db))"
    by (rule find_addrs [OF 9(1)], use 9(2) in \<open>simp add: sqlite_ListActiveAddress_def\<close>) auto
  then show ?case by (simp only: live_addrs)
next
  case (10 db a n k db')
  show ?case
    by (rule update_addr_rows [OF 10(1)], use 10(2) in \<open>simp add: sqlite_UpdateNonce_def\<close>)
      (auto simp: NotDeleted_def addr_of_def sqlite_Address_def addr_row_ok_def ad_roundtrip)
next
  case (11 a n db e db')
  then show ?case
    by (auto simp: sqlite_UpdateNonce_def on_addresses_def dest!: a.Columns_err split: prod.splits)
next
  case (12 db a st db')
  then obtain n where run: "on_addresses (g_UpdateColumns (e_addr E)
     (Where (\<lambda>r. sa_Addr r = ad_str C a \<and> sa_IsDeleted r = - 1) q_all)
     (\<lambda>r. r\<lparr>sa_State := st, sa_UpdatedAt := now\<rparr>)) db = (Inr n, db')"
    by (auto simp: sqlite_UpdateState_def on_addresses_def dropC_def split: prod.splits sum.splits)
  show ?case
    by (rule update_addr_rows [OF 12(1) run])
      (auto simp: NotDeleted_def addr_of_def sqlite_Address_def addr_row_ok_def ad_roundtrip)
next
  case (13 a st db e db')
  then show ?case
    by (auto simp: sqlite_UpdateState_def on_addresses_def comp_inv dest!: a.Columns_err split: prod.splits)
qed

sublocale sqlite_backend \<subseteq> repo_store "sqlite_message_repo E C now" "sqlite_address_repo E C now"
    "sqlite_inv C" "sqlite_msgs C" "cid_str C" "sqlite_addrs C" "e_tx E"
proof (unfold_locales, goal_cases)
  case (4 cs rcp h st k db r db')
  then show ?case
    by (auto simp: sqlite_UpdateMessageInfoByCid_def comp_inv dest: update_addrs
        split: option.splits)
qed (auto simp: sqlite_CreateMessage_def sqlite_UpdateMessage_def
    sqlite_UpdateErrMsg_def sqlite_MarkBadMessage_def sqlite_UpdateMessageStateByID_def sqlite_UpdateMessageByState_def sqlite_SaveAddress_def sqlite_UpdateNonce_def sqlite_UpdateState_def
    dest: stmt_frame update_addrs e_commit e_rollback)

section \<open>An instance\<close>

text \<open>The list engine with these five tables, as an instance of the laws.\<close>

definition sm_norm :: "sqliteMessage \<Rightarrow> sqliteMessage" where
  "sm_norm r = r\<lparr>sm_Value := SafeFromGo (sm_Value r), sm_GasFeeCap := SafeFromGo (sm_GasFeeCap r),
     sm_GasPremium := SafeFromGo (sm_GasPremium r),
     sm_Meta := map_option (\<lambda>mm. mm\<lparr>mm_MaxFee := SafeFromGo (mm_MaxFee mm)\<rparr>) (sm_Meta r)\<rparr>"

definition sm_merge :: "sqliteMessage \<Rightarrow> sqliteMessage \<Rightarrow> sqliteMessage" where
  "sm_merge r x = x\<lparr>sm_Version := over 0 (sm_Version r) (sm_Version x), sm_From := over '''' (sm_From r) (sm_From x),
     sm_Nonce := over 0 (sm_Nonce r) (sm_Nonce x), sm_To := over '''' (sm_To r) (sm_To x),
     sm_Value := over None (sm_Value r) (sm_Value x), sm_GasLimit := over 0 (sm_GasLimit r) (sm_GasLimit x),
     sm_GasFeeCap := over None (sm_GasFeeCap r) (sm_GasFeeCap x), sm_GasPremium := over None (sm_GasPremium r) (sm_GasPremium x),
     sm_Method := over 0 (sm_Method r) (sm_Method x), sm_Params := over None (sm_Params r) (sm_Params x),
     sm_Signature := over None (sm_Signature r) (sm_Signature x), sm_UnsignedCid := over '''' (sm_UnsignedCid r) (sm_UnsignedCid x),
     sm_SignedCid := over '''' (sm_SignedCid r) (sm_SignedCid x), sm_Height := over 0 (sm_Height r) (sm_Height x),
     sm_Receipt := over None (sm_Receipt r) (sm_Receipt x), sm_TipsetKey := over '''' (sm_TipsetKey r) (sm_TipsetKey x),
     sm_Meta := over None (sm_Meta r) (sm_Meta x), sm_WalletName := over '''' (sm_WalletName r) (sm_WalletName x),
     sm_State := over UnKnown (sm_State r) (sm_State x), sm_ErrorMsg := over '''' (sm_ErrorMsg r) (sm_ErrorMsg x),
     sm_IsDeleted := over 0 (sm_IsDeleted r) (sm_IsDeleted x), sm_CreatedAt := over 0 (sm_CreatedAt r) (sm_CreatedAt x),
     sm_UpdatedAt := over 0 (sm_UpdatedAt r) (sm_UpdatedAt x)\<rparr>"

text \<open>The other tables are never updated by a struct.\<close>

definition no_merge :: "'r \<Rightarrow> 'r \<Rightarrow> 'r" where
  "no_merge r x = x"

definition sa_norm :: "sqliteAddress \<Rightarrow> sqliteAddress" where
  "sa_norm r = r\<lparr>sa_FeeSpec := safe_fees (sa_FeeSpec r)\<rparr>"

definition list_engine :: sqlite_engine where
  "list_engine = \<lparr>e_msg = list_gorm sm_norm sm_merge sm_ID sm_ID, e_addr = list_gorm sa_norm no_merge sa_ID sa_Addr,
     e_cfg = list_gorm id no_merge sc_ID (\<lambda>r. (sc_Code r, sc_Method r)), e_sp = list_gorm id no_merge sp_row_ID sp_row_ID,
     e_node = list_gorm id no_merge sn_ID sn_ID,
     e_tx = (\<lambda>body db. case body db of (Inl e, _) \<Rightarrow> (Inl e, db) | (Inr _, db') \<Rightarrow> (Inr (), db'))\<rparr>"

lemma sm_norm_stored: "sm_stored r (sm_norm r)"
  unfolding sm_stored_def sm_norm_def
  by (rule exI [of _ "sm_Receipt r"], rule exI [of _ "sm_Meta (sm_norm r)"],
      rule exI [of _ "sm_CreatedAt r"], rule exI [of _ "sm_UpdatedAt r"]) (simp add: sm_norm_def)

lemma sa_norm_stored: "sa_stored r (sa_norm r)"
  unfolding sa_stored_def sa_norm_def
  by (rule exI [of _ "sa_CreatedAt r"], rule exI [of _ "sa_UpdatedAt r"]) simp

interpretation plain_sqlite: sqlite_backend plain_codec list_engine now for now :: time
proof (intro sqlite_backend.intro sqlite_backend_axioms.intro)
  show "text_codec plain_codec" by unfold_locales
  show "gorm_table (e_msg list_engine) sm_ID sm_ID sm_stored (=)"
    unfolding list_engine_def by simp (rule list_gorm_table, rule sm_norm_stored, simp add: sm_stored_keys, simp add: sm_merge_def)
  show "gorm_table (e_addr list_engine) sa_ID sa_Addr sa_stored (=)"
    unfolding list_engine_def by simp (rule list_gorm_table, rule sa_norm_stored, auto simp: sa_stored_def no_merge_def)
  show "\<exists>h. rows' = upd_where (\<lambda>x. qu_where q x \<and> sm_ID x = sm_ID r) h rows \<and> (\<forall>x. sm_merged r x (h x))"
    if "g_Updates (e_msg list_engine) q r rows = (Inr (), rows')" for q r rows rows'
    by (rule exI [of _ "sm_merge r"]) (use that in \<open>auto simp: list_engine_def list_gorm_def sm_merged_def sm_merge_def\<close>)
qed (auto simp: list_engine_def split: prod.splits sum.splits)

context sqlite_backend
begin

lemma refines: "repo_store (sqlite_message_repo E C now) (sqlite_address_repo E C now)
    (sqlite_inv C) (sqlite_msgs C) (cid_str C) (sqlite_addrs C) (e_tx E)"
  by unfold_locales

lemma create_then_get:
  assumes "sqlite_inv C db" "sqlite_CreateMessage E C msg db = (Inr (), db')"
  shows "case sqlite_GetMessageByUid E C (m_ID msg) db' of
      Inr got \<Rightarrow> stored_as msg got | Inl e \<Rightarrow> \<not> errors_Is_NotFound e"
proof -
  let ?q = "Where (\<lambda>r. sm_ID r = m_ID msg) q_all"
  have q: "qu_where ?q r \<longleftrightarrow> m_ID (msg_of C r) = m_ID msg" if "msg_row_ok C r" for r
    using that by simp
  obtain m' where m': "sqlite_inv C db'" "stored_as msg m'" "sqlite_msgs C db' = sqlite_msgs C db @ [m']"
    using create_row [OF assms] by blast
  then have mem: "m' \<in> set (sqlite_msgs C db')" "m_ID m' = m_ID msg" by (auto simp: stored_as_simps)
  show ?thesis
  proof (cases "sqlite_GetMessageByUid E C (m_ID msg) db'")
    case (Inl e)
    then show ?thesis
      using take_none [OF m'(1) _ _ q mem(1)] mem(2) by (auto simp: sqlite_GetMessageByUid_def)
  next
    case (Inr got)
    then have "mr_GetMessageByUid (sqlite_message_repo E C now) (m_ID msg) db' = Inr got"
      by simp
    from Get_unique [OF m'(1) this mem] m'(2) Inr show ?thesis by simp
  qed
qed

end

section \<open>Shared parameters and nodes\<close>

definition sp_stored :: "sqliteSharedParams \<Rightarrow> sqliteSharedParams \<Rightarrow> bool" where
  "sp_stored r r' \<longleftrightarrow> r' = r\<lparr>sp_row_FeeSpec := safe_fees (sp_row_FeeSpec r)\<rparr>"

definition sn_stored :: "sqliteNode \<Rightarrow> sqliteNode \<Rightarrow> bool" where
  "sn_stored r r' \<longleftrightarrow> (\<exists>t u. r' = r\<lparr>sn_CreatedAt := t, sn_UpdatedAt := u\<rparr>)"

lemma sn_stored_refl: "sn_stored r r"
  unfolding sn_stored_def by (rule exI [of _ "sn_CreatedAt r"], rule exI [of _ "sn_UpdatedAt r"]) simp

lemma SetSharedParams_cases:
  assumes "sqlite_SetSharedParams E params db = (Inr n, db')"
  obtains rows where "n = 1" "db' = db\<lparr>t_shared_params := rows\<rparr>"
    "g_Save (e_sp E) (sqlite_fromSharedParams (params\<lparr>sp_ID := 1\<rparr>)) (t_shared_params db) = (Inr (), rows)"
  using assms
  by (auto simp: sqlite_SetSharedParams_def Let_def on_shared_params_def comp_simps
      split: sum.splits if_splits prod.splits)

lemma upsert_single:
  assumes "set (map pk l) \<subseteq> {pk r}" "distinct (map pk l)"
  shows "upsert pk r l = [r]"
proof (cases l)
  case Nil
  then show ?thesis by (simp add: upsert_def)
next
  case (Cons x xs)
  then have "xs = []" using assms by (cases xs) auto
  with Cons assms show ?thesis by (simp add: upsert_def)
qed

section \<open>Properties\<close>




definition empty_db :: sqlite_db where
  "empty_db = \<lparr>t_messages = [], t_addresses = [], t_actor_cfg = [], t_shared_params = [], t_nodes = []\<rparr>"

definition sample_message :: "string \<Rightarrow> message" where
  "sample_message i = \<lparr>m_ID = i, m_UnsignedCid = None, m_SignedCid = None,
     m_Message = \<lparr>c_Version = 0, c_To = Addr 1 ''to'', c_From = Addr 1 ''from'', c_Nonce = 0, c_Value = Some 1,
       c_GasLimit = 0, c_GasFeeCap = None, c_GasPremium = None, c_Method = 0, c_Params = None\<rparr>,
     m_Signature = None, m_Height = 0, m_Confidence = 0, m_Receipt = None, m_TipSetKey = [],
     m_Meta = None, m_WalletName = ''w'', m_State = UnFillMsg, m_ErrorMsg = '''', m_UpdatedAt = 0, m_CreatedAt = 0\<rparr>"

lemma empty_inv: "sqlite_inv C empty_db"
  by (simp add: sqlite_inv_def empty_db_def)


text \<open>
  C38: the shared parameters are a singleton: whatever identifier the caller passes, a
  successful \<open>SetSharedParams\<close> returns 1 and leaves exactly one row, and reading them
  gives the parameters just set, nil amounts as zero.
\<close>

theorem sqlite_shared_params_singleton:
  assumes "gorm_table (e_sp E) sp_row_ID sp_row_ID sp_stored (=)"
    and "set (map sp_row_ID (t_shared_params db)) \<subseteq> {1}" "distinct (map sp_row_ID (t_shared_params db))"
    and "sqlite_SetSharedParams E params db = (Inr n, db')"
  shows "n = 1 \<and> length (t_shared_params db') = 1
    \<and> (case sqlite_GetSharedParams E db' of
         Inr s \<Rightarrow> s = params\<lparr>sp_ID := 1, sp_FeeSpec := safe_fees (sp_FeeSpec params)\<rparr>
       | Inl e \<Rightarrow> \<not> errors_Is_NotFound e)"
proof -
  let ?r = "sqlite_fromSharedParams (params\<lparr>sp_ID := 1\<rparr>)"
  obtain rows where rows: "n = 1" "db' = db\<lparr>t_shared_params := rows\<rparr>"
    "g_Save (e_sp E) ?r (t_shared_params db) = (Inr (), rows)"
    using SetSharedParams_cases [OF assms(4)] .
  obtain r' where r': "sp_stored ?r r'" "rows = upsert sp_row_ID r' (t_shared_params db)"
    using gorm_table.Save [OF assms(1) rows(3)] by blast
  have "sp_row_ID r' = 1" using r'(1) by (simp add: sp_stored_def sqlite_fromSharedParams_def)
  then have one: "t_shared_params db' = [r']"
    using upsert_single [of sp_row_ID "t_shared_params db" r'] assms(2,3) rows(2) r'(2) by simp
  have val: "sqlite_SharedParams r' = params\<lparr>sp_ID := 1, sp_FeeSpec := safe_fees (sp_FeeSpec params)\<rparr>"
    using r'(1) by (simp add: sp_stored_def sqlite_fromSharedParams_def sqlite_SharedParams_def)
  show ?thesis
    using rows(1) one val gorm_table.Take [OF assms(1), of q_all "[r']"] gorm_table.Take_none [OF assms(1), of q_all "[r']" _ r']
    by (auto simp: sqlite_GetSharedParams_def bindE_Inr_iff bindE_Inl_iff split: sum.split)
qed

definition sample_shared :: shared_spec where
  "sample_shared = \<lparr>sp_ID = 7, sp_SelMsgNum = 20, sp_FeeSpec = \<lparr>f_GasOverEstimation = 0, f_MaxFee = None,
     f_GasFeeCap = Some 5, f_GasOverPremium = 0, f_BaseFee = None\<rparr>\<rparr>"

definition sp_engine :: sqlite_engine where
  "sp_engine = list_engine\<lparr>e_sp := list_gorm (\<lambda>r. r\<lparr>sp_row_FeeSpec := safe_fees (sp_row_FeeSpec r)\<rparr>) no_merge sp_row_ID sp_row_ID\<rparr>"

theorem sqlite_shared_params_singleton_witness:
  "length (t_shared_params (snd (sqlite_SetSharedParams sp_engine sample_shared empty_db))) = 1"
proof -
  have laws: "gorm_table (e_sp sp_engine) sp_row_ID sp_row_ID sp_stored (=)"
    unfolding sp_engine_def by simp (rule list_gorm_table, auto simp: sp_stored_def no_merge_def)
  obtain n db' where run: "sqlite_SetSharedParams sp_engine sample_shared empty_db = (Inr n, db')"
    by (simp add: sqlite_SetSharedParams_def sp_engine_def list_gorm_def Let_def on_shared_params_def
        comp_simps empty_db_def)
  have "set (map sp_row_ID (t_shared_params empty_db)) \<subseteq> {1}" "distinct (map sp_row_ID (t_shared_params empty_db))"
    by (simp_all add: empty_db_def)
  from sqlite_shared_params_singleton [OF laws this run] show ?thesis by (simp add: run)
qed

text \<open>
  Deleting a node is a soft delete of one record: after a successful \<open>DelNode\<close> one
  live node of that name is marked deleted, the table has as many rows as before, and every
  other row is untouched.
\<close>

theorem sqlite_DelNode_soft_delete:
  assumes "gorm_table (e_node E) sn_ID sn_ID sn_stored (=)" and "distinct (map sn_ID (t_nodes db))"
    and "sqlite_DelNode E now name db = (Inr (), db')"
  shows "\<exists>nd \<in> set (t_nodes db). sn_Name nd = name \<and> sn_IsDeleted nd = NotDeleted
    \<and> (\<exists>nd'. sn_ID nd' = sn_ID nd \<and> sn_IsDeleted nd' = Deleted
         \<and> t_nodes db' = map (\<lambda>x. if sn_ID x = sn_ID nd then nd' else x) (t_nodes db))"
proof -
  obtain nd rows where t: "g_Take (e_node E) (sqlite_live_node name) (t_nodes db) = Inr nd"
    and s: "g_Save (e_node E) (nd\<lparr>sn_IsDeleted := Deleted, sn_UpdatedAt := now\<rparr>) (t_nodes db) = (Inr (), rows)"
    and db': "db' = db\<lparr>t_nodes := rows\<rparr>"
    using assms(3) by (auto simp: sqlite_DelNode_def on_nodes_def comp_simps split: prod.splits sum.splits)
  have nd: "nd \<in> set (t_nodes db)" "sn_Name nd = name" "sn_IsDeleted nd = NotDeleted"
    using gorm_table.Take [OF assms(1) t] by (auto simp: sqlite_live_node_def)
  obtain r' where r': "sn_stored (nd\<lparr>sn_IsDeleted := Deleted, sn_UpdatedAt := now\<rparr>) r'"
    "rows = upsert sn_ID r' (t_nodes db)"
    using gorm_table.Save [OF assms(1) s] by blast
  then have keys: "sn_ID r' = sn_ID nd" "sn_IsDeleted r' = Deleted" by (auto simp: sn_stored_def)
  then have "t_nodes db' = map (\<lambda>x. if sn_ID x = sn_ID nd then r' else x) (t_nodes db)"
    using nd(1) by (auto simp: db' r'(2) upsert_def)
  with nd keys show ?thesis by blast
qed

definition sample_node :: node where
  "sample_node = \<lparr>n_ID = ''1'', n_Name = ''full'', n_URL = ''u'', n_Token = ''t'', n_Type = 1, n_CreatedAt = 0, n_UpdatedAt = 0\<rparr>"

theorem sqlite_DelNode_soft_delete_witness:
  "\<exists>nd'. sn_IsDeleted nd' = Deleted
     \<and> t_nodes (snd (sqlite_DelNode list_engine 9 ''full'' (empty_db\<lparr>t_nodes := [sqlite_fromNode sample_node]\<rparr>))) = [nd']"
proof -
  have laws: "gorm_table (e_node list_engine) sn_ID sn_ID sn_stored (=)"
    unfolding list_engine_def by simp (rule list_gorm_table, auto simp: sn_stored_refl no_merge_def, auto simp: sn_stored_def)
  obtain db' where run: "sqlite_DelNode list_engine 9 ''full'' (empty_db\<lparr>t_nodes := [sqlite_fromNode sample_node]\<rparr>) = (Inr (), db')"
    by (simp add: sqlite_DelNode_def list_engine_def list_gorm_def on_nodes_def comp_simps empty_db_def
        sqlite_live_node_def sqlite_fromNode_def sample_node_def)
  then show ?thesis
    using sqlite_DelNode_soft_delete [OF laws _ run] by (simp only: run) auto
qed

end
