(* ===== verification/Mysql.thy ===== *)
theory Mysql
  imports SqliteContract
begin

text \<open>
  The MySQL back end (\<open>models/mysql\<close>): the row structs of its five tables and their
  conversions. They differ from the SQLite ones in the type of the method column, in the
  fee cap, which is read without dereferencing a nil pointer, and in the times of a node.
\<close>

section \<open>Rows and conversions\<close>

text \<open>\<open>mysqlMessage\<close> (models/mysql/message.go).\<close>

record mysqlMessage =
  ym_ID :: string
  ym_Version :: u64
  ym_From :: string
  ym_Nonce :: u64
  ym_To :: string
  ym_Value :: bigint
  ym_GasLimit :: int
  ym_GasFeeCap :: bigint
  ym_GasPremium :: bigint
  ym_Method :: int
  ym_Params :: bytes
  ym_Signature :: "signature option"
  ym_UnsignedCid :: string
  ym_SignedCid :: string
  ym_Height :: int
  ym_Receipt :: "sql_receipt option"
  ym_TipsetKey :: string
  ym_Meta :: "msg_meta option"
  ym_WalletName :: string
  ym_State :: message_state
  ym_ErrorMsg :: string
  ym_IsDeleted :: int
  ym_CreatedAt :: time
  ym_UpdatedAt :: time

text \<open>\<open>(*mysqlMessage).Message\<close>.\<close>

definition mysql_Message :: "codec \<Rightarrow> mysqlMessage \<Rightarrow> message" where
  "mysql_Message C sqlMsg =
       \<lparr>m_ID = ym_ID sqlMsg,
        m_UnsignedCid = (if ym_UnsignedCid sqlMsg \<noteq> '''' then Some (cid_or_undef (cid_dec C (ym_UnsignedCid sqlMsg))) else None),
        m_SignedCid = (if ym_SignedCid sqlMsg \<noteq> '''' then Some (cid_or_undef (cid_dec C (ym_SignedCid sqlMsg))) else None),
        m_Message = \<lparr>c_Version = ym_Version sqlMsg,
          c_To = addr_or_undef (ad_parse C (ym_To sqlMsg)),
          c_From = addr_or_undef (ad_parse C (ym_From sqlMsg)),
          c_Nonce = ym_Nonce sqlMsg,
          c_Value = SafeFromGo (ym_Value sqlMsg),
          c_GasLimit = ym_GasLimit sqlMsg,
          c_GasFeeCap = SafeFromGo (ym_GasFeeCap sqlMsg),
          c_GasPremium = SafeFromGo (ym_GasPremium sqlMsg),
          c_Method = to_uint64 (ym_Method sqlMsg),
          c_Params = ym_Params sqlMsg\<rparr>,
        m_Signature = ym_Signature sqlMsg,
        m_Height = ym_Height sqlMsg,
        m_Confidence = 0,
        m_Receipt = MsgReceipt (ym_Receipt sqlMsg),
        m_TipSetKey = (if ym_TipsetKey sqlMsg \<noteq> '''' then key_or_empty (StringToTipsetKey (cid_dec C) (ym_TipsetKey sqlMsg)) else []),
        m_Meta = Some (Meta (ym_Meta sqlMsg)),
        m_WalletName = ym_WalletName sqlMsg,
        m_State = ym_State sqlMsg,
        m_ErrorMsg = ym_ErrorMsg sqlMsg,
        m_UpdatedAt = ym_UpdatedAt sqlMsg,
        m_CreatedAt = ym_CreatedAt sqlMsg\<rparr>"

definition mysql_fromMessage :: "codec \<Rightarrow> message \<Rightarrow> mysqlMessage" where
  "mysql_fromMessage C srcMsg = (let c = m_Message srcMsg in
     \<lparr>ym_ID = m_ID srcMsg,
      ym_Version = c_Version c,
      ym_From = ad_str C (c_From c),
      ym_Nonce = c_Nonce c,
      ym_To = ad_str C (c_To c),
      ym_Value = SafeFromGo (c_Value c),
      ym_GasLimit = c_GasLimit c,
      ym_GasFeeCap = SafeFromGo (c_GasFeeCap c),
      ym_GasPremium = SafeFromGo (c_GasPremium c),
      ym_Method = to_int64 (c_Method c),
      ym_Params = c_Params c,
      ym_Signature = m_Signature srcMsg,
      ym_UnsignedCid = (case m_UnsignedCid srcMsg of None \<Rightarrow> '''' | Some u \<Rightarrow> cid_str C u),
      ym_SignedCid = (case m_SignedCid srcMsg of None \<Rightarrow> '''' | Some u \<Rightarrow> cid_str C u),
      ym_Height = m_Height srcMsg,
      ym_Receipt = FromMsgReceipt (m_Receipt srcMsg),
      ym_TipsetKey = (if m_TipSetKey srcMsg \<noteq> [] then key_str C (m_TipSetKey srcMsg) else ''''),
      ym_Meta = Some (FromMeta (m_Meta srcMsg)),
      ym_WalletName = m_WalletName srcMsg,
      ym_State = m_State srcMsg,
      ym_ErrorMsg = m_ErrorMsg srcMsg,
      ym_IsDeleted = NotDeleted,
      ym_CreatedAt = m_CreatedAt srcMsg,
      ym_UpdatedAt = m_UpdatedAt srcMsg\<rparr>)"

text \<open>\<open>mysqlAddress\<close>, \<open>fromAddress\<close>, \<open>Address\<close> (models/mysql/address.go);
  \<open>FeeSpec\<close> is the embedded struct of models/mysql/types.go.\<close>

record mysqlAddress =
  ya_ID :: uuid
  ya_Addr :: string
  ya_Nonce :: u64
  ya_Weight :: int
  ya_State :: address_state
  ya_SelMsgNum :: u64
  ya_FeeSpec :: fee_spec
  ya_IsDeleted :: int
  ya_CreatedAt :: time
  ya_UpdatedAt :: time

definition mysql_fromAddress :: "codec \<Rightarrow> address_info \<Rightarrow> mysqlAddress" where
  "mysql_fromAddress C addr =
     \<lparr>ya_ID = a_ID addr, ya_Addr = ad_str C (a_Addr addr), ya_Nonce = a_Nonce addr,
      ya_Weight = a_Weight addr, ya_State = a_State addr, ya_SelMsgNum = a_SelMsgNum addr,
      ya_FeeSpec = safe_fees (a_FeeSpec addr), ya_IsDeleted = a_IsDeleted addr,
      ya_CreatedAt = a_CreatedAt addr, ya_UpdatedAt = a_UpdatedAt addr\<rparr>"

definition mysql_Address :: "codec \<Rightarrow> mysqlAddress \<Rightarrow> address_info result" where
  "mysql_Address C s = bindE (ad_parse C (ya_Addr s)) (\<lambda>addr. Inr
     \<lparr>a_ID = ya_ID s, a_Addr = addr, a_Nonce = ya_Nonce s, a_Weight = ya_Weight s,
      a_State = ya_State s, a_SelMsgNum = ya_SelMsgNum s, a_FeeSpec = safe_fees (ya_FeeSpec s),
      a_IsDeleted = ya_IsDeleted s, a_CreatedAt = ya_CreatedAt s, a_UpdatedAt = ya_UpdatedAt s\<rparr>)"

text \<open>\<open>mysqlActorCfg\<close> (models/mysql/actor_cfg.go).\<close>

record mysqlActorCfg =
  yc_ID :: uuid
  yc_ActorVersion :: int
  yc_Code :: cid
  yc_Method :: u64
  yc_FeeSpec :: fee_spec
  yc_CreatedAt :: time
  yc_UpdatedAt :: time

definition mysql_fromActorCfg :: "actor_cfg \<Rightarrow> mysqlActorCfg" where
  "mysql_fromActorCfg actorCfg =
     \<lparr>yc_ID = ac_ID actorCfg, yc_ActorVersion = ac_ActorVersion actorCfg,
      yc_Code = mt_Code (ac_MethodType actorCfg), yc_Method = mt_Method (ac_MethodType actorCfg),
      yc_FeeSpec = safe_fees (ac_FeeSpec actorCfg),
      yc_CreatedAt = ac_CreatedAt actorCfg, yc_UpdatedAt = ac_UpdatedAt actorCfg\<rparr>"

definition mysql_ActorCfg :: "mysqlActorCfg \<Rightarrow> actor_cfg" where
  "mysql_ActorCfg c =
     \<lparr>ac_ID = yc_ID c, ac_ActorVersion = yc_ActorVersion c,
      ac_MethodType = \<lparr>mt_Code = yc_Code c, mt_Method = yc_Method c\<rparr>,
      ac_FeeSpec = safe_fees (yc_FeeSpec c), ac_CreatedAt = yc_CreatedAt c, ac_UpdatedAt = yc_UpdatedAt c\<rparr>"

text \<open>\<open>mysqlSharedParams\<close> and \<open>mysqlNode\<close>.\<close>

record mysqlSharedParams =
  yp_ID :: nat
  yp_SelMsgNum :: u64
  yp_FeeSpec :: fee_spec

definition mysql_fromSharedParams :: "shared_spec \<Rightarrow> mysqlSharedParams" where
  "mysql_fromSharedParams sp = \<lparr>yp_ID = sp_ID sp, yp_SelMsgNum = sp_SelMsgNum sp,
     yp_FeeSpec = safe_fees (sp_FeeSpec sp)\<rparr>"

definition mysql_SharedParams :: "mysqlSharedParams \<Rightarrow> shared_spec" where
  "mysql_SharedParams ssp = \<lparr>sp_ID = yp_ID ssp, sp_SelMsgNum = yp_SelMsgNum ssp,
     sp_FeeSpec = safe_fees (yp_FeeSpec ssp)\<rparr>"

record mysqlNode =
  yn_ID :: uuid
  yn_Name :: string
  yn_URL :: string
  yn_Token :: string
  yn_Type :: int
  yn_IsDeleted :: int
  yn_CreatedAt :: time
  yn_UpdatedAt :: time

text \<open>\<open>fromNode\<close> leaves the two times at Go's zero time, which the mapper fills in.\<close>

definition zero_time :: time where
  "zero_time = 0"

definition mysql_fromNode :: "node \<Rightarrow> mysqlNode" where
  "mysql_fromNode nd = \<lparr>yn_ID = n_ID nd, yn_Name = n_Name nd, yn_URL = n_URL nd, yn_Token = n_Token nd,
     yn_Type = n_Type nd, yn_IsDeleted = NotDeleted, yn_CreatedAt = zero_time, yn_UpdatedAt = zero_time\<rparr>"

definition mysql_Node :: "mysqlNode \<Rightarrow> node" where
  "mysql_Node s = \<lparr>n_ID = yn_ID s, n_Name = yn_Name s, n_URL = yn_URL s, n_Token = yn_Token s,
     n_Type = yn_Type s, n_CreatedAt = yn_CreatedAt s, n_UpdatedAt = yn_UpdatedAt s\<rparr>"

section \<open>The database\<close>

record mysql_db =
  yt_messages :: "mysqlMessage list"
  yt_addresses :: "mysqlAddress list"
  yt_actor_cfg :: "mysqlActorCfg list"
  yt_shared_params :: "mysqlSharedParams list"
  yt_nodes :: "mysqlNode list"

record mysql_engine =
  ye_msg :: "mysqlMessage gorm"
  ye_addr :: "mysqlAddress gorm"
  ye_cfg :: "mysqlActorCfg gorm"
  ye_sp :: "mysqlSharedParams gorm"
  ye_node :: "mysqlNode gorm"
  ye_tx :: "(mysql_db, unit) comp \<Rightarrow> (mysql_db, unit) comp"

text \<open>A statement on one table of the database.\<close>

definition yon_messages :: "(mysqlMessage list, 'a) comp \<Rightarrow> (mysql_db, 'a) comp" where
  "yon_messages f db = (case f (yt_messages db) of (r, rows) \<Rightarrow> (r, db\<lparr>yt_messages := rows\<rparr>))"

definition yon_addresses :: "(mysqlAddress list, 'a) comp \<Rightarrow> (mysql_db, 'a) comp" where
  "yon_addresses f db = (case f (yt_addresses db) of (r, rows) \<Rightarrow> (r, db\<lparr>yt_addresses := rows\<rparr>))"

definition yon_actor_cfg :: "(mysqlActorCfg list, 'a) comp \<Rightarrow> (mysql_db, 'a) comp" where
  "yon_actor_cfg f db = (case f (yt_actor_cfg db) of (r, rows) \<Rightarrow> (r, db\<lparr>yt_actor_cfg := rows\<rparr>))"

definition yon_shared_params :: "(mysqlSharedParams list, 'a) comp \<Rightarrow> (mysql_db, 'a) comp" where
  "yon_shared_params f db = (case f (yt_shared_params db) of (r, rows) \<Rightarrow> (r, db\<lparr>yt_shared_params := rows\<rparr>))"

definition yon_nodes :: "(mysqlNode list, 'a) comp \<Rightarrow> (mysql_db, 'a) comp" where
  "yon_nodes f db = (case f (yt_nodes db) of (r, rows) \<Rightarrow> (r, db\<lparr>yt_nodes := rows\<rparr>))"

end
