(* ===== verification/MysqlRepo.thy ===== *)
theory MysqlRepo
  imports Mysql
begin

text \<open>
  The operations of the MySQL repositories, one definition per method, and that both back
  ends read back the same message from the row they write.
\<close>

section \<open>mysqlMessageRepo (models/mysql/message.go)\<close>

text \<open>Run a \<open>Find\<close> and convert the rows.\<close>

definition mysql_find_msgs ::
  "mysql_engine \<Rightarrow> codec \<Rightarrow> mysqlMessage query \<Rightarrow> mysql_db \<Rightarrow> message list result" where
  "mysql_find_msgs E C q db = bindE (g_Find (ye_msg E) q (yt_messages db)) (\<lambda>rows. Inr (map (mysql_Message C) rows))"

definition mysql_take_msg ::
  "mysql_engine \<Rightarrow> codec \<Rightarrow> mysqlMessage query \<Rightarrow> mysql_db \<Rightarrow> message result" where
  "mysql_take_msg E C q db = bindE (g_Take (ye_msg E) q (yt_messages db)) (\<lambda>r. Inr (mysql_Message C r))"

definition mysql_update_msgs ::
  "mysql_engine \<Rightarrow> mysqlMessage query \<Rightarrow> (mysqlMessage \<Rightarrow> mysqlMessage) \<Rightarrow> (mysql_db, unit) comp" where
  "mysql_update_msgs E q f = yon_messages (dropC (g_UpdateColumns (ye_msg E) q f))"

text \<open>\<open>Scan\<close> into a zero \<open>Result\<close>: no row leaves state 0, which is \<open>UnKnown\<close>.\<close>

definition mysql_GetMessageState ::
  "mysql_engine \<Rightarrow> string \<Rightarrow> mysql_db \<Rightarrow> message_state result" where
  "mysql_GetMessageState E uid db =
     bindE (g_Find (ye_msg E) (Where (\<lambda>r. ym_ID r = uid) q_all) (yt_messages db)) (\<lambda>rows.
       Inr (case rows of [] \<Rightarrow> UnKnown | r # _ \<Rightarrow> ym_State r))"

definition mysql_HasMessageByUid :: "mysql_engine \<Rightarrow> string \<Rightarrow> mysql_db \<Rightarrow> bool result" where
  "mysql_HasMessageByUid E uid db =
     bindE (g_Count (ye_msg E) (Where (\<lambda>r. ym_ID r = uid) q_all) (yt_messages db)) (\<lambda>count. Inr (count > 0))"

definition mysql_ExpireMessage ::
  "mysql_engine \<Rightarrow> time \<Rightarrow> message list \<Rightarrow> (mysql_db, unit) comp" where
  "mysql_ExpireMessage E now msgs = forC (\<lambda>msg.
     mysql_update_msgs E (Where (\<lambda>r. ym_ID r = m_ID msg) q_all)
       (\<lambda>r. r\<lparr>ym_State := FailedMsg, ym_UpdatedAt := now\<rparr>)) msgs"

definition mysql_parseQueryParams ::
  "codec \<Rightarrow> msg_query_params \<Rightarrow> mysqlMessage query \<Rightarrow> mysqlMessage query" where
  "mysql_parseQueryParams C params query =
     (let query = (if \<not> q_Asc params then Order (\<lambda>r. - ym_UpdatedAt r) query else query);
          query = (if length (q_From params) > 0
                   then Where (\<lambda>r. ym_From r \<in> set (map (ad_str C) (q_From params))) query else query);
          query = (if length (q_State params) > 0
                   then Where (\<lambda>r. ym_State r \<in> set (q_State params)) query else query);
          query = (if q_Offset params \<noteq> 0 then Offset (q_Offset params) query else query);
          query = (if q_Limit params \<noteq> 0 then Limit (q_Limit params) query else query)
      in case q_ByUpdateAt params of None \<Rightarrow> query | Some t \<Rightarrow> Where (\<lambda>r. ym_UpdatedAt r \<ge> t) query)"

definition mysql_ListMessageByParams ::
  "mysql_engine \<Rightarrow> codec \<Rightarrow> msg_query_params \<Rightarrow> mysql_db \<Rightarrow> message list result" where
  "mysql_ListMessageByParams E C params = mysql_find_msgs E C (mysql_parseQueryParams C params q_all)"

definition mysql_ListFilledMessageByAddress ::
  "mysql_engine \<Rightarrow> codec \<Rightarrow> address \<Rightarrow> mysql_db \<Rightarrow> message list result" where
  "mysql_ListFilledMessageByAddress E C addr =
     mysql_find_msgs E C (Where (\<lambda>r. ym_From r = ad_str C addr \<and> ym_State r = FillMsg) q_all)"

definition mysql_ListFilledMessageBelowNonce ::
  "mysql_engine \<Rightarrow> codec \<Rightarrow> address \<Rightarrow> u64 \<Rightarrow> mysql_db \<Rightarrow> message list result" where
  "mysql_ListFilledMessageBelowNonce E C addr nonce =
     mysql_find_msgs E C (Where (\<lambda>r. ym_From r = ad_str C addr \<and> ym_State r = FillMsg \<and> ym_Nonce r < nonce) q_all)"

definition mysql_ListChainMessageByHeight ::
  "mysql_engine \<Rightarrow> codec \<Rightarrow> epoch \<Rightarrow> mysql_db \<Rightarrow> message list result" where
  "mysql_ListChainMessageByHeight E C height =
     mysql_find_msgs E C (Where (\<lambda>r. ym_Height r = height \<and> ym_State r = OnChainMsg) q_all)"

definition mysql_ListUnChainMessageByAddress ::
  "mysql_engine \<Rightarrow> codec \<Rightarrow> address \<Rightarrow> int \<Rightarrow> mysql_db \<Rightarrow> message list result" where
  "mysql_ListUnChainMessageByAddress E C addr topN =
     mysql_find_msgs E C (Where (\<lambda>r. ym_From r = ad_str C addr \<and> ym_State r = UnFillMsg)
       (Order (\<lambda>r. - ym_CreatedAt r) (Limit topN q_all)))"

definition mysql_CreateMessage :: "mysql_engine \<Rightarrow> codec \<Rightarrow> message \<Rightarrow> (mysql_db, unit) comp" where
  "mysql_CreateMessage E C msg = yon_messages (g_Create (ye_msg E) (mysql_fromMessage C msg))"

definition mysql_UpdateMessage ::
  "mysql_engine \<Rightarrow> codec \<Rightarrow> time \<Rightarrow> message \<Rightarrow> (mysql_db, unit) comp" where
  "mysql_UpdateMessage E C now msg =
     yon_messages (g_Save (ye_msg E) ((mysql_fromMessage C msg)\<lparr>ym_UpdatedAt := now\<rparr>))"

definition mysql_BatchSaveMessage ::
  "mysql_engine \<Rightarrow> codec \<Rightarrow> time \<Rightarrow> message list \<Rightarrow> (mysql_db, unit) comp" where
  "mysql_BatchSaveMessage E C now msgs = forC (mysql_UpdateMessage E C now) msgs"

definition mysql_UpdateMessageByState ::
  "mysql_engine \<Rightarrow> codec \<Rightarrow> time \<Rightarrow> message \<Rightarrow> message_state \<Rightarrow> (mysql_db, unit) comp" where
  "mysql_UpdateMessageByState E C now msg state =
     yon_messages (g_Updates (ye_msg E) (Where (\<lambda>r. ym_State r = state) q_all)
       ((mysql_fromMessage C msg)\<lparr>ym_UpdatedAt := now\<rparr>))"

definition mysql_GetMessageByUid ::
  "mysql_engine \<Rightarrow> codec \<Rightarrow> string \<Rightarrow> mysql_db \<Rightarrow> message result" where
  "mysql_GetMessageByUid E C uid = mysql_take_msg E C (Where (\<lambda>r. ym_ID r = uid) q_all)"

definition mysql_GetMessageByCid ::
  "mysql_engine \<Rightarrow> codec \<Rightarrow> cid \<Rightarrow> mysql_db \<Rightarrow> message result" where
  "mysql_GetMessageByCid E C unsignedCid =
     mysql_take_msg E C (Where (\<lambda>r. ym_UnsignedCid r = cid_str C unsignedCid) q_all)"

definition mysql_GetMessageBySignedCid ::
  "mysql_engine \<Rightarrow> codec \<Rightarrow> cid \<Rightarrow> mysql_db \<Rightarrow> message result" where
  "mysql_GetMessageBySignedCid E C signedCid =
     mysql_take_msg E C (Where (\<lambda>r. ym_SignedCid r = cid_str C signedCid) q_all)"

definition mysql_GetSignedMessageByTime ::
  "mysql_engine \<Rightarrow> codec \<Rightarrow> time \<Rightarrow> mysql_db \<Rightarrow> message list result" where
  "mysql_GetSignedMessageByTime E C start =
     mysql_find_msgs E C (Where (\<lambda>r. ym_CreatedAt r \<ge> start \<and> ym_Signature r \<noteq> None) q_all)"

definition mysql_GetSignedMessageByHeight ::
  "mysql_engine \<Rightarrow> codec \<Rightarrow> epoch \<Rightarrow> mysql_db \<Rightarrow> message list result" where
  "mysql_GetSignedMessageByHeight E C height =
     mysql_find_msgs E C (Where (\<lambda>r. ym_Height r \<ge> uint (to_uint64 height) \<and> ym_Signature r \<noteq> None) q_all)"

definition mysql_GetSignedMessageFromFailedMsg ::
  "mysql_engine \<Rightarrow> codec \<Rightarrow> address \<Rightarrow> mysql_db \<Rightarrow> message list result" where
  "mysql_GetSignedMessageFromFailedMsg E C addr =
     mysql_find_msgs E C (Where (\<lambda>r. ym_State r = FailedMsg \<and> ym_From r = ad_str C addr \<and> ym_Signature r \<noteq> None) q_all)"

definition mysql_GetMessageByFromAndNonce ::
  "mysql_engine \<Rightarrow> codec \<Rightarrow> address \<Rightarrow> u64 \<Rightarrow> mysql_db \<Rightarrow> message result" where
  "mysql_GetMessageByFromAndNonce E C frm nonce =
     mysql_take_msg E C (Where (\<lambda>r. ym_From r = ad_str C frm \<and> ym_Nonce r = nonce) q_all)"

definition mysql_GetMessageByFromNonceAndState ::
  "mysql_engine \<Rightarrow> codec \<Rightarrow> address \<Rightarrow> u64 \<Rightarrow> message_state \<Rightarrow> mysql_db \<Rightarrow> message result" where
  "mysql_GetMessageByFromNonceAndState E C frm nonce state =
     mysql_take_msg E C (Where (\<lambda>r. ym_From r = ad_str C frm \<and> ym_Nonce r = nonce \<and> ym_State r = state) q_all)"

definition mysql_ListMessage :: "mysql_engine \<Rightarrow> codec \<Rightarrow> mysql_db \<Rightarrow> message list result" where
  "mysql_ListMessage E C = mysql_find_msgs E C q_all"

definition mysql_ListMessageByAddress ::
  "mysql_engine \<Rightarrow> codec \<Rightarrow> address \<Rightarrow> mysql_db \<Rightarrow> message list result" where
  "mysql_ListMessageByAddress E C addr = mysql_find_msgs E C (Where (\<lambda>r. ym_From r = ad_str C addr) q_all)"

definition mysql_ListMessageByFromState ::
  "mysql_engine \<Rightarrow> codec \<Rightarrow> time \<Rightarrow> address \<Rightarrow> message_state \<Rightarrow> bool \<Rightarrow> int \<Rightarrow> int \<Rightarrow> time \<Rightarrow>
     mysql_db \<Rightarrow> message list result" where
  "mysql_ListMessageByFromState E C now frm state isAsc pageIndex pageSize d =
     (let query = Limit pageSize (Offset ((pageIndex - 1) * pageSize) q_all);
          query = (if frm \<noteq> AddrUndef then Where (\<lambda>r. ym_From r = ad_str C frm) query else query);
          query = (if isAsc then Order ym_CreatedAt query else Order (\<lambda>r. - ym_CreatedAt r) query);
          query = (if d \<noteq> 0 then Where (\<lambda>r. ym_CreatedAt r < now - d) query else query);
          query = Where (\<lambda>r. ym_State r = state) query
      in mysql_find_msgs E C query)"

definition mysql_ListFailedMessage ::
  "mysql_engine \<Rightarrow> codec \<Rightarrow> msg_query_params \<Rightarrow> mysql_db \<Rightarrow> message list result" where
  "mysql_ListFailedMessage E C params =
     (let params = params\<lparr>q_State := [UnFillMsg]\<rparr>;
          query = Where (\<lambda>r. ym_ErrorMsg r \<noteq> '''') (Order ym_CreatedAt q_all)
      in mysql_find_msgs E C (mysql_parseQueryParams C params query))"

definition mysql_ListBlockedMessage ::
  "mysql_engine \<Rightarrow> codec \<Rightarrow> time \<Rightarrow> msg_query_params \<Rightarrow> time \<Rightarrow> mysql_db \<Rightarrow> message list result" where
  "mysql_ListBlockedMessage E C now params d =
     (let t = now - d;
          params = params\<lparr>q_State := [FillMsg, UnFillMsg]\<rparr>;
          query = mysql_parseQueryParams C params q_all
      in mysql_find_msgs E C (Where (\<lambda>r. ym_CreatedAt r < t) (Order ym_CreatedAt query)))"

definition mysql_ListUnFilledMessage ::
  "mysql_engine \<Rightarrow> codec \<Rightarrow> address \<Rightarrow> mysql_db \<Rightarrow> message list result" where
  "mysql_ListUnFilledMessage E C addr =
     mysql_find_msgs E C (Where (\<lambda>r. ym_From r = ad_str C addr \<and> ym_State r = UnFillMsg) q_all)"

definition mysql_ListSignedMsgs :: "mysql_engine \<Rightarrow> codec \<Rightarrow> mysql_db \<Rightarrow> message list result" where
  "mysql_ListSignedMsgs E C =
     mysql_find_msgs E C (Where (\<lambda>r. ym_Height r = 0 \<and> ym_Signature r \<noteq> None) q_all)"

text \<open>A nil receipt is dereferenced when the update clause is built.\<close>

definition mysql_UpdateMessageInfoByCid ::
  "mysql_engine \<Rightarrow> codec \<Rightarrow> time \<Rightarrow> string \<Rightarrow> receipt option \<Rightarrow> epoch \<Rightarrow> message_state \<Rightarrow> tipset_key \<Rightarrow>
     (mysql_db, unit) comp" where
  "mysql_UpdateMessageInfoByCid E C now unsignedCid receipt height state tsKey =
     (case FromMsgReceipt receipt of
        None \<Rightarrow> failC (Panic ''nil receipt'')
      | Some rcp \<Rightarrow> mysql_update_msgs E (Where (\<lambda>r. ym_UnsignedCid r = unsignedCid) q_all)
          (\<lambda>r. r\<lparr>ym_Height := uint (to_uint64 height), ym_Receipt := Some rcp, ym_State := state,
                 ym_TipsetKey := key_str C tsKey, ym_UpdatedAt := now\<rparr>))"

definition mysql_UpdateMessageStateByCid ::
  "mysql_engine \<Rightarrow> time \<Rightarrow> string \<Rightarrow> message_state \<Rightarrow> (mysql_db, unit) comp" where
  "mysql_UpdateMessageStateByCid E now c state =
     mysql_update_msgs E (Where (\<lambda>r. ym_UnsignedCid r = c) q_all)
       (\<lambda>r. r\<lparr>ym_State := state, ym_UpdatedAt := now\<rparr>)"

definition mysql_UpdateMessageStateByID ::
  "mysql_engine \<Rightarrow> time \<Rightarrow> string \<Rightarrow> message_state \<Rightarrow> (mysql_db, unit) comp" where
  "mysql_UpdateMessageStateByID E now uid state =
     mysql_update_msgs E (Where (\<lambda>r. ym_ID r = uid) q_all)
       (\<lambda>r. r\<lparr>ym_State := state, ym_UpdatedAt := now\<rparr>)"

definition mysql_MarkBadMessage :: "mysql_engine \<Rightarrow> time \<Rightarrow> string \<Rightarrow> (mysql_db, unit) comp" where
  "mysql_MarkBadMessage E now uid =
     mysql_update_msgs E (Where (\<lambda>r. ym_ID r = uid) q_all)
       (\<lambda>r. r\<lparr>ym_State := FailedMsg, ym_UpdatedAt := now\<rparr>)"

definition mysql_UpdateErrMsg :: "mysql_engine \<Rightarrow> time \<Rightarrow> string \<Rightarrow> string \<Rightarrow> (mysql_db, unit) comp" where
  "mysql_UpdateErrMsg E now uid errMsg =
     mysql_update_msgs E (Where (\<lambda>r. ym_ID r = uid) q_all)
       (\<lambda>r. r\<lparr>ym_ErrorMsg := errMsg, ym_UpdatedAt := now\<rparr>)"

section \<open>mysqlAddressRepo (models/mysql/address.go)\<close>

definition mysql_SaveAddress :: "mysql_engine \<Rightarrow> codec \<Rightarrow> address_info \<Rightarrow> (mysql_db, unit) comp" where
  "mysql_SaveAddress E C addr = yon_addresses (g_Save (ye_addr E) (mysql_fromAddress C addr))"

definition mysql_take_addr ::
  "mysql_engine \<Rightarrow> codec \<Rightarrow> mysqlAddress query \<Rightarrow> mysql_db \<Rightarrow> address_info result" where
  "mysql_take_addr E C q db = bindE (g_Take (ye_addr E) q (yt_addresses db)) (mysql_Address C)"

definition mysql_GetAddress ::
  "mysql_engine \<Rightarrow> codec \<Rightarrow> address \<Rightarrow> mysql_db \<Rightarrow> address_info result" where
  "mysql_GetAddress E C addr =
     mysql_take_addr E C (Where (\<lambda>r. ya_Addr r = ad_str C addr \<and> ya_IsDeleted r = NotDeleted) q_all)"

definition mysql_GetAddressByID ::
  "mysql_engine \<Rightarrow> codec \<Rightarrow> uuid \<Rightarrow> mysql_db \<Rightarrow> address_info result" where
  "mysql_GetAddressByID E C uid = mysql_take_addr E C (Where (\<lambda>r. ya_ID r = uid \<and> ya_IsDeleted r = NotDeleted) q_all)"

definition mysql_GetOneRecord ::
  "mysql_engine \<Rightarrow> codec \<Rightarrow> string \<Rightarrow> mysql_db \<Rightarrow> address_info result" where
  "mysql_GetOneRecord E C addr = mysql_take_addr E C (Where (\<lambda>r. ya_Addr r = addr) q_all)"

definition mysql_HasAddress :: "mysql_engine \<Rightarrow> codec \<Rightarrow> address \<Rightarrow> mysql_db \<Rightarrow> bool result" where
  "mysql_HasAddress E C addr db =
     bindE (g_Count (ye_addr E) (Where (\<lambda>r. ya_Addr r = ad_str C addr \<and> ya_IsDeleted r = NotDeleted) q_all)
        (yt_addresses db)) (\<lambda>count. Inr (count > 0))"

definition mysql_ListAddress :: "mysql_engine \<Rightarrow> codec \<Rightarrow> mysql_db \<Rightarrow> address_info list result" where
  "mysql_ListAddress E C db =
     bindE (g_Find (ye_addr E) (Where (\<lambda>r. ya_IsDeleted r = NotDeleted) q_all) (yt_addresses db))
       (traverseE (mysql_Address C))"

definition mysql_ListActiveAddress :: "mysql_engine \<Rightarrow> codec \<Rightarrow> mysql_db \<Rightarrow> address_info list result" where
  "mysql_ListActiveAddress E C db =
     bindE (g_Find (ye_addr E) (Where (\<lambda>r. ya_IsDeleted r = NotDeleted \<and> ya_State r = AddressStateAlive) q_all)
       (yt_addresses db)) (traverseE (mysql_Address C))"

definition mysql_UpdateNonce ::
  "mysql_engine \<Rightarrow> codec \<Rightarrow> time \<Rightarrow> address \<Rightarrow> u64 \<Rightarrow> (mysql_db, int) comp" where
  "mysql_UpdateNonce E C now addr nonce = yon_addresses (g_UpdateColumns (ye_addr E)
     (Where (\<lambda>r. ya_Addr r = ad_str C addr \<and> ya_IsDeleted r = NotDeleted) q_all)
     (\<lambda>r. r\<lparr>ya_Nonce := nonce, ya_UpdatedAt := now\<rparr>))"

definition mysql_UpdateState ::
  "mysql_engine \<Rightarrow> codec \<Rightarrow> time \<Rightarrow> address \<Rightarrow> address_state \<Rightarrow> (mysql_db, unit) comp" where
  "mysql_UpdateState E C now addr state = yon_addresses (dropC (g_UpdateColumns (ye_addr E)
     (Where (\<lambda>r. ya_Addr r = ad_str C addr \<and> ya_IsDeleted r = NotDeleted) q_all)
     (\<lambda>r. r\<lparr>ya_State := state, ya_UpdatedAt := now\<rparr>)))"

definition mysql_UpdateSelectMsgNum ::
  "mysql_engine \<Rightarrow> codec \<Rightarrow> time \<Rightarrow> address \<Rightarrow> u64 \<Rightarrow> (mysql_db, unit) comp" where
  "mysql_UpdateSelectMsgNum E C now addr num = yon_addresses (dropC (g_UpdateColumns (ye_addr E)
     (Where (\<lambda>r. ya_Addr r = ad_str C addr \<and> ya_IsDeleted r = NotDeleted) q_all)
     (\<lambda>r. r\<lparr>ya_SelMsgNum := num, ya_UpdatedAt := now\<rparr>)))"

text \<open>The columns \<open>UpdateFeeParams\<close> puts in its update map; nil amounts and zero factors stay out.\<close>

definition mysql_fee_columns ::
  "float64 \<Rightarrow> float64 \<Rightarrow> bigint \<Rightarrow> bigint \<Rightarrow> bigint \<Rightarrow> fee_spec \<Rightarrow> fee_spec" where
  "mysql_fee_columns gasOverEstimation gasOverPremium maxFee gasFeeCap baseFee f =
     (let f = (if maxFee \<noteq> None then f\<lparr>f_MaxFee := maxFee\<rparr> else f);
          f = (if gasFeeCap \<noteq> None then f\<lparr>f_GasFeeCap := gasFeeCap\<rparr> else f);
          f = (if baseFee \<noteq> None then f\<lparr>f_BaseFee := baseFee\<rparr> else f);
          f = (if f64_nonzero gasOverEstimation then f\<lparr>f_GasOverEstimation := gasOverEstimation\<rparr> else f)
      in if f64_nonzero gasOverPremium then f\<lparr>f_GasOverPremium := gasOverPremium\<rparr> else f)"

definition mysql_UpdateFeeParams ::
  "mysql_engine \<Rightarrow> codec \<Rightarrow> time \<Rightarrow> address \<Rightarrow> float64 \<Rightarrow> float64 \<Rightarrow> bigint \<Rightarrow> bigint \<Rightarrow> bigint \<Rightarrow>
     (mysql_db, unit) comp" where
  "mysql_UpdateFeeParams E C now addr gasOverEstimation gasOverPremium maxFee gasFeeCap baseFee =
     (if maxFee = None \<and> gasFeeCap = None \<and> baseFee = None \<and>
         \<not> f64_nonzero gasOverEstimation \<and> \<not> f64_nonzero gasOverPremium then returnC ()
      else yon_addresses (dropC (g_UpdateColumns (ye_addr E)
        (Where (\<lambda>r. ya_Addr r = ad_str C addr \<and> ya_IsDeleted r = NotDeleted) q_all)
        (\<lambda>r. r\<lparr>ya_FeeSpec := mysql_fee_columns gasOverEstimation gasOverPremium maxFee gasFeeCap baseFee (ya_FeeSpec r),
               ya_UpdatedAt := now\<rparr>))))"

definition mysql_DelAddress :: "mysql_engine \<Rightarrow> string \<Rightarrow> (mysql_db, unit) comp" where
  "mysql_DelAddress E addr = yon_addresses (g_Delete (ye_addr E) (Where (\<lambda>r. ya_Addr r = addr) q_all))"

section \<open>mysqlActorCfgRepo (models/mysql/actor_cfg.go)\<close>

definition mysql_SaveActorCfg :: "mysql_engine \<Rightarrow> actor_cfg \<Rightarrow> (mysql_db, unit) comp" where
  "mysql_SaveActorCfg E actorCfg =
     (if mt_Code (ac_MethodType actorCfg) = CidUndef then failC (Err ''code cid is undefined'')
      else yon_actor_cfg (g_Save (ye_cfg E) (mysql_fromActorCfg actorCfg)))"

definition mysql_by_method :: "method_type \<Rightarrow> mysqlActorCfg query" where
  "mysql_by_method mt = Where (\<lambda>r. yc_Code r = mt_Code mt \<and> yc_Method r = mt_Method mt) q_all"

definition mysql_HasActorCfg :: "mysql_engine \<Rightarrow> method_type \<Rightarrow> mysql_db \<Rightarrow> bool result" where
  "mysql_HasActorCfg E mt db =
     bindE (g_Count (ye_cfg E) (mysql_by_method mt) (yt_actor_cfg db)) (\<lambda>count. Inr (count > 0))"

definition mysql_GetActorCfgByMethodType :: "mysql_engine \<Rightarrow> method_type \<Rightarrow> mysql_db \<Rightarrow> actor_cfg result" where
  "mysql_GetActorCfgByMethodType E mt db =
     bindE (g_Take (ye_cfg E) (mysql_by_method mt) (yt_actor_cfg db)) (\<lambda>a. Inr (mysql_ActorCfg a))"

definition mysql_GetActorCfgByID :: "mysql_engine \<Rightarrow> uuid \<Rightarrow> mysql_db \<Rightarrow> actor_cfg result" where
  "mysql_GetActorCfgByID E uid db =
     bindE (g_Take (ye_cfg E) (Where (\<lambda>r. yc_ID r = uid) q_all) (yt_actor_cfg db)) (\<lambda>a. Inr (mysql_ActorCfg a))"

definition mysql_ListActorCfg :: "mysql_engine \<Rightarrow> mysql_db \<Rightarrow> actor_cfg list result" where
  "mysql_ListActorCfg E db = bindE (g_Find (ye_cfg E) q_all (yt_actor_cfg db)) (\<lambda>l. Inr (map mysql_ActorCfg l))"

definition mysql_DelActorCfgByMethodType :: "mysql_engine \<Rightarrow> method_type \<Rightarrow> (mysql_db, unit) comp" where
  "mysql_DelActorCfgByMethodType E mt = yon_actor_cfg (g_Delete (ye_cfg E) (mysql_by_method mt))"

definition mysql_DelActorCfgById :: "mysql_engine \<Rightarrow> uuid \<Rightarrow> (mysql_db, unit) comp" where
  "mysql_DelActorCfgById E uid = yon_actor_cfg (g_Delete (ye_cfg E) (Where (\<lambda>r. yc_ID r = uid) q_all))"

text \<open>The columns of \<open>UpdateSelectSpecById\<close>: here a pointer tells an absent factor from zero.\<close>

definition mysql_spec_columns :: "change_gas_spec \<Rightarrow> fee_spec \<Rightarrow> fee_spec" where
  "mysql_spec_columns spec f =
     (let f = (if cg_GasFeeCap spec \<noteq> None then f\<lparr>f_GasFeeCap := cg_GasFeeCap spec\<rparr> else f);
          f = (if cg_BaseFee spec \<noteq> None then f\<lparr>f_BaseFee := cg_BaseFee spec\<rparr> else f);
          f = (if cg_MaxFee spec \<noteq> None then f\<lparr>f_MaxFee := cg_MaxFee spec\<rparr> else f);
          f = (case cg_GasOverEstimation spec of None \<Rightarrow> f | Some x \<Rightarrow> f\<lparr>f_GasOverEstimation := x\<rparr>)
      in case cg_GasOverPremium spec of None \<Rightarrow> f | Some x \<Rightarrow> f\<lparr>f_GasOverPremium := x\<rparr>)"

definition mysql_UpdateSelectSpecById ::
  "mysql_engine \<Rightarrow> time \<Rightarrow> uuid \<Rightarrow> change_gas_spec \<Rightarrow> (mysql_db, unit) comp" where
  "mysql_UpdateSelectSpecById E now uid spec =
     (if cg_GasFeeCap spec = None \<and> cg_BaseFee spec = None \<and> cg_MaxFee spec = None \<and>
         cg_GasOverEstimation spec = None \<and> cg_GasOverPremium spec = None then returnC ()
      else yon_actor_cfg (dropC (g_UpdateColumns (ye_cfg E) (Where (\<lambda>r. yc_ID r = uid) q_all)
        (\<lambda>r. r\<lparr>yc_FeeSpec := mysql_spec_columns spec (yc_FeeSpec r), yc_UpdatedAt := now\<rparr>))))"

section \<open>mysqlSharedParamsRepo and mysqlNodeRepo\<close>

definition mysql_GetSharedParams :: "mysql_engine \<Rightarrow> mysql_db \<Rightarrow> shared_spec result" where
  "mysql_GetSharedParams E db =
     bindE (g_Take (ye_sp E) q_all (yt_shared_params db)) (\<lambda>ssp. Inr (mysql_SharedParams ssp))"

definition mysql_SetSharedParams :: "mysql_engine \<Rightarrow> shared_spec \<Rightarrow> (mysql_db, nat) comp" where
  "mysql_SetSharedParams E params =
     (let params = params\<lparr>sp_ID := 1\<rparr>;
          save = bindC (yon_shared_params (g_Save (ye_sp E) (mysql_fromSharedParams params)))
                   (\<lambda>_. returnC (sp_ID params))
      in bindC (queryC (\<lambda>db. Inr (g_Take (ye_sp E) (Where (\<lambda>r. yp_ID r = 1) q_all) (yt_shared_params db))))
        (\<lambda>r. case r of
            Inl err \<Rightarrow> if err = ErrRecordNotFound then save else failC err
          | Inr ssp \<Rightarrow> save))"

definition mysql_CreateNode :: "mysql_engine \<Rightarrow> node \<Rightarrow> (mysql_db, unit) comp" where
  "mysql_CreateNode E nd = yon_nodes (g_Create (ye_node E) (mysql_fromNode nd))"

definition mysql_SaveNode :: "mysql_engine \<Rightarrow> time \<Rightarrow> node \<Rightarrow> (mysql_db, unit) comp" where
  "mysql_SaveNode E now nd = yon_nodes (g_Save (ye_node E) ((mysql_fromNode nd)\<lparr>yn_UpdatedAt := now\<rparr>))"

definition mysql_live_node :: "string \<Rightarrow> mysqlNode query" where
  "mysql_live_node name = Where (\<lambda>r. yn_Name r = name \<and> yn_IsDeleted r = NotDeleted) q_all"

definition mysql_GetNode :: "mysql_engine \<Rightarrow> string \<Rightarrow> mysql_db \<Rightarrow> node result" where
  "mysql_GetNode E name db =
     bindE (g_Take (ye_node E) (mysql_live_node name) (yt_nodes db)) (\<lambda>nd. Inr (mysql_Node nd))"

definition mysql_HasNode :: "mysql_engine \<Rightarrow> string \<Rightarrow> mysql_db \<Rightarrow> bool result" where
  "mysql_HasNode E name db =
     bindE (g_Count (ye_node E) (mysql_live_node name) (yt_nodes db)) (\<lambda>count. Inr (count > 0))"

text \<open>\<open>automapper\<close> copies the fields the two structs share.\<close>

definition mysql_ListNode :: "mysql_engine \<Rightarrow> mysql_db \<Rightarrow> node list result" where
  "mysql_ListNode E db =
     bindE (g_Find (ye_node E) (Where (\<lambda>r. yn_IsDeleted r = NotDeleted) q_all) (yt_nodes db))
       (\<lambda>l. Inr (map mysql_Node l))"

definition mysql_DelNode :: "mysql_engine \<Rightarrow> time \<Rightarrow> string \<Rightarrow> (mysql_db, unit) comp" where
  "mysql_DelNode E now name =
     bindC (queryC (\<lambda>db. g_Take (ye_node E) (mysql_live_node name) (yt_nodes db)))
       (\<lambda>nd. yon_nodes (g_Save (ye_node E) (nd\<lparr>yn_IsDeleted := Deleted, yn_UpdatedAt := now\<rparr>)))"

section \<open>Assembly (models/mysql/db.go)\<close>

definition mysql_message_repo :: "mysql_engine \<Rightarrow> codec \<Rightarrow> time \<Rightarrow> mysql_db message_repo" where
  "mysql_message_repo E C now = \<lparr>
     mr_ExpireMessage = mysql_ExpireMessage E now,
     mr_BatchSaveMessage = mysql_BatchSaveMessage E C now,
     mr_CreateMessage = mysql_CreateMessage E C,
     mr_UpdateMessage = mysql_UpdateMessage E C now,
     mr_UpdateMessageByState = mysql_UpdateMessageByState E C now,
     mr_GetMessageByFromAndNonce = mysql_GetMessageByFromAndNonce E C,
     mr_GetMessageByFromNonceAndState = mysql_GetMessageByFromNonceAndState E C,
     mr_GetMessageByUid = mysql_GetMessageByUid E C,
     mr_HasMessageByUid = mysql_HasMessageByUid E,
     mr_GetMessageState = mysql_GetMessageState E,
     mr_GetMessageByCid = mysql_GetMessageByCid E C,
     mr_GetMessageBySignedCid = mysql_GetMessageBySignedCid E C,
     mr_GetSignedMessageByTime = mysql_GetSignedMessageByTime E C,
     mr_GetSignedMessageByHeight = mysql_GetSignedMessageByHeight E C,
     mr_GetSignedMessageFromFailedMsg = mysql_GetSignedMessageFromFailedMsg E C,
     mr_ListMessage = mysql_ListMessage E C,
     mr_ListMessageByFromState = mysql_ListMessageByFromState E C now,
     mr_ListMessageByAddress = mysql_ListMessageByAddress E C,
     mr_ListFailedMessage = mysql_ListFailedMessage E C,
     mr_ListBlockedMessage = mysql_ListBlockedMessage E C now,
     mr_ListUnChainMessageByAddress = mysql_ListUnChainMessageByAddress E C,
     mr_ListFilledMessageByAddress = mysql_ListFilledMessageByAddress E C,
     mr_ListChainMessageByHeight = mysql_ListChainMessageByHeight E C,
     mr_ListUnFilledMessage = mysql_ListUnFilledMessage E C,
     mr_ListSignedMsgs = mysql_ListSignedMsgs E C,
     mr_ListFilledMessageBelowNonce = mysql_ListFilledMessageBelowNonce E C,
     mr_ListMessageByParams = mysql_ListMessageByParams E C,
     mr_UpdateMessageInfoByCid = mysql_UpdateMessageInfoByCid E C now,
     mr_UpdateMessageStateByCid = mysql_UpdateMessageStateByCid E now,
     mr_UpdateMessageStateByID = mysql_UpdateMessageStateByID E now,
     mr_MarkBadMessage = mysql_MarkBadMessage E now,
     mr_UpdateErrMsg = mysql_UpdateErrMsg E now\<rparr>"

definition mysql_address_repo :: "mysql_engine \<Rightarrow> codec \<Rightarrow> time \<Rightarrow> mysql_db address_repo" where
  "mysql_address_repo E C now = \<lparr>
     ar_SaveAddress = mysql_SaveAddress E C,
     ar_GetAddress = mysql_GetAddress E C,
     ar_GetAddressByID = mysql_GetAddressByID E C,
     ar_GetOneRecord = mysql_GetOneRecord E C,
     ar_HasAddress = mysql_HasAddress E C,
     ar_ListAddress = mysql_ListAddress E C,
     ar_ListActiveAddress = mysql_ListActiveAddress E C,
     ar_DelAddress = mysql_DelAddress E,
     ar_UpdateNonce = mysql_UpdateNonce E C now,
     ar_UpdateState = mysql_UpdateState E C now,
     ar_UpdateSelectMsgNum = mysql_UpdateSelectMsgNum E C now,
     ar_UpdateFeeParams = mysql_UpdateFeeParams E C now\<rparr>"

definition mysql_repo :: "mysql_engine \<Rightarrow> codec \<Rightarrow> time \<Rightarrow> mysql_db repo" where
  "mysql_repo E C now = \<lparr>
     MessageRepo = mysql_message_repo E C now,
     AddressRepo = mysql_address_repo E C now,
     ActorCfgRepo = \<lparr>cr_SaveActorCfg = mysql_SaveActorCfg E, cr_HasActorCfg = mysql_HasActorCfg E,
       cr_GetActorCfgByMethodType = mysql_GetActorCfgByMethodType E,
       cr_GetActorCfgByID = mysql_GetActorCfgByID E, cr_ListActorCfg = mysql_ListActorCfg E,
       cr_DelActorCfgByMethodType = mysql_DelActorCfgByMethodType E,
       cr_DelActorCfgById = mysql_DelActorCfgById E,
       cr_UpdateSelectSpecById = mysql_UpdateSelectSpecById E now\<rparr>,
     SharedParamsRepo = \<lparr>pr_GetSharedParams = mysql_GetSharedParams E,
       pr_SetSharedParams = mysql_SetSharedParams E\<rparr>,
     NodeRepo = \<lparr>nr_CreateNode = mysql_CreateNode E, nr_SaveNode = mysql_SaveNode E now,
       nr_GetNode = mysql_GetNode E, nr_HasNode = mysql_HasNode E, nr_ListNode = mysql_ListNode E,
       nr_DelNode = mysql_DelNode E now\<rparr>,
     Transaction = ye_tx E\<rparr>"

section \<open>Properties\<close>

text \<open>
  C23: the two back ends agree on what a message becomes: converting any message to a row and
  reading the row back gives the same message with SQLite as with MySQL, although one keeps
  the method number as an unsigned and the other as a signed integer, and one reads the fee
  cap through a conversion that fails on nil.
\<close>

theorem backends_read_back_same_message:
  "sqlite_Message C (sqlite_fromMessage C m) = Inr (mysql_Message C (mysql_fromMessage C m))"
proof -
  obtain fc where fc: "SafeFromGo (m_GasFeeCap m) = Some fc" by (cases "m_GasFeeCap m") auto
  then show ?thesis
    by (simp add: sqlite_Message_def sqlite_fromMessage_def mysql_Message_def mysql_fromMessage_def
        NewFromGo_def Let_def)
qed

end
