(* ===== verification/AddressService.thy ===== *)
theory AddressService
  imports SqliteContract
begin

text \<open>
  The services over the address, shared-parameter and node repositories
  (\<open>service/address_service.go\<close>, \<open>service/shared_params_service.go\<close>,
  \<open>service/node_service.go\<close>) and the address migration of \<open>models/modules.go\<close>,
  written against the interfaces of \<open>Repo\<close>. The auth and wallet clients are parameters.
\<close>

section \<open>AddressService\<close>

text \<open>
  \<open>GetUserBySigner\<close> of the auth client returns the names of the users a signer is
  bound to.
\<close>

definition GetAccountsOfSigner ::
  "(address \<Rightarrow> string list result) \<Rightarrow> address \<Rightarrow> string list result" where
  "GetAccountsOfSigner getUserBySigner addr = bindE (getUserBySigner addr) (\<lambda>users. Inr users)"

definition as_SaveAddress :: "'db repo \<Rightarrow> address_info \<Rightarrow> ('db, uuid) comp" where
  "as_SaveAddress R addr =
     bindC (Transaction R (bindC (queryC (ar_HasAddress (AddressRepo R) (a_Addr addr))) (\<lambda>has.
       if has then failC (Err ''address already exists'')
       else ar_SaveAddress (AddressRepo R) addr)))
     (\<lambda>_. returnC (a_ID addr))"

definition as_UpdateNonce :: "'db repo \<Rightarrow> address \<Rightarrow> u64 \<Rightarrow> ('db, unit) comp" where
  "as_UpdateNonce R addr nonce = dropC (ar_UpdateNonce (AddressRepo R) addr nonce)"

definition as_GetAddress :: "'db repo \<Rightarrow> address \<Rightarrow> 'db \<Rightarrow> address_info result" where
  "as_GetAddress R addr = ar_GetAddress (AddressRepo R) addr"

text \<open>\<open>name\<close> is \<open>core.CtxGetName(ctx)\<close>, the empty name when the context has none.\<close>

definition as_WalletHas ::
  "(address \<Rightarrow> string list result) \<Rightarrow> (address \<Rightarrow> string list \<Rightarrow> bool result) \<Rightarrow> string \<Rightarrow> address \<Rightarrow> bool result"
where
  "as_WalletHas getUserBySigner walletHas name addr =
     bindE (GetAccountsOfSigner getUserBySigner addr) (\<lambda>accounts.
       if name \<in> set accounts then walletHas addr accounts else Inr False)"

definition as_HasAddress :: "'db repo \<Rightarrow> address \<Rightarrow> 'db \<Rightarrow> bool result" where
  "as_HasAddress R addr = ar_HasAddress (AddressRepo R) addr"

definition as_ListAddress :: "'db repo \<Rightarrow> 'db \<Rightarrow> address_info list result" where
  "as_ListAddress R = ar_ListAddress (AddressRepo R)"

definition as_ListActiveAddress :: "'db repo \<Rightarrow> 'db \<Rightarrow> address_info list result" where
  "as_ListActiveAddress R = ar_ListActiveAddress (AddressRepo R)"

definition as_DeleteAddress :: "'db repo \<Rightarrow> codec \<Rightarrow> address \<Rightarrow> ('db, unit) comp" where
  "as_DeleteAddress R C addr = ar_DelAddress (AddressRepo R) (ad_str C addr)"

definition ForbiddenAddress :: "'db repo \<Rightarrow> address \<Rightarrow> ('db, unit) comp" where
  "ForbiddenAddress R addr =
     bindC (ar_UpdateState (AddressRepo R) addr AddressStateForbbiden) (\<lambda>_. returnC ())"

definition ActiveAddress :: "'db repo \<Rightarrow> address \<Rightarrow> ('db, unit) comp" where
  "ActiveAddress R addr =
     bindC (ar_UpdateState (AddressRepo R) addr AddressStateAlive) (\<lambda>_. returnC ())"

definition SetSelectMsgNum :: "'db repo \<Rightarrow> address \<Rightarrow> u64 \<Rightarrow> ('db, unit) comp" where
  "SetSelectMsgNum R addr num =
     bindC (ar_UpdateSelectMsgNum (AddressRepo R) addr num) (\<lambda>_. returnC ())"

record address_spec =
  asp_Address :: address
  asp_GasOverEstimation :: float64
  asp_GasOverPremium :: float64
  asp_MaxFeeStr :: string
  asp_GasFeeCapStr :: string
  asp_BaseFeeStr :: string

text \<open>\<open>big_parse\<close> is \<open>venusTypes.BigFromString\<close>; an empty text leaves the nil amount.\<close>

definition parse_fee :: "(string \<Rightarrow> int result) \<Rightarrow> string \<Rightarrow> string \<Rightarrow> bigint result" where
  "parse_fee big_parse what s =
     (if length s \<noteq> 0
      then mapErrE (\<lambda>e. Err (what @ error_text e)) (bindE (big_parse s) (\<lambda>i. Inr (Some i)))
      else Inr None)"

definition SetFeeParams ::
  "'db repo \<Rightarrow> (string \<Rightarrow> int result) \<Rightarrow> address_spec \<Rightarrow> ('db, unit) comp" where
  "SetFeeParams R big_parse params =
     bindC (queryC (ar_HasAddress (AddressRepo R) (asp_Address params))) (\<lambda>has.
       if \<not> has then failC (Err ''address not exists'')
       else
         bindC (liftC (parse_fee big_parse ''parsing maxfee failed '' (asp_MaxFeeStr params))) (\<lambda>maxFee.
         bindC (liftC (parse_fee big_parse ''parsing gas-feecap failed '' (asp_GasFeeCapStr params))) (\<lambda>gasFeeCap.
         bindC (liftC (parse_fee big_parse ''parsing basefee failed '' (asp_BaseFeeStr params))) (\<lambda>baseFee.
           ar_UpdateFeeParams (AddressRepo R) (asp_Address params) (asp_GasOverEstimation params)
             (asp_GasOverPremium params) maxFee gasFeeCap baseFee))))"

text \<open>The set of active addresses; a failing query yields the empty set.\<close>

definition ActiveAddresses :: "'db repo \<Rightarrow> 'db \<Rightarrow> address set" where
  "ActiveAddresses R db =
     (case as_ListActiveAddress R db of Inl e \<Rightarrow> {} | Inr addrList \<Rightarrow> set (map a_Addr addrList))"

section \<open>SharedParamsService and NodeService\<close>

definition DefaultMaxFee :: int where
  "DefaultMaxFee = 70000000000000000"

text \<open>The factor 1.25 has the bit pattern 3FF4000000000000.\<close>

definition DefSharedParams :: shared_spec where
  "DefSharedParams = \<lparr>sp_ID = 1, sp_SelMsgNum = 20, sp_FeeSpec = \<lparr>f_GasOverEstimation = 0x3FF4000000000000,
     f_MaxFee = Some DefaultMaxFee, f_GasFeeCap = Some 0, f_GasOverPremium = 0, f_BaseFee = Some 0\<rparr>\<rparr>"

definition sps_GetSharedParams :: "'db repo \<Rightarrow> 'db \<Rightarrow> shared_spec result" where
  "sps_GetSharedParams R = pr_GetSharedParams (SharedParamsRepo R)"

definition sps_SetSharedParams :: "'db repo \<Rightarrow> shared_spec \<Rightarrow> ('db, unit) comp" where
  "sps_SetSharedParams R params =
     bindC (pr_SetSharedParams (SharedParamsRepo R) params) (\<lambda>_. returnC ())"

definition NewSharedParamsService :: "'db repo \<Rightarrow> ('db, unit) comp" where
  "NewSharedParamsService R =
     bindC (queryC (\<lambda>db. Inr (sps_GetSharedParams R db))) (\<lambda>r. case r of
         Inl err \<Rightarrow> if \<not> errors_Is_NotFound err then failC err
                    else sps_SetSharedParams R DefSharedParams
       | Inr _ \<Rightarrow> returnC ())"

text \<open>\<open>dial\<close> is \<open>v1.DialFullNodeRPC\<close> on the node's URL and token.\<close>

definition ns_SaveNode ::
  "'db node_repo \<Rightarrow> (string \<Rightarrow> string \<Rightarrow> unit result) \<Rightarrow> node \<Rightarrow> ('db, unit) comp" where
  "ns_SaveNode N dial nd = bindC (liftC (dial (n_URL nd) (n_Token nd))) (\<lambda>_. nr_SaveNode N nd)"

definition ns_GetNode :: "'db node_repo \<Rightarrow> string \<Rightarrow> 'db \<Rightarrow> node result" where
  "ns_GetNode N = nr_GetNode N"

definition ns_HasNode :: "'db node_repo \<Rightarrow> string \<Rightarrow> 'db \<Rightarrow> bool result" where
  "ns_HasNode N = nr_HasNode N"

definition ns_ListNode :: "'db node_repo \<Rightarrow> 'db \<Rightarrow> node list result" where
  "ns_ListNode N = nr_ListNode N"

definition ns_DeleteNode :: "'db node_repo \<Rightarrow> string \<Rightarrow> ('db, unit) comp" where
  "ns_DeleteNode N name = bindC (nr_DelNode N name) (\<lambda>_. returnC ())"

section \<open>MigrateAddress (models/modules.go)\<close>

text \<open>
  For every listed address: when the record under its current text exists, only a stale
  record under the \<open>t\<close>-prefixed text is removed; otherwise a record with the current
  text is made from the old one, which is then removed. \<open>newID\<close> is \<open>shared.NewUUID\<close>.
\<close>

definition migrate_one ::
  "'db repo \<Rightarrow> codec \<Rightarrow> time \<Rightarrow> (address_info \<Rightarrow> uuid) \<Rightarrow> address_info \<Rightarrow> ('db, unit) comp" where
  "migrate_one R C now newID addrInfo =
     (let fAddr = ad_str C (a_Addr addrInfo);
          tAddr = CHR ''t'' # tl fAddr
      in bindC (queryC (\<lambda>db. Inr (ar_GetOneRecord (AddressRepo R) fAddr db))) (\<lambda>r. case r of
          Inr _ \<Rightarrow>
            bindC (queryC (\<lambda>db. Inr (ar_GetOneRecord (AddressRepo R) tAddr db))) (\<lambda>t. case t of
                Inr _ \<Rightarrow> ar_DelAddress (AddressRepo R) tAddr
              | Inl _ \<Rightarrow> returnC ())
        | Inl err \<Rightarrow>
            if \<not> errors_Is_NotFound err then failC err
            else bindC (ar_SaveAddress (AddressRepo R)
                \<lparr>a_ID = newID addrInfo, a_Addr = a_Addr addrInfo, a_Nonce = a_Nonce addrInfo, a_Weight = 0,
                 a_State = a_State addrInfo, a_SelMsgNum = a_SelMsgNum addrInfo, a_FeeSpec = a_FeeSpec addrInfo,
                 a_IsDeleted = NotDeleted, a_CreatedAt = now, a_UpdatedAt = now\<rparr>)
              (\<lambda>_. ar_DelAddress (AddressRepo R) tAddr)))"

definition MigrateAddress ::
  "'db repo \<Rightarrow> codec \<Rightarrow> time \<Rightarrow> (address_info \<Rightarrow> uuid) \<Rightarrow> ('db, unit) comp" where
  "MigrateAddress R C now newID =
     bindC (queryC (ar_ListAddress (AddressRepo R))) (\<lambda>list.
       Transaction R (forC (migrate_one R C now newID) list))"

section \<open>Properties\<close>

text \<open>
  C35: forbidding an address takes it out of the active set and activating it puts it back,
  for any store that keeps the address contract: after a successful \<open>ForbiddenAddress\<close>
  no active listing contains the address, after a successful \<open>ActiveAddress\<close> on a live
  record every active listing contains it, and all other active addresses stay as they were.
\<close>

theorem forbid_and_activate:
  fixes R :: "'db repo"
  assumes store: "address_store (AddressRepo R) ok addrs" and inv: "ok db"
    and live: "addr \<in> a_Addr ` set (live (addrs db))"
    and f: "ForbiddenAddress R addr db = (Inr (), db1)" and a: "ActiveAddress R addr db1 = (Inr (), db2)"
    and l0: "as_ListActiveAddress R db = Inr before"
    and l1: "as_ListActiveAddress R db1 = Inr forbidden" and l2: "as_ListActiveAddress R db2 = Inr active"
  shows "addr \<notin> a_Addr ` set forbidden \<and> addr \<in> a_Addr ` set active
    \<and> a_Addr ` set forbidden = a_Addr ` set before - {addr}
    \<and> a_Addr ` set active = insert addr (a_Addr ` set before)"
proof -
  let ?p = "\<lambda>x. a_Addr x = addr \<and> a_IsDeleted x = NotDeleted"
  obtain t1 where db1: "ok db1"
    "addrs db1 = upd_where ?p (\<lambda>x. x\<lparr>a_State := AddressStateForbbiden, a_UpdatedAt := t1\<rparr>) (addrs db)"
    using address_store.UpdateState [OF store inv, of addr AddressStateForbbiden db1] f
    by (auto simp: ForbiddenAddress_def comp_inv)
  obtain t2 where db2: "ok db2"
    "addrs db2 = upd_where ?p (\<lambda>x. x\<lparr>a_State := AddressStateAlive, a_UpdatedAt := t2\<rparr>) (addrs db1)"
    using address_store.UpdateState [OF store db1(1), of addr AddressStateAlive db2] a
    by (auto simp: ActiveAddress_def comp_inv)
  have act: "a_Addr ` set l = a_Addr ` {x \<in> set (addrs d). a_IsDeleted x = NotDeleted \<and> a_State x = AddressStateAlive}"
    if "ok d" "as_ListActiveAddress R d = Inr l" for d l
    using address_store.ListActive_set [OF store that(1), of l] that(2) by (simp add: as_ListActiveAddress_def)
  define isact where "isact x \<longleftrightarrow> a_IsDeleted x = NotDeleted \<and> a_State x = AddressStateAlive" for x :: address_info
  have lists: "a_Addr ` set l = a_Addr ` {x \<in> set (addrs d). isact x}"
    if "ok d" "as_ListActiveAddress R d = Inr l" for d l
    using act [OF that] by (simp only: isact_def)
  have upd: "b \<in> a_Addr ` {x \<in> set (upd_where ?p (\<lambda>x. x\<lparr>a_State := st, a_UpdatedAt := t\<rparr>) l). isact x}
      \<longleftrightarrow> (\<exists>x \<in> set l. a_Addr x = b \<and> a_IsDeleted x = NotDeleted \<and>
            (if b = addr then st = AddressStateAlive else a_State x = AddressStateAlive))" for b st t l
  proof -
    define g where "g x = (if ?p x then x\<lparr>a_State := st, a_UpdatedAt := t\<rparr> else x)" for x :: address_info
    have "isact (g x) \<and> a_Addr (g x) = b \<longleftrightarrow> a_Addr x = b \<and> a_IsDeleted x = NotDeleted \<and>
            (if b = addr then st = AddressStateAlive else a_State x = AddressStateAlive)" for x
      by (cases "a_Addr x = addr"; cases "a_IsDeleted x = NotDeleted"; cases "a_Addr x = b") (simp_all add: g_def isact_def)
    moreover have "b \<in> a_Addr ` {x \<in> g ` set l. isact x} \<longleftrightarrow> (\<exists>x \<in> set l. isact (g x) \<and> a_Addr (g x) = b)" by blast
    moreover have "set (upd_where ?p (\<lambda>x. x\<lparr>a_State := st, a_UpdatedAt := t\<rparr>) l) = g ` set l"
      by (simp add: set_upd_where g_def)
    ultimately show ?thesis by simp
  qed
  have mem: "b \<in> a_Addr ` {x \<in> set l. isact x} \<longleftrightarrow>
      (\<exists>x \<in> set l. a_Addr x = b \<and> a_IsDeleted x = NotDeleted \<and> a_State x = AddressStateAlive)" for b l
    by (auto simp: isact_def)
  obtain x0 where x0: "x0 \<in> set (addrs db)" "a_Addr x0 = addr" "a_IsDeleted x0 = NotDeleted"
    using live by (auto simp: live_def)
  have keep: "\<exists>x \<in> set (addrs db1). a_Addr x = addr \<and> a_IsDeleted x = NotDeleted"
    unfolding db1(2) set_upd_where by (rule bexI [OF _ imageI [OF x0(1)]]) (simp add: x0)
  have 1: "a_Addr ` set forbidden = a_Addr ` set before - {addr}"
    unfolding lists [OF db1(1) l1] lists [OF inv l0] unfolding db1(2)
    by (rule set_eqI, unfold upd mem Diff_iff) auto
  have 2: "a_Addr ` set active = insert addr (a_Addr ` set forbidden)"
    unfolding lists [OF db2(1) l2] lists [OF db1(1) l1] unfolding db2(2)
    by (rule set_eqI, unfold upd mem insert_iff) (use keep in auto)
  from 1 2 show ?thesis by auto
qed


text \<open>One active address in an otherwise empty SQLite database with the list engine.\<close>

definition sample_address :: address_info where
  "sample_address = \<lparr>a_ID = ''1'', a_Addr = Addr 1 ''from'', a_Nonce = 5, a_Weight = 0, a_State = AddressStateAlive,
     a_SelMsgNum = 0, a_FeeSpec = \<lparr>f_GasOverEstimation = 0, f_MaxFee = Some 0, f_GasFeeCap = Some 0,
     f_GasOverPremium = 0, f_BaseFee = Some 0\<rparr>, a_IsDeleted = - 1, a_CreatedAt = 0, a_UpdatedAt = 0\<rparr>"

definition sample_db :: sqlite_db where
  "sample_db = empty_db\<lparr>t_addresses := [sqlite_fromAddress plain_codec sample_address]\<rparr>"

lemma sample_db_inv: "sqlite_inv plain_codec sample_db"
  by (auto simp: sqlite_inv_def sample_db_def empty_db_def addr_row_ok_def sqlite_fromAddress_def)

lemma plain_address_store:
  "address_store (AddressRepo (sqlite_repo list_engine plain_codec now)) (sqlite_inv plain_codec) (sqlite_addrs plain_codec)"
  using plain_sqlite.address_store_axioms by simp

lemma plain_UpdateState:
  "\<exists>db'. ar_UpdateState (AddressRepo (sqlite_repo list_engine plain_codec now)) a st db = (Inr (), db')"
  by (simp add: sqlite_UpdateState_def on_addresses_def list_engine_def list_gorm_def dropC_def)

lemma plain_ListActive:
  assumes "sqlite_inv plain_codec db"
  shows "\<exists>l. as_ListActiveAddress (sqlite_repo list_engine plain_codec now) db = Inr l"
proof -
  let ?q = "Where (\<lambda>r. sa_IsDeleted r = - 1 \<and> sa_State r = AddressStateAlive) q_all"
  obtain rows where rows: "g_Find (e_addr list_engine) ?q (t_addresses db) = Inr rows"
    by (simp add: list_engine_def list_gorm_def)
  have "traverseE (sqlite_Address plain_codec) rows = Inr (map (addr_of plain_codec) rows)"
    using plain_sqlite.a.Find_set [OF rows] plain_sqlite.inv_addr_rows [OF assms] by (intro traverseE_total) auto
  with rows show ?thesis by (simp add: as_ListActiveAddress_def sqlite_ListActiveAddress_def)
qed

theorem forbid_and_activate_witness:
  "\<exists>db1 forbidden. ForbiddenAddress (sqlite_repo list_engine plain_codec 7) (Addr 1 ''from'') sample_db = (Inr (), db1)
     \<and> as_ListActiveAddress (sqlite_repo list_engine plain_codec 7) db1 = Inr forbidden
     \<and> Addr 1 ''from'' \<notin> a_Addr ` set forbidden"
proof -
  let ?R = "sqlite_repo list_engine plain_codec 7" and ?a = "Addr 1 ''from''"
  obtain db1 where u1: "ar_UpdateState (AddressRepo ?R) ?a AddressStateForbbiden sample_db = (Inr (), db1)"
    using plain_UpdateState [of 7 ?a AddressStateForbbiden sample_db] by (rule exE)
  have inv1: "sqlite_inv plain_codec db1"
    by (rule conjunct1 [OF address_store.UpdateState [OF plain_address_store sample_db_inv u1]])
  obtain db2 where u2: "ar_UpdateState (AddressRepo ?R) ?a AddressStateAlive db1 = (Inr (), db2)"
    using plain_UpdateState [of 7 ?a AddressStateAlive db1] by (rule exE)
  have inv2: "sqlite_inv plain_codec db2"
    by (rule conjunct1 [OF address_store.UpdateState [OF plain_address_store inv1 u2]])
  have f: "ForbiddenAddress ?R ?a sample_db = (Inr (), db1)" "ActiveAddress ?R ?a db1 = (Inr (), db2)"
    by (simp_all only: ForbiddenAddress_def ActiveAddress_def bindC_def returnC_def u1 u2 prod.case sum.case)
  obtain l0 l1 l2 where l: "as_ListActiveAddress ?R sample_db = Inr l0" "as_ListActiveAddress ?R db1 = Inr l1"
    "as_ListActiveAddress ?R db2 = Inr l2"
    using plain_ListActive [OF sample_db_inv] plain_ListActive [OF inv1] plain_ListActive [OF inv2] by metis
  have live: "?a \<in> a_Addr ` set (live (sqlite_addrs plain_codec sample_db))"
    by (simp add: sample_db_def empty_db_def sqlite_addrs_def addr_of_def sqlite_Address_def sqlite_fromAddress_def
        sample_address_def plain.ad_roundtrip live_def NotDeleted_def)
  show ?thesis
    by (rule exI [of _ db1], rule exI [of _ l1], intro conjI f(1) l(2))
      (rule conjunct1 [OF forbid_and_activate [OF plain_address_store sample_db_inv live f l]])
qed

end
