(* ===== verification/StateRefresh.thy ===== *)
theory StateRefresh
  imports AddressService Tipsets
begin

text \<open>
  The refresh of message states from the chain (\<open>service/message_state_refresh.go\<close>): which
  stored messages a reorganisation takes back, which ones the applied tipsets settle, the
  transaction that records both, and the tipsets remembered as processed. The full node, the
  identifier of a message, the iteration order of a Go map and the tipset file are
  parameters (\<open>refresh_env\<close>).
\<close>

section \<open>The environment\<close>

record 'db refresh_env =
  re_repo :: "'db repo"
  re_codec :: codec
  re_ParentMessages :: "cid \<Rightarrow> (cid \<times> chain_msg) list result"
  re_ParentReceipts :: "cid \<Rightarrow> receipt option list result"
  re_ChainGetTipSet :: chain_get
  re_Cid :: "chain_msg \<Rightarrow> cid"
  re_order :: "cid list \<Rightarrow> cid list"
  re_write :: "tipset_cache \<Rightarrow> unit result"

section \<open>What is reverted, what is applied\<close>

text \<open>
  \<open>processRevertHead\<close>: the identifiers of the on-chain messages of active addresses at
  the heights of the reverted tipsets; the map is the list of its keys.
\<close>

fun revert_loop :: "'db repo \<Rightarrow> tipset list \<Rightarrow> 'db \<Rightarrow> cid list result" where
  "revert_loop R [] db = Inr []"
| "revert_loop R (ts # tss) db =
     bindE (mapErrE (\<lambda>e. Err (''found filled message at height '' @ show_int (ts_Height ts) @ '' error '' @ error_text e))
       (mr_ListChainMessageByHeight (MessageRepo R) (ts_Height ts) db)) (\<lambda>msgs.
     bindE (revert_loop R tss db) (\<lambda>rest.
       Inr (List.map_filter (\<lambda>msg. if m_From msg \<in> ActiveAddresses R db then m_UnsignedCid msg else None) msgs @ rest)))"

definition processRevertHead :: "'db repo \<Rightarrow> head_chan \<Rightarrow> 'db \<Rightarrow> cid list result" where
  "processRevertHead R h db = bindE (revert_loop R (hc_revert h) db) (\<lambda>cids. Inr (remdups cids))"

record apply_message =
  ap_signedCID :: cid
  ap_msg :: chain_msg
  ap_height :: epoch
  ap_tsk :: tipset_key
  ap_receipt :: "receipt option"

text \<open>
  \<open>processBlockParentMessages\<close>: the parent messages of a tipset, paired with their
  receipts, as far as their sender is an active address. The parent tipset is dereferenced
  only for such a message.
\<close>

definition applied_of :: "address set \<Rightarrow> tipset option \<Rightarrow> (cid \<times> chain_msg) list \<Rightarrow> receipt option list \<Rightarrow> apply_message list result" where
  "applied_of active pts msgs receipts =
     traverseE (\<lambda>((c, m), r). case pts of None \<Rightarrow> Inl (Panic ''nil TipSet'')
        | Some p \<Rightarrow> Inr \<lparr>ap_signedCID = c, ap_msg = m, ap_height = ts_Height p, ap_tsk = ts_Key p, ap_receipt = r\<rparr>)
       (filter (\<lambda>((c, m), r). c_From m \<in> active) (zip msgs receipts))"

definition parents_of :: "'db refresh_env \<Rightarrow> address set \<Rightarrow> tipset \<Rightarrow> apply_message list result" where
  "parents_of env active ts =
     bindE (mapErrE (Wrap ''got parent message failed '') (re_ParentMessages env (ts_Block0Cid ts))) (\<lambda>msgs.
     bindE (mapErrE (Wrap ''got parent receipt failed '') (re_ParentReceipts env (ts_Block0Cid ts))) (\<lambda>receipts.
       if length msgs \<noteq> length receipts
       then Inl (Err (''messages not match receipts, '' @ show_int (int (length msgs)) @ '' != '' @ show_int (int (length receipts))))
       else (case re_ChainGetTipSet env (ts_Parents ts) of
           (_, Some err) \<Rightarrow> Inl (Err (''got parent ts failed: '' @ error_text err))
         | (pts, None) \<Rightarrow> applied_of active pts msgs receipts)))"

definition processBlockParentMessages :: "'db refresh_env \<Rightarrow> tipset list \<Rightarrow> 'db \<Rightarrow> apply_message list result" where
  "processBlockParentMessages env apply_ts db =
     bindE (traverseE (parents_of env (ActiveAddresses (re_repo env) db)) apply_ts) (\<lambda>ls. Inr (concat ls))"

section \<open>Recording the outcome\<close>

definition revert_receipt :: receipt where
  "revert_receipt = \<lparr>r_ExitCode = - 1, r_Return = None, r_GasUsed = 0\<rparr>"

definition revert_one :: "'db refresh_env \<Rightarrow> cid \<Rightarrow> ('db, unit) comp" where
  "revert_one env c =
     mr_UpdateMessageInfoByCid (MessageRepo (re_repo env)) (cid_str (re_codec env) c) (Some revert_receipt) 0 FillMsg []"

text \<open>A different message of the same sender and nonce has landed: the local one lost its nonce.\<close>

definition conflict_of :: "apply_message \<Rightarrow> message \<Rightarrow> message" where
  "conflict_of a localMsg = localMsg\<lparr>m_State := NonceConflictMsg, m_Receipt := ap_receipt a,
     m_Height := ap_height a, m_TipSetKey := ap_tsk a\<rparr>"

definition apply_one :: "'db refresh_env \<Rightarrow> apply_message \<Rightarrow> ('db, unit) comp" where
  "apply_one env a =
     (let M = MessageRepo (re_repo env)
      in bindC (queryC (\<lambda>db. tryE (mr_GetMessageByFromNonceAndState M (c_From (ap_msg a)) (c_Nonce (ap_msg a)) FillMsg db))) (\<lambda>r.
         case r of
           Inl err \<Rightarrow> returnC ()
         | Inr localMsg \<Rightarrow>
             if (case m_SignedCid localMsg of None \<Rightarrow> False | Some sc \<Rightarrow> sc \<noteq> ap_signedCID a)
             then mapErrC (\<lambda>e. Err (''update message receipt failed, '' @ error_text e)) (mr_UpdateMessage M (conflict_of a localMsg))
             else mapErrC (\<lambda>e. Err (''update message receipt failed, '' @ error_text e))
               (mr_UpdateMessageInfoByCid M (cid_str (re_codec env) (re_Cid env (ap_msg a))) (ap_receipt a) (ap_height a)
                  OnChainMsg (ap_tsk a))))"

text \<open>The two maps the function also returns only feed a log line.\<close>

definition updateMessageState :: "'db refresh_env \<Rightarrow> apply_message list \<Rightarrow> cid list \<Rightarrow> ('db, unit) comp" where
  "updateMessageState env applyMsgs revertMsgs =
     Transaction (re_repo env)
       (bindC (forC (revert_one env) (re_order env revertMsgs)) (\<lambda>_. forC (apply_one env) applyMsgs))"

definition storeTipset :: "'db refresh_env \<Rightarrow> tipset list \<Rightarrow> (tipset_cache, unit) comp" where
  "storeTipset env apply_ts tsCache =
     (let store = (\<lambda>processed. cache_Save (re_write env)
            (cache_Add processed (tsCache\<lparr>CurrHeight := ts_Height (hd processed)\<rparr>)))
      in case apply_ts of
           [] \<Rightarrow> (Inr (), tsCache)
         | [ts] \<Rightarrow> (case re_ChainGetTipSet env (ts_Parents ts) of
               (_, Some err) \<Rightarrow> (Inl (Err (''got tipset failed: '' @ error_text err)), tsCache)
             | (None, None) \<Rightarrow> (Inl (Panic ''nil TipSet''), tsCache)
             | (Some pts, None) \<Rightarrow> store [pts])
         | _ # processed \<Rightarrow> store processed)"

definition doRefreshMessageState :: "'db refresh_env \<Rightarrow> head_chan \<Rightarrow> ('db \<times> tipset_cache, unit) comp" where
  "doRefreshMessageState env h =
     (if hc_apply h = [] then returnC ()
      else
        bindC (askDb (processRevertHead (re_repo env) h)) (\<lambda>revertMsgs.
        bindC (mapErrC (\<lambda>e. Err (''process apply failed '' @ error_text e))
          (askDb (processBlockParentMessages env (hc_apply h)))) (\<lambda>applyMsgs.
        bindC (onDb (updateMessageState env applyMsgs revertMsgs)) (\<lambda>_.
        bindC (attemptC (onSnd (storeTipset env (hc_apply h)))) (\<lambda>_. returnC ())))))"

end
