(* ===== verification/MessageService.thy ===== *)
theory MessageService
  imports Gas StateRefresh
begin

text \<open>
  The message service (\<open>service/message_service.go\<close>, \<open>service/send.go\<close>,
  \<open>service/events.go\<close>): pushing messages, reading them with their confidence, waiting for
  them, replacing, recovering, republishing and clearing them, the resynchronisation of filled
  messages, and the handlers of chain notifications. Everything outside the repository (full
  node, wallet, auth client, clocks, identifiers, the capacity of the receiver channel) is a
  parameter (\<open>ms_env\<close>).
\<close>

section \<open>The environment\<close>

record msg_lookup =
  lk_Receipt :: receipt
  lk_Height :: epoch
  lk_TipSet :: tipset_key

record 'db ms_env =
  me_repo :: "'db repo"
  me_codec :: codec
  me_GetUserBySigner :: "address \<Rightarrow> string list result"
  me_WalletHas :: "address \<Rightarrow> string list \<Rightarrow> bool result"
  me_WalletSign :: "address \<Rightarrow> string list \<Rightarrow> cid \<Rightarrow> string \<Rightarrow> signature result"
  me_StateAccountKey :: "address \<Rightarrow> address result"
  me_ChainHead :: "tipset result"
  me_StateSearchMsg :: "cid \<Rightarrow> msg_lookup option result"
  me_MpoolRatio :: "int result"
  me_GasEstimate :: "chain_msg \<Rightarrow> bigint \<Rightarrow> float64 \<Rightarrow> chain_msg result"
  me_StateGetActor :: "address \<Rightarrow> actor result"
  me_ToStorageBlock :: "chain_msg \<Rightarrow> string result"
  me_Cid :: "chain_msg \<Rightarrow> cid"
  me_SignedCid :: "signed_msg \<Rightarrow> cid"
  me_map_order :: "address set \<Rightarrow> address list"
  me_receiver_cap :: nat
  me_newID :: uuid
  me_now :: time

section \<open>Pushing\<close>

definition zero_fees :: fee_spec where
  "zero_fees = \<lparr>f_GasOverEstimation = 0, f_MaxFee = None, f_GasFeeCap = None, f_GasOverPremium = 0, f_BaseFee = None\<rparr>"

definition new_address :: "'db ms_env \<Rightarrow> address \<Rightarrow> address_info" where
  "new_address env addr = \<lparr>a_ID = me_newID env, a_Addr = addr, a_Nonce = 0, a_Weight = 0, a_State = AddressStateAlive,
     a_SelMsgNum = 0, a_FeeSpec = zero_fees, a_IsDeleted = NotDeleted, a_CreatedAt = me_now env, a_UpdatedAt = me_now env\<rparr>"

text \<open>The transaction of a push: the sender's record is looked up and made when it is missing.\<close>

definition ensure_address :: "'db ms_env \<Rightarrow> address \<Rightarrow> ('db, unit) comp" where
  "ensure_address env addr =
     (let A = AddressRepo (me_repo env)
      in bindC (queryC (\<lambda>db. tryE (ar_GetAddress A addr db))) (\<lambda>r. case r of
           Inr _ \<Rightarrow> returnC ()
         | Inl err \<Rightarrow>
             if errors_Is_NotFound err
             then mapErrC (\<lambda>e. Err (''save address failed '' @ error_text e)) (ar_SaveAddress A (new_address env addr))
             else failC err))"

text \<open>The record the transaction found; \<open>None\<close> is the nil pointer left when it made one.\<close>

definition found_address :: "'db ms_env \<Rightarrow> address \<Rightarrow> 'db \<Rightarrow> address_info option" where
  "found_address env addr db = (case ar_GetAddress (AddressRepo (me_repo env)) addr db of Inl _ \<Rightarrow> None | Inr a \<Rightarrow> Some a)"

definition pushMessage :: "'db ms_env \<Rightarrow> message \<Rightarrow> ('db, unit) comp" where
  "pushMessage env msg0 =
     (if length (m_ID msg0) = 0 then failC (Err ''empty uid'')
      else bindC (if Protocol_is_ID (m_From msg0)
                  then mapErrC (Wrap ''getting key address: '') (liftC (me_StateAccountKey env (m_From msg0)))
                  else returnC (m_From msg0)) (\<lambda>from.
        let msg = with_Message (\<lambda>c. c\<lparr>c_From := from\<rparr>) msg0
        in bindC (mapErrC (Wrap ''get accounts: '') (liftC (GetAccountsOfSigner (me_GetUserBySigner env) from))) (\<lambda>accounts.
           bindC (liftC (me_WalletHas env from accounts)) (\<lambda>has.
             if \<not> has then failC (Err ''signer address not exists'')
             else
               bindC (queryC (\<lambda>db. Inr (found_address env from db))) (\<lambda>addrInfo.
               bindC (Transaction (me_repo env) (ensure_address env from)) (\<lambda>_.
                 if (case addrInfo of Some a \<Rightarrow> a_State a = AddressStateForbbiden | None \<Rightarrow> False)
                 then failC (Err ''address is forbidden'')
                 else mr_CreateMessage (MessageRepo (me_repo env)) (with_Message (\<lambda>c. c\<lparr>c_Nonce := 0\<rparr>) msg)))))))"

definition new_message :: "string \<Rightarrow> chain_msg \<Rightarrow> send_spec option \<Rightarrow> string \<Rightarrow> message" where
  "new_message i c meta account = \<lparr>m_ID = i, m_UnsignedCid = None, m_SignedCid = None, m_Message = c, m_Signature = None,
     m_Height = 0, m_Confidence = 0, m_Receipt = None, m_TipSetKey = [], m_Meta = meta, m_WalletName = account,
     m_State = UnFillMsg, m_ErrorMsg = '''', m_UpdatedAt = 0, m_CreatedAt = 0\<rparr>"

text \<open>\<open>account\<close> is the caller's name from the request context.\<close>

definition PushMessageWithId :: "'db ms_env \<Rightarrow> string \<Rightarrow> string \<Rightarrow> chain_msg \<Rightarrow> send_spec option \<Rightarrow> ('db, string) comp" where
  "PushMessageWithId env account i msg meta =
     bindC (pushMessage env (new_message i msg meta account)) (\<lambda>_. returnC i)"

definition PushMessage :: "'db ms_env \<Rightarrow> string \<Rightarrow> chain_msg \<Rightarrow> send_spec option \<Rightarrow> ('db, string) comp" where
  "PushMessage env account msg meta = PushMessageWithId env account (me_newID env) msg meta"

text \<open>\<open>Send\<close> (service/send.go): the decoders of parameters are arguments.\<close>

datatype params_codec = QuickSendParamsCodecJSON | QuickSendParamsCodecHex | CodecOther string

record quick_send =
  qs_To :: address
  qs_From :: address
  qs_Val :: bigint
  qs_Method :: method_num
  qs_Params :: string
  qs_ParamsType :: params_codec
  qs_GasPremium :: "bigint option"
  qs_GasFeeCap :: "bigint option"
  qs_GasLimit :: "int option"

definition Send :: "'db ms_env \<Rightarrow> (address \<Rightarrow> method_num \<Rightarrow> string \<Rightarrow> bytes result) \<Rightarrow> (string \<Rightarrow> bytes result) \<Rightarrow>
    method_num \<Rightarrow> quick_send \<Rightarrow> ('db, string) comp" where
  "Send env decodeTypedParamsFromJSON hexDecode MethodSend p =
     (if qs_Method p = MethodSend then failC (Err ''do not use it to send funds'')
      else bindC (liftC (case qs_ParamsType p of
            QuickSendParamsCodecJSON \<Rightarrow>
              mapErrE (Wrap ''failed to decode json params: '') (decodeTypedParamsFromJSON (qs_To p) (qs_Method p) (qs_Params p))
          | QuickSendParamsCodecHex \<Rightarrow> mapErrE (Wrap ''failed to decode hex params: '') (hexDecode (qs_Params p))
          | CodecOther t \<Rightarrow> Inl (Err (''unexpected param type '' @ t)))) (\<lambda>decParams.
        bindC (pushMessage env (new_message (me_newID env)
            \<lparr>c_Version = 0, c_To = qs_To p, c_From = qs_From p, c_Nonce = 0, c_Value = qs_Val p,
             c_GasLimit = (case qs_GasLimit p of Some g \<Rightarrow> g | None \<Rightarrow> 0),
             c_GasFeeCap = (case qs_GasFeeCap p of Some g \<Rightarrow> g | None \<Rightarrow> Some 0),
             c_GasPremium = (case qs_GasPremium p of Some g \<Rightarrow> g | None \<Rightarrow> Some 0),
             c_Method = qs_Method p, c_Params = decParams\<rparr> None '''')) (\<lambda>_. returnC (me_newID env))))"

section \<open>Reading\<close>

definition isChainMsg :: "message_state \<Rightarrow> bool" where
  "isChainMsg msgState \<longleftrightarrow> msgState = OnChainMsg \<or> msgState = NonceConflictMsg"

definition with_confidence :: "tipset \<Rightarrow> message \<Rightarrow> message" where
  "with_confidence ts msg = (if isChainMsg (m_State msg) then msg\<lparr>m_Confidence := ts_Height ts - m_Height msg\<rparr> else msg)"

text \<open>The common shape of the single reads and of the listings: the head first, then the rows.\<close>

definition read_one :: "'db ms_env \<Rightarrow> ('db \<Rightarrow> message result) \<Rightarrow> 'db \<Rightarrow> message result" where
  "read_one env q db = bindE (me_ChainHead env) (\<lambda>ts. bindE (q db) (\<lambda>msg. Inr (with_confidence ts msg)))"

definition read_many :: "'db ms_env \<Rightarrow> ('db \<Rightarrow> message list result) \<Rightarrow> 'db \<Rightarrow> message list result" where
  "read_many env q db = bindE (me_ChainHead env) (\<lambda>ts. bindE (q db) (\<lambda>msgs. Inr (map (with_confidence ts) msgs)))"

definition GetMessageByUid :: "'db ms_env \<Rightarrow> string \<Rightarrow> 'db \<Rightarrow> message result" where
  "GetMessageByUid env i = read_one env (mr_GetMessageByUid (MessageRepo (me_repo env)) i)"

definition HasMessageByUid :: "'db ms_env \<Rightarrow> string \<Rightarrow> 'db \<Rightarrow> bool result" where
  "HasMessageByUid env i = mr_HasMessageByUid (MessageRepo (me_repo env)) i"

definition GetMessageByCid :: "'db ms_env \<Rightarrow> cid \<Rightarrow> 'db \<Rightarrow> message result" where
  "GetMessageByCid env c = read_one env (mr_GetMessageByCid (MessageRepo (me_repo env)) c)"

definition GetMessageState :: "'db ms_env \<Rightarrow> string \<Rightarrow> 'db \<Rightarrow> message_state result" where
  "GetMessageState env i = mr_GetMessageState (MessageRepo (me_repo env)) i"

definition GetMessageBySignedCid :: "'db ms_env \<Rightarrow> cid \<Rightarrow> 'db \<Rightarrow> message result" where
  "GetMessageBySignedCid env c = read_one env (mr_GetMessageBySignedCid (MessageRepo (me_repo env)) c)"

definition GetMessageByUnsignedCid :: "'db ms_env \<Rightarrow> cid \<Rightarrow> 'db \<Rightarrow> message result" where
  "GetMessageByUnsignedCid env c = read_one env (mr_GetMessageByCid (MessageRepo (me_repo env)) c)"

definition GetMessageByFromAndNonce :: "'db ms_env \<Rightarrow> address \<Rightarrow> u64 \<Rightarrow> 'db \<Rightarrow> message result" where
  "GetMessageByFromAndNonce env from nonce = read_one env (mr_GetMessageByFromAndNonce (MessageRepo (me_repo env)) from nonce)"

definition ListMessageByFromState ::
  "'db ms_env \<Rightarrow> address \<Rightarrow> message_state \<Rightarrow> bool \<Rightarrow> int \<Rightarrow> int \<Rightarrow> time \<Rightarrow> 'db \<Rightarrow> message list result" where
  "ListMessageByFromState env from state isAsc pageIndex pageSize d =
     read_many env (mr_ListMessageByFromState (MessageRepo (me_repo env)) from state isAsc pageIndex pageSize d)"

definition ListMessage :: "'db ms_env \<Rightarrow> msg_query_params \<Rightarrow> 'db \<Rightarrow> message list result" where
  "ListMessage env params = read_many env (mr_ListMessageByParams (MessageRepo (me_repo env)) params)"

definition ListMessageByAddress :: "'db ms_env \<Rightarrow> address \<Rightarrow> 'db \<Rightarrow> message list result" where
  "ListMessageByAddress env addr = read_many env (mr_ListMessageByAddress (MessageRepo (me_repo env)) addr)"

definition ListFailedMessage :: "'db ms_env \<Rightarrow> msg_query_params \<Rightarrow> 'db \<Rightarrow> message list result" where
  "ListFailedMessage env params = mr_ListFailedMessage (MessageRepo (me_repo env)) params"

definition ListFilledMessageByAddress :: "'db ms_env \<Rightarrow> address \<Rightarrow> 'db \<Rightarrow> message list result" where
  "ListFilledMessageByAddress env addr = mr_ListFilledMessageByAddress (MessageRepo (me_repo env)) addr"

definition ListBlockedMessage :: "'db ms_env \<Rightarrow> msg_query_params \<Rightarrow> time \<Rightarrow> 'db \<Rightarrow> message list result" where
  "ListBlockedMessage env params d db =
     (if length (q_From params) > 0 then mr_ListBlockedMessage (MessageRepo (me_repo env)) params d db
      else bindE (as_ListActiveAddress (me_repo env) db) (\<lambda>addrList.
        mr_ListBlockedMessage (MessageRepo (me_repo env)) (params\<lparr>q_From := q_From params @ map a_Addr addrList\<rparr>) d db))"

text \<open>
  \<open>WaitMessage\<close>: the outcomes of the successive polls before the caller's context ends
  are the list; when it runs out the wait has been cancelled.
\<close>

definition wait_done :: "u64 \<Rightarrow> message \<Rightarrow> bool" where
  "wait_done confidence msg = (case m_State msg of
      FillMsg \<Rightarrow> False | UnFillMsg \<Rightarrow> False | UnKnown \<Rightarrow> False
    | NonceConflictMsg \<Rightarrow> m_Confidence msg > to_int64 confidence
    | OnChainMsg \<Rightarrow> m_Confidence msg > to_int64 confidence
    | FailedMsg \<Rightarrow> True)"

fun WaitMessage :: "u64 \<Rightarrow> message result list \<Rightarrow> message result" where
  "WaitMessage confidence [] = Inl (Err ''exit by client '')"
| "WaitMessage confidence (Inl err # polls) = Inl err"
| "WaitMessage confidence (Inr msg # polls) = (if wait_done confidence msg then Inr msg else WaitMessage confidence polls)"

section \<open>State updates by hand\<close>

definition UpdateMessageStateByCid :: "'db ms_env \<Rightarrow> string \<Rightarrow> message_state \<Rightarrow> ('db, string) comp" where
  "UpdateMessageStateByCid env c state = bindC (mr_UpdateMessageStateByCid (MessageRepo (me_repo env)) c state) (\<lambda>_. returnC c)"

definition UpdateMessageStateByID :: "'db ms_env \<Rightarrow> string \<Rightarrow> message_state \<Rightarrow> ('db, unit) comp" where
  "UpdateMessageStateByID env i state = mr_UpdateMessageStateByID (MessageRepo (me_repo env)) i state"

definition UpdateMessageInfoByCid ::
  "'db ms_env \<Rightarrow> string \<Rightarrow> receipt option \<Rightarrow> epoch \<Rightarrow> message_state \<Rightarrow> tipset_key \<Rightarrow> ('db, string) comp" where
  "UpdateMessageInfoByCid env c rcp height state tsKey =
     bindC (mr_UpdateMessageInfoByCid (MessageRepo (me_repo env)) c rcp height state tsKey) (\<lambda>_. returnC c)"

definition MarkBadMessage :: "'db ms_env \<Rightarrow> string \<Rightarrow> ('db, unit) comp" where
  "MarkBadMessage env i = mr_MarkBadMessage (MessageRepo (me_repo env)) i"

text \<open>\<open>clearUnFillMessage\<close>: the count is that of the rows marked in the transaction.\<close>

definition clear_body :: "'db ms_env \<Rightarrow> address \<Rightarrow> ('db, unit) comp" where
  "clear_body env addr =
     bindC (queryC (mr_ListUnFilledMessage (MessageRepo (me_repo env)) addr)) (\<lambda>unFillMsgs.
       forC (\<lambda>msg. mapErrC (\<lambda>e. Err (''mark bad message '' @ m_ID msg @ '' failed '' @ error_text e))
               (mr_MarkBadMessage (MessageRepo (me_repo env)) (m_ID msg))) unFillMsgs)"

definition clearUnFillMessage :: "'db ms_env \<Rightarrow> address \<Rightarrow> ('db, int) comp" where
  "clearUnFillMessage env addr db =
     (let cnt = (case mr_ListUnFilledMessage (MessageRepo (me_repo env)) addr db of Inr l \<Rightarrow> int (length l) | Inl _ \<Rightarrow> 0)
      in bindC (Transaction (me_repo env) (clear_body env addr)) (\<lambda>_. returnC cnt) db)"

fun recover_loop :: "'db ms_env \<Rightarrow> u64 \<Rightarrow> message list \<Rightarrow> ('db, string list) comp" where
  "recover_loop env actorNonce [] = returnC []"
| "recover_loop env actorNonce (msg # msgs) =
     (if m_Nonce msg \<ge> actorNonce
      then bindC (mr_UpdateMessageStateByID (MessageRepo (me_repo env)) (m_ID msg) FillMsg) (\<lambda>_.
           bindC (recover_loop env actorNonce msgs) (\<lambda>recovered. returnC (m_ID msg # recovered)))
      else recover_loop env actorNonce msgs)"

definition RecoverFailedMsg :: "'db ms_env \<Rightarrow> address \<Rightarrow> ('db, string list) comp" where
  "RecoverFailedMsg env addr =
     bindC (liftC (me_StateGetActor env addr)) (\<lambda>act.
     bindC (queryC (ar_GetAddress (AddressRepo (me_repo env)) addr)) (\<lambda>addrInfo.
       if a_Nonce addrInfo < act_Nonce act then returnC []
       else bindC (queryC (mr_GetSignedMessageFromFailedMsg (MessageRepo (me_repo env)) addr)) (\<lambda>msgs.
         recover_loop env (act_Nonce act) msgs)))"

section \<open>Resynchronising filled messages\<close>

definition updateFilledMessage :: "'db ms_env \<Rightarrow> message \<Rightarrow> ('db, unit) comp" where
  "updateFilledMessage env msg =
     (case m_SignedCid msg of
        None \<Rightarrow> returnC ()
      | Some c \<Rightarrow>
          bindC (liftC (tryE (me_StateSearchMsg env c))) (\<lambda>r. case r of
              Inl err \<Rightarrow> failC (Err (''search message from node '' @ error_text err))
            | Inr None \<Rightarrow> failC (Err ''search message from node'')
            | Inr (Some msgLookup) \<Rightarrow>
                bindC (liftC (case m_UnsignedCid msg of None \<Rightarrow> Inl (Panic ''nil Cid'') | Some u \<Rightarrow> Inr u)) (\<lambda>u.
                bindC (UpdateMessageInfoByCid env (cid_str (me_codec env) u) (Some (lk_Receipt msgLookup)) (lk_Height msgLookup)
                  OnChainMsg (lk_TipSet msgLookup)) (\<lambda>_. returnC ()))))"

text \<open>The loop over the messages: failures are logged, the successes counted.\<close>

fun update_filled_loop :: "'db ms_env \<Rightarrow> message list \<Rightarrow> ('db, int) comp" where
  "update_filled_loop env [] = returnC 0"
| "update_filled_loop env (msg # msgs) =
     bindC (attemptC (updateFilledMessage env msg)) (\<lambda>r.
     bindC (update_filled_loop env msgs) (\<lambda>updateCount.
       returnC (case r of Inl err \<Rightarrow> updateCount | Inr _ \<Rightarrow> updateCount + 1)))"

fun filled_of :: "'db ms_env \<Rightarrow> address list \<Rightarrow> 'db \<Rightarrow> message list result" where
  "filled_of env [] db = Inr []"
| "filled_of env (addr # addrs) db =
     bindE (tryE (mr_ListFilledMessageByAddress (MessageRepo (me_repo env)) addr db)) (\<lambda>r.
     bindE (filled_of env addrs db) (\<lambda>rest. Inr ((case r of Inl err \<Rightarrow> [] | Inr l \<Rightarrow> l) @ rest)))"

definition UpdateAllFilledMessage :: "'db ms_env \<Rightarrow> ('db, int) comp" where
  "UpdateAllFilledMessage env =
     bindC (queryC (\<lambda>db. filled_of env (me_map_order env (ActiveAddresses (me_repo env) db)) db)) (update_filled_loop env)"

definition UpdateFilledMessageByID :: "'db ms_env \<Rightarrow> string \<Rightarrow> ('db, string) comp" where
  "UpdateFilledMessageByID env i =
     bindC (queryC (GetMessageByUid env i)) (\<lambda>msg. bindC (updateFilledMessage env msg) (\<lambda>_. returnC i))"

section \<open>Replacing and republishing\<close>

text \<open>
  \<open>ToSignedMsg\<close> fills the message it is given and returns it with the signed message; the
  wallet signs the bytes of the message's identifier.
\<close>

definition ToSignedMsg :: "'db ms_env \<Rightarrow> message \<Rightarrow> string list \<Rightarrow> (message \<times> signed_msg) result" where
  "ToSignedMsg env msg accounts =
     (let unsignedCid = me_Cid env (m_Message msg)
      in bindE (mapErrE (\<lambda>e. Err (''calc message unsigned message id '' @ m_ID msg @ '' fail '' @ error_text e))
           (me_ToStorageBlock env (m_Message msg))) (\<lambda>raw.
         bindE (mapErrE (\<lambda>e. Err (''wallet sign failed '' @ m_ID msg @ '' fail '' @ error_text e))
           (me_WalletSign env (m_From msg) accounts unsignedCid raw)) (\<lambda>sig.
         let signedMsg = \<lparr>s_Message = m_Message msg, s_Signature = sig\<rparr>
         in Inr (msg\<lparr>m_UnsignedCid := Some unsignedCid, m_Signature := Some sig, m_State := FillMsg,
                     m_SignedCid := Some (me_SignedCid env signedMsg)\<rparr>, signedMsg))))"

record replace_params =
  rp_ID :: string
  rp_Auto :: bool
  rp_MaxFee :: bigint
  rp_GasLimit :: int
  rp_GasPremium :: bigint
  rp_GasFeecap :: bigint
  rp_GasOverPremium :: float64

text \<open>The maximum fee of an automatic replacement: parameters, address, actor, shared parameters.\<close>

definition replace_max_fee :: "'db ms_env \<Rightarrow> message \<Rightarrow> bigint \<Rightarrow> 'db \<Rightarrow> bigint result" where
  "replace_max_fee env msg maxFee0 db =
     (if \<not> NilOrZero maxFee0 then Inr maxFee0
      else
        bindE (as_GetAddress (me_repo env) (m_From msg) db) (\<lambda>addrInfo.
        bindE (if NilOrZero (f_MaxFee (a_FeeSpec addrInfo))
               then bindE (me_StateGetActor env (m_To msg)) (\<lambda>act.
                    bindE (tryE (cr_GetActorCfgByMethodType (ActorCfgRepo (me_repo env))
                             \<lparr>mt_Code = act_Code act, mt_Method = m_Method msg\<rparr> db)) (\<lambda>r. case r of
                        Inr cfg \<Rightarrow> Inr (f_MaxFee (ac_FeeSpec cfg))
                      | Inl err \<Rightarrow> if err \<noteq> ErrRecordNotFound then Inl err else Inr (f_MaxFee (a_FeeSpec addrInfo))))
               else Inr (f_MaxFee (a_FeeSpec addrInfo))) (\<lambda>maxFee.
        if NilOrZero maxFee
        then bindE (sps_GetSharedParams (me_repo env) db) (\<lambda>sharedParams. Inr (f_MaxFee (sp_FeeSpec sharedParams)))
        else Inr maxFee)))"

definition big_max :: "bigint \<Rightarrow> bigint \<Rightarrow> bigint result" where
  "big_max x y = bindE (big_deref x) (\<lambda>a. bindE (big_deref y) (\<lambda>b. Inr (Some (max a b))))"

definition replace_auto :: "'db ms_env \<Rightarrow> replace_params \<Rightarrow> message \<Rightarrow> 'db \<Rightarrow> message result" where
  "replace_auto env params msg db =
     bindE (mapErrE (Wrap ''failed to lookup the message pool config: '') (me_MpoolRatio env)) (\<lambda>ratio.
     bindE (computeRBF (m_GasPremium msg) ratio) (\<lambda>minRBF.
     let msg = with_Message (\<lambda>c. c\<lparr>c_GasFeeCap := Some 0, c_GasPremium := Some 0\<rparr>) msg
     in bindE (mapErrE (Wrap ''failed to estimate gas values: '')
          (me_GasEstimate env (m_Message msg) (rp_MaxFee params) (rp_GasOverPremium params))) (\<lambda>retm.
        bindE (big_max (c_GasPremium retm) minRBF) (\<lambda>gasPremium.
        bindE (big_max (c_GasFeeCap retm) gasPremium) (\<lambda>gasFeeCap.
        bindE (replace_max_fee env msg (rp_MaxFee params) db) (\<lambda>maxFee.
        bindE (CapGasFee ((m_Message msg)\<lparr>c_GasPremium := gasPremium, c_GasFeeCap := gasFeeCap\<rparr>) maxFee) (\<lambda>c.
          Inr (msg\<lparr>m_Message := c\<rparr>))))))))"

text \<open>The comparison of the fee cap with the premium is between the amounts the message had.\<close>

definition replace_manual :: "replace_params \<Rightarrow> message \<Rightarrow> message result" where
  "replace_manual params msg0 =
     (let msg = (if rp_GasLimit params > 0 then with_Message (\<lambda>c. c\<lparr>c_GasLimit := rp_GasLimit params\<rparr>) msg0 else msg0)
      in bindE (big_deref (rp_GasPremium params)) (\<lambda>gp.
         if gp \<le> 0 then Inl (Err ''gas premium must bigger than zero'')
         else bindE (big_deref (rp_GasFeecap params)) (\<lambda>fc.
         if fc \<le> 0 then Inl (Err ''gas feecap must bigger than zero'')
         else bindE (big_deref (m_GasFeeCap msg)) (\<lambda>oldCap.
         bindE (big_deref (m_GasPremium msg)) (\<lambda>oldPremium.
         if oldCap < oldPremium then Inl (Err ''gas feecap must bigger or equal than gas premium'')
         else Inr (with_Message (\<lambda>c. c\<lparr>c_GasPremium := rp_GasPremium params, c_GasFeeCap := rp_GasFeecap params\<rparr>) msg))))))"

text \<open>
  The receiver channel is the list of batches in it; a send that would block is refused. The
  state is the database beside the channel. A failed lookup makes \<open>RepublishMessage\<close>
  return without error.
\<close>

type_synonym msg_channel = "signed_msg list list"

definition send_batch :: "'db ms_env \<Rightarrow> signed_msg list \<Rightarrow> (msg_channel, unit) comp" where
  "send_batch env batch ch =
     (if length ch < me_receiver_cap env then (Inr (), ch @ [batch])
      else (Inl (Err ''message receiver channel is full''), ch))"

definition RepublishMessage :: "'db ms_env \<Rightarrow> string \<Rightarrow> ('db \<times> msg_channel, unit) comp" where
  "RepublishMessage env i =
     bindC (askDb (\<lambda>db. tryE (GetMessageByUid env i db))) (\<lambda>r. case r of
         Inl err \<Rightarrow> returnC ()
       | Inr msg \<Rightarrow>
           if m_State msg \<noteq> FillMsg then failC (Err ''need FillMsg'')
           else (case m_Signature msg of
               None \<Rightarrow> failC (Panic ''nil Signature'')
             | Some sig \<Rightarrow> onSnd (send_batch env [\<lparr>s_Message = m_Message msg, s_Signature = sig\<rparr>])))"

definition ReplaceMessage :: "'db ms_env \<Rightarrow> replace_params option \<Rightarrow> ('db \<times> msg_channel, cid) comp" where
  "ReplaceMessage env paramsP =
     (case paramsP of None \<Rightarrow> failC (Err ''params is nil'') | Some params \<Rightarrow>
      bindC (mapErrC (\<lambda>e. Err (''found message '' @ error_text e)) (askDb (GetMessageByUid env (rp_ID params)))) (\<lambda>msg.
        if m_State msg = OnChainMsg then failC (Err ''message already on chain'')
        else
          bindC (askDb (\<lambda>db. if rp_Auto params then replace_auto env params msg db else replace_manual params msg)) (\<lambda>msg'.
          bindC (liftC (GetAccountsOfSigner (me_GetUserBySigner env) (m_From msg'))) (\<lambda>accounts.
          bindC (liftC (ToSignedMsg env msg' accounts)) (\<lambda>(signed, signedMsg).
          bindC (onDb (mr_UpdateMessageByState (MessageRepo (me_repo env)) signed FillMsg)) (\<lambda>_.
          bindC (RepublishMessage env (rp_ID params)) (\<lambda>_. returnC (me_SignedCid env signedMsg))))))))"

section \<open>Chain notifications\<close>

text \<open>\<open>verifyNetworkName\<close>; \<open>write\<close> is the tipset file.\<close>

definition verifyNetworkName :: "string result \<Rightarrow> (tipset_cache \<Rightarrow> unit result) \<Rightarrow> (tipset_cache, unit) comp" where
  "verifyNetworkName networkName write tc =
     (case networkName of
        Inl err \<Rightarrow> (Inl err, tc)
      | Inr name \<Rightarrow>
          if length (NetworkName tc) \<noteq> 0
          then (if NetworkName tc \<noteq> name then Inl (Err ''network name not match'') else Inr (), tc)
          else cache_Save write (tc\<lparr>NetworkName := name\<rparr>))"

text \<open>
  The handlers with the refresh loop on the other side of \<open>headChans\<close>: a head that is sent
  is refreshed before the handler returns, and the handler returns the refresh's error.
\<close>

definition handle_new_head :: "'db refresh_env \<Rightarrow> bool \<Rightarrow> tipset list \<Rightarrow> ('db \<times> tipset_cache, unit) comp" where
  "handle_new_head renv skip apply_ts =
     (\<lambda>(db, tc). case ProcessNewHead skip (re_ChainGetTipSet renv) tc apply_ts of
          Inl e \<Rightarrow> (Inl e, (db, tc))
        | Inr (_, None) \<Rightarrow> (Inr (), (db, tc))
        | Inr (_, Some h) \<Rightarrow> doRefreshMessageState renv h (db, tc))"

definition handle_reconnect :: "'db ms_env \<Rightarrow> 'db refresh_env \<Rightarrow> tipset \<Rightarrow> ('db \<times> tipset_cache, unit) comp" where
  "handle_reconnect env renv head =
     (\<lambda>(db, tc). case ReconnectCheck (re_ChainGetTipSet renv) tc head of
          Inl e \<Rightarrow> (Inl e, (db, tc))
        | Inr Unchanged \<Rightarrow> (Inr (), (db, tc))
        | Inr UpdateAllFilled \<Rightarrow> onDb (dropC (UpdateAllFilledMessage env)) (db, tc)
        | Inr (SendHead h) \<Rightarrow> doRefreshMessageState renv h (db, tc))"

text \<open>
  \<open>listenHeadChangesOnce\<close> (service/events.go): the notifications up to the end of the
  channel; the first is the current head, of the later ones only the applied tipsets count.
\<close>

datatype change_type = HCCurrent | HCApply | HCRevert

type_synonym head_change = "change_type \<times> tipset"

definition applied_changes :: "head_change list \<Rightarrow> tipset list" where
  "applied_changes notif = map snd (filter (\<lambda>(t, ts). t = HCApply) notif)"

definition listenHeadChangesOnce ::
  "'db ms_env \<Rightarrow> 'db refresh_env \<Rightarrow> bool \<Rightarrow> head_change list list result \<Rightarrow> ('db \<times> tipset_cache, unit) comp" where
  "listenHeadChangesOnce env renv skip notifs =
     (case notifs of
        Inl err \<Rightarrow> failC err
      | Inr [] \<Rightarrow> failC (Err ''context canceled'')
      | Inr (noti # rest) \<Rightarrow>
          if length noti \<noteq> 1 then failC (Err (''expect hccurrent length 1 but for '' @ show_int (int (length noti))))
          else if fst (hd noti) \<noteq> HCCurrent then failC (Err ''expect hccurrent event'')
          else
            bindC (mapErrC (\<lambda>e. Err (''reconnect check error: '' @ error_text e)) (handle_reconnect env renv (snd (hd noti)))) (\<lambda>_.
            forC (\<lambda>notif. mapErrC (\<lambda>e. Err (''process new head error: '' @ error_text e))
              (handle_new_head renv skip (applied_changes notif))) rest))"

end
