(* ===== verification/Publisher.thy ===== *)
theory Publisher
  imports MessageService Utils
begin

text \<open>
  Publishing (\<open>publisher/publisher.go\<close>, \<open>publisher/modules.go\<close>): the receiver that
  groups a batch by sender and sorts it by nonce, the publishers (RPC nodes, pubsub topic, merge,
  cache, concurrent workers), how the configuration composes them, and the threads that push to
  the nodes and record push errors.

  A channel with the senders blocked on it is one first-in first-out list: a send on a full
  buffer parks the sender behind the buffer and its batch is received in the same order, so the
  buffer sizes decide only when a sender goes on. The full nodes, the topic, the content
  identifier, the serialisation, the iteration order of a Go map and the order
  \<open>sort.Slice\<close> leaves equal elements in are parameters (\<open>pub_env\<close>).
\<close>

section \<open>The environment and the state\<close>

datatype node_client = MainNode | Dialled string string

record 'db pub_env =
  pe_repo :: "'db repo"
  pe_order :: "address list \<Rightarrow> address list"
  pe_sort :: "signed_msg list \<Rightarrow> signed_msg list"
  pe_Cid :: "signed_msg \<Rightarrow> cid"
  pe_Serialize :: "signed_msg \<Rightarrow> string result"
  pe_TopicPublish :: "string \<Rightarrow> unit result"
  pe_Dial :: "string \<Rightarrow> string \<Rightarrow> unit result"
  pe_BatchPush :: "node_client \<Rightarrow> signed_msg list \<Rightarrow> cid list \<times> error option"
  pe_enableMultiNode :: bool

record nodeThread =
  nt_name :: string
  nt_nodeClient :: node_client
  nt_msgChan :: msg_channel

record 'db pub_state =
  ps_db :: 'db
  ps_receiver :: msg_channel
  ps_cacheCh :: msg_channel
  ps_cache :: "cid \<Rightarrow> bool option"
  ps_concCh :: msg_channel
  ps_topic :: "string list"
  ps_main :: nodeThread
  ps_nodeThreads :: "uuid \<Rightarrow> nodeThread option"

abbreviation s_From :: "signed_msg \<Rightarrow> address" where "s_From m \<equiv> c_From (s_Message m)"
abbreviation s_Nonce :: "signed_msg \<Rightarrow> u64" where "s_Nonce m \<equiv> c_Nonce (s_Message m)"

section \<open>The pubsub topic\<close>

definition NewP2pPublisher :: "(string \<Rightarrow> 't result) \<Rightarrow> string \<Rightarrow> 't result" where
  "NewP2pPublisher GetTopic netName = GetTopic (''/fil/msgs/'' @ netName)"

definition publish_one :: "'db pub_env \<Rightarrow> signed_msg \<Rightarrow> ('db pub_state, unit) comp" where
  "publish_one env msg =
     bindC (liftC (mapErrE (Wrap ''marshal message failed '') (pe_Serialize env msg))) (\<lambda>msgb.
     bindC (liftC (mapErrE (Wrap ''publish message failed '') (pe_TopicPublish env msgb))) (\<lambda>_ s.
       (Inr (), s\<lparr>ps_topic := ps_topic s @ [msgb]\<rparr>)))"

definition p2p_PublishMessages :: "'db pub_env \<Rightarrow> signed_msg list \<Rightarrow> ('db pub_state, unit) comp" where
  "p2p_PublishMessages env msgs = forC (publish_one env) msgs"

section \<open>The RPC nodes\<close>

definition newNodeThread :: "string \<Rightarrow> node_client \<Rightarrow> nodeThread" where
  "newNodeThread name nodeClient = \<lparr>nt_name = name, nt_nodeClient = nodeClient, nt_msgChan = []\<rparr>"

definition HandleMsg :: "signed_msg list \<Rightarrow> nodeThread \<Rightarrow> nodeThread" where
  "HandleMsg msgs n = n\<lparr>nt_msgChan := nt_msgChan n @ [msgs]\<rparr>"

text \<open>A node without a thread is dialled; when that fails it is passed over.\<close>

definition node_thread_for :: "'db pub_env \<Rightarrow> node \<Rightarrow> nodeThread option \<Rightarrow> nodeThread option" where
  "node_thread_for env node thr = (case thr of
      Some t \<Rightarrow> Some t
    | None \<Rightarrow> (case pe_Dial env (n_URL node) (n_Token node) of
          Inl err \<Rightarrow> None
        | Inr _ \<Rightarrow> Some (newNodeThread (n_Name node) (Dialled (n_URL node) (n_Token node)))))"

definition publish_to_node ::
  "'db pub_env \<Rightarrow> signed_msg list \<Rightarrow> node \<Rightarrow> (uuid \<Rightarrow> nodeThread option) \<Rightarrow> uuid \<Rightarrow> nodeThread option" where
  "publish_to_node env msgs node threads =
     (case node_thread_for env node (threads (n_ID node)) of
        None \<Rightarrow> threads
      | Some t \<Rightarrow> threads(n_ID node \<mapsto> HandleMsg msgs t))"

text \<open>Threads of nodes that are no longer listed are closed; what they had queued is dropped.\<close>

definition rpc_PublishMessages :: "'db pub_env \<Rightarrow> signed_msg list \<Rightarrow> ('db pub_state, unit) comp" where
  "rpc_PublishMessages env msgs s0 =
     (let s = s0\<lparr>ps_main := HandleMsg msgs (ps_main s0)\<rparr>
      in if \<not> pe_enableMultiNode env then (Inr (), s)
         else (case mapErrE (Wrap ''list node fail '') (nr_ListNode (NodeRepo (pe_repo env)) (ps_db s)) of
             Inl err \<Rightarrow> (Inl err, s)
           | Inr nodeList \<Rightarrow>
               let threads = fold (publish_to_node env msgs) nodeList (ps_nodeThreads s)
               in (Inr (), s\<lparr>ps_nodeThreads := (\<lambda>i. if i \<in> set (map n_ID nodeList) then threads i else None)\<rparr>)))"

definition errMinimumNonce :: string where "errMinimumNonce = ''minimum expected nonce''"
definition errExistingNonce :: string where "errExistingNonce = ''message with nonce already exists''"

definition recordPushMessageError :: "'db repo \<Rightarrow> cid \<Rightarrow> error \<Rightarrow> ('db, unit) comp" where
  "recordPushMessageError R msgCid err =
     bindC (queryC (\<lambda>db. tryE (mr_GetMessageByCid (MessageRepo R) msgCid db))) (\<lambda>r. case r of
         Inl dbErr \<Rightarrow> returnC ()
       | Inr msg \<Rightarrow>
           if length (m_ErrorMsg msg) \<noteq> 0 \<and> m_ErrorMsg msg = error_text err then returnC ()
           else bindC (attemptC (mr_UpdateErrMsg (MessageRepo R) (m_ID msg) (error_text err))) (\<lambda>_. returnC ()))"

text \<open>
  One round of a node thread's loop. The log line of a failed push reads the first message of
  the batch, before the errors are recorded.
\<close>

definition run_push :: "'db pub_env \<Rightarrow> node_client \<Rightarrow> signed_msg list \<Rightarrow> ('db, unit) comp" where
  "run_push env nodeClient msgs =
     (case pe_BatchPush env nodeClient msgs of
        (msgCIDs, None) \<Rightarrow> returnC ()
      | (msgCIDs, Some err) \<Rightarrow>
          if \<not> str_contains (error_text err) errMinimumNonce \<and> \<not> str_contains (error_text err) errExistingNonce
          then (if msgs = [] then failC (Panic ''index out of range'')
                else forC (\<lambda>msg. recordPushMessageError (pe_repo env) (pe_Cid env msg) err) msgs)
          else returnC ())"

section \<open>The composition\<close>

text \<open>The values of the interface \<open>IMsgPublisher\<close> the program builds.\<close>

datatype publisher =
    P2pPublisher
  | RpcPublisher
  | MergePublisher "publisher list"
  | CachePublisher u64 publisher
  | ConcurrentPublisher nat publisher

lemma forC_cong [fundef_cong]:
  "xs = ys \<Longrightarrow> (\<And>x. x \<in> set ys \<Longrightarrow> f x = g x) \<Longrightarrow> forC f xs = forC g ys"
proof
  show "xs = ys \<Longrightarrow> (\<And>x. x \<in> set ys \<Longrightarrow> f x = g x) \<Longrightarrow> forC f xs s = forC g ys s" for s
    by (induction xs arbitrary: ys s) (auto split: prod.splits sum.splits)
qed

text \<open>
  \<open>PublishMessages\<close>: the merge publisher goes on after an error of a sub-publisher, the
  cache and the concurrent publisher only queue the batch for their goroutines.
\<close>

fun PublishMessages :: "'db pub_env \<Rightarrow> publisher \<Rightarrow> signed_msg list \<Rightarrow> ('db pub_state, unit) comp" where
  "PublishMessages env P2pPublisher msgs = p2p_PublishMessages env msgs"
| "PublishMessages env RpcPublisher msgs = rpc_PublishMessages env msgs"
| "PublishMessages env (MergePublisher subPublishers) msgs =
     (if subPublishers = [] then failC (Err ''no publisher available'')
      else forC (\<lambda>publisher. dropC (attemptC (PublishMessages env publisher msgs))) subPublishers)"
| "PublishMessages env (CachePublisher period subPublisher) msgs = (\<lambda>s. (Inr (), s\<lparr>ps_cacheCh := ps_cacheCh s @ [msgs]\<rparr>))"
| "PublishMessages env (ConcurrentPublisher n subPublisher) msgs = (\<lambda>s. (Inr (), s\<lparr>ps_concCh := ps_concCh s @ [msgs]\<rparr>))"

definition AddPublisher :: "publisher list \<Rightarrow> publisher \<Rightarrow> publisher list" where
  "AddPublisher subPublishers publisher = subPublishers @ [publisher]"

definition NewCachePublisher :: "u64 \<Rightarrow> publisher \<Rightarrow> publisher result" where
  "NewCachePublisher cacheReleasePeriod subPublisher =
     (if cacheReleasePeriod = 0 then Inl (Err ''cache release period should not be zero'')
      else Inr (CachePublisher cacheReleasePeriod subPublisher))"

text \<open>\<open>PublisherConfig\<close> (config/config.go).\<close>

record publisher_config =
  pc_Concurrency :: int
  pc_CacheReleasePeriod :: int
  pc_EnableP2P :: bool
  pc_EnableMultiNode :: bool

definition NewIMsgPublisher :: "u64 \<Rightarrow> publisher_config \<Rightarrow> publisher result" where
  "NewIMsgPublisher BlockDelaySecs cfg =
     (let merge = MergePublisher (if pc_EnableP2P cfg then AddPublisher [RpcPublisher] P2pPublisher else [RpcPublisher]);
          conc = (if pc_Concurrency cfg > 0 then ConcurrentPublisher (nat (pc_Concurrency cfg)) merge else merge)
      in bindE (if pc_CacheReleasePeriod cfg = 0
                then (let cachePeriod = BlockDelaySecs div 3
                      in NewCachePublisher (if cachePeriod < 1 then 1 else cachePeriod) conc)
                else Inr conc) (\<lambda>ret.
         if pc_CacheReleasePeriod cfg > 0 then NewCachePublisher (to_uint64 (pc_CacheReleasePeriod cfg)) ret else Inr ret))"

section \<open>The goroutines\<close>

text \<open>The receiver: groups by sender, in the order of the map iteration, each sorted by nonce.\<close>

definition receive_groups :: "'db pub_env \<Rightarrow> signed_msg list \<Rightarrow> signed_msg list list" where
  "receive_groups env msgs =
     map (pe_sort env) (List.map_filter (MsgsGroupByAddress msgs) (pe_order env (remdups (map s_From msgs))))"

definition receive_batch :: "'db pub_env \<Rightarrow> publisher \<Rightarrow> signed_msg list \<Rightarrow> ('db pub_state, unit) comp" where
  "receive_batch env p msgs = forC (\<lambda>tMsgs. dropC (attemptC (PublishMessages env p tMsgs))) (receive_groups env msgs)"

text \<open>The cache: which messages of a batch are new, and the release of old entries.\<close>

fun cache_filter :: "(signed_msg \<Rightarrow> cid) \<Rightarrow> signed_msg list \<Rightarrow> (cid \<Rightarrow> bool option) \<Rightarrow> signed_msg list \<times> (cid \<Rightarrow> bool option)" where
  "cache_filter cidOf [] cache = ([], cache)"
| "cache_filter cidOf (msg # msgs) cache =
     (let c = cidOf msg; (newMsgs, cache') = cache_filter cidOf msgs (cache(c \<mapsto> True))
      in (if cache c = None then msg # newMsgs else newMsgs, cache'))"

definition cache_release :: "(cid \<Rightarrow> bool option) \<Rightarrow> cid \<Rightarrow> bool option" where
  "cache_release cache k = (case cache k of Some True \<Rightarrow> Some False | _ \<Rightarrow> None)"

definition cache_batch :: "'db pub_env \<Rightarrow> publisher \<Rightarrow> signed_msg list \<Rightarrow> ('db pub_state, unit) comp" where
  "cache_batch env subPublisher msgs s =
     (case cache_filter (pe_Cid env) msgs (ps_cache s) of (newMsgs, cache) \<Rightarrow>
        if length newMsgs > 0
        then dropC (attemptC (PublishMessages env subPublisher newMsgs)) (s\<lparr>ps_cache := cache\<rparr>)
        else (Inr (), s\<lparr>ps_cache := cache\<rparr>))"

text \<open>A worker of the concurrent publisher.\<close>

definition concurrent_batch :: "'db pub_env \<Rightarrow> publisher \<Rightarrow> signed_msg list \<Rightarrow> ('db pub_state, unit) comp" where
  "concurrent_batch env subPublisher msgs = dropC (attemptC (PublishMessages env subPublisher msgs))"

fun cache_sub :: "publisher \<Rightarrow> publisher option" where
  "cache_sub (CachePublisher period sub) = Some sub"
| "cache_sub _ = None"

fun concurrent_sub :: "publisher \<Rightarrow> publisher option" where
  "concurrent_sub (CachePublisher period sub) = concurrent_sub sub"
| "concurrent_sub (ConcurrentPublisher n sub) = (if n > 0 then Some sub else None)"
| "concurrent_sub _ = None"

text \<open>The steps of the goroutines, in any order; the batches that arrive are arbitrary.\<close>

inductive publish_step :: "'db pub_env \<Rightarrow> publisher \<Rightarrow> 'db pub_state \<Rightarrow> unit result \<Rightarrow> 'db pub_state \<Rightarrow> bool"
  for env p where
  arrive: "publish_step env p s (Inr ()) (s\<lparr>ps_receiver := ps_receiver s @ [b]\<rparr>)"
| receive: "ps_receiver s = b # bs \<Longrightarrow> receive_batch env p b (s\<lparr>ps_receiver := bs\<rparr>) = (r, s') \<Longrightarrow> publish_step env p s r s'"
| cache: "cache_sub p = Some sub \<Longrightarrow> ps_cacheCh s = b # bs \<Longrightarrow> cache_batch env sub b (s\<lparr>ps_cacheCh := bs\<rparr>) = (r, s') \<Longrightarrow>
    publish_step env p s r s'"
| tick: "publish_step env p s (Inr ()) (s\<lparr>ps_cache := cache_release (ps_cache s)\<rparr>)"
| worker: "concurrent_sub p = Some sub \<Longrightarrow> ps_concCh s = b # bs \<Longrightarrow>
    concurrent_batch env sub b (s\<lparr>ps_concCh := bs\<rparr>) = (r, s') \<Longrightarrow> publish_step env p s r s'"
| main_node: "nt_msgChan (ps_main s) = b # bs \<Longrightarrow> run_push env (nt_nodeClient (ps_main s)) b (ps_db s) = (r, db') \<Longrightarrow>
    publish_step env p s r (s\<lparr>ps_main := (ps_main s)\<lparr>nt_msgChan := bs\<rparr>, ps_db := db'\<rparr>)"
| node: "ps_nodeThreads s i = Some t \<Longrightarrow> nt_msgChan t = b # bs \<Longrightarrow> run_push env (nt_nodeClient t) b (ps_db s) = (r, db') \<Longrightarrow>
    publish_step env p s r (s\<lparr>ps_nodeThreads := (ps_nodeThreads s)(i \<mapsto> t\<lparr>nt_msgChan := bs\<rparr>), ps_db := db'\<rparr>)"

end
