(* ===== verification/Selector.thy ===== *)
theory Selector
  imports Gas AddressService "HOL-Library.Sublist"
begin

text \<open>
  Message selection (\<open>service/message_selector.go\<close>): for one address, how many waiting
  messages may go out, their gas estimate, nonce, signature and state, and how the outcome
  is stored. The full node, the wallet, the auth client, the identifiers of messages and the
  actor cache's eviction are parameters (\<open>sel_env\<close>). The computations run over the
  database and the worker's actor cache.
\<close>

section \<open>The environment\<close>

record estimate_spec =
  es_MaxFee :: bigint
  es_GasOverEstimation :: float64
  es_GasOverPremium :: float64

record estimate_result =
  er_Msg :: "chain_msg option"
  er_Err :: string

type_synonym actor_cache = "string \<Rightarrow> actor option"

record 'db sel_env =
  se_repo :: "'db repo"
  se_codec :: codec
  se_GetUserBySigner :: "address \<Rightarrow> string list result"
  se_StateGetActor :: "address \<Rightarrow> tipset_key \<Rightarrow> actor result"
  se_StateNetworkVersion :: "int result"
  se_GasBatchEstimate :: "(chain_msg \<times> estimate_spec) list \<Rightarrow> u64 \<Rightarrow> tipset_key \<Rightarrow> estimate_result list result"
  se_ToStorageBlock :: "chain_msg \<Rightarrow> string result"
  se_SigningBytes :: "chain_msg \<Rightarrow> string result"
  se_WalletSign :: "address \<Rightarrow> string list \<Rightarrow> string \<Rightarrow> string \<Rightarrow> signature result"
  se_Cid :: "chain_msg \<Rightarrow> cid"
  se_SignedCid :: "signed_msg \<Rightarrow> cid"
  se_BlockGasLimit :: int
  se_MethodSend :: method_num
  se_ErrActorNotFound :: string
  se_evict :: "actor_cache \<Rightarrow> actor_cache"
  se_now :: time

type_synonym 'db sel_state = "'db \<times> actor_cache"

section \<open>Nonces and works of a round\<close>

text \<open>\<open>getNonceInTipset\<close>: the next nonce of every sender of the tipset's messages.\<close>

definition applied_step :: "nonce_map \<Rightarrow> chain_msg \<Rightarrow> nonce_map" where
  "applied_step applied m =
     (let applied = (if snd (nonce_Get applied (c_From m)) then applied
                     else nonce_Add applied (c_From m) (c_Nonce m));
          val = fst (nonce_Get applied (c_From m))
      in if val \<noteq> c_Nonce m then applied else nonce_Add applied (c_From m) (val + 1))"

definition getNonceInTipset ::
  "(tipset_key \<Rightarrow> chain_msg list result) \<Rightarrow> tipset \<Rightarrow> nonce_map result" where
  "getNonceInTipset chainGetMessagesInTipset ts =
     bindE (mapErrE (\<lambda>e. Err (''failed to get message in tipset '' @ error_text e))
       (chainGetMessagesInTipset (ts_Key ts)))
     (\<lambda>msgs. Inr (foldl applied_step NewNonceMap msgs))"

definition addressMap :: "address_info list \<Rightarrow> address \<Rightarrow> address_info option" where
  "addressMap addrList = foldl (\<lambda>m a. m(a_Addr a \<mapsto> a)) Map.empty addrList"

definition addrSelectMsgNum :: "address_info list \<Rightarrow> u64 \<Rightarrow> address \<Rightarrow> u64 option" where
  "addrSelectMsgNum addrList defSelMsgNum =
     foldl (\<lambda>selMsgNum addr.
       case selMsgNum (a_Addr addr) of
         Some num \<Rightarrow> if a_SelMsgNum addr > 0 \<and> num < a_SelMsgNum addr
                     then selMsgNum(a_Addr addr \<mapsto> a_SelMsgNum addr) else selMsgNum
       | None \<Rightarrow> if a_SelMsgNum addr = 0 then selMsgNum(a_Addr addr \<mapsto> defSelMsgNum)
                 else selMsgNum(a_Addr addr \<mapsto> a_SelMsgNum addr))
     Map.empty addrList"

section \<open>Steps of one selection\<close>

definition getNonce ::
  "'db sel_env \<Rightarrow> address \<Rightarrow> tipset \<Rightarrow> nonce_map \<Rightarrow> (u64 \<times> u64) result" where
  "getNonce env addr ts appliedNonce =
     bindE (mapErrE (\<lambda>e. Err (''get actor failed: '' @ error_text e)) (se_StateGetActor env addr (ts_Key ts)))
     (\<lambda>act. case nonce_Get appliedNonce addr of
         (nonceInTs, True) \<Rightarrow> Inr (nonceInTs, act_Nonce act)
       | (_, False) \<Rightarrow> Inr (act_Nonce act, act_Nonce act))"

text \<open>The query of filled messages first, then of fifty on-chain ones; query errors are skipped.\<close>

definition maxNonceOf :: "message list \<Rightarrow> u64" where
  "maxNonceOf msgs = foldl (\<lambda>maxNonce msg. if maxNonce < m_Nonce msg then m_Nonce msg else maxNonce) 0 msgs"

fun max_nonce_loop :: "'db repo \<Rightarrow> msg_query_params list \<Rightarrow> 'db \<Rightarrow> u64" where
  "max_nonce_loop R [] db = 0"
| "max_nonce_loop R (param # ps) db =
     (case mr_ListMessageByParams (MessageRepo R) param db of
        Inr msgs \<Rightarrow> if length msgs > 0 then maxNonceOf msgs else max_nonce_loop R ps db
      | Inl _ \<Rightarrow> max_nonce_loop R ps db)"

definition getMaxMessageNonceFromDB :: "'db repo \<Rightarrow> address \<Rightarrow> 'db \<Rightarrow> u64 result" where
  "getMaxMessageNonceFromDB R addr db = Inr (max_nonce_loop R
     [empty_query\<lparr>q_State := [FillMsg], q_From := [addr]\<rparr>,
      empty_query\<lparr>q_State := [OnChainMsg], q_From := [addr], q_Limit := 50\<rparr>] db)"

definition deref_signature :: "message \<Rightarrow> signed_msg result" where
  "deref_signature msg = (case m_Signature msg of
      None \<Rightarrow> Inl (Panic ''nil Signature'')
    | Some sig \<Rightarrow> Inr \<lparr>s_Message = m_Message msg, s_Signature = sig\<rparr>)"

definition getFilledMessage :: "'db repo \<Rightarrow> address \<Rightarrow> u64 \<Rightarrow> 'db \<Rightarrow> signed_msg list result" where
  "getFilledMessage R addr nonceInLatestTs db =
     (let filledMessage = (case mr_ListFilledMessageByAddress (MessageRepo R) addr db of
                             Inl e \<Rightarrow> [] | Inr l \<Rightarrow> l)
      in traverseE deref_signature (filter (\<lambda>msg. \<not> nonceInLatestTs > m_Nonce msg) filledMessage))"

text \<open>\<open>getActorCfg\<close>: no actor for a plain transfer, or no configuration, means none.\<close>

definition getActorCfg :: "'db sel_env \<Rightarrow> message \<Rightarrow> int \<Rightarrow> ('db sel_state, actor_cfg option) comp" where
  "getActorCfg env msg nv = (\<lambda>(db, cache).
     let key = ad_str (se_codec env) (m_To msg) @ ''-'' @ show_int nv;
         found = (case cache key of
             Some act \<Rightarrow> (Inr (Some act), cache)
           | None \<Rightarrow> (case se_StateGetActor env (m_To msg) [] of
               Inl err \<Rightarrow> if m_Method msg = se_MethodSend env \<and>
                             str_contains (error_text err) (se_ErrActorNotFound env)
                          then (Inr None, cache) else (Inl err, cache)
             | Inr act \<Rightarrow> (Inr (Some act), se_evict env (cache(key \<mapsto> act)))))
     in case found of
          (Inl err, cache') \<Rightarrow> (Inl err, (db, cache'))
        | (Inr None, cache') \<Rightarrow> (Inr None, (db, cache'))
        | (Inr (Some act), cache') \<Rightarrow>
            let mt = \<lparr>mt_Code = act_Code act, mt_Method = m_Method msg\<rparr>
            in (case cr_HasActorCfg (ActorCfgRepo (se_repo env)) mt db of
                  Inl err \<Rightarrow> (Inl err, (db, cache'))
                | Inr has \<Rightarrow>
                    if \<not> has then (Inr None, (db, cache'))
                    else (case cr_GetActorCfgByMethodType (ActorCfgRepo (se_repo env)) mt db of
                        Inl err \<Rightarrow> (if err = ErrRecordNotFound then Inr None else Inl err, (db, cache'))
                      | Inr cfg \<Rightarrow> (Inr (Some cfg), (db, cache')))))"

text \<open>
  The candidates of an estimate: the configured fee cap is filled in where the message has
  none, and messages whose base-fee bound is below the chain's base fee are skipped.
\<close>

fun estimate_candidates ::
  "'db sel_env \<Rightarrow> tipset \<Rightarrow> shared_spec option \<Rightarrow> address_info \<Rightarrow> int \<Rightarrow> message list \<Rightarrow>
     ('db sel_state, (message \<times> estimate_spec) list) comp" where
  "estimate_candidates env ts sharedParams addrInfo nv [] = returnC []"
| "estimate_candidates env ts sharedParams addrInfo nv (msg # msgs) =
     bindC (mapErrC (\<lambda>e. Err (''get actor config failed: '' @ error_text e)) (getActorCfg env msg nv)) (\<lambda>actorCfg.
     bindC (liftC (mergeMsgSpec sharedParams (m_Meta msg) addrInfo actorCfg msg)) (\<lambda>newMsgMeta.
       let msg' = (if NilOrZero (m_GasFeeCap msg) \<and> \<not> NilOrZero (gs_GasFeeCap newMsgMeta)
                   then with_Message (\<lambda>c. c\<lparr>c_GasFeeCap := gs_GasFeeCap newMsgMeta\<rparr>) msg else msg)
       in bindC (liftC (if \<not> NilOrZero (gs_BaseFee newMsgMeta)
                        then bindE (big_deref (ts_ParentBaseFee ts)) (\<lambda>baseFee. Inr (baseFee > the (gs_BaseFee newMsgMeta)))
                        else Inr False)) (\<lambda>tooHigh.
            if tooHigh then estimate_candidates env ts sharedParams addrInfo nv msgs
            else bindC (estimate_candidates env ts sharedParams addrInfo nv msgs) (\<lambda>rest.
              returnC ((msg', \<lparr>es_MaxFee = gs_MaxFee newMsgMeta, es_GasOverEstimation = gs_GasOverEstimation newMsgMeta,
                               es_GasOverPremium = gs_GasOverPremium newMsgMeta\<rparr>) # rest)))))"

definition estimateMessage ::
  "'db sel_env \<Rightarrow> tipset \<Rightarrow> message list \<Rightarrow> shared_spec option \<Rightarrow> address_info \<Rightarrow>
     ('db sel_state, estimate_result list \<times> message list) comp" where
  "estimateMessage env ts msgs sharedParams addrInfo =
     bindC (liftC (mapErrE (\<lambda>e. Err (''get network version failed: '' @ error_text e)) (se_StateNetworkVersion env))) (\<lambda>nv.
     bindC (estimate_candidates env ts sharedParams addrInfo nv msgs) (\<lambda>cands.
     bindC (liftC (se_GasBatchEstimate env (map (\<lambda>(m, spec). (m_Message m, spec)) cands) (a_Nonce addrInfo) (ts_Key ts)))
       (\<lambda>estimateResult. returnC (estimateResult, map fst cands))))"

definition errSingMessage :: string where
  "errSingMessage = ''sign message failed''"

definition gasEstimate :: string where
  "gasEstimate = ''gas estimate: ''"

definition signMessage :: "'db sel_env \<Rightarrow> address \<Rightarrow> message \<Rightarrow> string list \<Rightarrow> signature result" where
  "signMessage env addr msg accounts =
     bindE (mapErrE (\<lambda>e. Err (''serialize message failed: '' @ error_text e)) (se_ToStorageBlock env (m_Message msg))) (\<lambda>data.
     bindE (mapErrE (\<lambda>e. Err (''get signing bytes failed: '' @ error_text e)) (se_SigningBytes env (m_Message msg))) (\<lambda>sb.
       mapErrE (\<lambda>e. Wrap (errSingMessage @ '': '') e) (se_WalletSign env addr accounts sb data)))"

section \<open>selectMessage\<close>

record select_result =
  sel_Address :: address_info
  sel_SelectMsg :: "message list"
  sel_ToPushMsg :: "signed_msg list"
  sel_ErrMsg :: "(string \<times> string) list"

text \<open>
  The loop that assigns nonces and signs. \<open>nonce\<close> is \<open>addrInfo.Nonce\<close>; the result
  is the messages selected, the errors recorded and the next nonce. A missing estimate is an
  index out of range, a nil estimated message a nil dereference.
\<close>

definition fill_message :: "'db sel_env \<Rightarrow> message \<Rightarrow> chain_msg \<Rightarrow> u64 \<Rightarrow> message" where
  "fill_message env msg estimateMsg nonce =
     (let m = with_Message (\<lambda>c. c\<lparr>c_Nonce := nonce, c_GasFeeCap := c_GasFeeCap estimateMsg,
                c_GasPremium := c_GasPremium estimateMsg, c_GasLimit := c_GasLimit estimateMsg\<rparr>) msg
      in m\<lparr>m_UnsignedCid := Some (se_Cid env (m_Message m))\<rparr>)"

definition seal_message :: "'db sel_env \<Rightarrow> message \<Rightarrow> signature \<Rightarrow> message" where
  "seal_message env msg sig =
     msg\<lparr>m_Signature := Some sig, m_State := FillMsg,
         m_SignedCid := Some (se_SignedCid env \<lparr>s_Message = m_Message msg, s_Signature = sig\<rparr>),
         m_ErrorMsg := ''''\<rparr>"

fun sign_loop ::
  "'db sel_env \<Rightarrow> address \<Rightarrow> string list \<Rightarrow> u64 \<Rightarrow> message list \<Rightarrow> estimate_result list \<Rightarrow> u64 \<Rightarrow> u64 \<Rightarrow>
     (message list \<times> (string \<times> string) list \<times> u64) result" where
  "sign_loop env addr accounts wantCount [] ers nonce cnt = Inr ([], [], nonce)"
| "sign_loop env addr accounts wantCount (msg # msgs) [] nonce cnt = Inl (Panic ''index out of range'')"
| "sign_loop env addr accounts wantCount (msg # msgs) (er # ers) nonce cnt =
     (if length (er_Err er) \<noteq> 0 then
        bindE (sign_loop env addr accounts wantCount msgs ers nonce cnt) (\<lambda>(sel, errs, n).
          Inr (sel, (m_ID msg, gasEstimate @ er_Err er) # errs, n))
      else if cnt \<ge> wantCount then Inr ([], [], nonce)
      else case er_Msg er of
          None \<Rightarrow> Inl (Panic ''nil Message'')
        | Some estimateMsg \<Rightarrow>
            if c_GasLimit estimateMsg > se_BlockGasLimit env then
              bindE (sign_loop env addr accounts wantCount msgs ers nonce cnt) (\<lambda>(sel, errs, n).
                Inr (sel, (m_ID msg, gasEstimate @ '' gas limit '' @ show_int (c_GasLimit estimateMsg) @
                           '' over limit '' @ show_int (se_BlockGasLimit env)) # errs, n))
            else
              let filled = fill_message env msg estimateMsg nonce
              in (case signMessage env addr filled accounts of
                    Inl err \<Rightarrow>
                      if str_contains (error_text err) errSingMessage
                      then Inr ([], [(m_ID msg, error_text err)], nonce)
                      else sign_loop env addr accounts wantCount msgs ers nonce cnt
                  | Inr sig \<Rightarrow>
                      bindE (sign_loop env addr accounts wantCount msgs ers (nonce + 1) (cnt + 1)) (\<lambda>(sel, errs, n).
                        Inr (seal_message env filled sig # sel, errs, n))))"

text \<open>The nonce correction at the start of a selection.\<close>

definition sync_nonce ::
  "'db sel_env \<Rightarrow> address_info \<Rightarrow> u64 \<Rightarrow> ('db sel_state, address_info) comp" where
  "sync_nonce env addrInfo nonceInLatestTs =
     (if nonceInLatestTs > a_Nonce addrInfo then
        bindC (askDb (getMaxMessageNonceFromDB (se_repo env) (a_Addr addrInfo))) (\<lambda>maxMsgNonce.
          let addrInfo = addrInfo\<lparr>a_Nonce := (if maxMsgNonce > nonceInLatestTs then maxMsgNonce + 1 else nonceInLatestTs),
                                  a_UpdatedAt := se_now env\<rparr>
          in bindC (mapErrC (\<lambda>e. Err (''update nonce failed: '' @ error_text e))
               (onDb (ar_SaveAddress (AddressRepo (se_repo env)) addrInfo))) (\<lambda>_. returnC addrInfo))
      else returnC addrInfo)"

text \<open>Estimate, then sign: the second half of a selection that found unfilled messages.\<close>

definition estimate_and_sign ::
  "'db sel_env \<Rightarrow> address \<Rightarrow> string list \<Rightarrow> tipset \<Rightarrow> shared_spec option \<Rightarrow> address_info \<Rightarrow> u64 \<Rightarrow>
     signed_msg list \<Rightarrow> message list \<Rightarrow> ('db sel_state, select_result) comp" where
  "estimate_and_sign env addr accounts ts sharedParams addrInfo wantCount toPushMessage messages =
     bindC (mapErrC (\<lambda>e. Err (''estimate message failed: '' @ error_text e))
       (estimateMessage env ts messages sharedParams addrInfo)) (\<lambda>(estimateResult, candidateMessages).
     bindC (liftC (sign_loop env addr accounts wantCount candidateMessages estimateResult (a_Nonce addrInfo) 0))
       (\<lambda>(selectMsg, errMsg, nonce).
     returnC \<lparr>sel_Address = addrInfo\<lparr>a_Nonce := nonce\<rparr>, sel_SelectMsg = selectMsg,
              sel_ToPushMsg = toPushMessage, sel_ErrMsg = errMsg\<rparr>))"

text \<open>How many messages are wanted, and which are taken.\<close>

definition select_unfilled ::
  "'db sel_env \<Rightarrow> address \<Rightarrow> string list \<Rightarrow> tipset \<Rightarrow> u64 \<Rightarrow> shared_spec option \<Rightarrow> u64 \<Rightarrow> address_info \<Rightarrow>
     signed_msg list \<Rightarrow> ('db sel_state, select_result) comp" where
  "select_unfilled env addr accounts ts maxAllowPendingMessage sharedParams nonceInLatestTs addrInfo toPushMessage =
     (let nonceGap = a_Nonce addrInfo - nonceInLatestTs;
          nothing = \<lparr>sel_Address = addrInfo, sel_SelectMsg = [], sel_ToPushMsg = toPushMessage, sel_ErrMsg = []\<rparr>
      in if nonceGap \<ge> maxAllowPendingMessage then returnC nothing
         else
           let wantCount = maxAllowPendingMessage - nonceGap;
               selectCount = min wantCount 100
           in bindC (mapErrC (\<lambda>e. Err (''list unfill message error: '' @ error_text e))
                (askDb (mr_ListUnChainMessageByAddress (MessageRepo (se_repo env)) (a_Addr addrInfo) (uint selectCount)))) (\<lambda>messages.
              if length messages = 0 then returnC nothing
              else estimate_and_sign env addr accounts ts sharedParams addrInfo wantCount toPushMessage messages))"

text \<open>
  \<open>addrInfo\<close> is a pointer taken from the map of active addresses, nil for a work whose
  address is no longer active.
\<close>

definition selectMessage ::
  "'db sel_env \<Rightarrow> address \<Rightarrow> nonce_map \<Rightarrow> address_info option \<Rightarrow> tipset \<Rightarrow> u64 \<Rightarrow> shared_spec option \<Rightarrow>
     ('db sel_state, select_result) comp" where
  "selectMessage env addr appliedNonce addrInfoP ts maxAllowPendingMessage sharedParams =
     (case addrInfoP of None \<Rightarrow> failC (Panic ''nil Address'') | Some addrInfo0 \<Rightarrow>
      bindC (liftC (mapErrE (\<lambda>e. Err (''get account failed: '' @ error_text e))
        (GetAccountsOfSigner (se_GetUserBySigner env) (a_Addr addrInfo0)))) (\<lambda>accounts.
      bindC (liftC (getNonce env addr ts appliedNonce)) (\<lambda>nonces.
      bindC (sync_nonce env addrInfo0 (fst nonces)) (\<lambda>addrInfo.
      bindC (askDb (getFilledMessage (se_repo env) addr (fst nonces))) (\<lambda>toPushMessage.
        select_unfilled env addr accounts ts maxAllowPendingMessage sharedParams (fst nonces) addrInfo toPushMessage)))))"

section \<open>Storing and pushing the result\<close>

definition save_body :: "'db repo \<Rightarrow> select_result \<Rightarrow> ('db, unit) comp" where
  "save_body R selectResult =
     bindC (if length (sel_SelectMsg selectResult) > 0 then
              bindC (mr_BatchSaveMessage (MessageRepo R) (sel_SelectMsg selectResult)) (\<lambda>_.
              bindC (ar_UpdateNonce (AddressRepo R) (a_Addr (sel_Address selectResult)) (a_Nonce (sel_Address selectResult)))
                (\<lambda>row. returnC ()))
            else returnC ()) (\<lambda>_.
     forC (\<lambda>(i, err). mr_UpdateErrMsg (MessageRepo R) i err) (sel_ErrMsg selectResult))"

definition saveSelectedMessages :: "'db repo \<Rightarrow> select_result \<Rightarrow> ('db, unit) comp" where
  "saveSelectedMessages R selectResult = Transaction R (save_body R selectResult)"

text \<open>
  \<open>startSelectMessage\<close> after the worker has taken its control slot: select, save when
  there is anything to save, then hand everything to the message receiver. The result is
  the batch offered to the receiver (nothing when the round fails), which the receiver drops
  when its channel is full.
\<close>

definition run_selection ::
  "'db sel_env \<Rightarrow> address \<Rightarrow> nonce_map \<Rightarrow> address_info option \<Rightarrow> tipset \<Rightarrow> u64 \<Rightarrow> shared_spec option \<Rightarrow>
     ('db sel_state, signed_msg list) comp" where
  "run_selection env addr appliedNonce addrInfo ts maxAllowPendingMessage sharedParams =
     bindC (selectMessage env addr appliedNonce addrInfo ts maxAllowPendingMessage sharedParams) (\<lambda>selectResult.
     bindC (if length (sel_SelectMsg selectResult) > 0 \<or> length (sel_ErrMsg selectResult) > 0
            then onDb (saveSelectedMessages (se_repo env) selectResult) else returnC ()) (\<lambda>_.
     bindC (liftC (traverseE deref_signature (sel_SelectMsg selectResult))) (\<lambda>selected.
       returnC (sel_ToPushMsg selectResult @ selected))))"

section \<open>Lemmas on the loops\<close>

abbreviation ident :: "message \<Rightarrow> string \<times> address" where
  "ident m \<equiv> (m_ID m, m_From m)"

lemma fill_message_simps [simp]:
  "m_ID (fill_message env msg e n) = m_ID msg" "m_From (fill_message env msg e n) = m_From msg" "m_Nonce (fill_message env msg e n) = n"
  "m_GasLimit (fill_message env msg e n) = c_GasLimit e"
  "m_UnsignedCid (fill_message env msg e n) = Some (se_Cid env (m_Message (fill_message env msg e n)))"
  by (simp_all add: fill_message_def Let_def)

lemma seal_message_simps [simp]:
  "m_ID (seal_message env msg s) = m_ID msg" "m_Message (seal_message env msg s) = m_Message msg"
  "m_State (seal_message env msg s) = FillMsg" "m_Signature (seal_message env msg s) = Some s"
  "m_UnsignedCid (seal_message env msg s) = m_UnsignedCid msg" "m_ErrorMsg (seal_message env msg s) = ''''"
  "m_SignedCid (seal_message env msg s) = Some (se_SignedCid env \<lparr>s_Message = m_Message msg, s_Signature = s\<rparr>)"
  by (simp_all add: seal_message_def)

text \<open>What a selected message looks like.\<close>

definition well_filled :: "'db sel_env \<Rightarrow> message \<Rightarrow> bool" where
  "well_filled env m \<longleftrightarrow> m_State m = FillMsg \<and> m_ErrorMsg m = '''' \<and> m_GasLimit m \<le> se_BlockGasLimit env
     \<and> m_UnsignedCid m = Some (se_Cid env (m_Message m))
     \<and> (\<exists>sig. m_Signature m = Some sig \<and> m_SignedCid m = Some (se_SignedCid env \<lparr>s_Message = m_Message m, s_Signature = sig\<rparr>))"

lemma well_filled_seal: "c_GasLimit e \<le> se_BlockGasLimit env \<Longrightarrow>
    well_filled env (seal_message env (fill_message env msg e n) sig)"
  unfolding well_filled_def by (simp del: fill_message_simps(5)) simp

text \<open>
  One induction over the signing loop carries everything: the nonces are consecutive, the
  next nonce follows the last one, the bound on the count holds, and the selected messages
  are a subsequence of the candidates, each well filled.
\<close>

lemma sign_loop_result:
  assumes "sign_loop env addr accounts wantCount msgs ers nonce cnt = Inr (sel, errs, n)"
  shows "map m_Nonce sel = map (\<lambda>i. nonce + of_nat i) [0..<length sel] \<and> n = nonce + of_nat (length sel)
    \<and> (sel = [] \<or> unat cnt + length sel \<le> unat wantCount)
    \<and> subseq (map ident sel) (map ident msgs) \<and> (\<forall>m \<in> set sel. well_filled env m)
    \<and> (\<forall>e \<in> set errs. fst e \<in> m_ID ` set msgs)"
  using assms
proof (induction env addr accounts wantCount msgs ers nonce cnt arbitrary: sel errs n rule: sign_loop.induct)
  case (1 env addr accounts wantCount ers nonce cnt)
  then show ?case by simp
next
  case (2 env addr accounts wantCount msg msgs nonce cnt)
  then show ?case by simp
next
  case (3 env addr accounts wantCount msg msgs er ers nonce cnt)
  consider (est) errs' where "length (er_Err er) \<noteq> 0"
      "sign_loop env addr accounts wantCount msgs ers nonce cnt = Inr (sel, errs', n)" "\<exists>t. errs = (m_ID msg, t) # errs'"
    | (stop) "sel = []" "n = nonce" "\<forall>e \<in> set errs. fst e = m_ID msg"
    | (over) errs' e where "length (er_Err er) = 0" "\<not> cnt \<ge> wantCount" "er_Msg er = Some e" "c_GasLimit e > se_BlockGasLimit env"
      "sign_loop env addr accounts wantCount msgs ers nonce cnt = Inr (sel, errs', n)" "\<exists>t. errs = (m_ID msg, t) # errs'"
    | (skip) e err where "length (er_Err er) = 0" "\<not> cnt \<ge> wantCount" "er_Msg er = Some e" "\<not> c_GasLimit e > se_BlockGasLimit env"
      "signMessage env addr (fill_message env msg e nonce) accounts = Inl err"
      "\<not> str_contains (error_text err) errSingMessage"
      "sign_loop env addr accounts wantCount msgs ers nonce cnt = Inr (sel, errs, n)"
    | (take) e sig sel' where "length (er_Err er) = 0" "\<not> cnt \<ge> wantCount" "er_Msg er = Some e" "\<not> c_GasLimit e > se_BlockGasLimit env"
      "signMessage env addr (fill_message env msg e nonce) accounts = Inr sig"
      "sign_loop env addr accounts wantCount msgs ers (nonce + 1) (cnt + 1) = Inr (sel', errs, n)"
      "sel = seal_message env (fill_message env msg e nonce) sig # sel'"
    using "3.prems" by (auto simp: Let_def bindE_Inr_iff split: if_splits option.splits sum.splits)
  then show ?case
  proof cases
    case est
    then show ?thesis using "3.IH"(1) by auto
  next
    case stop
    then show ?thesis by auto
  next
    case over
    then show ?thesis using "3.IH"(2) [OF _ over(2,3,4,5)] by auto
  next
    case skip
    then show ?thesis using "3.IH"(3) by auto
  next
    case take
    note ih = "3.IH"(4) [OF _ take(2,3,4) refl take(5,6)]
    have lt: "cnt < wantCount" using take(2) by simp
    then have "cnt \<noteq> - 1" by (metis word_not_simps(3))
    then have un: "unat (cnt + 1) = unat cnt + 1" by (rule unat_plus_one)
    have lt': "unat cnt < unat wantCount" using lt by (simp add: word_less_nat_alt)
    have nonces: "map m_Nonce sel = map (\<lambda>i. nonce + of_nat i) [0..<length sel]"
      using ih take(1) unfolding take(7)
      by (simp add: upt_rec [of 0] map_Suc_upt [symmetric] add.assoc del: upt_Suc) 
    show ?thesis using ih nonces un lt' take(1,4) unfolding take(7)
      by (auto simp: well_filled_seal add.assoc)
  qed
qed

end
