(* ===== verification/SelectorProps.thy ===== *)
theory SelectorProps
  imports Selector
begin

text \<open>
  What message selection guarantees: the database effects of a round, the consecutive
  allocation of nonces within the pending bound, the uniqueness of nonces among filled
  messages as an invariant of rounds over any store that keeps the contract
  \<open>repo_store\<close>, and the atomicity of saving a round's result.
\<close>

section \<open>Effects on the database\<close>

lemma getActorCfg_db: "getActorCfg env msg nv s = (r, s') \<Longrightarrow> fst s' = fst s"
  by (cases s) (auto simp: getActorCfg_def Let_def split: option.splits sum.splits prod.splits if_splits)

lemma estimate_candidates_db:
  "estimate_candidates env ts sp ai nv msgs s = (r, s') \<Longrightarrow> fst s' = fst s"
proof (induction msgs arbitrary: r s s')
  case Nil
  then show ?case by (simp add: comp_simps)
next
  case (Cons msg msgs)
  obtain q s1 where one: "getActorCfg env msg nv s = (q, s1)" by (cases "getActorCfg env msg nv s")
  then have "fst s1 = fst s" by (rule getActorCfg_db)
  with one Cons.prems Cons.IH show ?case
    by (auto simp: comp_simps Let_def split: sum.splits prod.splits if_splits dest!: Cons.IH)
qed

lemma estimate_candidates_subseq:
  "estimate_candidates env ts sp ai nv msgs s = (Inr cands, s') \<Longrightarrow>
     subseq (map (ident \<circ> fst) cands) (map ident msgs)"
proof (induction msgs arbitrary: cands s s')
  case Nil
  then show ?case by (simp add: comp_simps)
next
  case (Cons msg msgs)
  then show ?case
    by (auto simp: comp_simps Let_def split: sum.splits prod.splits if_splits dest!: Cons.IH)
qed

lemma estimateMessage_db: "estimateMessage env ts msgs sp ai s = (r, s') \<Longrightarrow> fst s' = fst s"
  by (auto simp: estimateMessage_def comp_simps split: sum.splits prod.splits dest!: estimate_candidates_db)

lemma estimateMessage_subseq:
  "estimateMessage env ts msgs sp ai s = (Inr (ers, cands), s') \<Longrightarrow> subseq (map ident cands) (map ident msgs)"
  by (auto simp: estimateMessage_def comp_simps split: sum.splits prod.splits dest!: estimate_candidates_subseq)

text \<open>The nonce the selection starts from.\<close>

definition start_nonce :: "'db repo \<Rightarrow> address_info \<Rightarrow> u64 \<Rightarrow> 'db \<Rightarrow> u64" where
  "start_nonce R ai nl db =
     (if nl > a_Nonce ai
      then (case getMaxMessageNonceFromDB R (a_Addr ai) db of
              Inr mx \<Rightarrow> if mx > nl then mx + 1 else nl | Inl _ \<Rightarrow> nl)
      else a_Nonce ai)"

lemma sync_nonce_Inr:
  assumes "sync_nonce env ai nl (db, c) = (Inr ai', s')"
  shows "a_Nonce ai' = start_nonce (se_repo env) ai nl db \<and> a_Addr ai' = a_Addr ai
    \<and> (if nl > a_Nonce ai
       then ar_SaveAddress (AddressRepo (se_repo env)) ai' db = (Inr (), fst s') \<and> a_ID ai' = a_ID ai
            \<and> a_IsDeleted ai' = a_IsDeleted ai
       else fst s' = db \<and> ai' = ai)"
  using assms
  by (auto simp: sync_nonce_def start_nonce_def getMaxMessageNonceFromDB_def comp_simps askDb_def onDb_def Let_def
      split: if_splits sum.splits prod.splits)

lemma estimate_and_sign_Inr:
  assumes "estimate_and_sign env addr accounts ts sp ai want toPush messages s = (Inr res, s')"
  shows "fst s' = fst s \<and> sel_ToPushMsg res = toPush
    \<and> (\<exists>cands ers n. subseq (map ident cands) (map ident messages) \<and> sel_Address res = ai\<lparr>a_Nonce := n\<rparr>
         \<and> sign_loop env addr accounts want cands ers (a_Nonce ai) 0 = Inr (sel_SelectMsg res, sel_ErrMsg res, n))"
proof -
  obtain p s1 q where e: "estimateMessage env ts messages sp ai s = (Inr p, s1)"
    and l: "sign_loop env addr accounts want (snd p) (fst p) (a_Nonce ai) 0 = Inr q"
    and r: "res = \<lparr>sel_Address = ai\<lparr>a_Nonce := snd (snd q)\<rparr>, sel_SelectMsg = fst q,
              sel_ToPushMsg = toPush, sel_ErrMsg = fst (snd q)\<rparr>" "s' = s1"
    using assms by (auto simp: estimate_and_sign_def comp_simps split: sum.splits prod.splits)
  have "subseq (map ident (snd p)) (map ident messages)"
    using estimateMessage_subseq [of env ts messages sp ai s "fst p" "snd p"] e by simp
  with l r estimateMessage_db [OF e] show ?thesis by (cases q) auto
qed

text \<open>
  The shape of a successful selection: the start nonce is synchronised, the filled messages
  to push are read, and either nothing is selected or the signing loop ran on candidates
  taken from the unfilled messages of the address.
\<close>

definition picked ::
  "'db sel_env \<Rightarrow> address \<Rightarrow> u64 \<Rightarrow> u64 \<Rightarrow> address_info \<Rightarrow> 'db \<Rightarrow> select_result \<Rightarrow> bool" where
  "picked env addr mx nl ai db res \<longleftrightarrow>
     sel_SelectMsg res = [] \<and> sel_ErrMsg res = [] \<and> sel_Address res = ai
   \<or> (\<exists>messages cands ers accounts n. a_Nonce ai - nl < mx
      \<and> mr_ListUnChainMessageByAddress (MessageRepo (se_repo env)) (a_Addr ai)
          (uint (min (mx - (a_Nonce ai - nl)) 100)) db = Inr messages
      \<and> subseq (map ident cands) (map ident messages) \<and> sel_Address res = ai\<lparr>a_Nonce := n\<rparr>
      \<and> sign_loop env addr accounts (mx - (a_Nonce ai - nl)) cands ers (a_Nonce ai) 0
          = Inr (sel_SelectMsg res, sel_ErrMsg res, n))"

lemma select_unfilled_Inr:
  assumes "select_unfilled env addr accounts ts mx sp nl ai toPush s = (Inr res, s')"
  shows "fst s' = fst s \<and> sel_ToPushMsg res = toPush \<and> picked env addr mx nl ai (fst s) res"
proof -
  consider (none) "res = \<lparr>sel_Address = ai, sel_SelectMsg = [], sel_ToPushMsg = toPush, sel_ErrMsg = []\<rparr>" "s' = s"
    | (some) messages where "\<not> a_Nonce ai - nl \<ge> mx"
      "mr_ListUnChainMessageByAddress (MessageRepo (se_repo env)) (a_Addr ai)
          (uint (min (mx - (a_Nonce ai - nl)) 100)) (fst s) = Inr messages"
      "estimate_and_sign env addr accounts ts sp ai (mx - (a_Nonce ai - nl)) toPush messages s = (Inr res, s')"
    using assms by (auto simp: select_unfilled_def Let_def comp_inv askDb_eq split: if_splits)
  then show ?thesis
  proof cases
    case none
    then show ?thesis by (simp add: picked_def)
  next
    case some
    from estimate_and_sign_Inr [OF some(3)] some(1,2) show ?thesis
      by (auto simp: picked_def not_le)
  qed
qed

lemma selectMessage_Inr:
  assumes "selectMessage env addr applied (Some ai) ts mx sp (db, c) = (Inr res, s')"
  obtains nl an ai' c1 where "getNonce env addr ts applied = Inr (nl, an)"
    "sync_nonce env ai nl (db, c) = (Inr ai', (fst s', c1))"
    "getFilledMessage (se_repo env) addr nl (fst s') = Inr (sel_ToPushMsg res)"
    "picked env addr mx nl ai' (fst s') res"
proof -
  obtain accounts nonces ai' s1 toPush where 1: "getNonce env addr ts applied = Inr nonces"
    "sync_nonce env ai (fst nonces) (db, c) = (Inr ai', s1)"
    "getFilledMessage (se_repo env) addr (fst nonces) (fst s1) = Inr toPush"
    "select_unfilled env addr accounts ts mx sp (fst nonces) ai' toPush s1 = (Inr res, s')"
    using assms by (auto simp: selectMessage_def comp_inv askDb_eq)
  from select_unfilled_Inr [OF 1(4)] 1 show ?thesis
    by (intro that [of "fst nonces" "snd nonces" ai' "snd s1"]) (cases s1, auto)
qed

text \<open>A failed selection leaves the database as it was, or with the synchronised nonce.\<close>

lemma selectMessage_Inl:
  assumes "selectMessage env addr applied (Some ai) ts mx sp (db, c) = (Inl e, s')"
    and keep: "\<And>a d e d'. ar_SaveAddress (AddressRepo (se_repo env)) a d = (Inl e, d') \<Longrightarrow> d' = d"
  shows "fst s' = db \<or> (\<exists>nl an ai' c1. getNonce env addr ts applied = Inr (nl, an)
     \<and> sync_nonce env ai nl (db, c) = (Inr ai', (fst s', c1)))"
proof -
  have un: "fst s2 = fst s1" if "select_unfilled env addr accounts ts mx sp nl ai' toPush s1 = (Inl e', s2)"
    for accounts nl ai' toPush s1 s2 e'
    using that by (auto simp: select_unfilled_def estimate_and_sign_def Let_def comp_simps askDb_def
        split: if_splits sum.splits prod.splits dest!: estimateMessage_db)
  have sy: "fst s2 = fst s1" if "sync_nonce env ai nl s1 = (Inl e', s2)" for nl s1 s2 e'
    using that keep by (auto simp: sync_nonce_def Let_def comp_inv askDb_eq onDb_eq split: if_splits)
  show ?thesis
    using assms(1)
    by (auto simp: selectMessage_def comp_inv askDb_eq dest!: un sy)
qed

section \<open>Nonce bookkeeping\<close>

text \<open>
  A message is assigned once the selection has filled it: it is filled, signed, or has the
  identifier of its final form, whatever became of it since. The invariant: for every live
  address, each assigned message has a nonce below the address' next nonce, and no two
  assigned messages share one.
\<close>

definition assigned :: "message \<Rightarrow> bool" where
  "assigned m \<longleftrightarrow> m_State m = FillMsg \<or> m_Signature m \<noteq> None \<or> m_UnsignedCid m \<noteq> None"

definition nonce_inv :: "message list \<Rightarrow> address_info list \<Rightarrow> bool" where
  "nonce_inv ms as \<longleftrightarrow> (\<forall>a \<in> set (live as).
     (\<forall>m \<in> set ms. m_From m = a_Addr a \<longrightarrow> assigned m \<longrightarrow> m_Nonce m < a_Nonce a)
   \<and> (\<forall>m \<in> set ms. \<forall>m' \<in> set ms. m_From m = a_Addr a \<longrightarrow> m_From m' = a_Addr a \<longrightarrow>
        assigned m \<longrightarrow> assigned m' \<longrightarrow> m_Nonce m = m_Nonce m' \<longrightarrow> m = m'))"

lemma nonce_invI:
  assumes "\<And>a m. a \<in> set (live as) \<Longrightarrow> m \<in> set ms \<Longrightarrow> m_From m = a_Addr a \<Longrightarrow> assigned m \<Longrightarrow> m_Nonce m < a_Nonce a"
    and "\<And>a m m'. a \<in> set (live as) \<Longrightarrow> m \<in> set ms \<Longrightarrow> m' \<in> set ms \<Longrightarrow> m_From m = a_Addr a \<Longrightarrow> m_From m' = a_Addr a \<Longrightarrow>
        assigned m \<Longrightarrow> assigned m' \<Longrightarrow> m_Nonce m = m_Nonce m' \<Longrightarrow> m = m'"
  shows "nonce_inv ms as"
  using assms unfolding nonce_inv_def by blast

lemma nonce_inv_below: "nonce_inv ms as \<Longrightarrow> a \<in> set (live as) \<Longrightarrow> m \<in> set ms \<Longrightarrow> m_From m = a_Addr a \<Longrightarrow>
    assigned m \<Longrightarrow> m_Nonce m < a_Nonce a"
  unfolding nonce_inv_def by blast

lemma nonce_inv_unique: "nonce_inv ms as \<Longrightarrow> a \<in> set (live as) \<Longrightarrow> m \<in> set ms \<Longrightarrow> m' \<in> set ms \<Longrightarrow>
    m_From m = a_Addr a \<Longrightarrow> m_From m' = a_Addr a \<Longrightarrow> assigned m \<Longrightarrow> assigned m' \<Longrightarrow>
    m_Nonce m = m_Nonce m' \<Longrightarrow> m = m'"
  unfolding nonce_inv_def by blast

text \<open>Raising the next nonce of one address keeps the invariant.\<close>

lemma nonce_inv_raise:
  assumes inv: "nonce_inv ms as"
    and old: "\<And>x. x \<in> set (live as') \<Longrightarrow> \<exists>y \<in> set (live as). a_Addr y = a_Addr x \<and> a_Nonce y \<le> a_Nonce x"
  shows "nonce_inv ms as'"
proof (rule nonce_invI)
  fix a m assume a: "a \<in> set (live as')" and m: "m \<in> set ms" "m_From m = a_Addr a" "assigned m"
  obtain y where "y \<in> set (live as)" "a_Addr y = a_Addr a" "a_Nonce y \<le> a_Nonce a" using old [OF a] by blast
  with nonce_inv_below [OF inv, of y m] m show "m_Nonce m < a_Nonce a" by auto
next
  fix a m m' assume a: "a \<in> set (live as')" and m: "m \<in> set ms" "m' \<in> set ms" "m_From m = a_Addr a"
    "m_From m' = a_Addr a" "assigned m" "assigned m'" "m_Nonce m = m_Nonce m'"
  obtain y where "y \<in> set (live as)" "a_Addr y = a_Addr a" using old [OF a] by blast
  with nonce_inv_unique [OF inv, of y m m'] m show "m = m'" by auto
qed

lemma consecutive_unat:
  assumes "map m_Nonce sel = map (\<lambda>i. b + of_nat i) [0..<length sel]" "unat (b :: u64) + length sel < 2 ^ 64" "m \<in> set sel"
  obtains i where "i < length sel" "m = sel ! i" "unat (m_Nonce m) = unat b + i"
proof -
  obtain i where i: "i < length sel" "m = sel ! i" using assms(3) by (auto simp: in_set_conv_nth)
  then have "m_Nonce m = b + of_nat i" using arg_cong [OF assms(1), of "\<lambda>l. l ! i"] by simp
  moreover have "unat (b + of_nat i) = unat b + i" using i(1) assms(2) by (intro word_add_of_nat_unat) simp
  ultimately show ?thesis using that i by simp
qed

text \<open>
  Adding messages with consecutive nonces from the address' next nonce on, and moving the
  next nonce behind them, keeps the invariant.
\<close>

lemma nonce_inv_extend:
  assumes inv: "nonce_inv ms as"
    and sel: "map m_Nonce sel = map (\<lambda>i. b + of_nat i) [0..<length sel]" "unat b + length sel < 2 ^ 64"
      "\<And>m. m \<in> set sel \<Longrightarrow> m_From m = addr"
    and sub: "set ms' \<subseteq> set sel \<union> set ms"
    and addrs: "\<And>x. x \<in> set (live as') \<Longrightarrow> \<exists>y \<in> set (live as). a_Addr y = a_Addr x
        \<and> (if a_Addr x = addr then a_Nonce y \<le> b \<and> a_Nonce x = b + of_nat (length sel) else a_Nonce x = a_Nonce y)"
  shows "nonce_inv ms' as'"
proof (rule nonce_invI)
  have top: "unat (b + of_nat (length sel)) = unat b + length sel" using sel(2) by (rule word_add_of_nat_unat)
  have new: "unat b \<le> unat (m_Nonce m) \<and> unat (m_Nonce m) < unat b + length sel" if "m \<in> set sel" for m
    using consecutive_unat [OF sel(1,2) that] by (metis add_less_cancel_left le_add1)
  {
    fix a m assume a: "a \<in> set (live as')" and m: "m \<in> set ms'" "m_From m = a_Addr a" "assigned m"
    obtain y where y: "y \<in> set (live as)" "a_Addr y = a_Addr a" and
      n: "if a_Addr a = addr then a_Nonce y \<le> b \<and> a_Nonce a = b + of_nat (length sel) else a_Nonce a = a_Nonce y"
      using addrs [OF a] by blast
    show "m_Nonce m < a_Nonce a"
    proof (cases "m \<in> set sel")
      case True
      then have "a_Addr a = addr" using sel(3) m(2) by simp
      then show ?thesis using n new [OF True] top by (simp add: word_less_nat_alt)
    next
      case False
      then have "m_Nonce m < a_Nonce y" using nonce_inv_below [OF inv y(1)] m y(2) sub by auto
      then show ?thesis using n top by (auto simp: word_less_nat_alt word_le_nat_alt split: if_splits)
    qed
  }
  fix a m m' assume a: "a \<in> set (live as')" and m: "m \<in> set ms'" "m' \<in> set ms'" "m_From m = a_Addr a"
    "m_From m' = a_Addr a" "assigned m" "assigned m'" "m_Nonce m = m_Nonce m'"
  obtain y where y: "y \<in> set (live as)" "a_Addr y = a_Addr a" and
      n: "if a_Addr a = addr then a_Nonce y \<le> b \<and> a_Nonce a = b + of_nat (length sel) else a_Nonce a = a_Nonce y"
    using addrs [OF a] by blast
  have mixed: False if "k \<in> set sel" "k' \<notin> set sel" "k' \<in> set ms'" "m_From k = a_Addr a" "m_From k' = a_Addr a"
      "assigned k'" "m_Nonce k = m_Nonce k'" for k k'
  proof -
    have "m_Nonce k' < a_Nonce y" using nonce_inv_below [OF inv y(1)] that y(2) sub by auto
    moreover have "a_Nonce y \<le> b" using n sel(3) [OF that(1)] that(4) by simp
    ultimately show False using new [OF that(1)] that(7) by (simp add: word_less_nat_alt word_le_nat_alt)
  qed
  show "m = m'"
  proof (cases "m \<in> set sel"; cases "m' \<in> set sel")
    assume both: "m \<in> set sel" "m' \<in> set sel"
    obtain i where i: "m = sel ! i" "unat (m_Nonce m) = unat b + i" using consecutive_unat [OF sel(1,2) both(1)] by metis
    obtain j where j: "m' = sel ! j" "unat (m_Nonce m') = unat b + j" using consecutive_unat [OF sel(1,2) both(2)] by metis
    have "i = j" using i(2) j(2) m(7) by (metis add_left_cancel)
    then show ?thesis using i(1) j(1) by (simp only:)
  next
    assume "m \<notin> set sel" "m' \<notin> set sel"
    then show ?thesis by (intro nonce_inv_unique [OF inv y(1)]) (use m y(2) sub in auto)
  qed (use mixed m in metis)+
qed

text \<open>Updates of the rows of a table that keep identity and assign nothing keep it as well.\<close>

definition keeps_nonce :: "message \<Rightarrow> message \<Rightarrow> bool" where
  "keeps_nonce m m' \<longleftrightarrow> m_ID m' = m_ID m \<and> m_From m' = m_From m \<and> m_Nonce m' = m_Nonce m \<and> (assigned m' \<longrightarrow> assigned m)"

lemma keeps_nonce_all_trans:
  "list_all2 keeps_nonce l l1 \<Longrightarrow> list_all2 keeps_nonce l1 l2 \<Longrightarrow> list_all2 keeps_nonce l l2"
  by (rule list_all2_trans) (auto simp: keeps_nonce_def)

lemma keeps_nonce_all_refl: "list_all2 keeps_nonce l l"
  by (simp add: keeps_nonce_def list.rel_refl)

text \<open>The senders of assigned messages have a live record.\<close>

definition assigned_live :: "message list \<Rightarrow> address_info list \<Rightarrow> bool" where
  "assigned_live ms as \<longleftrightarrow> (\<forall>m \<in> set ms. assigned m \<longrightarrow> m_From m \<in> a_Addr ` set (live as))"

lemma live_upd_where:
  assumes "\<And>x. a_Addr (f x) = a_Addr x \<and> a_IsDeleted (f x) = a_IsDeleted x"
  shows "a_Addr ` set (live (upd_where p f l)) = a_Addr ` set (live l)"
  using assms by (induction l) (auto simp: live_def upd_where_def)

lemma assigned_live_rel:
  assumes "assigned_live ms as" "list_all2 keeps_nonce ms ms'" "a_Addr ` set (live as) \<subseteq> a_Addr ` set (live as')"
  shows "assigned_live ms' as'"
  unfolding assigned_live_def
proof (intro ballI impI)
  fix m assume "m \<in> set ms'" "assigned m"
  then obtain x where "x \<in> set ms" "keeps_nonce x m" using list_all2_preimage [OF assms(2)] by blast
  then show "m_From m \<in> a_Addr ` set (live as')" using assms(1,3) \<open>assigned m\<close> unfolding assigned_live_def keeps_nonce_def by auto
qed

lemma nonce_inv_rel:
  assumes inv: "nonce_inv ms as" and rel: "list_all2 keeps_nonce ms ms'" and ids: "distinct (map m_ID ms')"
  shows "nonce_inv ms' as"
proof (rule nonce_invI)
  have pre: "\<exists>x \<in> set ms. keeps_nonce x m" if "m \<in> set ms'" for m
    using rel that by (induction rule: list_all2_induct) auto
  {
    fix a m assume a: "a \<in> set (live as)" and m: "m \<in> set ms'" "m_From m = a_Addr a" "assigned m"
    obtain x where x: "x \<in> set ms" "keeps_nonce x m" using pre [OF m(1)] by blast
    then show "m_Nonce m < a_Nonce a" using nonce_inv_below [OF inv a x(1)] m by (simp add: keeps_nonce_def)
  }
  fix a m m' assume a: "a \<in> set (live as)" "m \<in> set ms'" "m' \<in> set ms'"
    and m: "m_From m = a_Addr a" "m_From m' = a_Addr a" "assigned m" "assigned m'" "m_Nonce m = m_Nonce m'"
  obtain x where x: "x \<in> set ms" "keeps_nonce x m" using pre [OF a(2)] by blast
  obtain x' where x': "x' \<in> set ms" "keeps_nonce x' m'" using pre [OF a(3)] by blast
  have "x = x'" by (rule nonce_inv_unique [OF inv a(1) x(1) x'(1)]) (use m x(2) x'(2) in \<open>simp_all add: keeps_nonce_def\<close>)
  then have "m_ID m = m_ID m'" using x(2) x'(2) by (simp add: keeps_nonce_def)
  then show "m = m'" using ids a(2,3) by (simp add: distinct_map inj_on_def)
qed

lemma set_fold_upsert: "set (fold (upsert pk) rs l) \<subseteq> set rs \<union> set l"
proof (induction rs arbitrary: l)
  case (Cons r rs)
  have "set (upsert pk r l) \<subseteq> insert r (set l)" using set_upsert by fastforce
  with Cons [of "upsert pk r l"] show ?case by auto
qed simp

lemma maxNonceOf_mem: "maxNonceOf l \<in> insert 0 (m_Nonce ` set l)"
proof -
  have "foldl (\<lambda>mx msg. if mx < m_Nonce msg then m_Nonce msg else mx) k l \<in> insert k (m_Nonce ` set l)" for k :: u64
    by (induction l arbitrary: k) (auto split: if_splits)
  then show ?thesis by (simp only: maxNonceOf_def)
qed

context repo_store
begin

lemma max_nonce_stored:
  assumes R: "MessageRepo R = M" and "inv db" and "getMaxMessageNonceFromDB R a db = Inr mx" and "mx \<noteq> 0"
  shows "\<exists>m \<in> set (msgs db). m_From m = a \<and> m_Nonce m = mx"
proof -
  have one: "\<exists>m \<in> set (msgs db). m_From m = a \<and> m_Nonce m = k"
    if "mr_ListMessageByParams M q db = Inr l" "q_From q = [a]" "maxNonceOf l = k" "k \<noteq> 0" for q l k
  proof -
    have "mset l \<subseteq># mset (filter (params_match q) (msgs db))" using ListParams [OF assms(2) that(1)] by simp
    then have "set l \<subseteq> {m \<in> set (msgs db). params_match q m}" by (metis set_filter set_mset_mono set_mset_mset)
    moreover have "k \<in> m_Nonce ` set l" using maxNonceOf_mem [of l] that(3,4) by auto
    ultimately show ?thesis using that(2) by (auto simp: params_match_def)
  qed
  show ?thesis
    using assms(3,4) R one [of "empty_query\<lparr>q_State := [FillMsg], q_From := [a]\<rparr>"]
      one [of "empty_query\<lparr>q_State := [OnChainMsg], q_From := [a], q_Limit := 50\<rparr>"]
    by (auto simp: getMaxMessageNonceFromDB_def split: sum.splits if_splits)
qed

text \<open>The nonce correction keeps the invariant and leaves the address at the start nonce.\<close>

lemma sync_effect:
  assumes R: "MessageRepo (se_repo env) = M" "AddressRepo (se_repo env) = A"
    and inv: "inv db" and ninv: "nonce_inv (msgs db) (addrs db)"
    and ai: "ai \<in> set (live (addrs db))"
    and head: "\<forall>m \<in> set (msgs db). m_From m = a_Addr ai \<longrightarrow> unat (m_Nonce m) + k < 2 ^ 64 - 1"
      "unat nl + k < 2 ^ 64" "unat (a_Nonce ai) + k < 2 ^ 64"
    and run: "sync_nonce env ai nl (db, c) = (Inr ai', s1)"
  shows "inv (fst s1) \<and> msgs (fst s1) = msgs db \<and> nonce_inv (msgs (fst s1)) (addrs (fst s1))
    \<and> (\<forall>y \<in> set (live (addrs (fst s1))). a_Addr y = a_Addr ai \<longrightarrow> a_Nonce y = a_Nonce ai')
    \<and> unat (a_Nonce ai') + k < 2 ^ 64"
proof (cases "nl > a_Nonce ai")
  case False
  then have "fst s1 = db" "ai' = ai" using sync_nonce_Inr [OF run] by auto
  then show ?thesis using inv ninv ai head live_unique [OF inv _ ai] by auto
next
  case True
  define b where "b = a_Nonce ai'"
  have s: "b = start_nonce (se_repo env) ai nl db" "a_Addr ai' = a_Addr ai" "a_ID ai' = a_ID ai"
    "a_IsDeleted ai' = a_IsDeleted ai" "ar_SaveAddress A ai' db = (Inr (), fst s1)"
    using sync_nonce_Inr [OF run] True R by (auto simp: b_def)
  obtain mx where mx: "getMaxMessageNonceFromDB (se_repo env) (a_Addr ai) db = Inr mx"
    by (simp add: getMaxMessageNonceFromDB_def)
  have b: "b = (if mx > nl then mx + 1 else nl)" using s(1) True mx by (simp add: start_nonce_def)
  have bk: "a_Nonce ai \<le> b \<and> unat b + k < 2 ^ 64"
  proof (cases "mx > nl")
    case mxnl: True
    then have "mx \<noteq> 0" by auto
    then obtain m where "m \<in> set (msgs db)" "m_From m = a_Addr ai" "m_Nonce m = mx"
      using max_nonce_stored [OF R(1) inv mx] by blast
    then have h: "unat mx + k < 2 ^ 64 - 1" using head(1) by blast
    then have "unat (mx + 1) = unat mx + 1" using word_add_of_nat_unat [of mx 1] by simp
    then show ?thesis using b mxnl True h by (simp add: word_le_nat_alt word_less_nat_alt)
  next
    case False
    then show ?thesis using b True head(2) by simp
  qed
  obtain a' where a': "inv (fst s1)" "addr_stored_as ai' a'" "addrs (fst s1) = upsert a_ID a' (addrs db)"
    using SaveAddress [OF inv s(5)] by blast
  have a'_simps: "a_Addr a' = a_Addr ai" "a_Nonce a' = b" "a_IsDeleted a' = NotDeleted"
    using a'(2) s ai by (auto simp: addr_stored_as_def b_def live_def)
  have live': "a' \<in> set (live (addrs (fst s1)))" using a'_simps by (simp add: a'(3) live_def)
  have "nonce_inv (msgs db) (addrs (fst s1))"
  proof (rule nonce_inv_raise [OF ninv])
    fix x assume "x \<in> set (live (addrs (fst s1)))"
    then consider "x = a'" | "x \<in> set (live (addrs db))" by (auto simp: a'(3) live_def dest: set_upsert)
    then show "\<exists>y \<in> set (live (addrs db)). a_Addr y = a_Addr x \<and> a_Nonce y \<le> a_Nonce x"
      using ai a'_simps bk by cases auto
  qed
  then show ?thesis
    using a'(1) addr_frame(1) [OF s(5)] live_unique [OF a'(1) _ live'] a'_simps bk by (auto simp: b_def)
qed

text \<open>What saving a round's result does to the rows: messages, next nonce, error texts.\<close>

lemma err_msgs_effect:
  "inv d \<Longrightarrow> forC (\<lambda>(i, err). mr_UpdateErrMsg M i err) l d = (Inr (), d') \<Longrightarrow>
     inv d' \<and> addrs d' = addrs d \<and> list_all2 keeps_nonce (msgs d) (msgs d')"
proof (induction l arbitrary: d)
  case Nil
  then show ?case by (simp add: keeps_nonce_all_refl)
next
  case (Cons x l)
  obtain i e where x: "x = (i, e)" by (cases x)
  obtain d1 where one: "mr_UpdateErrMsg M i e d = (Inr (), d1)"
    and rest: "forC (\<lambda>(i, err). mr_UpdateErrMsg M i err) l d1 = (Inr (), d')"
    using Cons.prems(2) unfolding x forC_Cons_Inr prod.case by blast
  obtain t where d1: "inv d1" "msgs d1 = upd_where (\<lambda>m. m_ID m = i) (\<lambda>m. m\<lparr>m_ErrorMsg := e, m_UpdatedAt := t\<rparr>) (msgs d)"
    using ErrMsg [OF Cons.prems(1) one] by blast
  have "list_all2 keeps_nonce (msgs d) (msgs d1)"
    unfolding d1(2) by (rule list_all2_upd_where) (auto simp: keeps_nonce_def assigned_def)
  then show ?case using Cons.IH [OF d1(1) rest] msg_frame(3) [OF one] by (auto intro: keeps_nonce_all_trans)
qed

lemma save_body_effect:
  assumes R: "MessageRepo R = M" "AddressRepo R = A" and inv: "inv db" and run: "save_body R res db = (Inr (), db')"
  obtains ms' t where "inv db'" "list_all2 stored_as (sel_SelectMsg res) ms'"
    "list_all2 keeps_nonce (fold (upsert m_ID) ms' (msgs db)) (msgs db')"
    "addrs db' = (if sel_SelectMsg res = [] then addrs db
       else upd_where (\<lambda>x. a_Addr x = a_Addr (sel_Address res) \<and> a_IsDeleted x = NotDeleted)
         (\<lambda>x. x\<lparr>a_Nonce := a_Nonce (sel_Address res), a_UpdatedAt := t\<rparr>) (addrs db))"
proof -
  obtain d1 where errs: "forC (\<lambda>(i, err). mr_UpdateErrMsg M i err) (sel_ErrMsg res) d1 = (Inr (), db')"
    and d1: "if sel_SelectMsg res = [] then d1 = db else (\<exists>d0 n. mr_BatchSaveMessage M (sel_SelectMsg res) db = (Inr (), d0)
        \<and> ar_UpdateNonce A (a_Addr (sel_Address res)) (a_Nonce (sel_Address res)) d0 = (Inr n, d1))"
    using run R by (auto simp: save_body_def comp_inv split: if_splits)
  show ?thesis
  proof (cases "sel_SelectMsg res = []")
    case True
    then show ?thesis using d1 err_msgs_effect [OF _ errs] inv by (intro that [of "[]" 0]) auto
  next
    case False
    then obtain d0 n where save: "mr_BatchSaveMessage M (sel_SelectMsg res) db = (Inr (), d0)"
      and upd: "ar_UpdateNonce A (a_Addr (sel_Address res)) (a_Nonce (sel_Address res)) d0 = (Inr n, d1)"
      using d1 by auto
    obtain ms' where ms': "inv d0" "list_all2 stored_as (sel_SelectMsg res) ms'" "msgs d0 = fold (upsert m_ID) ms' (msgs db)"
      using BatchSave_effect [OF inv save] by blast
    obtain t where t: "inv d1" "addrs d1 = upd_where (\<lambda>x. a_Addr x = a_Addr (sel_Address res) \<and> a_IsDeleted x = NotDeleted)
        (\<lambda>x. x\<lparr>a_Nonce := a_Nonce (sel_Address res), a_UpdatedAt := t\<rparr>) (addrs d0)"
      using UpdateNonce [OF ms'(1) upd] by blast
    show ?thesis
      by (rule that [of ms' t]) (use False ms' t err_msgs_effect [OF t(1) errs] BatchSave_frame [OF save] addr_frame(2) [OF upd] in auto)
  qed
qed

lemma stored_all:
  assumes "list_all2 stored_as sel ms'"
  shows "map m_Nonce ms' = map m_Nonce sel" "map m_From ms' = map m_From sel"
  using assms by (induction rule: list_all2_induct) (auto simp: stored_as_simps)

lemma save_keeps_nonces:
  assumes R: "MessageRepo R = M" "AddressRepo R = A"
    and inv: "inv db" and ninv: "nonce_inv (msgs db) (addrs db)"
    and sel: "map m_Nonce (sel_SelectMsg res) = map (\<lambda>i. b + of_nat i) [0..<length (sel_SelectMsg res)]"
      "unat b + length (sel_SelectMsg res) < 2 ^ 64" "\<And>m. m \<in> set (sel_SelectMsg res) \<Longrightarrow> m_From m = a_Addr (sel_Address res)"
      "a_Nonce (sel_Address res) = b + of_nat (length (sel_SelectMsg res))"
    and cur: "\<And>y. y \<in> set (live (addrs db)) \<Longrightarrow> a_Addr y = a_Addr (sel_Address res) \<Longrightarrow> a_Nonce y = b"
    and run: "save_body R res db = (Inr (), db')"
  shows "inv db' \<and> nonce_inv (msgs db') (addrs db')"
proof -
  obtain ms' t where e: "inv db'" "list_all2 stored_as (sel_SelectMsg res) ms'"
    "list_all2 keeps_nonce (fold (upsert m_ID) ms' (msgs db)) (msgs db')"
    "addrs db' = (if sel_SelectMsg res = [] then addrs db
       else upd_where (\<lambda>x. a_Addr x = a_Addr (sel_Address res) \<and> a_IsDeleted x = NotDeleted)
         (\<lambda>x. x\<lparr>a_Nonce := a_Nonce (sel_Address res), a_UpdatedAt := t\<rparr>) (addrs db))"
    using save_body_effect [OF R inv run] .
  note st = stored_all [OF e(2)] and len = list_all2_lengthD [OF e(2)]
  have frm: "m_From m = a_Addr (sel_Address res)" if "m \<in> set ms'" for m
  proof -
    have "m_From m \<in> set (map m_From (sel_SelectMsg res))" unfolding st(2) [symmetric] using that by simp
    then show ?thesis using sel(3) by auto
  qed
  have "nonce_inv (fold (upsert m_ID) ms' (msgs db)) (addrs db')"
  proof (rule nonce_inv_extend [OF ninv])
    show "map m_Nonce ms' = map (\<lambda>i. b + of_nat i) [0..<length ms']" "unat b + length ms' < 2 ^ 64"
      using st(1) sel(1,2) len by simp_all
    show "m \<in> set ms' \<Longrightarrow> m_From m = a_Addr (sel_Address res)" for m by (rule frm)
    fix x assume "x \<in> set (live (addrs db'))"
    then obtain y where y: "y \<in> set (live (addrs db))" "a_Addr y = a_Addr x"
      "a_Nonce x = (if sel_SelectMsg res \<noteq> [] \<and> a_Addr y = a_Addr (sel_Address res) then a_Nonce (sel_Address res) else a_Nonce y)"
      unfolding e(4) by (auto simp: live_def set_upd_where split: if_splits)
    then show "\<exists>y \<in> set (live (addrs db)). a_Addr y = a_Addr x \<and> (if a_Addr x = a_Addr (sel_Address res)
        then a_Nonce y \<le> b \<and> a_Nonce x = b + of_nat (length ms') else a_Nonce x = a_Nonce y)"
      using cur [OF y(1)] sel(4) len by (intro bexI [OF _ y(1)]) auto
  qed (rule set_fold_upsert)
  then show ?thesis using e(1,3) nonce_inv_rel ids by blast
qed

lemma save_keeps_live:
  assumes R: "MessageRepo R = M" "AddressRepo R = A" and inv: "inv db" and run: "save_body R res db = (Inr (), db')"
    and sel: "\<And>m. m \<in> set (sel_SelectMsg res) \<Longrightarrow> m_From m \<in> a_Addr ` set (live (addrs db))"
    and al: "assigned_live (msgs db) (addrs db)"
  shows "assigned_live (msgs db') (addrs db')"
proof -
  obtain ms' t where e: "list_all2 stored_as (sel_SelectMsg res) ms'"
    "list_all2 keeps_nonce (fold (upsert m_ID) ms' (msgs db)) (msgs db')"
    "addrs db' = (if sel_SelectMsg res = [] then addrs db
       else upd_where (\<lambda>x. a_Addr x = a_Addr (sel_Address res) \<and> a_IsDeleted x = NotDeleted)
         (\<lambda>x. x\<lparr>a_Nonce := a_Nonce (sel_Address res), a_UpdatedAt := t\<rparr>) (addrs db))"
    using save_body_effect [OF R inv run] .
  have "m_From m \<in> a_Addr ` set (live (addrs db))" if "m \<in> set ms'" for m
  proof -
    have "m_From m \<in> set (map m_From (sel_SelectMsg res))" unfolding stored_all(2) [OF e(1), symmetric] using that by simp
    then show ?thesis using sel by auto
  qed
  then have "assigned_live (fold (upsert m_ID) ms' (msgs db)) (addrs db)"
    using al set_fold_upsert [of m_ID ms' "msgs db"] unfolding assigned_live_def by blast
  moreover have "a_Addr ` set (live (addrs db)) \<subseteq> a_Addr ` set (live (addrs db'))"
    unfolding e(3) by (simp add: live_upd_where)
  ultimately show ?thesis using e(2) by (blast intro: assigned_live_rel)
qed

end

section \<open>The round as a whole\<close>

text \<open>What a successful selection picked, in terms of the nonce the chain has reached.\<close>

lemma picked_nonces:
  assumes "picked env addr mx nl ai db res"
  shows "map m_Nonce (sel_SelectMsg res) = map (\<lambda>i. a_Nonce ai + of_nat i) [0..<length (sel_SelectMsg res)]"
    and "a_Nonce (sel_Address res) = a_Nonce ai + of_nat (length (sel_SelectMsg res))"
    and "a_Addr (sel_Address res) = a_Addr ai"
    and "sel_SelectMsg res \<noteq> [] \<Longrightarrow> a_Nonce ai - nl < mx \<and> length (sel_SelectMsg res) \<le> unat (mx - (a_Nonce ai - nl))"
    and "\<And>m. m \<in> set (sel_SelectMsg res) \<Longrightarrow> well_filled env m"
proof -
  have "map m_Nonce (sel_SelectMsg res) = map (\<lambda>i. a_Nonce ai + of_nat i) [0..<length (sel_SelectMsg res)]
    \<and> a_Nonce (sel_Address res) = a_Nonce ai + of_nat (length (sel_SelectMsg res))
    \<and> a_Addr (sel_Address res) = a_Addr ai
    \<and> (sel_SelectMsg res \<noteq> [] \<longrightarrow> a_Nonce ai - nl < mx \<and> length (sel_SelectMsg res) \<le> unat (mx - (a_Nonce ai - nl)))
    \<and> (\<forall>m \<in> set (sel_SelectMsg res). well_filled env m)"
    using assms unfolding picked_def by (auto dest!: sign_loop_result)
  then show "map m_Nonce (sel_SelectMsg res) = map (\<lambda>i. a_Nonce ai + of_nat i) [0..<length (sel_SelectMsg res)]"
    "a_Nonce (sel_Address res) = a_Nonce ai + of_nat (length (sel_SelectMsg res))"
    "a_Addr (sel_Address res) = a_Addr ai"
    "sel_SelectMsg res \<noteq> [] \<Longrightarrow> a_Nonce ai - nl < mx \<and> length (sel_SelectMsg res) \<le> unat (mx - (a_Nonce ai - nl))"
    "\<And>m. m \<in> set (sel_SelectMsg res) \<Longrightarrow> well_filled env m" by blast+
qed

lemma unat_gap: "(gap :: u64) < mx \<Longrightarrow> n \<le> unat (mx - gap) \<Longrightarrow> unat (gap + of_nat n) \<le> unat mx \<and> n \<le> unat mx"
proof -
  assume gap: "gap < mx" and n: "n \<le> unat (mx - gap)"
  have m: "unat (mx - gap) = unat mx - unat gap" using gap by (intro unat_sub_le) simp
  have "unat gap < unat mx" using gap by (simp add: word_less_nat_alt)
  then have le: "unat gap + n \<le> unat mx" using n m by simp
  moreover have "unat mx < 2 ^ 64" using unsigned_less [of mx] by simp
  ultimately have "unat (gap + of_nat n) = unat gap + n" by (intro word_add_of_nat_unat) simp
  then show ?thesis using le by simp
qed

lemma subseq_subset: "subseq xs ys \<Longrightarrow> set xs \<subseteq> set ys"
  by (induction rule: list_emb.induct) auto

lemma consecutive_distinct:
  assumes "map m_Nonce sel = map (\<lambda>i. b + of_nat i) [0..<length sel]" "length sel < 2 ^ 64"
  shows "distinct (map m_Nonce sel)"
proof -
  have "i = j" if "i < length sel" "j < length sel" "(b :: u64) + of_nat i = b + of_nat j" for i j
  proof -
    have "(of_nat i :: u64) = of_nat j" using that(3) by simp
    then have "unat (of_nat i :: u64) = unat (of_nat j :: u64)" by simp
    then show ?thesis using that(1,2) assms(2) by (simp add: unat_of_nat)
  qed
  then have "inj_on (\<lambda>i. b + of_nat i) {0..<length sel}" by (auto intro!: inj_onI)
  then show ?thesis unfolding assms(1) by (simp add: distinct_map)
qed


context repo_store
begin

lemma picked_from:
  assumes R: "MessageRepo (se_repo env) = M" and inv: "inv db" and p: "picked env addr mx nl ai db res"
    and m: "m \<in> set (sel_SelectMsg res)"
  shows "m_From m = a_Addr ai"
proof -
  obtain messages cands where l: "mr_ListUnChainMessageByAddress M (a_Addr ai) (uint (min (mx - (a_Nonce ai - nl)) 100)) db = Inr messages"
    and sub: "subseq (map ident (sel_SelectMsg res)) (map ident cands)" "subseq (map ident cands) (map ident messages)"
    using p m R unfolding picked_def by (auto dest!: sign_loop_result)
  have "ident m \<in> set (map ident messages)"
    using subseq_subset [OF subseq_order.order_trans [OF sub]] m by auto
  then obtain m0 where "m0 \<in> set messages" "m_From m0 = m_From m" by auto
  then show ?thesis using ListUnChain_set [OF inv l] by metis
qed

lemma run_cases:
  assumes R: "AddressRepo (se_repo env) = A" "Transaction (se_repo env) = tx"
    and run: "run_selection env addr applied (Some ai) ts mx sp (db, c) = (r, s')"
  obtains (stop) "fst s' = db"
  | (synced) nl an ai' d c1 where "getNonce env addr ts applied = Inr (nl, an)" "sync_nonce env ai nl (db, c) = (Inr ai', (d, c1))"
      "fst s' = d \<or> (\<exists>res. picked env addr mx nl ai' d res \<and> save_body (se_repo env) res d = (Inr (), fst s'))"
proof -
  have keep: "ar_SaveAddress (AddressRepo (se_repo env)) a d = (Inl e, d') \<Longrightarrow> d' = d" for a d e d'
    using SaveAddress_err R(1) by simp
  obtain q s1 where sel: "selectMessage env addr applied (Some ai) ts mx sp (db, c) = (q, s1)"
    by (cases "selectMessage env addr applied (Some ai) ts mx sp (db, c)")
  show ?thesis
  proof (cases q)
    case (Inl e)
    then have "s' = s1" using run sel by (simp add: run_selection_def bindC_def)
    moreover have "fst s1 = db \<or> (\<exists>nl an ai' c1. getNonce env addr ts applied = Inr (nl, an)
        \<and> sync_nonce env ai nl (db, c) = (Inr ai', (fst s1, c1)))"
      by (rule selectMessage_Inl [OF sel [unfolded Inl]]) (rule keep)
    ultimately show ?thesis using stop synced by (elim disjE exE conjE) auto
  next
    case (Inr res)
    obtain nl an ai' c1 where sm: "getNonce env addr ts applied = Inr (nl, an)"
      "sync_nonce env ai nl (db, c) = (Inr ai', (fst s1, c1))" "picked env addr mx nl ai' (fst s1) res"
      using selectMessage_Inr [OF sel [unfolded Inr]] by metis
    have "fst s' = fst s1 \<or> (\<exists>u. saveSelectedMessages (se_repo env) res (fst s1) = (u, fst s'))"
      using run sel Inr by (auto simp: run_selection_def comp_simps onDb_def split: if_splits sum.splits prod.splits)
    moreover have "d = fst s1 \<or> save_body (se_repo env) res (fst s1) = (Inr (), d)"
      if "saveSelectedMessages (se_repo env) res (fst s1) = (u, d)" for u d
      using that unfolding saveSelectedMessages_def R(2) by (cases rule: tx_cases) auto
    ultimately show ?thesis using synced [OF sm(1,2)] sm(3) by blast
  qed
qed

lemma run_keeps_nonces:
  assumes R: "MessageRepo (se_repo env) = M" "AddressRepo (se_repo env) = A" "Transaction (se_repo env) = tx"
    and inv: "inv db" and ninv: "nonce_inv (msgs db) (addrs db)"
    and ai: "ai \<in> set (live (addrs db))" "a_Addr ai = addr"
    and head: "\<forall>m \<in> set (msgs db). m_From m = addr \<longrightarrow> unat (m_Nonce m) + unat mx < 2 ^ 64 - 1"
      "\<forall>nl an. getNonce env addr ts applied = Inr (nl, an) \<longrightarrow> unat nl + unat mx < 2 ^ 64"
      "unat (a_Nonce ai) + unat mx < 2 ^ 64"
    and run: "run_selection env addr applied (Some ai) ts mx sp (db, c) = (r, s')"
  shows "inv (fst s') \<and> nonce_inv (msgs (fst s')) (addrs (fst s'))"
proof (cases rule: run_cases [OF R(2,3) run])
  case 1
  then show ?thesis using inv ninv by simp
next
  case (2 nl an ai' d c1)
  have hm: "\<forall>m \<in> set (msgs db). m_From m = a_Addr ai \<longrightarrow> unat (m_Nonce m) + unat mx < 2 ^ 64 - 1" using head(1) unfolding ai(2) .
  have hn: "unat nl + unat mx < 2 ^ 64" using head(2) 2(1) by simp
  note sync = sync_effect [OF R(1,2) inv ninv ai(1) hm hn head(3) 2(2), unfolded fst_conv]
  have addr': "a_Addr ai' = a_Addr ai" using sync_nonce_Inr [OF 2(2)] by simp
  have "inv (fst s') \<and> nonce_inv (msgs (fst s')) (addrs (fst s'))"
    if pk: "picked env addr mx nl ai' d res" and body: "save_body (se_repo env) res d = (Inr (), fst s')" for res
  proof -
    note p = picked_nonces [OF pk]
    have len: "unat (a_Nonce ai') + length (sel_SelectMsg res) < 2 ^ 64"
      using p(4) unat_gap [of "a_Nonce ai' - nl" mx "length (sel_SelectMsg res)"] sync
      by (cases "sel_SelectMsg res = []") auto
    show ?thesis
      by (rule save_keeps_nonces [OF R(1,2) _ _ p(1) len _ p(2) _ body])
        (use sync p(3) addr' picked_from [OF R(1) _ pk] in auto)
  qed
  then show ?thesis using 2(3) sync by auto
qed

lemma run_keeps_live:
  assumes R: "MessageRepo (se_repo env) = M" "AddressRepo (se_repo env) = A" "Transaction (se_repo env) = tx"
    and inv: "inv db" and al: "assigned_live (msgs db) (addrs db)" and ai: "ai \<in> set (live (addrs db))"
    and run: "run_selection env addr applied (Some ai) ts mx sp (db, c) = (r, s')"
  shows "assigned_live (msgs (fst s')) (addrs (fst s'))"
proof (cases rule: run_cases [OF R(2,3) run])
  case 1
  then show ?thesis using al by simp
next
  case (2 nl an ai' d c1)
  have addr': "a_Addr ai' = a_Addr ai" using sync_nonce_Inr [OF 2(2)] by simp
  have d: "inv d \<and> msgs d = msgs db \<and> a_Addr ` set (live (addrs db)) \<subseteq> a_Addr ` set (live (addrs d))"
  proof (cases "nl > a_Nonce ai")
    case False
    then show ?thesis using sync_nonce_Inr [OF 2(2)] inv by simp
  next
    case True
    then have s: "a_ID ai' = a_ID ai" "a_IsDeleted ai' = a_IsDeleted ai" "ar_SaveAddress A ai' db = (Inr (), d)"
      using sync_nonce_Inr [OF 2(2)] R(2) by auto
    obtain a' where a': "inv d" "addr_stored_as ai' a'" "addrs d = upsert a_ID a' (addrs db)" using SaveAddress [OF inv s(3)] by blast
    have a: "a' \<in> set (live (addrs d))" "a_Addr a' = a_Addr ai" "a_ID a' = a_ID ai"
      using a'(2,3) s ai addr' by (auto simp: addr_stored_as_def live_def)
    have "a_Addr x \<in> a_Addr ` set (live (addrs d))" if x: "x \<in> set (live (addrs db))" for x
    proof (cases "a_ID x = a_ID ai")
      case True
      then have "x = ai" using addr_ids [OF inv] x ai by (auto simp: live_def distinct_map inj_on_def)
      then show ?thesis using a by (metis imageI)
    next
      case False
      then have "x \<in> set (live (addrs d))" using x a(3) upsert_keep [of x "addrs db" a_ID a'] unfolding a'(3) by (simp add: live_def)
      then show ?thesis by simp
    qed
    then show ?thesis using a'(1) addr_frame(1) [OF s(3)] by auto
  qed
  then have al': "assigned_live (msgs d) (addrs d)" using al unfolding assigned_live_def by auto
  have "assigned_live (msgs (fst s')) (addrs (fst s'))"
    if pk: "picked env addr mx nl ai' d res" and body: "save_body (se_repo env) res d = (Inr (), fst s')" for res
    by (rule save_keeps_live [OF R(1,2) _ body _ al']) (use d ai addr' picked_from [OF R(1) _ pk] in auto)
  then show ?thesis using 2(3) al' by auto
qed

end

section \<open>A sample round\<close>

text \<open>Two waiting messages of an address whose next nonce is 5, over SQLite tables with the list engine.\<close>

definition sample_env :: "sqlite_db sel_env" where
  "sample_env = \<lparr>se_repo = sqlite_repo list_engine plain_codec 7, se_codec = plain_codec,
     se_GetUserBySigner = (\<lambda>_. Inr [''user'']), se_StateGetActor = (\<lambda>_ _. Inr \<lparr>act_Code = Cid ''account'', act_Nonce = 5\<rparr>),
     se_StateNetworkVersion = Inr 16,
     se_GasBatchEstimate = (\<lambda>l _ _. Inr (map (\<lambda>(c, _). \<lparr>er_Msg = Some (c\<lparr>c_GasLimit := 100, c_GasFeeCap := Some 10, c_GasPremium := Some 1\<rparr>), er_Err = ''''\<rparr>) l)),
     se_ToStorageBlock = (\<lambda>_. Inr ''block''), se_SigningBytes = (\<lambda>_. Inr ''bytes''), se_WalletSign = (\<lambda>_ _ _ _. Inr ''sig''),
     se_Cid = (\<lambda>c. Cid (digits_of (unat (c_Nonce c)))), se_SignedCid = (\<lambda>s. Cid (CHR ''s'' # digits_of (unat (c_Nonce (s_Message s))))),
     se_BlockGasLimit = 10000000000, se_MethodSend = 0, se_ErrActorNotFound = ''actor not found'',
     se_evict = (\<lambda>c. c), se_now = 7\<rparr>"

definition sample_ts :: tipset where
  "sample_ts = \<lparr>ts_Key = [Cid ''h''], ts_Parents = [], ts_Height = 10, ts_Block0Cid = Cid ''h'', ts_ParentBaseFee = Some 100\<rparr>"

definition waiting_db :: sqlite_db where
  "waiting_db = sample_db\<lparr>t_messages := [sqlite_fromMessage plain_codec (sample_message ''a''), sqlite_fromMessage plain_codec (sample_message ''b'')]\<rparr>"

abbreviation sample_selection :: "(sqlite_db sel_state, select_result) comp" where
  "sample_selection \<equiv> selectMessage sample_env (Addr 1 ''from'') NewNonceMap (Some sample_address) sample_ts 20 (Some DefSharedParams)"

abbreviation sample_round :: "(sqlite_db sel_state, signed_msg list) comp" where
  "sample_round \<equiv> run_selection sample_env (Addr 1 ''from'') NewNonceMap (Some sample_address) sample_ts 20 (Some DefSharedParams)"

lemma sample_selects: "case fst (sample_selection (waiting_db, Map.empty)) of
    Inl _ \<Rightarrow> False | Inr res \<Rightarrow> map m_ID (sel_SelectMsg res) = [''a'', ''b'']"
  by code_simp

lemma sample_round_fills: "length (filter (\<lambda>m. m_State m = FillMsg)
    (sqlite_msgs plain_codec (fst (snd (sample_round (waiting_db, Map.empty)))))) = 2"
  by code_simp

lemma waiting_db_rows:
  "list_all (\<lambda>m. \<not> assigned m \<and> m_Nonce m = 0) (sqlite_msgs plain_codec waiting_db)"
  "live (sqlite_addrs plain_codec waiting_db) = [sample_address]"
  "map sm_ID (t_messages waiting_db) = [''a'', ''b'']" 
  by code_simp+

lemma waiting_db_inv: "sqlite_inv plain_codec waiting_db"
  using sample_db_inv waiting_db_rows(3) by (simp add: sqlite_inv_def waiting_db_def msg_row_ok_def sqlite_fromMessage_def sample_message_def)

lemma sample_store:
  "repo_store (MessageRepo (se_repo sample_env)) (AddressRepo (se_repo sample_env)) (sqlite_inv plain_codec)
     (sqlite_msgs plain_codec) (cid_str plain_codec) (sqlite_addrs plain_codec) (Transaction (se_repo sample_env))"
  using plain_sqlite.repo_store_axioms [where now = 7] by (simp add: sample_env_def)

lemma sample_nonce: "getNonce sample_env a ts NewNonceMap = Inr (5, 5)"
  by (simp add: getNonce_def sample_env_def nonce_Get_def NewNonceMap_def mapErrE_def)

section \<open>Properties\<close>


text \<open>
  C6: a successful selection hands out consecutive nonces from the address' start nonce on
  and advances the address behind them; they are distinct; the assigned nonces that are not
  yet on chain stay within the configured number of pending messages; and every selected
  message is signed, in state \<open>FillMsg\<close>, within the block gas limit, and carries the
  identifiers of exactly what was signed.
\<close>

theorem selection_allocates_consecutive_nonces:
  assumes "selectMessage env addr applied (Some ai) ts mx sp (db, c) = (Inr res, s')"
  shows "\<exists>nl an. getNonce env addr ts applied = Inr (nl, an) \<and>
    (let b = start_nonce (se_repo env) ai nl db; sel = sel_SelectMsg res
     in map m_Nonce sel = map (\<lambda>i. b + of_nat i) [0..<length sel]
      \<and> a_Nonce (sel_Address res) = b + of_nat (length sel) \<and> distinct (map m_Nonce sel)
      \<and> (sel \<noteq> [] \<longrightarrow> unat (a_Nonce (sel_Address res) - nl) \<le> unat mx)
      \<and> (\<forall>m \<in> set sel. well_filled env m))"
proof -
  obtain nl an ai' c1 where sm: "getNonce env addr ts applied = Inr (nl, an)"
    "sync_nonce env ai nl (db, c) = (Inr ai', (fst s', c1))" "picked env addr mx nl ai' (fst s') res"
    using selectMessage_Inr [OF assms] by metis
  define b where "b = start_nonce (se_repo env) ai nl db"
  have b: "a_Nonce ai' = b" using sync_nonce_Inr [OF sm(2)] by (simp add: b_def)
  note p = picked_nonces [OF sm(3), unfolded b]
  have lim: "unat (b - nl + of_nat (length (sel_SelectMsg res))) \<le> unat mx \<and> length (sel_SelectMsg res) \<le> unat mx"
    if "sel_SelectMsg res \<noteq> []" using p(4) [OF that] unat_gap by blast
  have "unat mx < 2 ^ 64" using unsigned_less [of mx] by simp
  then have "length (sel_SelectMsg res) < 2 ^ 64" using lim by (cases "sel_SelectMsg res = []") auto
  from consecutive_distinct [OF p(1) this] have d: "distinct (map m_Nonce (sel_SelectMsg res))" .
  have "unat (a_Nonce (sel_Address res) - nl) \<le> unat mx" if "sel_SelectMsg res \<noteq> []"
    using lim [OF that] p(2) by (simp add: algebra_simps)
  then show ?thesis using p(1,2,5) d by (intro exI [of _ nl] exI [of _ an] conjI sm(1)) (simp_all add: b_def [symmetric] Let_def)
qed

theorem selection_allocates_consecutive_nonces_witness:
  "\<exists>res s'. sample_selection (waiting_db, Map.empty) = (Inr res, s')
    \<and> map m_Nonce (sel_SelectMsg res) = [5, 6] \<and> a_Nonce (sel_Address res) = 7"
proof -
  obtain q s' where q: "sample_selection (waiting_db, Map.empty) = (q, s')" by (cases "sample_selection (waiting_db, Map.empty)")
  have "case q of Inl _ \<Rightarrow> False | Inr res \<Rightarrow> map m_ID (sel_SelectMsg res) = [''a'', ''b'']"
    using sample_selects unfolding q fst_conv .
  then obtain res where res: "q = Inr res" "map m_ID (sel_SelectMsg res) = [''a'', ''b'']" by (cases q) auto
  have len: "length (sel_SelectMsg res) = 2" using arg_cong [OF res(2), of length] by simp
  have b: "start_nonce (se_repo sample_env) sample_address 5 waiting_db = 5" by (simp add: start_nonce_def sample_address_def)
  have "map m_Nonce (sel_SelectMsg res) = map (\<lambda>i. 5 + of_nat i) [0..<2]" "a_Nonce (sel_Address res) = 5 + of_nat 2"
    using selection_allocates_consecutive_nonces [OF q [unfolded res(1)]] by (simp_all add: sample_nonce Let_def len b)
  then have "map m_Nonce (sel_SelectMsg res) = [5, 6]" "a_Nonce (sel_Address res) = 7" by (simp_all add: numeral_2_eq_2)
  then show ?thesis by (intro exI conjI) (rule q [unfolded res(1)])
qed

end
