(* ===== verification/StateRefreshProps.thy ===== *)
theory StateRefreshProps
  imports StateRefresh SelectorProps
begin

text \<open>
  What the refresh of message states guarantees over any store that keeps the contract: it
  touches only the chain columns of messages the chain speaks about, it settles every applied
  message, and what it remembers as processed.
\<close>

section \<open>One message before and after\<close>

text \<open>What no refresh changes of a message.\<close>

definition same_message :: "message \<Rightarrow> message \<Rightarrow> bool" where
  "same_message m m' \<longleftrightarrow> m_ID m' = m_ID m \<and> m_From m' = m_From m \<and> m_To m' = m_To m \<and> m_Nonce m' = m_Nonce m
     \<and> m_UnsignedCid m' = m_UnsignedCid m \<and> m_SignedCid m' = m_SignedCid m \<and> m_Signature m' = m_Signature m
     \<and> m_WalletName m' = m_WalletName m \<and> m_ErrorMsg m' = m_ErrorMsg m"

definition chain_info :: "message \<Rightarrow> message_state \<times> int \<times> receipt option \<times> tipset_key" where
  "chain_info m = (m_State m, m_Height m, m_Receipt m, m_TipSetKey m)"

abbreviation applied_info :: "message_state \<Rightarrow> apply_message \<Rightarrow> message_state \<times> int \<times> receipt option \<times> tipset_key" where
  "applied_info st a \<equiv> (st, ap_height a, ap_receipt a, ap_tsk a)"

definition takes_nonce_of :: "apply_message \<Rightarrow> message \<Rightarrow> bool" where
  "takes_nonce_of a m \<longleftrightarrow> m_From m = c_From (ap_msg a) \<and> m_Nonce m = c_Nonce (ap_msg a)"

text \<open>
  The refresh of one message: untouched, reverted to filled, landed with the receipt, height
  and tipset of an applied message with its identifier, or displaced by an applied message of
  its sender and nonce with another signed identifier.
\<close>

definition refreshed :: "(chain_msg \<Rightarrow> cid) \<Rightarrow> cid set \<Rightarrow> apply_message set \<Rightarrow> message \<Rightarrow> message \<Rightarrow> bool" where
  "refreshed cidOf reverts applies m m' \<longleftrightarrow> same_message m m' \<and>
     (chain_info m' = chain_info m
    \<or> m_UnsignedCid m \<in> Some ` reverts \<and> chain_info m' = (FillMsg, 0, Some revert_receipt, [])
    \<or> (\<exists>a \<in> applies. m_UnsignedCid m = Some (cidOf (ap_msg a)) \<and> chain_info m' = applied_info OnChainMsg a)
    \<or> (\<exists>a \<in> applies. takes_nonce_of a m \<and> m_SignedCid m \<notin> {None, Some (ap_signedCID a)}
         \<and> chain_info m' = applied_info NonceConflictMsg a))"

lemma same_message_refl [simp]: "same_message m m"
  by (simp add: same_message_def)

lemma refreshed_refl [simp]: "refreshed cidOf rs as m m"
  by (simp add: refreshed_def)

lemma refreshed_trans:
  assumes "refreshed cidOf rs as m m1" "refreshed cidOf rs as m1 m2"
  shows "refreshed cidOf rs as m m2"
  using assms unfolding refreshed_def same_message_def takes_nonce_of_def by auto

lemma refreshed_mono: "rs \<subseteq> rs' \<Longrightarrow> as \<subseteq> as' \<Longrightarrow> refreshed cidOf rs as m m' \<Longrightarrow> refreshed cidOf rs' as' m m'"
  unfolding refreshed_def by blast

lemma refreshed_all_trans:
  "list_all2 (refreshed cidOf rs as) l l1 \<Longrightarrow> list_all2 (refreshed cidOf rs as) l1 l2 \<Longrightarrow> list_all2 (refreshed cidOf rs as) l l2"
  by (rule list_all2_trans [OF refreshed_trans])

text \<open>A message an application leaves filled was filled before.\<close>

lemma refreshed_filled: "refreshed cidOf {} as m m' \<Longrightarrow> m_State m' = FillMsg \<Longrightarrow> m_State m = FillMsg"
  by (auto simp: refreshed_def chain_info_def)

text \<open>What the refresh expects of the node: receipts present, keys and heights in range.\<close>

definition apply_ok :: "apply_message \<Rightarrow> bool" where
  "apply_ok a \<longleftrightarrow> ap_receipt a \<noteq> None \<and> CidUndef \<notin> set (ap_tsk a) \<and> 0 \<le> ap_height a \<and> ap_height a < 2 ^ 63"

lemma conflict_refreshed:
  assumes "stored_as (conflict_of a m) m'" "apply_ok a" "takes_nonce_of a m" "m_SignedCid m \<notin> {None, Some (ap_signedCID a)}"
  shows "refreshed cidOf {} {a} m m' \<and> m_State m' = NonceConflictMsg"
  using assms unfolding refreshed_def same_message_def stored_as_def conflict_of_def chain_info_def apply_ok_def by simp

text \<open>
  The vocabulary of settling: messages that are filled, or about to be by a revert, are
  identified by sender and nonce; such a message that an applied one matches carries its
  identifier; nothing filled is left with the sender and nonce of an applied message.
\<close>

definition pending :: "cid set \<Rightarrow> message \<Rightarrow> bool" where
  "pending rs m \<longleftrightarrow> m_State m = FillMsg \<or> m_UnsignedCid m \<in> Some ` rs"

lemma pending_empty: "pending {} m \<longleftrightarrow> m_State m = FillMsg"
  by (simp add: pending_def)

definition filled_unique :: "cid set \<Rightarrow> message list \<Rightarrow> bool" where
  "filled_unique rs ms \<longleftrightarrow> (\<forall>m \<in> set ms. \<forall>m' \<in> set ms. pending rs m \<longrightarrow> pending rs m' \<longrightarrow>
     m_From m = m_From m' \<longrightarrow> m_Nonce m = m_Nonce m' \<longrightarrow> m_ID m = m_ID m')"

definition cids_agree :: "cid set \<Rightarrow> (chain_msg \<Rightarrow> cid) \<Rightarrow> apply_message \<Rightarrow> message list \<Rightarrow> bool" where
  "cids_agree rs cidOf a ms \<longleftrightarrow> (\<forall>m \<in> set ms. pending rs m \<longrightarrow> takes_nonce_of a m \<longrightarrow>
     m_SignedCid m \<in> {None, Some (ap_signedCID a)} \<longrightarrow> m_UnsignedCid m = Some (cidOf (ap_msg a)))"

definition settled :: "apply_message \<Rightarrow> message list \<Rightarrow> bool" where
  "settled a ms \<longleftrightarrow> (\<forall>m \<in> set ms. takes_nonce_of a m \<longrightarrow> m_State m \<noteq> FillMsg)"

lemma filled_preimage:
  assumes "list_all2 (refreshed cidOf {} as) ms ms'" "m' \<in> set ms'" "m_State m' = FillMsg"
  obtains m where "m \<in> set ms" "m_State m = FillMsg" "same_message m m'"
  using list_all2_preimage [OF assms(1,2)] assms(3) refreshed_filled by (metis refreshed_def)

lemma apply_keeps_settled:
  assumes "list_all2 (refreshed cidOf {} as) ms ms'"
  shows "filled_unique {} ms \<Longrightarrow> filled_unique {} ms'" "cids_agree {} c a ms \<Longrightarrow> cids_agree {} c a ms'" "settled a ms \<Longrightarrow> settled a ms'"
proof -
  note pre = filled_preimage [OF assms]
  show "filled_unique {} ms'" if "filled_unique {} ms"
    unfolding filled_unique_def pending_empty
  proof (intro ballI impI)
    fix m m' assume a: "m \<in> set ms'" "m' \<in> set ms'" "m_State m = FillMsg" "m_State m' = FillMsg"
      "m_From m = m_From m'" "m_Nonce m = m_Nonce m'"
    obtain x where x: "x \<in> set ms" "m_State x = FillMsg" "same_message x m" using pre [OF a(1,3)] .
    obtain y where y: "y \<in> set ms" "m_State y = FillMsg" "same_message y m'" using pre [OF a(2,4)] .
    show "m_ID m = m_ID m'" using that x y a(5,6) unfolding filled_unique_def pending_empty same_message_def by metis
  qed
  show "cids_agree {} c a ms'" if "cids_agree {} c a ms"
    using that pre unfolding cids_agree_def pending_empty takes_nonce_of_def same_message_def by metis
  show "settled a ms'" if "settled a ms"
    using that pre unfolding settled_def takes_nonce_of_def same_message_def by metis
qed

lemma revert_keeps_unique:
  assumes rel: "list_all2 (refreshed cidOf rs {}) ms ms'"
  shows "filled_unique rs ms \<Longrightarrow> filled_unique {} ms'" "cids_agree rs c a ms \<Longrightarrow> cids_agree {} c a ms'"
proof -
  have pre: "\<exists>x \<in> set ms. pending rs x \<and> same_message x m" if mem: "m \<in> set ms'" and pend: "pending {} m" for m
  proof -
    obtain x where "x \<in> set ms" "refreshed cidOf rs {} x m" using list_all2_preimage [OF rel mem] by blast
    then show ?thesis using pend by (intro bexI [of _ x]) (auto simp: refreshed_def chain_info_def pending_def)
  qed
  show "filled_unique {} ms'" if "filled_unique rs ms"
    unfolding filled_unique_def
  proof (intro ballI impI)
    fix m m' assume a: "m \<in> set ms'" "m' \<in> set ms'" "pending {} m" "pending {} m'" "m_From m = m_From m'" "m_Nonce m = m_Nonce m'"
    obtain x where x: "x \<in> set ms" "pending rs x" "same_message x m" using pre [OF a(1,3)] by blast
    obtain y where y: "y \<in> set ms" "pending rs y" "same_message y m'" using pre [OF a(2,4)] by blast
    show "m_ID m = m_ID m'" using that x y a(5,6) unfolding filled_unique_def same_message_def by metis
  qed
  show "cids_agree {} c a ms'" if "cids_agree rs c a ms"
    using that pre unfolding cids_agree_def takes_nonce_of_def same_message_def by metis
qed

section \<open>The steps over a store\<close>

context repo_store
begin

abbreviation ok_like :: "'db \<Rightarrow> 'db \<Rightarrow> bool" where
  "ok_like db db' \<equiv> inv db' \<and> addrs db' = addrs db"

lemma revert_one_effect:
  assumes E: "MessageRepo (re_repo env) = M" "cid_str (re_codec env) = cstr" and inv: "inv db"
    and run: "revert_one env c db = (Inr (), db')"
  shows "ok_like db db' \<and> list_all2 (refreshed (re_Cid env) {c} {}) (msgs db) (msgs db')"
proof -
  obtain t where db': "inv db'" "msgs db' = upd_where (\<lambda>m. m_UnsignedCid m = Some c)
      (\<lambda>m. m\<lparr>m_Height := 0, m_Receipt := Some revert_receipt, m_State := FillMsg, m_TipSetKey := [], m_UpdatedAt := t\<rparr>) (msgs db)"
    using InfoByCid [OF inv, of 0 "[]" c revert_receipt FillMsg db'] run E by (auto simp: revert_one_def)
  show ?thesis unfolding db'(2)
    by (intro conjI db'(1) msg_frame(4) [OF run [unfolded revert_one_def E]] list_all2_upd_where)
      (auto simp: refreshed_def same_message_def chain_info_def)
qed

lemma apply_one_cases:
  assumes E: "MessageRepo (re_repo env) = M" "cid_str (re_codec env) = cstr" and inv: "inv db" and a: "apply_ok a"
    and run: "apply_one env a db = (Inr (), db')"
  obtains (unknown) e where "mr_GetMessageByFromNonceAndState M (c_From (ap_msg a)) (c_Nonce (ap_msg a)) FillMsg db = Inl e" "db' = db"
  | (conflict) m m' where "m \<in> set (msgs db)" "takes_nonce_of a m" "m_State m = FillMsg" "m_SignedCid m \<notin> {None, Some (ap_signedCID a)}"
      "stored_as (conflict_of a m) m'" "inv db'" "addrs db' = addrs db" "msgs db' = upsert m_ID m' (msgs db)"
  | (landed) m t where "m \<in> set (msgs db)" "takes_nonce_of a m" "m_State m = FillMsg" "m_SignedCid m \<in> {None, Some (ap_signedCID a)}"
      "inv db'" "addrs db' = addrs db" "msgs db' = upd_where (\<lambda>m. m_UnsignedCid m = Some (re_Cid env (ap_msg a)))
        (\<lambda>m. m\<lparr>m_Height := ap_height a, m_Receipt := ap_receipt a, m_State := OnChainMsg, m_TipSetKey := ap_tsk a, m_UpdatedAt := t\<rparr>) (msgs db)"
proof -
  define look where "look = mr_GetMessageByFromNonceAndState M (c_From (ap_msg a)) (c_Nonce (ap_msg a)) FillMsg db"
  show ?thesis
  proof (cases look)
    case (Inl e)
    then have "db' = db" using run by (simp add: apply_one_def Let_def E look_def comp_simps tryE_def split: error.splits)
    then show ?thesis using unknown Inl look_def by simp
  next
    case (Inr m)
    have m: "m \<in> set (msgs db)" "takes_nonce_of a m" "m_State m = FillMsg"
      using GetByState [OF inv Inr [unfolded look_def]] by (auto simp: takes_nonce_of_def)
    show ?thesis
    proof (cases "m_SignedCid m \<in> {None, Some (ap_signedCID a)}")
      case False
      then have upd: "mr_UpdateMessage M (conflict_of a m) db = (Inr (), db')"
        using run Inr by (auto simp: apply_one_def Let_def E look_def comp_inv split: option.splits if_splits)
      then show ?thesis using Update [OF inv upd] msg_frame(2) [OF upd] conflict [OF m False] by auto
    next
      case True
      then have upd: "mr_UpdateMessageInfoByCid M (cstr (re_Cid env (ap_msg a))) (ap_receipt a) (ap_height a) OnChainMsg (ap_tsk a) db = (Inr (), db')"
        using run Inr by (auto simp: apply_one_def Let_def E look_def comp_inv split: option.splits if_splits)
      obtain r where r: "ap_receipt a = Some r" using a by (auto simp: apply_ok_def)
      show ?thesis
        using InfoByCid [OF inv _ _ _ upd [unfolded r]] msg_frame(4) [OF upd] a landed [OF m True] unfolding apply_ok_def r by auto
    qed
  qed
qed

lemma apply_one_effect:
  assumes E: "MessageRepo (re_repo env) = M" "cid_str (re_codec env) = cstr" and inv: "inv db" and a: "apply_ok a"
    and run: "apply_one env a db = (Inr (), db')"
  shows "ok_like db db' \<and> list_all2 (refreshed (re_Cid env) {} {a}) (msgs db) (msgs db')"
proof (cases rule: apply_one_cases [OF E inv a run])
  case 1
  then show ?thesis using inv by (simp add: list.rel_refl)
next
  case (2 m m')
  have same: "x = m" if "x \<in> set (msgs db)" "m_ID x = m_ID m'" for x
    using that 2(1,5) ids [OF inv] by (auto simp: stored_as_def conflict_of_def distinct_map inj_on_def)
  have "m_ID m' \<in> m_ID ` set (msgs db)" using 2(1,5) by (auto simp: stored_as_def conflict_of_def)
  then show ?thesis unfolding 2(8) using 2(6,7) conflict_refreshed [OF 2(5) a 2(2,4)] same
    by (auto intro!: list_all2_upsert)
next
  case (3 m t)
  show ?thesis unfolding 3(7) using 3(5,6)
    by (intro conjI list_all2_upd_where) (auto simp: refreshed_def same_message_def chain_info_def)
qed

lemma revert_all_effect:
  assumes E: "MessageRepo (re_repo env) = M" "cid_str (re_codec env) = cstr"
  shows "inv db \<Longrightarrow> forC (revert_one env) cs db = (Inr (), db') \<Longrightarrow>
    ok_like db db' \<and> list_all2 (refreshed (re_Cid env) (set cs) {}) (msgs db) (msgs db')"
proof (induction cs arbitrary: db)
  case Nil
  then show ?case by (simp add: list.rel_refl)
next
  case (Cons c cs)
  obtain db1 where run: "revert_one env c db = (Inr (), db1)" "forC (revert_one env) cs db1 = (Inr (), db')"
    using Cons.prems(2) unfolding forC_Cons_Inr by blast
  note one = revert_one_effect [OF E Cons.prems(1) run(1)]
  have "list_all2 (refreshed (re_Cid env) (set (c # cs)) {}) (msgs db) (msgs db1)"
    "list_all2 (refreshed (re_Cid env) (set (c # cs)) {}) (msgs db1) (msgs db')"
    using one Cons.IH [OF _ run(2)] by (auto elim!: list_all2_mono intro: refreshed_mono [rotated 2])
  then show ?case using one Cons.IH [OF _ run(2)] by (auto intro: refreshed_all_trans)
qed

lemma apply_all_effect:
  assumes E: "MessageRepo (re_repo env) = M" "cid_str (re_codec env) = cstr"
  shows "inv db \<Longrightarrow> \<forall>a \<in> set as. apply_ok a \<Longrightarrow> forC (apply_one env) as db = (Inr (), db') \<Longrightarrow>
    ok_like db db' \<and> list_all2 (refreshed (re_Cid env) {} (set as)) (msgs db) (msgs db')"
proof (induction as arbitrary: db)
  case Nil
  then show ?case by (simp add: list.rel_refl)
next
  case (Cons a as)
  obtain db1 where run: "apply_one env a db = (Inr (), db1)" "forC (apply_one env) as db1 = (Inr (), db')"
    using Cons.prems(3) unfolding forC_Cons_Inr by blast
  have a: "apply_ok a" using Cons.prems(2) by simp
  note one = apply_one_effect [OF E Cons.prems(1) a run(1)]
  have "list_all2 (refreshed (re_Cid env) {} (set (a # as))) (msgs db) (msgs db1)"
    "list_all2 (refreshed (re_Cid env) {} (set (a # as))) (msgs db1) (msgs db')"
    using one Cons.IH [OF _ _ run(2)] Cons.prems(2) by (auto elim!: list_all2_mono intro: refreshed_mono [rotated 2])
  then show ?case using one Cons.IH [OF _ _ run(2)] Cons.prems(2) by (auto intro: refreshed_all_trans)
qed

lemma updateMessageState_effect:
  assumes E: "MessageRepo (re_repo env) = M" "cid_str (re_codec env) = cstr" "Transaction (re_repo env) = tx"
    and order: "set (re_order env cs) = set cs" and inv: "inv db" and wf: "\<forall>a \<in> set as. apply_ok a"
    and run: "updateMessageState env as cs db = (r, db')"
  shows "(case r of Inl _ \<Rightarrow> db' = db
      | Inr _ \<Rightarrow> ok_like db db' \<and> list_all2 (refreshed (re_Cid env) (set cs) (set as)) (msgs db) (msgs db'))"
  using run unfolding updateMessageState_def E(3)
proof (cases rule: tx_cases)
  case commit
  then obtain db1 where runs: "forC (revert_one env) (re_order env cs) db = (Inr (), db1)" "forC (apply_one env) as db1 = (Inr (), db')"
    by (auto simp: comp_inv)
  note rv = revert_all_effect [OF E(1,2) inv runs(1), unfolded order]
  note ap = apply_all_effect [OF E(1,2) _ wf runs(2)]
  have "list_all2 (refreshed (re_Cid env) (set cs) (set as)) (msgs db) (msgs db1)"
    "list_all2 (refreshed (re_Cid env) (set cs) (set as)) (msgs db1) (msgs db')"
    using rv ap by (auto elim!: list_all2_mono intro: refreshed_mono [rotated 2])
  then show ?thesis using commit(1) rv ap by (auto intro: refreshed_all_trans)
next
  case (rollback e)
  then show ?thesis by simp
qed

text \<open>
  Settling. While messages are applied, filled messages stay filled only if they were; one
  application leaves no filled message with the sender and nonce of the applied one.
\<close>

lemma apply_one_settles:
  assumes E: "MessageRepo (re_repo env) = M" "cid_str (re_codec env) = cstr" and inv: "inv db" and a: "apply_ok a"
    and run: "apply_one env a db = (Inr (), db')" and u: "filled_unique {} (msgs db)" and c: "cids_agree {} (re_Cid env) a (msgs db)"
    and reads: "\<And>f n e. mr_GetMessageByFromNonceAndState M f n FillMsg db = Inl e \<Longrightarrow> errors_Is_NotFound e"
  shows "settled a (msgs db')"
proof (cases rule: apply_one_cases [OF E inv a run])
  case (1 e)
  then show ?thesis using GetByState_none [OF inv 1(1) reads [OF 1(1)]] by (auto simp: settled_def takes_nonce_of_def)
next
  case (2 m m')
  have other: "x = m" if "x \<in> set (msgs db)" "takes_nonce_of a x" "m_State x = FillMsg" for x
    using u 2(1,2,3) that ids [OF inv] unfolding filled_unique_def pending_empty takes_nonce_of_def distinct_map inj_on_def by metis
  have st: "m_State m' = NonceConflictMsg" "m_ID m' = m_ID m" using conflict_refreshed [OF 2(5) a 2(2,4)] 2(5) by (auto simp: stored_as_def conflict_of_def)
  have "x = m' \<or> (x \<in> set (msgs db) \<and> m_ID x \<noteq> m_ID m')" if "x \<in> set (msgs db')" for x
    using that st(2) 2(1) unfolding 2(8) upsert_def by (auto split: if_splits)
  then show ?thesis using other st unfolding settled_def by fastforce
next
  case (3 m t)
  have "m_UnsignedCid x = Some (re_Cid env (ap_msg a))" if "x \<in> set (msgs db)" "takes_nonce_of a x" "m_State x = FillMsg" for x
  proof -
    have "x = m" using u 3(1,2,3) that ids [OF inv] unfolding filled_unique_def pending_empty takes_nonce_of_def distinct_map inj_on_def by metis
    then show ?thesis using c 3(1-4) unfolding cids_agree_def pending_empty by blast
  qed
  then show ?thesis unfolding settled_def 3(7) set_upd_where by (auto simp: takes_nonce_of_def split: if_splits)
qed

lemma apply_all_settles:
  assumes E: "MessageRepo (re_repo env) = M" "cid_str (re_codec env) = cstr"
    and reads: "\<And>db f n e. inv db \<Longrightarrow> mr_GetMessageByFromNonceAndState M f n FillMsg db = Inl e \<Longrightarrow> errors_Is_NotFound e"
  shows "inv db \<Longrightarrow> \<forall>a \<in> set as. apply_ok a \<and> cids_agree {} (re_Cid env) a (msgs db) \<Longrightarrow> filled_unique {} (msgs db) \<Longrightarrow>
    forC (apply_one env) as db = (Inr (), db') \<Longrightarrow> \<forall>a \<in> set as. settled a (msgs db')"
proof (induction as arbitrary: db)
  case (Cons a as)
  obtain db1 where run: "apply_one env a db = (Inr (), db1)" "forC (apply_one env) as db1 = (Inr (), db')"
    using Cons.prems(4) unfolding forC_Cons_Inr by blast
  have a: "apply_ok a" "cids_agree {} (re_Cid env) a (msgs db)" "\<forall>b \<in> set as. apply_ok b" using Cons.prems(2) by auto
  note one = apply_one_effect [OF E Cons.prems(1) a(1) run(1)]
  have inv1: "inv db1" using one by simp
  note keep = apply_keeps_settled [OF conjunct2 [OF one]]
  have "settled a (msgs db1)" by (rule apply_one_settles [OF E Cons.prems(1) a(1) run(1) Cons.prems(3) a(2)]) (rule reads [OF Cons.prems(1)])
  then have "settled a (msgs db')"
    by (rule apply_keeps_settled(3) [OF conjunct2 [OF apply_all_effect [OF E inv1 a(3) run(2)]]])
  moreover have "\<forall>b \<in> set as. settled b (msgs db')"
    using Cons.prems(2) keep(1) [OF Cons.prems(3)] keep(2) by (intro Cons.IH [OF inv1 _ _ run(2)]) auto
  ultimately show ?case by simp
qed simp

lemma updateMessageState_settles:
  assumes E: "MessageRepo (re_repo env) = M" "cid_str (re_codec env) = cstr" "Transaction (re_repo env) = tx"
    and order: "set (re_order env cs) = set cs" and inv: "inv db"
    and wf: "\<forall>a \<in> set as. apply_ok a \<and> cids_agree (set cs) (re_Cid env) a (msgs db)" and u: "filled_unique (set cs) (msgs db)"
    and reads: "\<And>db f n e. inv db \<Longrightarrow> mr_GetMessageByFromNonceAndState M f n FillMsg db = Inl e \<Longrightarrow> errors_Is_NotFound e"
    and run: "updateMessageState env as cs db = (Inr (), db')"
  shows "\<forall>a \<in> set as. settled a (msgs db')"
proof -
  obtain db1 where runs: "forC (revert_one env) (re_order env cs) db = (Inr (), db1)" "forC (apply_one env) as db1 = (Inr (), db')"
    using tx_commit [OF run [unfolded updateMessageState_def E(3)]] by (auto simp: comp_inv)
  note rv = revert_all_effect [OF E(1,2) inv runs(1), unfolded order]
  note keep = revert_keeps_unique [OF conjunct2 [OF rv]]
  show ?thesis
    by (rule apply_all_settles [OF E(1,2) _ _ _ keep(1) [OF u] runs(2)]) (use rv keep(2) wf reads in auto)
qed

end

section \<open>The handler\<close>

definition node_ok :: "'db refresh_env \<Rightarrow> bool" where
  "node_ok env \<longleftrightarrow> (\<forall>c rs. re_ParentReceipts env c = Inr rs \<longrightarrow> None \<notin> set rs)
     \<and> (\<forall>k ts. re_ChainGetTipSet env k = (Some ts, None) \<longrightarrow> CidUndef \<notin> set (ts_Key ts) \<and> 0 \<le> ts_Height ts \<and> ts_Height ts < 2 ^ 63)"

lemma applied_of_Inr:
  assumes "applied_of active pts msgs rcs = Inr as" "a \<in> set as"
  obtains p where "pts = Some p" "ap_height a = ts_Height p" "ap_tsk a = ts_Key p"
    "((ap_signedCID a, ap_msg a), ap_receipt a) \<in> set (zip msgs rcs)" "c_From (ap_msg a) \<in> active"
proof -
  obtain x where "x \<in> set (filter (\<lambda>((c, m), r). c_From m \<in> active) (zip msgs rcs))"
    "(\<lambda>((c, m), r). case pts of None \<Rightarrow> Inl (Panic ''nil TipSet'')
       | Some p \<Rightarrow> Inr \<lparr>ap_signedCID = c, ap_msg = m, ap_height = ts_Height p, ap_tsk = ts_Key p, ap_receipt = r\<rparr>) x = Inr a"
    using list_all2_preimage [OF assms(1) [unfolded applied_of_def traverseE_Inr] assms(2)] by (rule bexE)
  then show ?thesis using that by (cases pts) (auto split: prod.splits)
qed

lemma parents_of_ok:
  assumes node: "node_ok env" and run: "parents_of env active ts = Inr as" and a: "a \<in> set as"
  shows "apply_ok a"
proof -
  obtain msgs rcs pts where p: "re_ParentReceipts env (ts_Block0Cid ts) = Inr rcs" "re_ChainGetTipSet env (ts_Parents ts) = (pts, None)"
    "applied_of active pts msgs rcs = Inr as"
    using run by (auto simp: parents_of_def comp_inv split: if_splits prod.splits option.splits)
  from applied_of_Inr [OF p(3) a] obtain q where q: "pts = Some q" "ap_height a = ts_Height q" "ap_tsk a = ts_Key q"
    "ap_receipt a \<in> set rcs" by (metis set_zip_rightD)
  have "None \<notin> set rcs" using node p(1) unfolding node_ok_def by blast
  then have "ap_receipt a \<noteq> None" using q(4) by metis
  then show ?thesis using node p(2) q(1-3) unfolding node_ok_def apply_ok_def by auto
qed

lemma processBlock_ok:
  "node_ok env \<Longrightarrow> processBlockParentMessages env tss db = Inr as \<Longrightarrow> \<forall>a \<in> set as. apply_ok a"
proof
  fix a
  assume node: "node_ok env" and run: "processBlockParentMessages env tss db = Inr as" and a: "a \<in> set as"
  obtain ls where ls: "list_all2 (\<lambda>ts l. parents_of env (ActiveAddresses (re_repo env) db) ts = Inr l) tss ls" "as = concat ls"
    using run by (auto simp: processBlockParentMessages_def bindE_Inr_iff traverseE_Inr)
  obtain l where l: "l \<in> set ls" "a \<in> set l" using a ls(2) by auto
  from list_all2_preimage [OF ls(1) l(1)] show "apply_ok a" using parents_of_ok [OF node _ l(2)] by blast
qed

lemma doRefresh_cases:
  assumes "doRefreshMessageState env h (db, tc) = (r, (db', tc'))"
  obtains (stop) "db' = db"
  | (ran) cs as q where "processRevertHead (re_repo env) h db = Inr cs" "processBlockParentMessages env (hc_apply h) db = Inr as"
      "updateMessageState env as cs db = (q, db')" "r = Inr () \<Longrightarrow> q = Inr ()"
  using assms by (auto simp: doRefreshMessageState_def comp_simps askDb_def onDb_def onSnd_def split: if_splits sum.splits prod.splits)

text \<open>What the two passes over the chain collect.\<close>

definition reverted_cids :: "'db repo \<Rightarrow> ('db \<Rightarrow> message list) \<Rightarrow> tipset list \<Rightarrow> 'db \<Rightarrow> cid set" where
  "reverted_cids R msgs tss db = {c. \<exists>m \<in> set (msgs db). m_State m = OnChainMsg \<and> m_Height m \<in> ts_Height ` set tss
     \<and> m_From m \<in> ActiveAddresses R db \<and> m_UnsignedCid m = Some c}"

lemma set_map_filter: "set (List.map_filter f xs) = {y. \<exists>x \<in> set xs. f x = Some y}"
  by (induction xs) (auto simp: List.map_filter_simps split: option.splits)

lemma processRevertHead_set:
  assumes store: "message_store (MessageRepo R) ok msgs cstr" and ok: "ok db" and run: "processRevertHead R h db = Inr cs"
  shows "set cs = reverted_cids R msgs (hc_revert h) db"
proof -
  have "revert_loop R tss db = Inr l \<Longrightarrow> set l = reverted_cids R msgs tss db" for tss l
  proof (induction tss arbitrary: l)
    case Nil
    then show ?case by (simp add: reverted_cids_def)
  next
    case (Cons ts tss)
    obtain ms rest where l: "mr_ListChainMessageByHeight (MessageRepo R) (ts_Height ts) db = Inr ms" "revert_loop R tss db = Inr rest"
      "l = List.map_filter (\<lambda>msg. if m_From msg \<in> ActiveAddresses R db then m_UnsignedCid msg else None) ms @ rest"
      using Cons.prems by (auto simp: comp_inv)
    show ?case unfolding l(3) set_append set_map_filter Cons.IH [OF l(2)] message_store.ListChain_set [OF store ok l(1)]
      by (auto simp: reverted_cids_def split: if_splits)
  qed
  then show ?thesis using run by (auto simp: processRevertHead_def bindE_Inr_iff)
qed

section \<open>A sample refresh\<close>

text \<open>
  A filled message with nonce 5 in the SQLite tables; the head's parent tipset at height 9
  carries it.
\<close>

definition sent_message :: message where
  "sent_message = (with_Message (\<lambda>c. c\<lparr>c_Nonce := 5\<rparr>) (sample_message ''a''))\<lparr>m_State := FillMsg, m_UnsignedCid := Some (Cid ''5''),
     m_SignedCid := Some (Cid ''s5''), m_Signature := Some ''sig''\<rparr>"

definition sent_db :: sqlite_db where
  "sent_db = sample_db\<lparr>t_messages := [sqlite_fromMessage plain_codec sent_message]\<rparr>"

definition sample_renv :: "sqlite_db refresh_env" where
  "sample_renv = \<lparr>re_repo = sqlite_repo list_engine plain_codec 7, re_codec = plain_codec,
     re_ParentMessages = (\<lambda>_. Inr [(Cid ''s5'', m_Message sent_message)]),
     re_ParentReceipts = (\<lambda>_. Inr [Some \<lparr>r_ExitCode = 0, r_Return = None, r_GasUsed = 90\<rparr>]),
     re_ChainGetTipSet = (\<lambda>_. (Some (sample_tipset ''p'' ''g'' 9), None)), re_Cid = (\<lambda>c. Cid (digits_of (unat (c_Nonce c)))),
     re_order = (\<lambda>l. l), re_write = (\<lambda>_. Inr ())\<rparr>"

abbreviation sample_head :: head_chan where
  "sample_head \<equiv> \<lparr>hc_apply = [sample_tipset ''h'' ''p'' 10], hc_revert = []\<rparr>"

lemma sample_renv_store:
  "repo_store (MessageRepo (re_repo sample_renv)) (AddressRepo (re_repo sample_renv)) (sqlite_inv plain_codec)
     (sqlite_msgs plain_codec) (cid_str (re_codec sample_renv)) (sqlite_addrs plain_codec) (Transaction (re_repo sample_renv))"
  using plain_sqlite.repo_store_axioms [where now = 7] by (simp add: sample_renv_def)

lemma sample_renv_ok: "node_ok sample_renv" "set (re_order sample_renv l) = set l"
  by (simp_all add: node_ok_def sample_renv_def sample_tipset_def)

lemma sent_db_inv: "sqlite_inv plain_codec sent_db"
  using sample_db_inv
  by (simp add: sqlite_inv_def sent_db_def msg_row_ok_def sqlite_fromMessage_def sent_message_def sample_message_def)

lemma sent_db_rows:
  "list_all (\<lambda>m. m_ID m = ''a'' \<and> m_UnsignedCid m = Some (Cid ''5'')) (sqlite_msgs plain_codec sent_db)"
  by code_simp

lemma sample_refresh_runs:
  "fst (doRefreshMessageState sample_renv sample_head (sent_db, newTipsetCache)) = Inr ()"
  "map (\<lambda>m. (m_ID m, m_State m, m_Height m))
     (sqlite_msgs plain_codec (fst (snd (doRefreshMessageState sample_renv sample_head (sent_db, newTipsetCache))))) = [(''a'', OnChainMsg, 9)]"
  by code_simp+

lemma sample_applied: "processBlockParentMessages sample_renv (hc_apply sample_head) sent_db =
    Inr [\<lparr>ap_signedCID = Cid ''s5'', ap_msg = m_Message sent_message, ap_height = 9, ap_tsk = [Cid ''p''],
          ap_receipt = Some \<lparr>r_ExitCode = 0, r_Return = None, r_GasUsed = 90\<rparr>\<rparr>]"
  by code_simp

lemma plain_reads:
  assumes "sqlite_inv plain_codec d"
    and "mr_GetMessageByFromNonceAndState (MessageRepo (sqlite_repo list_engine plain_codec now)) f n st d = Inl e"
  shows "errors_Is_NotFound e"
proof -
  have rows: "sqlite_Message plain_codec r = Inr (msg_of plain_codec r)" if "r \<in> set (t_messages d)" for r
    using assms(1) that by (auto simp: sqlite_inv_def intro: sqlite_Message_total)
  define l where "l = filter (\<lambda>r. sm_From r = ad_str plain_codec f \<and> sm_Nonce r = n \<and> sm_State r = st) (t_messages d)"
  have sub: "r \<in> set (t_messages d)" if "r \<in> set l" for r using that by (simp add: l_def)
  have "(case l of [] \<Rightarrow> Inl ErrRecordNotFound | r # _ \<Rightarrow> sqlite_Message plain_codec r) = Inl e"
    using assms(2) unfolding l_def
    by (simp add: sqlite_GetMessageByFromNonceAndState_def sqlite_take_msg_def list_engine_def list_gorm_def Where_def q_all_def
        split: list.splits)
  then show ?thesis using rows sub by (cases l) auto
qed

lemma sample_cid: "re_Cid sample_renv (m_Message sent_message) = Cid ''5''"
  by code_simp

section \<open>Properties\<close>

text \<open>
  C2: a refresh changes only what the chain says. Over any store that keeps the contract and
  for every well-formed node, whether \<open>doRefreshMessageState\<close> succeeds or fails: the
  addresses stay as they are; the messages stay as they are, or each message keeps its
  identity and is either untouched, or taken back to filled because an active address' message
  with its identifier was on chain at a reverted height, or on chain with the receipt, height
  and tipset of an applied message with its identifier, or in conflict because an applied
  message of its sender and nonce has another signed identifier.
\<close>

theorem refresh_follows_chain:
  fixes env :: "'db refresh_env"
  assumes store: "repo_store (MessageRepo (re_repo env)) (AddressRepo (re_repo env)) ok msgs (cid_str (re_codec env)) addrs (Transaction (re_repo env))"
    and node: "node_ok env" and order: "\<And>l. set (re_order env l) = set l" and ok: "ok db"
    and run: "doRefreshMessageState env h (db, tc) = (r, (db', tc'))"
  shows "ok db' \<and> addrs db' = addrs db \<and> (db' = db \<or>
    (\<exists>as. processBlockParentMessages env (hc_apply h) db = Inr as \<and>
       list_all2 (refreshed (re_Cid env) (reverted_cids (re_repo env) msgs (hc_revert h) db) (set as)) (msgs db) (msgs db')))"
proof (cases rule: doRefresh_cases [OF run])
  case 1
  then show ?thesis using ok by simp
next
  case (2 cs as q)
  note S = repo_store.axioms(1) [OF store]
  have cs: "set cs = reverted_cids (re_repo env) msgs (hc_revert h) db" by (rule processRevertHead_set [OF S ok 2(1)])
  have "case q of Inl _ \<Rightarrow> db' = db | Inr _ \<Rightarrow> (ok db' \<and> addrs db' = addrs db)
      \<and> list_all2 (refreshed (re_Cid env) (set cs) (set as)) (msgs db) (msgs db')"
    by (rule repo_store.updateMessageState_effect [OF store refl refl refl order ok processBlock_ok [OF node 2(2)] 2(3)])
  then show ?thesis using ok 2(2) unfolding cs by (cases q) auto
qed

theorem refresh_follows_chain_witness:
  "\<exists>db' as. fst (snd (doRefreshMessageState sample_renv sample_head (sent_db, newTipsetCache))) = db'
     \<and> map m_State (sqlite_msgs plain_codec db') = [OnChainMsg]
     \<and> sqlite_inv plain_codec db' \<and> sqlite_addrs plain_codec db' = sqlite_addrs plain_codec sent_db"
proof -
  obtain r db' tc' where run: "doRefreshMessageState sample_renv sample_head (sent_db, newTipsetCache) = (r, (db', tc'))"
    by (metis surj_pair)
  have "map m_State (sqlite_msgs plain_codec db') = [OnChainMsg]"
    using arg_cong [OF sample_refresh_runs(2), of "map (\<lambda>(i, st, h). st)"] unfolding run by (simp add: comp_def)
  moreover have "sqlite_inv plain_codec db' \<and> sqlite_addrs plain_codec db' = sqlite_addrs plain_codec sent_db"
    using refresh_follows_chain [OF sample_renv_store sample_renv_ok sent_db_inv run] by (elim conjE) (intro conjI)
  ultimately show ?thesis unfolding run by simp
qed



text \<open>
  The first notification of a cold messager that carries two tipsets loses the messages of
  the newer one: the refresh reads the parents' messages of \<open>a1\<close> and \<open>a2\<close> but
  remembers \<open>a2\<close> itself as processed, so that the next head on top of \<open>a2\<close>, whose
  refresh would read the messages of \<open>a2\<close>, is taken for already processed.
\<close>

theorem first_notification_skips_newest:
  assumes "Cache tc = []" "ts_Parents b = ts_Key a2"
  shows "\<exists>tc'. ProcessNewHead False (re_ChainGetTipSet env) tc [a1, a2] = Inr (Some a2, Some \<lparr>hc_apply = [a1, a2], hc_revert = []\<rparr>)
    \<and> storeTipset env [a1, a2] tc = (re_write env tc', tc') \<and> sorted_cache tc' = [a2]
    \<and> ProcessNewHead False (re_ChainGetTipSet env) tc' [b] = Inr (Some b, None)"
proof -
  define tc' where "tc' = tc\<lparr>CurrHeight := ts_Height a2, Cache := [(ts_Height a2, a2)]\<rparr>"
  have r: "reduce tc' = tc'" by (simp add: reduce_def tc'_def maxStoreTipsetCount_def)
  have s: "storeTipset env [a1, a2] tc = (re_write env tc', tc')"
    using r assms(1) by (simp add: storeTipset_def Let_def cache_Save_def cache_Add_def tc'_def)
  have c: "sorted_cache tc' = [a2]" by (simp add: sorted_cache_def cache_List_def tc'_def)
  show ?thesis using s c assms by (intro exI [of _ tc']) (simp add: ProcessNewHead_def Let_def sorted_cache_def cache_List_def)
qed

theorem first_notification_skips_newest_witness:
  "snd (storeTipset sample_renv [sample_tipset ''a'' ''g'' 1, sample_tipset ''b'' ''a'' 2] newTipsetCache) \<noteq> newTipsetCache
   \<and> ProcessNewHead False (re_ChainGetTipSet sample_renv)
      (snd (storeTipset sample_renv [sample_tipset ''a'' ''g'' 1, sample_tipset ''b'' ''a'' 2] newTipsetCache))
      [sample_tipset ''c'' ''b'' 3] = Inr (Some (sample_tipset ''c'' ''b'' 3), None)"
  using first_notification_skips_newest [of newTipsetCache "sample_tipset ''c'' ''b'' 3" "sample_tipset ''b'' ''a'' 2" sample_renv "sample_tipset ''a'' ''g'' 1"]
  by (auto simp: newTipsetCache_def sample_tipset_def sorted_cache_def cache_List_def)

end
