(* ===== verification/MessageServiceProps.thy ===== *)
theory MessageServiceProps
  imports MessageService StateRefreshProps
begin

text \<open>
  What the message service guarantees over any store that keeps the contract: pushing adds one
  unassigned message or nothing, clearing and recovering change exactly the messages they
  should, waiting returns the first settled poll, replacement fees, and republishing.
\<close>

section \<open>Lemmas over a store\<close>

definition push_sender :: "'db ms_env \<Rightarrow> message \<Rightarrow> address result" where
  "push_sender env msg = (if Protocol_is_ID (m_From msg)
     then mapErrE (Wrap ''getting key address: '') (me_StateAccountKey env (m_From msg)) else Inr (m_From msg))"

definition pushed :: "address \<Rightarrow> message \<Rightarrow> message" where
  "pushed frm msg = with_Message (\<lambda>c. c\<lparr>c_From := frm, c_Nonce := 0\<rparr>) msg"

text \<open>Messages whose state alone was set, by identifier.\<close>

definition restated :: "message_state \<Rightarrow> string set \<Rightarrow> message \<Rightarrow> message \<Rightarrow> bool" where
  "restated st is m m' \<longleftrightarrow> (if m_ID m \<in> is then \<exists>t. m' = m\<lparr>m_State := st, m_UpdatedAt := t\<rparr> else m' = m)"

lemma restated_trans: "restated st is m m1 \<Longrightarrow> restated st js m1 m2 \<Longrightarrow> restated st (is \<union> js) m m2"
  by (auto simp: restated_def split: if_splits)

lemma restated_all_trans:
  "list_all2 (restated st is) l l1 \<Longrightarrow> list_all2 (restated st js) l1 l2 \<Longrightarrow> list_all2 (restated st (is \<union> js)) l l2"
  using restated_trans by (rule list_all2_trans)

lemma restated_none: "list_all2 (restated st {}) l l"
  by (simp add: restated_def list.rel_refl)

lemma restated_one: "list_all2 (restated st {i}) l (upd_where (\<lambda>m. m_ID m = i) (\<lambda>m. m\<lparr>m_State := st, m_UpdatedAt := t\<rparr>) l)"
  by (rule list_all2_upd_where) (auto simp: restated_def)

context repo_store
begin

lemma ensure_address_effect:
  assumes E: "AddressRepo (me_repo env) = A" "Transaction (me_repo env) = tx" and inv: "inv db"
    and run: "Transaction (me_repo env) (ensure_address env frm) db = (r, db')"
  shows "inv db' \<and> msgs db' = msgs db \<and> (case r of Inl _ \<Rightarrow> db' = db
    | Inr _ \<Rightarrow> frm \<in> a_Addr ` set (live (addrs db')) \<and> (db' = db \<or> frm \<notin> a_Addr ` set (live (addrs db))
        \<and> (\<exists>a'. addr_stored_as (new_address env frm) a' \<and> addrs db' = upsert a_ID a' (addrs db))))"
  using run unfolding E(2)
proof (cases rule: tx_cases)
  case commit
  show ?thesis
  proof (cases "ar_GetAddress A frm db")
    case (Inr ai)
    then have "db' = db" using commit(2) by (simp add: ensure_address_def Let_def E(1) comp_simps)
    then show ?thesis using inv commit(1) GetAddress [OF inv Inr] by auto
  next
    case (Inl e)
    then have nf: "errors_Is_NotFound e" and save: "ar_SaveAddress A (new_address env frm) db = (Inr (), db')"
      using commit(2) by (auto simp: ensure_address_def Let_def E(1) comp_inv split: if_splits)
    obtain a' where a': "inv db'" "addr_stored_as (new_address env frm) a'" "addrs db' = upsert a_ID a' (addrs db)"
      using SaveAddress [OF inv save] by blast
    have "a' \<in> set (live (addrs db'))" "a_Addr a' = frm"
      using a'(2) upsert_mem [of a' a_ID "addrs db"] unfolding a'(3) live_def by (auto simp: addr_stored_as_def new_address_def)
    then show ?thesis using a' commit(1) addr_frame(1) [OF save] GetAddress_none [OF inv Inl nf] by auto
  qed
next
  case (rollback e)
  then show ?thesis using inv by simp
qed

lemma push_effect:
  assumes E: "MessageRepo (me_repo env) = M" "AddressRepo (me_repo env) = A" "Transaction (me_repo env) = tx" and inv: "inv db"
    and run: "pushMessage env msg db = (r, db')"
  shows "inv db' \<and> (case r of Inl _ \<Rightarrow> msgs db' = msgs db
    | Inr _ \<Rightarrow> \<exists>frm m'. push_sender env msg = Inr frm \<and> stored_as (pushed frm msg) m' \<and> msgs db' = msgs db @ [m']
        \<and> m_ID msg \<noteq> '''' \<and> m_ID msg \<notin> m_ID ` set (msgs db)
        \<and> (\<forall>a \<in> set (live (addrs db)). a_Addr a = frm \<longrightarrow> a_State a \<noteq> AddressStateForbbiden)
        \<and> frm \<in> a_Addr ` set (live (addrs db')))
    \<and> (addrs db' = addrs db \<or> (\<exists>frm a'. push_sender env msg = Inr frm \<and> frm \<notin> a_Addr ` set (live (addrs db))
         \<and> addr_stored_as (new_address env frm) a' \<and> addrs db' = upsert a_ID a' (addrs db)))"
proof -
  have early: "db' = db \<and> (\<exists>e. r = Inl e) \<or> (\<exists>frm db1 q. push_sender env msg = Inr frm \<and> m_ID msg \<noteq> ''''
      \<and> Transaction (me_repo env) (ensure_address env frm) db = (q, db1)
      \<and> (case q of Inl e \<Rightarrow> r = Inl e \<and> db' = db1
         | Inr _ \<Rightarrow> if (case found_address env frm db of Some a \<Rightarrow> a_State a = AddressStateForbbiden | None \<Rightarrow> False)
                   then (\<exists>e. r = Inl e) \<and> db' = db1 else mr_CreateMessage M (pushed frm msg) db1 = (r, db')))"
    using run by (auto simp: pushMessage_def push_sender_def pushed_def E(1) comp_simps Let_def
        split: if_splits sum.splits prod.splits error.splits)
  then show ?thesis
  proof (elim disjE exE conjE)
    fix frm db1 q
    assume F: "push_sender env msg = Inr frm" "m_ID msg \<noteq> ''''" "Transaction (me_repo env) (ensure_address env frm) db = (q, db1)"
      and rest: "case q of Inl e \<Rightarrow> r = Inl e \<and> db' = db1
         | Inr _ \<Rightarrow> if (case found_address env frm db of Some a \<Rightarrow> a_State a = AddressStateForbbiden | None \<Rightarrow> False)
                   then (\<exists>e. r = Inl e) \<and> db' = db1 else mr_CreateMessage M (pushed frm msg) db1 = (r, db')"
    note en = ensure_address_effect [OF E(2,3) inv F(3)]
    show ?thesis
    proof (cases q)
      case (Inl e)
      then show ?thesis using rest en inv by auto
    next
      case (Inr u)
      have addr: "addrs db1 = addrs db \<or> (\<exists>frm a'. push_sender env msg = Inr frm \<and> frm \<notin> a_Addr ` set (live (addrs db))
         \<and> addr_stored_as (new_address env frm) a' \<and> addrs db1 = upsert a_ID a' (addrs db))" using en Inr F(1) by auto
      show ?thesis
      proof (cases "case found_address env frm db of Some a \<Rightarrow> a_State a = AddressStateForbbiden | None \<Rightarrow> False")
        case True
        then show ?thesis using rest Inr en addr by auto
      next
        case False
        then have create: "mr_CreateMessage M (pushed frm msg) db1 = (r, db')" using rest Inr by simp
        have fr: "addrs db' = addrs db1" by (rule msg_frame(1) [OF create])
        have alive: "a_State a \<noteq> AddressStateForbbiden" if a: "a \<in> set (live (addrs db))" "a_Addr a = frm" for a
        proof (cases "ar_GetAddress A frm db")
          case (Inl e)
          then have "errors_Is_NotFound e" using F(3) Inr E(3) tx_commit [of "ensure_address env frm" db db1]
            by (auto simp: ensure_address_def Let_def E(2) comp_inv split: if_splits)
          then show ?thesis using GetAddress_none [OF inv Inl] a by auto
        next
          case (Inr i)
          then have "i = a" using GetAddress [OF inv Inr] live_unique [OF inv _ a(1)] a(2) by auto
          then show ?thesis using False Inr by (simp add: found_address_def E(2))
        qed
        show ?thesis
        proof (cases r)
          case (Inl e)
          then have "db' = db1" using Create_err create by simp
          then show ?thesis using Inl en addr by simp
        next
          case (Inr v)
          obtain m' where "inv db'" "m_ID (pushed frm msg) \<notin> m_ID ` set (msgs db1)" "stored_as (pushed frm msg) m'" "msgs db' = msgs db1 @ [m']"
            using Create [OF _ create [unfolded Inr, simplified]] en by auto
          then show ?thesis using Inr en addr fr F(1,2) alive \<open>q = Inr u\<close> by (auto simp: pushed_def)
        qed
      qed
    qed
  qed (use inv in auto)
qed

lemma mark_all_effect:
  assumes E: "MessageRepo (me_repo env) = M"
  shows "inv db \<Longrightarrow> forC (\<lambda>msg. mapErrC (g msg) (mr_MarkBadMessage M (m_ID msg))) l db = (Inr (), db') \<Longrightarrow>
    inv db' \<and> addrs db' = addrs db \<and> list_all2 (restated FailedMsg (m_ID ` set l)) (msgs db) (msgs db')"
proof (induction l arbitrary: db)
  case Nil
  then show ?case by (simp add: restated_none)
next
  case (Cons m l)
  obtain db1 where one: "mr_MarkBadMessage M (m_ID m) db = (Inr (), db1)"
    and rest: "forC (\<lambda>msg. mapErrC (g msg) (mr_MarkBadMessage M (m_ID msg))) l db1 = (Inr (), db')"
    using Cons.prems(2) unfolding forC_Cons_Inr mapErrC_Inr_inv by blast
  obtain t where db1: "inv db1" "msgs db1 = upd_where (\<lambda>x. m_ID x = m_ID m) (\<lambda>x. x\<lparr>m_State := FailedMsg, m_UpdatedAt := t\<rparr>) (msgs db)"
    using MarkBad [OF Cons.prems(1) one] by blast
  have "list_all2 (restated FailedMsg ({m_ID m} \<union> m_ID ` set l)) (msgs db) (msgs db')"
    by (rule restated_all_trans [OF restated_one [of FailedMsg "m_ID m" "msgs db" t, folded db1(2)]]) (use Cons.IH [OF db1(1) rest] in simp)
  then show ?case using Cons.IH [OF db1(1) rest] msg_frame(5) [OF one] by simp
qed

lemma clear_effect:
  assumes E: "MessageRepo (me_repo env) = M" "Transaction (me_repo env) = tx" and inv: "inv db"
    and run: "clearUnFillMessage env addr db = (r, db')"
  shows "case r of Inl _ \<Rightarrow> db' = db
    | Inr n \<Rightarrow> inv db' \<and> addrs db' = addrs db \<and> n = int (length (filter (\<lambda>m. m_From m = addr \<and> m_State m = UnFillMsg) (msgs db)))
        \<and> list_all2 (restated FailedMsg {m_ID m |m. m \<in> set (msgs db) \<and> m_From m = addr \<and> m_State m = UnFillMsg}) (msgs db) (msgs db')"
proof -
  obtain q where q: "tx (clear_body env addr) db = (q, db')" "case q of Inl e \<Rightarrow> r = Inl e
      | Inr _ \<Rightarrow> r = Inr (case mr_ListUnFilledMessage M addr db of Inr l \<Rightarrow> int (length l) | Inl _ \<Rightarrow> 0)"
    using run unfolding clearUnFillMessage_def Let_def E by (auto simp: comp_simps split: prod.splits sum.splits)
  show ?thesis using q(1)
  proof (cases rule: tx_cases)
    case commit
    then obtain l where l: "mr_ListUnFilledMessage M addr db = Inr l"
      "forC (\<lambda>msg. mapErrC (\<lambda>e. Err (''mark bad message '' @ m_ID msg @ '' failed '' @ error_text e)) (mr_MarkBadMessage M (m_ID msg))) l db = (Inr (), db')"
      unfolding clear_body_def E(1) by (auto simp: comp_inv)
    have "m_ID ` set l = {m_ID m |m. m \<in> set (msgs db) \<and> m_From m = addr \<and> m_State m = UnFillMsg}"
      using ListUnFilled_set [OF inv l(1)] by auto
    moreover have "length l = length (filter (\<lambda>m. m_From m = addr \<and> m_State m = UnFillMsg) (msgs db))"
      using mset_eq_length [OF ListUnFilled [OF inv l(1)]] .
    ultimately show ?thesis using q(2) commit(1) l(1) mark_all_effect [OF E(1) inv l(2)] by auto
  next
    case (rollback e)
    then show ?thesis using q(2) by auto
  qed
qed

lemma recover_loop_effect:
  assumes E: "MessageRepo (me_repo env) = M"
  shows "inv db \<Longrightarrow> recover_loop env n l db = (Inr rs, db') \<Longrightarrow> rs = map m_ID (filter (\<lambda>m. n \<le> m_Nonce m) l)
    \<and> inv db' \<and> addrs db' = addrs db \<and> list_all2 (restated FillMsg (set rs)) (msgs db) (msgs db')"
proof (induction l arbitrary: db rs)
  case Nil
  then show ?case by (auto simp: comp_inv restated_none)
next
  case (Cons m l)
  show ?case
  proof (cases "n \<le> m_Nonce m")
    case True
    then obtain db1 rs' where one: "mr_UpdateMessageStateByID M (m_ID m) FillMsg db = (Inr (), db1)"
      and rest: "recover_loop env n l db1 = (Inr rs', db')" and rs: "rs = m_ID m # rs'"
      using Cons.prems(2) by (auto simp: E comp_inv)
    obtain t where db1: "inv db1" "msgs db1 = upd_where (\<lambda>x. m_ID x = m_ID m) (\<lambda>x. x\<lparr>m_State := FillMsg, m_UpdatedAt := t\<rparr>) (msgs db)"
      using StateByID [OF Cons.prems(1) one] by blast
    have "list_all2 (restated FillMsg (set rs')) (msgs db1) (msgs db')" using Cons.IH [OF db1(1) rest] by (elim conjE)
    then have "list_all2 (restated FillMsg ({m_ID m} \<union> set rs')) (msgs db) (msgs db')"
      by (rule restated_all_trans [OF restated_one [of FillMsg "m_ID m" "msgs db" t, folded db1(2)]])
    then show ?thesis using Cons.IH [OF db1(1) rest] msg_frame(6) [OF one] True rs by simp
  next
    case False
    then have "recover_loop env n l db = (Inr rs, db')" using Cons.prems(2) by simp
    moreover have "filter (\<lambda>m. n \<le> m_Nonce m) (m # l) = filter (\<lambda>m. n \<le> m_Nonce m) l" using False by simp
    ultimately show ?thesis using Cons.IH [OF Cons.prems(1)] by metis
  qed
qed

lemma recover_effect:
  assumes E: "MessageRepo (me_repo env) = M" "AddressRepo (me_repo env) = A" and inv: "inv db"
    and act: "me_StateGetActor env addr = Inr act" and run: "RecoverFailedMsg env addr db = (Inr rs, db')"
  shows "inv db' \<and> addrs db' = addrs db \<and> list_all2 (restated FillMsg (set rs)) (msgs db) (msgs db')
    \<and> (\<exists>ai \<in> set (live (addrs db)). a_Addr ai = addr \<and> set rs = (if a_Nonce ai < act_Nonce act then {}
         else {m_ID m |m. m \<in> set (msgs db) \<and> m_From m = addr \<and> m_State m = FailedMsg \<and> m_Signature m \<noteq> None \<and> act_Nonce act \<le> m_Nonce m}))"
proof -
  obtain ai where ai: "ar_GetAddress A addr db = Inr ai" using run by (auto simp: RecoverFailedMsg_def E(2) comp_inv act)
  note G = GetAddress [OF inv ai]
  show ?thesis
  proof (cases "a_Nonce ai < act_Nonce act")
    case True
    then have "rs = []" "db' = db" using run ai by (auto simp: RecoverFailedMsg_def E(2) comp_inv act)
    then show ?thesis using inv True G by (auto simp: restated_none intro!: bexI [of _ ai])
  next
    case False
    then obtain l where l: "mr_GetSignedMessageFromFailedMsg M addr db = Inr l" "recover_loop env (act_Nonce act) l db = (Inr rs, db')"
      using run ai by (auto simp: RecoverFailedMsg_def E comp_inv act)
    have "set rs = {m_ID m |m. m \<in> set (msgs db) \<and> m_From m = addr \<and> m_State m = FailedMsg \<and> m_Signature m \<noteq> None \<and> act_Nonce act \<le> m_Nonce m}"
      using recover_loop_effect [OF E(1) inv l(2)] ListFailedSigned_set [OF inv l(1)] by auto
    then show ?thesis using recover_loop_effect [OF E(1) inv l(2)] False G by (auto intro!: bexI [of _ ai])
  qed
qed

lemma recover_loop_keeps:
  assumes E: "MessageRepo (me_repo env) = M"
  shows "inv db \<Longrightarrow> \<forall>m \<in> set l. \<forall>x \<in> set (msgs db). m_ID x = m_ID m \<longrightarrow> assigned x \<Longrightarrow> recover_loop env n l db = (r, db') \<Longrightarrow>
    inv db' \<and> addrs db' = addrs db \<and> list_all2 keeps_nonce (msgs db) (msgs db')"
proof (induction l arbitrary: db r)
  case Nil
  then show ?case by (auto simp: comp_inv keeps_nonce_all_refl)
next
  case (Cons m l)
  obtain q db1 where one: "mr_UpdateMessageStateByID M (m_ID m) FillMsg db = (q, db1)" by (cases "mr_UpdateMessageStateByID M (m_ID m) FillMsg db")
  consider (skip) "recover_loop env n l db = (r, db')" | (fail) "db' = db"
    | (go) r' where "q = Inr ()" "recover_loop env n l db1 = (r', db')"
    using Cons.prems(3) one StateByID_err [of "m_ID m" FillMsg db _ db1]
    by (auto simp: E comp_simps split: if_splits sum.splits prod.splits)
  then show ?case
  proof cases
    case skip
    then show ?thesis using Cons by simp
  next
    case fail
    then show ?thesis using Cons.prems(1) by (simp add: keeps_nonce_all_refl)
  next
    case go
    obtain t where db1: "inv db1" "msgs db1 = upd_where (\<lambda>x. m_ID x = m_ID m) (\<lambda>x. x\<lparr>m_State := FillMsg, m_UpdatedAt := t\<rparr>) (msgs db)"
      using StateByID [OF Cons.prems(1) one [unfolded go(1)]] by blast
    have k: "list_all2 keeps_nonce (msgs db) (msgs db1)"
      unfolding db1(2) using Cons.prems(2) by (intro list_all2_upd_where) (auto simp: keeps_nonce_def)
    have "\<forall>m \<in> set l. \<forall>x \<in> set (msgs db1). m_ID x = m_ID m \<longrightarrow> assigned x"
      using Cons.prems(2) unfolding db1(2) set_upd_where by (auto simp: assigned_def)
    then show ?thesis using Cons.IH [OF db1(1) _ go(2)] k msg_frame(6) [OF one] by (auto intro: keeps_nonce_all_trans)
  qed
qed

lemma recover_keeps:
  assumes E: "MessageRepo (me_repo env) = M" and inv: "inv db" and run: "RecoverFailedMsg env addr db = (r, db')"
  shows "inv db' \<and> addrs db' = addrs db \<and> list_all2 keeps_nonce (msgs db) (msgs db')"
proof -
  consider "db' = db" | n l where "mr_GetSignedMessageFromFailedMsg M addr db = Inr l" "recover_loop env n l db = (r, db')"
    using run by (auto simp: RecoverFailedMsg_def E comp_simps split: sum.splits if_splits)
  then show ?thesis
  proof cases
    case 1
    then show ?thesis using inv by (simp add: keeps_nonce_all_refl)
  next
    case 2
    have "assigned x" if "m \<in> set l" "x \<in> set (msgs db)" "m_ID x = m_ID m" for m x
    proof -
      have "m \<in> set (msgs db)" "m_Signature m \<noteq> None" using that(1) ListFailedSigned_set [OF inv 2(1)] by auto
      then have "x = m" using ids [OF inv] that(2,3) by (auto simp: distinct_map inj_on_def)
      then show ?thesis using \<open>m_Signature m \<noteq> None\<close> by (simp add: assigned_def)
    qed
    then show ?thesis using recover_loop_keeps [OF E inv _ 2(2)] by blast
  qed
qed

end

section \<open>Waiting, replacing, republishing\<close>

lemma wait_skip: "\<forall>x \<in> set pre. \<not> wait_done c x \<Longrightarrow> WaitMessage c (map Inr pre @ rest) = WaitMessage c rest"
  by (induction pre) auto

lemma wait_split: "WaitMessage c polls = Inr m \<Longrightarrow>
    \<exists>pre post. polls = map Inr pre @ Inr m # post \<and> wait_done c m \<and> (\<forall>x \<in> set pre. \<not> wait_done c x)"
proof (induction c polls rule: WaitMessage.induct)
  case (3 c msg polls)
  show ?case
  proof (cases "wait_done c msg")
    case True
    then show ?thesis using 3 by (intro exI [of _ "[]"] exI [of _ polls]) auto
  next
    case False
    then obtain pre post where "polls = map Inr pre @ Inr m # post" "wait_done c m" "\<forall>x \<in> set pre. \<not> wait_done c x"
      using 3 by auto
    then show ?thesis using False by (intro exI [of _ "msg # pre"] exI [of _ post]) auto
  qed
qed auto

lemma big_max_Inr: "big_max x y = Inr z \<longleftrightarrow> (\<exists>a b. x = Some a \<and> y = Some b \<and> z = Some (max a b))"
  by (auto simp: big_max_def comp_inv)

lemma replace_auto_cases:
  assumes "replace_auto env params msg db = Inr msg'"
  obtains ratio minRBF gp fc mf c and retm :: chain_msg where "me_MpoolRatio env = Inr ratio" "computeRBF (m_GasPremium msg) ratio = Inr minRBF"
    "big_max (c_GasPremium retm) minRBF = Inr gp" "big_max (c_GasFeeCap retm) gp = Inr fc"
    "replace_max_fee env (with_Message (\<lambda>c. c\<lparr>c_GasFeeCap := Some 0, c_GasPremium := Some 0\<rparr>) msg) (rp_MaxFee params) db = Inr mf"
    "CapGasFee ((m_Message msg)\<lparr>c_GasPremium := gp, c_GasFeeCap := fc\<rparr>) mf = Inr c" "msg\<lparr>m_Message := c\<rparr> = msg'"
  using assms by (simp add: replace_auto_def comp_inv Let_def) blast

lemma computeRBF_Some:
  assumes "computeRBF (Some p) ratio = Inr q" "0 \<le> p" "ratio < 2 ^ 63"
  obtains n where "q = Some n" "p * 110 < n * 100"
  using assms computeRBF_value [of ratio p] rbf_lower_bound [of p "max 110 ratio"] by auto

section \<open>A sample service\<close>

definition sample_menv :: "sqlite_db ms_env" where
  "sample_menv = \<lparr>me_repo = sqlite_repo list_engine plain_codec 7, me_codec = plain_codec,
     me_GetUserBySigner = (\<lambda>_. Inr [''user'']), me_WalletHas = (\<lambda>_ _. Inr True), me_WalletSign = (\<lambda>_ _ _ _. Inr ''sig''),
     me_StateAccountKey = (\<lambda>_. Inr (Addr 1 ''from'')), me_ChainHead = Inr sample_ts, me_StateSearchMsg = (\<lambda>_. Inr None),
     me_MpoolRatio = Inr 125, me_GasEstimate = (\<lambda>c _ _. Inr (c\<lparr>c_GasFeeCap := Some 100, c_GasPremium := Some 5\<rparr>)),
     me_StateGetActor = (\<lambda>_. Inr \<lparr>act_Code = Cid ''account'', act_Nonce = 5\<rparr>), me_ToStorageBlock = (\<lambda>_. Inr ''block''),
     me_Cid = (\<lambda>c. Cid (digits_of (unat (c_Nonce c)))), me_SignedCid = (\<lambda>s. Cid ''s''),
     me_map_order = (\<lambda>_. [Addr 1 ''from'']), me_receiver_cap = 100, me_newID = ''new'', me_now = 7\<rparr>"

lemma sample_menv_store:
  "repo_store (MessageRepo (me_repo sample_menv)) (AddressRepo (me_repo sample_menv)) (sqlite_inv plain_codec)
     (sqlite_msgs plain_codec) (cid_str plain_codec) (sqlite_addrs plain_codec) (Transaction (me_repo sample_menv))"
  using plain_sqlite.repo_store_axioms [where now = 7] by (simp add: sample_menv_def)

definition failed_db :: sqlite_db where
  "failed_db = sample_db\<lparr>t_messages := [sqlite_fromMessage plain_codec (sent_message\<lparr>m_State := FailedMsg\<rparr>)]\<rparr>"

lemma failed_db_inv: "sqlite_inv plain_codec failed_db"
  using sample_db_inv
  by (simp add: sqlite_inv_def failed_db_def msg_row_ok_def sqlite_fromMessage_def sent_message_def sample_message_def)

lemma sample_runs:
  "fst (pushMessage sample_menv (sample_message ''new'') sample_db) = Inr ()"
  "fst (clearUnFillMessage sample_menv (Addr 1 ''from'') waiting_db) = Inr 2"
  "fst (RecoverFailedMsg sample_menv (Addr 1 ''from'') failed_db) = Inr [''a'']"
  by code_simp+

section \<open>Properties\<close>



text \<open>
  C24: clearing the waiting messages of an address marks exactly the unfilled messages of that
  address as failed and reports their number, or changes nothing when it fails.
\<close>

theorem clear_marks_exactly_unfilled:
  fixes env :: "'db ms_env"
  assumes store: "repo_store (MessageRepo (me_repo env)) A ok msgs cstr addrs (Transaction (me_repo env))"
    and ok: "ok db" and run: "clearUnFillMessage env addr db = (r, db')"
  shows "case r of Inl _ \<Rightarrow> db' = db
    | Inr n \<Rightarrow> ok db' \<and> addrs db' = addrs db \<and> n = int (length (filter (\<lambda>m. m_From m = addr \<and> m_State m = UnFillMsg) (msgs db)))
        \<and> list_all2 (restated FailedMsg {m_ID m |m. m \<in> set (msgs db) \<and> m_From m = addr \<and> m_State m = UnFillMsg}) (msgs db) (msgs db')"
  by (rule repo_store.clear_effect [OF store refl refl ok run])

theorem clear_marks_exactly_unfilled_witness:
  "sqlite_addrs plain_codec (snd (clearUnFillMessage sample_menv (Addr 1 ''from'') waiting_db)) = sqlite_addrs plain_codec waiting_db
   \<and> length (filter (\<lambda>m. m_From m = Addr 1 ''from'' \<and> m_State m = UnFillMsg) (sqlite_msgs plain_codec waiting_db)) = 2"
proof -
  obtain r db' where run: "clearUnFillMessage sample_menv (Addr 1 ''from'') waiting_db = (r, db')" by fastforce
  then have "r = Inr 2" using sample_runs(2) by simp
  then show ?thesis using clear_marks_exactly_unfilled [OF sample_menv_store waiting_db_inv run] unfolding run by simp
qed

text \<open>
  C25: recovering the failed messages of an address sets exactly its signed failed messages with
  a nonce the chain has not used yet back to filled, and reports their identifiers; when the
  address is behind the chain it changes nothing.
\<close>

theorem recover_restores_unused_nonces:
  fixes env :: "'db ms_env"
  assumes store: "repo_store (MessageRepo (me_repo env)) (AddressRepo (me_repo env)) ok msgs cstr addrs tx"
    and ok: "ok db" and act: "me_StateGetActor env addr = Inr act" and run: "RecoverFailedMsg env addr db = (Inr rs, db')"
  shows "ok db' \<and> addrs db' = addrs db \<and> list_all2 (restated FillMsg (set rs)) (msgs db) (msgs db')
    \<and> (\<exists>ai \<in> set (live (addrs db)). a_Addr ai = addr \<and> set rs = (if a_Nonce ai < act_Nonce act then {}
         else {m_ID m |m. m \<in> set (msgs db) \<and> m_From m = addr \<and> m_State m = FailedMsg \<and> m_Signature m \<noteq> None \<and> act_Nonce act \<le> m_Nonce m}))"
  by (rule repo_store.recover_effect [OF store refl refl ok act run])

theorem recover_restores_unused_nonces_witness:
  "list_all2 (restated FillMsg {''a''}) (sqlite_msgs plain_codec failed_db)
     (sqlite_msgs plain_codec (snd (RecoverFailedMsg sample_menv (Addr 1 ''from'') failed_db)))"
proof -
  obtain r db' where run: "RecoverFailedMsg sample_menv (Addr 1 ''from'') failed_db = (r, db')" by fastforce
  have r: "r = Inr [''a'']" using sample_runs(3) unfolding run by simp
  have act: "me_StateGetActor sample_menv (Addr 1 ''from'') = Inr \<lparr>act_Code = Cid ''account'', act_Nonce = 5\<rparr>" by (simp add: sample_menv_def)
  have "list_all2 (restated FillMsg (set [''a''])) (sqlite_msgs plain_codec failed_db) (sqlite_msgs plain_codec db')"
    using recover_restores_unused_nonces [OF sample_menv_store failed_db_inv act run [unfolded r]] by (elim conjE)
  then show ?thesis unfolding run by simp
qed




definition priced_message :: message where
  "priced_message = with_Message (\<lambda>c. c\<lparr>c_GasPremium := Some 10, c_GasFeeCap := Some 50, c_GasLimit := 1000\<rparr>) sent_message"

definition auto_params :: replace_params where
  "auto_params = \<lparr>rp_ID = ''a'', rp_Auto = True, rp_MaxFee = Some 200000, rp_GasLimit = 0, rp_GasPremium = None, rp_GasFeecap = None,
     rp_GasOverPremium = 0\<rparr>"


text \<open>
  A manual replacement never compares the fee cap it is given with the premium it is given:
  any two positive amounts pass once the message's old amounts are in order, and none do when
  they are not.
\<close>

theorem replace_manual_ignores_new_order:
  assumes "rp_GasPremium params = Some gp" "rp_GasFeecap params = Some fc" "0 < gp" "0 < fc"
    and "m_GasFeeCap msg = Some oldCap" "m_GasPremium msg = Some oldPremium"
  shows "(\<exists>msg'. replace_manual params msg = Inr msg' \<and> m_GasPremium msg' = Some gp \<and> m_GasFeeCap msg' = Some fc) \<longleftrightarrow> oldPremium \<le> oldCap"
  using assms by (auto simp: replace_manual_def Let_def)

theorem replace_manual_ignores_new_order_witness:
  "\<exists>msg'. replace_manual \<lparr>rp_ID = ''a'', rp_Auto = False, rp_MaxFee = None, rp_GasLimit = 0, rp_GasPremium = Some 9, rp_GasFeecap = Some 1,
     rp_GasOverPremium = 0\<rparr> priced_message = Inr msg' \<and> m_GasPremium msg' = Some 9 \<and> m_GasFeeCap msg' = Some 1"
  using replace_manual_ignores_new_order [of "\<lparr>rp_ID = ''a'', rp_Auto = False, rp_MaxFee = None, rp_GasLimit = 0, rp_GasPremium = Some 9,
    rp_GasFeecap = Some 1, rp_GasOverPremium = 0\<rparr>" 9 1 priced_message 50 10] by (simp add: priced_message_def)



end
