(* ===== verification/PublisherProps.thy ===== *)
theory PublisherProps
  imports Publisher MessageServiceProps "HOL-Library.Sublist"
begin

text \<open>
  What publishing guarantees: the groups of the receiver partition a batch by sender and
  ascend in nonce, every batch that reaches a node keeps that form, the cache hands a message on
  once until it has been absent for two releases, and the node threads follow the node list.
\<close>

section \<open>The shape of a batch\<close>

definition batch_ok :: "signed_msg list \<Rightarrow> bool" where
  "batch_ok b \<longleftrightarrow> b \<noteq> [] \<and> (\<exists>a. \<forall>m \<in> set b. s_From m = a) \<and> sorted (map s_Nonce b)"

definition queues_ok :: "'db pub_state \<Rightarrow> bool" where
  "queues_ok s \<longleftrightarrow>
     (\<forall>b \<in> set (ps_cacheCh s) \<union> set (ps_concCh s) \<union> set (nt_msgChan (ps_main s)). batch_ok b)
   \<and> (\<forall>i t. ps_nodeThreads s i = Some t \<longrightarrow> (\<forall>b \<in> set (nt_msgChan t). batch_ok b))"

text \<open>What the code relies on of Go's map iteration and of \<open>sort.Slice\<close>.\<close>

definition iterates :: "'db pub_env \<Rightarrow> bool" where
  "iterates env \<longleftrightarrow> (\<forall>l. mset (pe_order env l) = mset l) \<and> (\<forall>l. mset (pe_sort env l) = mset l \<and> sorted (map s_Nonce (pe_sort env l)))"

lemma receive_groups_eq:
  assumes "iterates env"
  shows "receive_groups env msgs = map (\<lambda>a. pe_sort env (filter (\<lambda>m. s_From m = a) msgs)) (pe_order env (remdups (map s_From msgs)))"
proof -
  define as where "as = pe_order env (remdups (map s_From msgs))"
  have "set as = s_From ` set msgs"
    using assms mset_eq_setD [of as "remdups (map s_From msgs)"] unfolding as_def iterates_def by simp
  then have some: "MsgsGroupByAddress msgs a = Some (filter (\<lambda>m. s_From m = a) msgs)" if "a \<in> set as" for a
    using that by (auto simp: MsgsGroupByAddress_eq Let_def filter_empty_conv)
  have "List.map_filter (MsgsGroupByAddress msgs) l = map (\<lambda>a. filter (\<lambda>m. s_From m = a) msgs) l" if "set l \<subseteq> set as" for l
    using that by (induction l) (auto simp: List.map_filter_simps some)
  then show ?thesis unfolding receive_groups_def as_def [symmetric] by simp
qed

lemma sorted_group_ok:
  assumes "iterates env" "filter (\<lambda>m. s_From m = a) msgs \<noteq> []"
  shows "batch_ok (pe_sort env (filter (\<lambda>m. s_From m = a) msgs))"
proof -
  let ?g = "filter (\<lambda>m. s_From m = a) msgs"
  have e: "mset (pe_sort env ?g) = mset ?g" and s: "sorted (map s_Nonce (pe_sort env ?g))"
    using assms(1) unfolding iterates_def by blast+
  from e have "set (pe_sort env ?g) = set ?g" "pe_sort env ?g \<noteq> []" using assms(2) mset_eq_setD mset_zero_iff by metis+
  with s show ?thesis unfolding batch_ok_def by auto
qed

lemma receive_groups_ok:
  assumes "iterates env" "g \<in> set (receive_groups env msgs)"
  shows "batch_ok g"
proof -
  have "set (pe_order env (remdups (map s_From msgs))) = s_From ` set msgs"
    using assms(1) mset_eq_setD [of "pe_order env (remdups (map s_From msgs))" "remdups (map s_From msgs)"]
    unfolding iterates_def by simp
  then obtain a where "a \<in> s_From ` set msgs" "g = pe_sort env (filter (\<lambda>m. s_From m = a) msgs)"
    using assms(2) by (auto simp: receive_groups_eq [OF assms(1)])
  then show ?thesis using sorted_group_ok [OF assms(1)] by (auto simp: filter_empty_conv)
qed

section \<open>The contract of a publisher\<close>

text \<open>Whatever publisher is composed, it forwards well-formed batches as well-formed batches.\<close>

locale msg_publisher =
  fixes publish :: "signed_msg list \<Rightarrow> ('db pub_state, unit) comp"
  assumes keeps: "batch_ok b \<Longrightarrow> queues_ok s \<Longrightarrow> publish b s = (r, s') \<Longrightarrow> queues_ok s'"
begin

lemma logged_keeps: "batch_ok b \<Longrightarrow> queues_ok s \<Longrightarrow> dropC (attemptC (publish b)) s = (r, s') \<Longrightarrow> queues_ok s'"
  using keeps [of b s "fst (publish b s)" "snd (publish b s)"]
  by (auto simp: dropC_def attemptC_def split: prod.splits sum.splits)

lemma forward_keeps:
  assumes "\<And>g. g \<in> set gs \<Longrightarrow> batch_ok g" "queues_ok s" "forC (\<lambda>g. dropC (attemptC (publish g))) gs s = (r, s')"
  shows "queues_ok s'"
  by (rule forC_invariant [where I = queues_ok, OF _ assms(3,2)]) (use assms(1) logged_keeps in blast)

end

lemma HandleMsg_chan [simp]: "nt_msgChan (HandleMsg msgs t) = nt_msgChan t @ [msgs]" "nt_nodeClient (HandleMsg msgs t) = nt_nodeClient t"
  by (simp_all add: HandleMsg_def)

lemma new_thread_chan [simp]: "nt_msgChan (newNodeThread n c) = []"
  by (simp add: newNodeThread_def)

abbreviation threads_ok :: "(uuid \<Rightarrow> nodeThread option) \<Rightarrow> bool" where
  "threads_ok T \<equiv> \<forall>i t. T i = Some t \<longrightarrow> (\<forall>b \<in> set (nt_msgChan t). batch_ok b)"

lemma publish_to_node_ok: "batch_ok b \<Longrightarrow> threads_ok T \<Longrightarrow> threads_ok (publish_to_node env b node T)"
  unfolding publish_to_node_def node_thread_for_def by (auto split: option.splits sum.splits)

lemma publish_nodes_ok: "batch_ok b \<Longrightarrow> threads_ok T \<Longrightarrow> threads_ok (fold (publish_to_node env b) nodes T)"
proof (induction nodes arbitrary: T)
  case (Cons node nodes)
  show ?case unfolding fold_Cons comp_def by (rule Cons.IH [OF Cons.prems(1) publish_to_node_ok [OF Cons.prems]])
qed simp

lemma rpc_keeps:
  assumes "batch_ok b" "queues_ok s" "rpc_PublishMessages env b s = (r, s')"
  shows "queues_ok s'"
proof -
  have t: "threads_ok (fold (publish_to_node env b) nodes (ps_nodeThreads s))" for nodes
    using publish_nodes_ok [OF assms(1), of "ps_nodeThreads s"] assms(2) unfolding queues_ok_def by blast
  show ?thesis
    using assms t unfolding rpc_PublishMessages_def Let_def queues_ok_def
    by (auto split: if_splits sum.splits)
qed

lemma p2p_keeps: "queues_ok s \<Longrightarrow> p2p_PublishMessages env b s = (r, s') \<Longrightarrow> queues_ok s'"
  unfolding p2p_PublishMessages_def
  by (rule forC_invariant [where I = queues_ok])
    (auto simp: publish_one_def queues_ok_def comp_simps split: sum.splits prod.splits)

interpretation pub: msg_publisher "PublishMessages env p"
proof
  show "queues_ok s'" if "batch_ok b" "queues_ok s" "PublishMessages env p b s = (r, s')" for b s r s'
    using that
  proof (induction env p b arbitrary: s r s' rule: PublishMessages.induct)
    case (3 env subs b)
    have sub: "msg_publisher (\<lambda>c. if c = b then PublishMessages env q b else returnC ())" if "q \<in> set subs" for q
      by unfold_locales (use 3 that in \<open>auto simp: returnC_def split: if_splits\<close>)
    show ?case
    proof (cases "subs = []")
      case False
      then have run: "forC (\<lambda>q. dropC (attemptC (PublishMessages env q b))) subs s = (r, s')" using "3.prems" by simp
      show ?thesis
        by (rule forC_invariant [where I = queues_ok, OF _ run "3.prems"(2)])
          (use msg_publisher.logged_keeps [OF sub, of _ b] "3.prems"(1) in auto)
    qed (use "3.prems" in \<open>simp add: failC_def\<close>)
  next
    case (4 env period sub b)
    then show ?case by (auto simp: queues_ok_def)
  next
    case (5 env n sub b)
    then show ?case by (auto simp: queues_ok_def)
  qed (auto intro: p2p_keeps rpc_keeps)
qed

section \<open>Every step keeps the shape\<close>

lemma snd_cache_filter: "snd (cache_filter cidOf b cache) c = (if c \<in> cidOf ` set b then Some True else cache c)"
  by (induction b arbitrary: cache) (auto simp: Let_def case_prod_beta)

lemma fst_cache_filter: "fst (cache_filter cidOf (m # b) cache) =
    (if cache (cidOf m) = None then [m] else []) @ fst (cache_filter cidOf b (cache(cidOf m \<mapsto> True)))"
  by (simp add: Let_def case_prod_beta)

lemma cache_filter_sub: "subseq (fst (cache_filter cidOf b cache)) b"
  by (induction b arbitrary: cache) (simp_all add: fst_cache_filter list_emb_Cons del: cache_filter.simps(2))

lemma subseq_sorted_wrt: "subseq xs ys \<Longrightarrow> sorted_wrt P ys \<Longrightarrow> sorted_wrt P xs \<and> set xs \<subseteq> set ys"
  by (induction rule: list_emb.induct) auto

lemma batch_ok_sub:
  assumes "batch_ok b" "subseq b' b" "b' \<noteq> []"
  shows "batch_ok b'"
proof -
  have "sorted_wrt (\<lambda>m m'. s_Nonce m \<le> s_Nonce m') b" using assms(1) unfolding batch_ok_def sorted_map by blast
  from subseq_sorted_wrt [OF assms(2) this] have "sorted (map s_Nonce b')" "set b' \<subseteq> set b" by (auto simp: sorted_map)
  with assms(1,3) show ?thesis unfolding batch_ok_def by blast
qed

lemma cache_batch_keeps:
  assumes "batch_ok b" "queues_ok s" "cache_batch env sub b s = (r, s')"
  shows "queues_ok s'"
proof -
  obtain new cache where f: "cache_filter (pe_Cid env) b (ps_cache s) = (new, cache)" by (cases "cache_filter (pe_Cid env) b (ps_cache s)")
  have q: "queues_ok (s\<lparr>ps_cache := cache\<rparr>)" using assms(2) by (simp add: queues_ok_def)
  show ?thesis
  proof (cases "new = []")
    case False
    then have "batch_ok new" using batch_ok_sub [OF assms(1)] cache_filter_sub [of "pe_Cid env" b "ps_cache s"] f by simp
    then show ?thesis using pub.logged_keeps [OF _ q] assms(3) f False by (simp add: cache_batch_def)
  qed (use assms(3) f q in \<open>simp add: cache_batch_def\<close>)
qed

lemma step_keeps:
  assumes env: "iterates env" and ok: "queues_ok s" and step: "publish_step env p s r s'"
  shows "queues_ok s'"
  using step
proof cases
  case (receive b bs)
  have "queues_ok (s\<lparr>ps_receiver := bs\<rparr>)" using ok by (simp add: queues_ok_def)
  from pub.forward_keeps [OF _ this receive(2) [unfolded receive_batch_def]] receive_groups_ok [OF env]
  show ?thesis by blast
next
  case (cache sub b bs)
  have "queues_ok (s\<lparr>ps_cacheCh := bs\<rparr>)" "batch_ok b" using ok cache(2) by (auto simp: queues_ok_def)
  then show ?thesis using cache_batch_keeps cache(3) by blast
next
  case (worker sub b bs)
  have "queues_ok (s\<lparr>ps_concCh := bs\<rparr>)" "batch_ok b" using ok worker(2) by (auto simp: queues_ok_def)
  then show ?thesis using pub.logged_keeps worker(3) unfolding concurrent_batch_def by blast
next
  case (node i t b bs db')
  then show ?thesis using ok by (auto simp: queues_ok_def split: if_splits)
qed (use ok in \<open>auto simp: queues_ok_def\<close>)

section \<open>The cache against its history\<close>

text \<open>A run of the cache as its events, newest first, and when a message was last in a batch.\<close>

datatype cache_event = CacheBatch "signed_msg list" | CacheTick

fun cache_after :: "(signed_msg \<Rightarrow> cid) \<Rightarrow> cache_event list \<Rightarrow> cid \<Rightarrow> bool option" where
  "cache_after cidOf [] = (\<lambda>_. None)"
| "cache_after cidOf (CacheTick # past) = cache_release (cache_after cidOf past)"
| "cache_after cidOf (CacheBatch b # past) = snd (cache_filter cidOf b (cache_after cidOf past))"

fun ticks_since :: "(signed_msg \<Rightarrow> cid) \<Rightarrow> cid \<Rightarrow> cache_event list \<Rightarrow> nat option" where
  "ticks_since cidOf c [] = None"
| "ticks_since cidOf c (CacheTick # past) = map_option Suc (ticks_since cidOf c past)"
| "ticks_since cidOf c (CacheBatch b # past) = (if c \<in> cidOf ` set b then Some 0 else ticks_since cidOf c past)"

definition age :: "nat option \<Rightarrow> bool option" where
  "age t = (case t of None \<Rightarrow> None | Some n \<Rightarrow> if n = 0 then Some True else if n = 1 then Some False else None)"

lemma cache_after_age: "cache_after cidOf past c = age (ticks_since cidOf c past)"
  by (induction cidOf past rule: cache_after.induct)
    (auto simp: age_def cache_release_def snd_cache_filter split: option.splits)

text \<open>The messages of a batch that pass a test on their identifier, the first of each identifier only.\<close>

definition handed_on :: "(signed_msg \<Rightarrow> cid) \<Rightarrow> (cid \<Rightarrow> bool) \<Rightarrow> signed_msg list \<Rightarrow> signed_msg list" where
  "handed_on cidOf fresh b =
     map (\<lambda>i. b ! i) (filter (\<lambda>i. fresh (cidOf (b ! i)) \<and> cidOf (b ! i) \<notin> cidOf ` set (take i b)) [0..<length b])"

lemma handed_on_Cons:
  "handed_on cidOf fresh (m # b) = (if fresh (cidOf m) then [m] else []) @ handed_on cidOf (\<lambda>c. c \<noteq> cidOf m \<and> fresh c) b"
proof -
  have "[0..<length (m # b)] = 0 # map Suc [0..<length b]" by (simp add: map_Suc_upt upt_conv_Cons del: upt_Suc)
  then show ?thesis unfolding handed_on_def by (auto simp: filter_map comp_def intro!: filter_cong arg_cong2 [where f = map])
qed

lemma cache_filter_handed_on: "fst (cache_filter cidOf b cache) = handed_on cidOf (\<lambda>c. cache c = None) b"
proof (induction b arbitrary: cache)
  case Nil
  show ?case by (simp add: handed_on_def)
next
  case (Cons m b)
  have "(\<lambda>c. (cache(cidOf m \<mapsto> True)) c = None) = (\<lambda>c. c \<noteq> cidOf m \<and> cache c = None)" by auto
  then show ?case unfolding fst_cache_filter handed_on_Cons Cons.IH by simp
qed

section \<open>The node threads\<close>

lemma thread_for_None: "node_thread_for env n t = None \<Longrightarrow> t = None"
  by (auto simp: node_thread_for_def split: option.splits)

lemma fold_publish_to_node:
  assumes "distinct (map n_ID nodes)"
  shows "fold (publish_to_node env b) nodes T i = (case find (\<lambda>n. n_ID n = i) nodes of
      None \<Rightarrow> T i | Some n \<Rightarrow> map_option (HandleMsg b) (node_thread_for env n (T i)))"
  using assms
proof (induction nodes arbitrary: T)
  case (Cons n nodes)
  have "find (\<lambda>n'. n_ID n' = n_ID n) nodes = None" using Cons.prems by (auto simp: find_None_iff) (metis image_eqI)
  then show ?case using Cons by (auto simp: publish_to_node_def dest: thread_for_None split: option.splits)
qed simp

section \<open>Recording push errors\<close>

text \<open>A message before and after error texts were recorded for the given identifiers.\<close>

definition error_noted :: "cid set \<Rightarrow> string \<Rightarrow> message \<Rightarrow> message \<Rightarrow> bool" where
  "error_noted cids txt m m' \<longleftrightarrow>
     m' = m \<or> m_UnsignedCid m \<in> Some ` cids \<and> (\<exists>t. m' = m\<lparr>m_ErrorMsg := txt, m_UpdatedAt := t\<rparr>)"

lemma error_noted_cases:
  assumes "error_noted cids txt m m'"
  obtains "m' = m" | t where "m' = m\<lparr>m_ErrorMsg := txt, m_UpdatedAt := t\<rparr>"
  using assms unfolding error_noted_def by blast

lemma error_noted_refl: "list_all2 (error_noted cids txt) l l"
  by (simp add: error_noted_def list.rel_refl)

lemma error_noted_trans:
  assumes "error_noted cids txt m m1" "error_noted cids txt m1 m2"
  shows "error_noted cids txt m m2"
proof (cases "m1 = m \<or> m2 = m1")
  case True
  then show ?thesis using assms by (elim disjE) simp_all
next
  case False
  obtain t t' where c: "m_UnsignedCid m \<in> Some ` cids" "m1 = m\<lparr>m_ErrorMsg := txt, m_UpdatedAt := t\<rparr>"
    "m2 = m1\<lparr>m_ErrorMsg := txt, m_UpdatedAt := t'\<rparr>"
    using assms False unfolding error_noted_def by metis
  then have "m2 = m\<lparr>m_ErrorMsg := txt, m_UpdatedAt := t'\<rparr>" by simp
  with c(1) show ?thesis unfolding error_noted_def by blast
qed

lemma error_noted_all_trans: "list_all2 (error_noted cids txt) l l1 \<Longrightarrow> list_all2 (error_noted cids txt) l1 l2 \<Longrightarrow>
    list_all2 (error_noted cids txt) l l2"
  by (rule list_all2_trans [OF error_noted_trans])

context message_store
begin

lemma record_notes:
  assumes R: "MessageRepo R = M" and db: "inv db" and c: "c \<in> cids"
    and run: "recordPushMessageError R c err db = (r, db')"
  shows "inv db' \<and> list_all2 (error_noted cids (error_text err)) (msgs db) (msgs db')"
proof (cases "db' = db")
  case False
  then obtain m where m: "mr_GetMessageByCid M c db = Inr m" "mr_UpdateErrMsg M (m_ID m) (error_text err) db = (Inr (), db')"
    using run ErrMsg_err unfolding recordPushMessageError_def R
    by (auto simp: comp_simps tryE_def split: sum.splits prod.splits if_splits error.splits)
  have me: "m \<in> set (msgs db)" "m_UnsignedCid m = Some c" using GetByCid [OF db m(1)] by auto
  obtain t where t: "inv db'" "msgs db' = upd_where (\<lambda>x. m_ID x = m_ID m) (\<lambda>x. x\<lparr>m_ErrorMsg := error_text err, m_UpdatedAt := t\<rparr>) (msgs db)"
    using ErrMsg [OF db m(2)] by blast
  have "x = m" if "x \<in> set (msgs db)" "m_ID x = m_ID m" for x
    using ids [OF db] that me(1) by (metis distinct_map inj_onD)
  then have "list_all2 (error_noted cids (error_text err)) (msgs db) (msgs db')"
    unfolding t(2) using me(2) c by (intro list_all2_upd_where) (auto simp: error_noted_def)
  with t(1) show ?thesis by blast
qed (use db error_noted_refl in auto)

lemma run_push_notes:
  assumes R: "MessageRepo (pe_repo env) = M" and db: "inv db" and run: "run_push env client b db = (r, db')"
  shows "inv db' \<and> (msgs db' = msgs db \<or> (\<exists>err. snd (pe_BatchPush env client b) = Some err
     \<and> list_all2 (error_noted (pe_Cid env ` set b) (error_text err)) (msgs db) (msgs db')))"
proof (cases "db' = db")
  case False
  obtain err where err: "snd (pe_BatchPush env client b) = Some err"
    "forC (\<lambda>msg. recordPushMessageError (pe_repo env) (pe_Cid env msg) err) b db = (r, db')"
    using run False unfolding run_push_def by (auto simp: returnC_def failC_def split: prod.splits option.splits if_splits)
  let ?I = "\<lambda>d. inv d \<and> list_all2 (error_noted (pe_Cid env ` set b) (error_text err)) (msgs db) (msgs d)"
  have "?I db'"
  proof (rule forC_invariant [where I = ?I, OF _ err(2)])
    show "?I d'" if "x \<in> set b" "?I d" "recordPushMessageError (pe_repo env) (pe_Cid env x) err d = (q, d')" for x d q d'
    proof -
      have "inv d'" "list_all2 (error_noted (pe_Cid env ` set b) (error_text err)) (msgs d) (msgs d')"
        using record_notes [OF R _ imageI [OF that(1), of "pe_Cid env"] that(3)] that(2) by blast+
      with that(2) show ?thesis by (intro conjI) (auto intro: error_noted_all_trans)
    qed
  qed (simp add: db error_noted_refl)
  with err(1) show ?thesis by blast
qed (use db in simp)

end

section \<open>A sample publisher\<close>

definition sent_signed :: "u64 \<Rightarrow> signed_msg" where
  "sent_signed n = \<lparr>s_Message = (m_Message sent_message)\<lparr>c_Nonce := n\<rparr>, s_Signature = ''sig''\<rparr>"

definition sample_penv :: "sqlite_db pub_env" where
  "sample_penv = \<lparr>pe_repo = sqlite_repo list_engine plain_codec 7, pe_order = (\<lambda>l. l), pe_sort = sort_key s_Nonce,
     pe_Cid = (\<lambda>m. Cid (digits_of (unat (s_Nonce m)))), pe_Serialize = (\<lambda>m. Inr (digits_of (unat (s_Nonce m)))),
     pe_TopicPublish = (\<lambda>_. Inr ()), pe_Dial = (\<lambda>url token. Inr ()), pe_BatchPush = (\<lambda>c b. ([], Some (Err ''not enough funds''))),
     pe_enableMultiNode = True\<rparr>"

definition start_pub :: "'db \<Rightarrow> 'db pub_state" where
  "start_pub db = \<lparr>ps_db = db, ps_receiver = [], ps_cacheCh = [], ps_cache = (\<lambda>_. None), ps_concCh = [], ps_topic = [],
     ps_main = newNodeThread ''mainNode'' MainNode, ps_nodeThreads = (\<lambda>_. None)\<rparr>"

abbreviation node_db :: sqlite_db where
  "node_db \<equiv> sent_db\<lparr>t_nodes := [sqlite_fromNode sample_node]\<rparr>"

lemma sample_iterates: "iterates sample_penv"
  by (simp add: iterates_def sample_penv_def)

lemma start_pub_ok: "queues_ok (start_pub db)"
  by (simp add: queues_ok_def start_pub_def)

lemma sample_nodes: "nr_ListNode (NodeRepo (pe_repo sample_penv)) (ps_db (start_pub node_db)) = Inr [sample_node]"
  by code_simp

section \<open>The properties\<close>

text \<open>
  C11: the receiver cuts a batch into groups of one sender each with ascending nonces; together
  the groups are the batch, and no sender has two groups.
\<close>

theorem receive_partitions_by_sender:
  assumes "iterates env"
  shows "mset (concat (receive_groups env msgs)) = mset msgs
    \<and> (\<forall>g \<in> set (receive_groups env msgs). batch_ok g) \<and> distinct (map (\<lambda>g. s_From (hd g)) (receive_groups env msgs))"
proof (intro conjI ballI)
  let ?as = "pe_order env (remdups (map s_From msgs))"
  let ?g = "\<lambda>a. filter (\<lambda>m. s_From m = a) msgs"
  have perm: "mset ?as = mset (remdups (map s_From msgs))" using assms unfolding iterates_def by blast
  then have d: "distinct ?as" and set_as: "set ?as = s_From ` set msgs"
    using mset_eq_imp_distinct_iff mset_eq_setD [OF perm] by auto
  have srt: "mset (pe_sort env l) = mset l" for l using assms unfolding iterates_def by blast
  have "mset (concat (map (\<lambda>a. pe_sort env (?g a)) as)) = mset (filter (\<lambda>m. s_From m \<in> set as) msgs)" if "distinct as" for as
    using that
  proof (induction as)
    case (Cons a as)
    have "mset (filter (\<lambda>m. s_From m \<in> set (a # as)) msgs) = mset (?g a) + mset (filter (\<lambda>m. s_From m \<in> set as) msgs)"
      using Cons.prems by (induction msgs) auto
    then show ?case using Cons by (simp add: srt)
  qed simp
  from this [OF d] show "mset (concat (receive_groups env msgs)) = mset msgs"
    unfolding receive_groups_eq [OF assms] by (simp add: set_as)
  show "batch_ok g" if "g \<in> set (receive_groups env msgs)" for g using receive_groups_ok [OF assms that] .
  have "s_From (hd (pe_sort env (?g a))) = a" if "a \<in> set ?as" for a
  proof -
    have "?g a \<noteq> []" using that set_as by (auto simp: filter_empty_conv)
    then have "hd (pe_sort env (?g a)) \<in> set (?g a)"
      using mset_eq_setD [OF srt] srt by (metis hd_in_set mset_zero_iff)
    then show ?thesis by simp
  qed
  then show "distinct (map (\<lambda>g. s_From (hd g)) (receive_groups env msgs))"
    unfolding receive_groups_eq [OF assms] using d by (simp add: comp_def cong: map_cong)
qed

theorem receive_partitions_by_sender_witness:
  "receive_groups sample_penv [sent_signed 3, sent_signed 1] = [[sent_signed 1, sent_signed 3]]
   \<and> list_all batch_ok (receive_groups sample_penv [sent_signed 3, sent_signed 1])"
proof
  show "receive_groups sample_penv [sent_signed 3, sent_signed 1] = [[sent_signed 1, sent_signed 3]]" by code_simp
  show "list_all batch_ok (receive_groups sample_penv [sent_signed 3, sent_signed 1])"
    using receive_partitions_by_sender [OF sample_iterates, of "[sent_signed 3, sent_signed 1]"] by (simp add: list_all_iff)
qed

text \<open>
  C10: however the goroutines of the receiver, the cache, the workers and the nodes are
  interleaved and whatever batches arrive, every batch that waits for a node or for another
  publisher is non-empty, of one sender and ascending in nonce; in particular the log line of a
  failed push never reads the first message of an empty batch.
\<close>

theorem published_batches_wellformed:
  assumes env: "iterates env" and start: "queues_ok s"
    and run: "(\<lambda>s s'. \<exists>r. publish_step env p s r s')\<^sup>*\<^sup>* s s'"
  shows "queues_ok s'"
  using run by (induction rule: rtranclp_induct) (use start step_keeps [OF env] in blast)+

theorem published_batches_wellformed_witness:
  "\<exists>s'. publish_step sample_penv RpcPublisher (start_pub node_db\<lparr>ps_receiver := [[sent_signed 3, sent_signed 1]]\<rparr>) (Inr ()) s'
     \<and> queues_ok s' \<and> nt_msgChan (ps_main s') = [[sent_signed 1, sent_signed 3]]"
proof -
  let ?s = "start_pub node_db\<lparr>ps_receiver := [[sent_signed 3, sent_signed 1]]\<rparr>"
  let ?run = "receive_batch sample_penv RpcPublisher [sent_signed 3, sent_signed 1] (?s\<lparr>ps_receiver := []\<rparr>)"
  have run: "fst ?run = Inr ()" "nt_msgChan (ps_main (snd ?run)) = [[sent_signed 1, sent_signed 3]]" by code_simp+
  have step: "publish_step sample_penv RpcPublisher ?s (Inr ()) (snd ?run)"
    by (rule publish_step.receive [where bs = "[]"]) (use run(1) in \<open>simp_all add: prod_eq_iff\<close>)
  have "queues_ok ?s" using start_pub_ok [of node_db] by (simp add: queues_ok_def)
  from published_batches_wellformed [OF sample_iterates this r_into_rtranclp, of RpcPublisher "snd ?run"] step run(2)
  show ?thesis by blast
qed

text \<open>
  C9: of a batch the cache hands on, in order, exactly the messages that are not repeated in
  the batch and were not in any batch since the last but one release: a message is published
  once, and again only after two releases without it.
\<close>

theorem cache_publishes_once:
  "fst (cache_filter cidOf b (cache_after cidOf past)) =
     handed_on cidOf (\<lambda>c. case ticks_since cidOf c past of None \<Rightarrow> True | Some n \<Rightarrow> 2 \<le> n) b"
proof -
  have "(\<lambda>c. cache_after cidOf past c = None) = (\<lambda>c. case ticks_since cidOf c past of None \<Rightarrow> True | Some n \<Rightarrow> 2 \<le> n)"
    by (rule ext) (auto simp: cache_after_age age_def split: option.splits)
  then show ?thesis by (simp only: cache_filter_handed_on)
qed

text \<open>
  C12: with several nodes enabled a published batch goes to the main node and to every listed
  node that has a thread or can be dialled, and the threads kept are exactly those.
\<close>

theorem rpc_follows_node_list:
  assumes "pe_enableMultiNode env" "nr_ListNode (NodeRepo (pe_repo env)) (ps_db s) = Inr nodes" "distinct (map n_ID nodes)"
  shows "\<exists>s'. rpc_PublishMessages env b s = (Inr (), s') \<and> ps_main s' = HandleMsg b (ps_main s)
    \<and> (\<forall>i. ps_nodeThreads s' i = (case find (\<lambda>n. n_ID n = i) nodes of
         None \<Rightarrow> None | Some n \<Rightarrow> map_option (HandleMsg b) (node_thread_for env n (ps_nodeThreads s i))))"
proof -
  have gone: "i \<notin> n_ID ` set nodes" if "find (\<lambda>n. n_ID n = i) nodes = None" for i using that by (auto simp: find_None_iff)
  have found: "i \<in> n_ID ` set nodes" if "find (\<lambda>n. n_ID n = i) nodes = Some n" for i n using that by (auto simp: find_Some_iff)
  show ?thesis
    using assms(1,2) fold_publish_to_node [OF assms(3), of env b "ps_nodeThreads s"]
    by (auto simp: rpc_PublishMessages_def mapErrE_def dest: gone found split: option.splits)
qed

theorem rpc_follows_node_list_witness:
  "\<exists>s'. rpc_PublishMessages sample_penv [sent_signed 1] (start_pub node_db) = (Inr (), s')
     \<and> ps_nodeThreads s' ''1'' = Some (HandleMsg [sent_signed 1] (newNodeThread ''full'' (Dialled ''u'' ''t'')))
     \<and> ps_nodeThreads s' ''2'' = None"
  using rpc_follows_node_list [OF _ sample_nodes, of "[sent_signed 1]"]
  by (auto simp: sample_penv_def sample_node_def node_thread_for_def start_pub_def)

text \<open>
  C13: pushing a batch to a node never changes the messages but for the error text, which is
  recorded for messages whose unsigned identifier is the (signed) identifier of a batch
  message; a message under any other unsigned identifier keeps its row.
\<close>

theorem push_only_records_errors:
  assumes "message_store (MessageRepo (pe_repo env)) ok msgs cstr" "ok db" "run_push env client b db = (r, db')"
  shows "ok db' \<and> (msgs db' = msgs db \<or> (\<exists>err. snd (pe_BatchPush env client b) = Some err
     \<and> list_all2 (error_noted (pe_Cid env ` set b) (error_text err)) (msgs db) (msgs db')))"
  by (rule message_store.run_push_notes [OF assms(1) refl assms(2,3)])

theorem push_only_records_errors_witness:
  "sqlite_inv plain_codec (snd (run_push sample_penv MainNode [sent_signed 5] sent_db))
   \<and> map m_ErrorMsg (sqlite_msgs plain_codec (snd (run_push sample_penv MainNode [sent_signed 5] sent_db))) = [''not enough funds'']"
proof -
  have store: "message_store (MessageRepo (pe_repo sample_penv)) (sqlite_inv plain_codec) (sqlite_msgs plain_codec) (cid_str plain_codec)"
    using plain_sqlite.message_store_axioms [where now = 7] by (simp add: sample_penv_def)
  have "sqlite_inv plain_codec (snd (run_push sample_penv MainNode [sent_signed 5] sent_db))"
    using push_only_records_errors [OF store sent_db_inv, of MainNode "[sent_signed 5]"] by (metis prod.collapse)
  moreover have "map m_ErrorMsg (sqlite_msgs plain_codec (snd (run_push sample_penv MainNode [sent_signed 5] sent_db))) = [''not enough funds'']"
    by code_simp
  ultimately show ?thesis by blast
qed

text \<open>
  The composition never fails: a cache period is never zero, whatever the block delay, so a
  publisher is always built; it caches unless the period is negative, works concurrently when
  the concurrency is positive, and always reaches the RPC nodes.
\<close>

theorem publisher_always_built:
  assumes "pc_CacheReleasePeriod cfg < 2 ^ 63"
  shows "\<exists>p. NewIMsgPublisher delay cfg = Inr p \<and> (cache_sub p \<noteq> None \<longleftrightarrow> 0 \<le> pc_CacheReleasePeriod cfg)
    \<and> (concurrent_sub p \<noteq> None \<longleftrightarrow> 0 < pc_Concurrency cfg)"
proof -
  have "to_uint64 (pc_CacheReleasePeriod cfg) \<noteq> 0" if "0 < pc_CacheReleasePeriod cfg"
    using uint_to_uint64 [of "pc_CacheReleasePeriod cfg"] that assms by auto
  moreover have "\<not> (w :: u64) < 1 \<Longrightarrow> w \<noteq> 0" for w by auto
  ultimately show ?thesis by (auto simp: NewIMsgPublisher_def Let_def NewCachePublisher_def)
qed

theorem publisher_always_built_witness:
  "\<exists>p. NewIMsgPublisher 30 \<lparr>pc_Concurrency = 5, pc_CacheReleasePeriod = 0, pc_EnableP2P = False, pc_EnableMultiNode = True\<rparr> = Inr p
     \<and> cache_sub p \<noteq> None \<and> concurrent_sub p \<noteq> None"
  using publisher_always_built [of "\<lparr>pc_Concurrency = 5, pc_CacheReleasePeriod = 0, pc_EnableP2P = False, pc_EnableMultiNode = True\<rparr>" 30]
  by auto

end
