(* ===== verification/ReplaceProps.thy ===== *)
theory ReplaceProps
  imports MessageServiceProps
begin

text \<open>
  What a replacement (\<open>ReplaceMessage\<close> of \<open>service/message_service.go\<close>) changes, over
  any store that keeps the contract: at most the row asked for, only while it is filled, and of
  it only gas, fees and what follows from them.
\<close>

section \<open>What a replacement keeps\<close>

text \<open>The part of a chain message a replacement must not touch.\<close>

definition order_of :: "chain_msg \<Rightarrow> chain_msg" where
  "order_of c = c\<lparr>c_GasLimit := 0, c_GasFeeCap := None, c_GasPremium := None, c_Version := 0\<rparr>"

definition repriced :: "message \<Rightarrow> message \<Rightarrow> bool" where
  "repriced x y \<longleftrightarrow> m_ID y = m_ID x \<and> m_State x = FillMsg \<and> m_State y = FillMsg \<and> m_From y = m_From x \<and> m_To y = m_To x
     \<and> m_Nonce y = m_Nonce x \<and> m_Method y = m_Method x \<and> c_Params (m_Message y) = c_Params (m_Message x)
     \<and> c_Value (m_Message y) = SafeFromGo (c_Value (m_Message x)) \<and> m_GasFeeCap y \<noteq> None \<and> m_GasPremium y \<noteq> None
     \<and> m_Signature y \<noteq> None \<and> m_UnsignedCid y \<noteq> None \<and> m_SignedCid y \<noteq> None"

definition replaced_by :: "string \<Rightarrow> message \<Rightarrow> message \<Rightarrow> message \<Rightarrow> bool" where
  "replaced_by i m x y \<longleftrightarrow> (if m_ID x = i \<and> m_State x = FillMsg
     then repriced x y \<and> m_GasFeeCap y = SafeFromGo (m_GasFeeCap m) \<and> m_GasPremium y = SafeFromGo (m_GasPremium m)
     else y = x)"

lemma replace_manual_frame:
  assumes "replace_manual params msg = Inr m"
  shows "m_ID m = m_ID msg \<and> m_State m = m_State msg \<and> order_of (m_Message m) = order_of (m_Message msg)"
  using assms by (auto simp: replace_manual_def Let_def order_of_def comp_inv split: if_splits)

lemma replace_auto_frame:
  assumes "replace_auto env params msg db = Inr m"
  shows "m_ID m = m_ID msg \<and> m_State m = m_State msg \<and> order_of (m_Message m) = order_of (m_Message msg)"
  using assms by (auto simp: replace_auto_def Let_def order_of_def comp_inv dest!: CapGasFee_frame)

lemma ToSignedMsg_frame:
  assumes "ToSignedMsg env msg accounts = Inr (sg, sm)"
  shows "m_ID sg = m_ID msg \<and> m_State sg = FillMsg \<and> m_Message sg = m_Message msg
    \<and> m_Signature sg \<noteq> None \<and> m_UnsignedCid sg \<noteq> None \<and> m_SignedCid sg \<noteq> None"
  using assms by (auto simp: ToSignedMsg_def Let_def comp_inv split: if_splits option.splits)

lemma republish_keeps_db: "RepublishMessage env i s = (r, s') \<Longrightarrow> fst s' = fst s"
  unfolding RepublishMessage_def
  by (auto simp: bindC_def askDb_eq onSnd_eq returnC_def failC_def split: prod.splits sum.splits if_splits option.splits)

lemma merged_repriced:
  assumes "merged sg x y" and "m_State sg = FillMsg" and x: "m_State x = FillMsg"
    and order: "order_of (m_Message sg) = order_of (m_Message x)"
    and "m_Signature sg \<noteq> None" "m_UnsignedCid sg \<noteq> None" "m_SignedCid sg \<noteq> None"
  shows "repriced x y"
proof -
  have o: "m_From sg = m_From x" "m_To sg = m_To x" "m_Nonce sg = m_Nonce x" "m_Method sg = m_Method x"
    "c_Params (m_Message sg) = c_Params (m_Message x)" "c_Value (m_Message sg) = c_Value (m_Message x)"
    using order by (cases "m_Message sg"; cases "m_Message x"; simp add: order_of_def)+
  show ?thesis using assms(1-3,5-) o unfolding repriced_def merged_def over_def by simp
qed

context repo_store
begin

lemma replace_effect:
  assumes E: "MessageRepo (me_repo env) = M" and inv: "inv db" and run: "ReplaceMessage env p (db, ch) = (r, (db', ch'))"
  shows "inv db' \<and> addrs db' = addrs db \<and> (db' = db \<and> isl r \<or> (\<exists>params msg m. p = Some params
    \<and> (if rp_Auto params then replace_auto env params msg db else replace_manual params msg) = Inr m
    \<and> list_all2 (replaced_by (rp_ID params) m) (msgs db) (msgs db')))"
proof (cases "db' = db \<and> isl r")
  case True
  then show ?thesis using inv by simp
next
  case False
  obtain params msg m accounts sg sm q where p: "p = Some params"
    and get: "GetMessageByUid env (rp_ID params) db = Inr msg"
    and new: "(if rp_Auto params then replace_auto env params msg db else replace_manual params msg) = Inr m"
    and sign: "ToSignedMsg env m accounts = Inr (sg, sm)"
    and upd: "mr_UpdateMessageByState M sg FillMsg db = (q, db')" and qr: "isl q \<longrightarrow> isl r"
    using run False unfolding ReplaceMessage_def
    by (auto simp: bindC_def mapErrC_def askDb_def onDb_def liftC_def returnC_def failC_def E
        split: prod.splits sum.splits if_splits option.splits dest!: republish_keeps_db)
  obtain u where q: "q = Inr u" using upd False qr ByState_err by (cases q) auto
  have f: "m_ID m = m_ID msg" "order_of (m_Message m) = order_of (m_Message msg)"
    using new replace_auto_frame [of env params msg db m] replace_manual_frame [of params msg m] by (auto split: if_splits)
  note s = ToSignedMsg_frame [OF sign]
  obtain m0 where m0: "mr_GetMessageByUid M (rp_ID params) db = Inr m0" "m_ID msg = m_ID m0" "m_Message msg = m_Message m0"
    using get by (auto simp: GetMessageByUid_def read_one_def with_confidence_def E comp_inv split: if_splits)
  have i: "m_ID sg = rp_ID params" using GetByUid [OF inv m0(1)] m0(2) f(1) s by simp
  obtain h where e: "inv db'" "msgs db' = upd_where (\<lambda>x. m_ID x = rp_ID params \<and> m_State x = FillMsg) h (msgs db)"
    "\<And>x. x \<in> set (msgs db) \<Longrightarrow> m_ID x = rp_ID params \<Longrightarrow> m_State x = FillMsg \<Longrightarrow> merged sg x (h x)"
    using ByState [OF inv upd [unfolded q, simplified]] unfolding i by blast
  have "replaced_by (rp_ID params) m x (h x)" if x: "x \<in> set (msgs db)" "m_ID x = rp_ID params" "m_State x = FillMsg" for x
  proof -
    have "m_Message msg = m_Message x" using Get_unique [OF inv m0(1) x(1,2)] m0(3) by simp
    then have "order_of (m_Message sg) = order_of (m_Message x)" using f(2) s by simp
    then have "repriced x (h x)" using s x(3) by (intro merged_repriced [OF e(3) [OF x]]) simp_all
    then show ?thesis using e(3) [OF x] s x(2,3) by (simp add: replaced_by_def merged_def)
  qed
  then have "list_all2 (replaced_by (rp_ID params) m) (msgs db) (msgs db')"
    unfolding e(2) by (intro list_all2_upd_where) (auto simp: replaced_by_def)
  then show ?thesis using e(1) msg_frame(7) [OF upd] p new by blast
qed

end

section \<open>Property\<close>

text \<open>
  C28: a replacement changes at most the message asked for, and only while it is filled: the new
  row has the fee cap and the premium the replacement computed, is signed and still filled, and
  keeps sender, recipient, nonce, method, parameters and value. A replacement that reports success
  has done this; addresses and all other messages are as before whatever it reports.
\<close>

theorem replace_reprices_one_filled:
  assumes store: "repo_store (MessageRepo (me_repo env)) A ok msgs cstr addrs tx" and ok: "ok db"
    and run: "ReplaceMessage env (Some params) (db, ch) = (r, (db', ch'))"
  shows "ok db' \<and> addrs db' = addrs db \<and> (db' = db \<and> isl r \<or> (\<exists>msg m.
    (if rp_Auto params then replace_auto env params msg db else replace_manual params msg) = Inr m
    \<and> list_all2 (replaced_by (rp_ID params) m) (msgs db) (msgs db')))"
  using repo_store.replace_effect [OF store refl ok run] by auto

definition manual_params :: replace_params where
  "manual_params = \<lparr>rp_ID = ''a'', rp_Auto = False, rp_MaxFee = None, rp_GasLimit = 0, rp_GasPremium = Some 9, rp_GasFeecap = Some 99,
     rp_GasOverPremium = 0\<rparr>"

abbreviation replaced_db :: sqlite_db where
  "replaced_db \<equiv> fst (snd (ReplaceMessage sample_menv (Some manual_params) (sent_db, [])))"

lemma replaced_db_fees: "map (\<lambda>m. (m_GasFeeCap m, m_GasPremium m)) (sqlite_msgs plain_codec replaced_db) = [(Some 99, Some 9)]"
  by code_simp

theorem replace_reprices_one_filled_witness:
  "sqlite_inv plain_codec replaced_db \<and> sqlite_addrs plain_codec replaced_db = sqlite_addrs plain_codec sent_db
   \<and> map (\<lambda>m. (m_GasFeeCap m, m_GasPremium m)) (sqlite_msgs plain_codec replaced_db) = [(Some 99, Some 9)]"
proof -
  obtain r db' ch' where run: "ReplaceMessage sample_menv (Some manual_params) (sent_db, []) = (r, (db', ch'))" by (metis surj_pair)
  show ?thesis using replace_reprices_one_filled [OF sample_menv_store sent_db_inv run] replaced_db_fees by (simp add: run)
qed

end
