(* ===== verification/Messager.thy ===== *)
theory Messager
  imports PublisherProps ReplaceProps
begin

text \<open>
  The messager as a whole: the operations of its services as steps of a transition relation on
  the database, and the invariant of nonces along every sequence of steps, over any store that
  keeps the contract.
\<close>

section \<open>Steps\<close>

text \<open>
  One step is one operation, successful or not: a push (with a fresh
  identifier for a new address record), a selection round of a live address
  (with nonces clear of the end of the 64-bit range), a refresh from a well-formed node,
  clearing the waiting messages of an address, recovering its failed messages, marking a
  message bad, replacing a message, resynchronising one or all filled messages with a node whose
  answers are well-formed, pushing a batch to a node (which records errors), forbidding or
  activating an address. Operators' edits that bypass the services' logic
  (\<open>UpdateMessageStateByID\<close>, \<open>UpdateNonce\<close>, deleting addresses) are no steps.
\<close>

definition nonces_clear :: "'db sel_env \<Rightarrow> address \<Rightarrow> nonce_map \<Rightarrow> tipset \<Rightarrow> u64 \<Rightarrow> message list \<Rightarrow> address_info \<Rightarrow> bool" where
  "nonces_clear env addr applied ts mx ms ai \<longleftrightarrow>
     (\<forall>m \<in> set ms. m_From m = addr \<longrightarrow> unat (m_Nonce m) + unat mx < 2 ^ 64 - 1)
   \<and> (\<forall>nl an. getNonce env addr ts applied = Inr (nl, an) \<longrightarrow> unat nl + unat mx < 2 ^ 64)
   \<and> unat (a_Nonce ai) + unat mx < 2 ^ 64"

definition lookups_ok :: "'db ms_env \<Rightarrow> bool" where
  "lookups_ok env \<longleftrightarrow> (\<forall>c lk. me_StateSearchMsg env c = Inr (Some lk) \<longrightarrow>
     0 \<le> lk_Height lk \<and> lk_Height lk < 2 ^ 63 \<and> CidUndef \<notin> set (lk_TipSet lk))"

inductive messager_step :: "'db repo \<Rightarrow> codec \<Rightarrow> ('db \<Rightarrow> message list) \<Rightarrow> ('db \<Rightarrow> address_info list) \<Rightarrow> 'db \<Rightarrow> 'db \<Rightarrow> bool"
  for R C msgs addrs where
  push: "me_repo env = R \<Longrightarrow> me_newID env \<notin> a_ID ` set (addrs db) \<Longrightarrow> PushMessageWithId env account i c meta db = (r, db') \<Longrightarrow> messager_step R C msgs addrs db db'"
| select: "se_repo env = R \<Longrightarrow> ai \<in> set (live (addrs db)) \<Longrightarrow> a_Addr ai = addr \<Longrightarrow>
    nonces_clear env addr applied ts mx (msgs db) ai \<Longrightarrow>
    run_selection env addr applied (Some ai) ts mx sp (db, cache) = (r', (db', cache')) \<Longrightarrow> messager_step R C msgs addrs db db'"
| refresh: "re_repo renv = R \<Longrightarrow> re_codec renv = C \<Longrightarrow> node_ok renv \<Longrightarrow> (\<And>l. set (re_order renv l) = set l) \<Longrightarrow>
    doRefreshMessageState renv h (db, tc) = (ru, (db', tc')) \<Longrightarrow> messager_step R C msgs addrs db db'"
| clear: "me_repo env' = R \<Longrightarrow> clearUnFillMessage env' addr db = (ri, db') \<Longrightarrow> messager_step R C msgs addrs db db'"
| recover: "me_repo env' = R \<Longrightarrow> RecoverFailedMsg env' addr db = (rl, db') \<Longrightarrow> messager_step R C msgs addrs db db'"
| mark_bad: "me_repo env' = R \<Longrightarrow> MarkBadMessage env' i db = (ru, db') \<Longrightarrow> messager_step R C msgs addrs db db'"
| replace: "me_repo env' = R \<Longrightarrow> ReplaceMessage env' p (db, ch) = (rc, (db', ch')) \<Longrightarrow> messager_step R C msgs addrs db db'"
| resync_all: "me_repo env' = R \<Longrightarrow> me_codec env' = C \<Longrightarrow> lookups_ok env' \<Longrightarrow> UpdateAllFilledMessage env' db = (ri, db') \<Longrightarrow>
    messager_step R C msgs addrs db db'"
| resync_one: "me_repo env' = R \<Longrightarrow> me_codec env' = C \<Longrightarrow> lookups_ok env' \<Longrightarrow> UpdateFilledMessageByID env' i db = (rs, db') \<Longrightarrow>
    messager_step R C msgs addrs db db'"
| forbid: "ForbiddenAddress R addr db = (ru, db') \<Longrightarrow> messager_step R C msgs addrs db db'"
| node_push: "pe_repo penv = R \<Longrightarrow> run_push penv client b db = (ru, db') \<Longrightarrow> messager_step R C msgs addrs db db'"
| activate: "ActiveAddress R addr db = (ru, db') \<Longrightarrow> messager_step R C msgs addrs db db'"

definition messager_inv :: "message list \<Rightarrow> address_info list \<Rightarrow> bool" where
  "messager_inv ms as \<longleftrightarrow> nonce_inv ms as \<and> assigned_live ms as"

section \<open>Every step keeps the invariant\<close>

lemma refreshed_keeps_nonce: "refreshed cidOf rs as m m' \<Longrightarrow> keeps_nonce m m'"
  by (auto simp: refreshed_def same_message_def chain_info_def keeps_nonce_def assigned_def)

lemma restated_keeps_nonce: "restated FailedMsg is m m' \<Longrightarrow> keeps_nonce m m'"
  by (auto simp: restated_def keeps_nonce_def assigned_def split: if_splits)

lemma error_noted_keeps_nonce: "error_noted cids txt m m' \<Longrightarrow> keeps_nonce m m'"
  by (elim error_noted_cases) (simp_all add: keeps_nonce_def assigned_def)

lemma replaced_keeps_nonce: "replaced_by i m x y \<Longrightarrow> keeps_nonce x y"
  by (auto simp: replaced_by_def repriced_def keeps_nonce_def assigned_def split: if_splits)

lemma messager_inv_rel:
  assumes "messager_inv ms as" "list_all2 keeps_nonce ms ms'" "distinct (map m_ID ms')"
  shows "messager_inv ms' as"
  using assms nonce_inv_rel assigned_live_rel [OF _ _ subset_refl] unfolding messager_inv_def by blast

text \<open>An unassigned message more, and a record more for an address without one.\<close>

lemma nonce_inv_more:
  assumes inv: "nonce_inv ms as" and al: "assigned_live ms as" and new: "\<not> assigned m"
    and addrs: "\<And>x. x \<in> set (live as') \<Longrightarrow> x \<in> set (live as) \<or> a_Addr x \<notin> a_Addr ` set (live as)"
    and ms: "set ms' \<subseteq> insert m (set ms)"
  shows "nonce_inv ms' as'"
proof -
  have old: "k \<in> set ms \<and> (a \<in> set (live as))" if "a \<in> set (live as')" "k \<in> set ms'" "m_From k = a_Addr a" "assigned k" for a k
  proof -
    have k: "k \<in> set ms" using that(2,4) ms new by auto
    then have "m_From k \<in> a_Addr ` set (live as)" using al that(4) by (simp add: assigned_live_def)
    then show ?thesis using k addrs [OF that(1)] that(3) by auto
  qed
  show ?thesis
    by (rule nonce_invI) (use old nonce_inv_below [OF inv] nonce_inv_unique [OF inv] in blast)+
qed

context repo_store
begin

abbreviation good :: "'db \<Rightarrow> bool" where
  "good db \<equiv> inv db \<and> messager_inv (msgs db) (addrs db)"

lemma keeps_good: "good db \<Longrightarrow> inv db' \<Longrightarrow> addrs db' = addrs db \<Longrightarrow> list_all2 keeps_nonce (msgs db) (msgs db') \<Longrightarrow> good db'"
  using messager_inv_rel ids by metis

lemma push_good:
  assumes E: "MessageRepo (me_repo env) = M" "AddressRepo (me_repo env) = A" "Transaction (me_repo env) = tx" and good: "good db"
    and run: "pushMessage env msg db = (r, db')" and msg: "\<not> assigned msg"
    and fresh: "me_newID env \<notin> a_ID ` set (addrs db)"
  shows "good db'"
proof -
  have inv: "inv db" using good by simp
  note p = push_effect [OF E inv run]
  have ad: "x \<in> set (live (addrs db)) \<or> a_Addr x \<notin> a_Addr ` set (live (addrs db))" if "x \<in> set (live (addrs db'))" for x
    using p that by (auto simp: live_def addr_stored_as_def new_address_def dest!: set_upsert)
  have lv: "a_Addr ` set (live (addrs db)) \<subseteq> a_Addr ` set (live (addrs db'))"
  proof -
    have "set (live (addrs db)) \<subseteq> set (live (upsert a_ID a' (addrs db)))" if "addr_stored_as (new_address env frm) a'" for a' frm
    proof
      fix x assume x: "x \<in> set (live (addrs db))"
      then have "a_ID x \<noteq> a_ID a'" using fresh that by (auto simp: live_def addr_stored_as_def new_address_def image_iff)
      then show "x \<in> set (live (upsert a_ID a' (addrs db)))" using x upsert_keep [of x "addrs db" a_ID a'] by (simp add: live_def)
    qed
    note sub = this
    consider "addrs db' = addrs db" | frm a' where "addr_stored_as (new_address env frm) a'" "addrs db' = upsert a_ID a' (addrs db)"
      using p by blast
    then have "set (live (addrs db)) \<subseteq> set (live (addrs db'))" by cases (use sub in \<open>simp_all only: subset_refl\<close>)
    then show ?thesis by (rule image_mono)
  qed
  obtain m where m: "\<not> assigned m" "set (msgs db') \<subseteq> insert m (set (msgs db))"
  proof (cases r)
    case (Inl e)
    then show ?thesis using that [OF msg] p by auto
  next
    case (Inr u)
    then obtain frm m' where "stored_as (pushed frm msg) m'" "msgs db' = msgs db @ [m']" using p by auto
    then show ?thesis using msg by (intro that [of m']) (auto simp: assigned_def stored_as_def pushed_def)
  qed
  have "nonce_inv (msgs db') (addrs db')" using nonce_inv_more [OF _ _ m(1) ad m(2)] good by (simp add: messager_inv_def)
  moreover have "assigned_live (msgs db') (addrs db')"
    using good m lv unfolding messager_inv_def assigned_live_def by blast
  ultimately show ?thesis using p by (simp add: messager_inv_def)
qed

lemma set_state_good:
  assumes good: "good db" and run: "ar_UpdateState A a st db = (r, db')"
  shows "good db'"
proof (cases r)
  case (Inl e)
  then have "db' = db" using UpdateState_err run by blast
  then show ?thesis using good by simp
next
  case (Inr u)
  obtain t where e: "inv db'" "addrs db' = upd_where (\<lambda>x. a_Addr x = a \<and> a_IsDeleted x = NotDeleted) (\<lambda>x. x\<lparr>a_State := st, a_UpdatedAt := t\<rparr>) (addrs db)"
    using UpdateState [OF conjunct1 [OF good] run [unfolded Inr, simplified]] by blast
  have "\<exists>y \<in> set (live (addrs db)). a_Addr y = a_Addr x \<and> a_Nonce y \<le> a_Nonce x" if "x \<in> set (live (addrs db'))" for x
    using that unfolding e(2) by (auto simp: live_def set_upd_where)
  then have "nonce_inv (msgs db) (addrs db')" using good nonce_inv_raise unfolding messager_inv_def by blast
  moreover have "assigned_live (msgs db) (addrs db')"
    using good unfolding messager_inv_def assigned_live_def e(2) by (simp add: live_upd_where)
  ultimately show ?thesis using e(1) addr_frame(3) [OF run] by (simp add: messager_inv_def)
qed

lemma run_push_addrs:
  assumes R: "MessageRepo (pe_repo penv) = M" and run: "run_push penv client b db = (r, db')"
  shows "addrs db' = addrs db"
proof -
  have one: "addrs d' = addrs d" if "recordPushMessageError (pe_repo penv) c err d = (q, d')" for c err d q d'
    using that msg_frame(3) unfolding recordPushMessageError_def R
    by (auto simp: comp_simps tryE_def split: sum.splits prod.splits if_splits error.splits)
  have "addrs d' = addrs db" if "forC (\<lambda>msg. recordPushMessageError (pe_repo penv) (pe_Cid penv msg) err) b db = (q, d')" for err q d'
    by (rule forC_invariant [where I = "\<lambda>d. addrs d = addrs db", OF _ that]) (use one in simp_all)
  then show ?thesis using run unfolding run_push_def by (auto simp: returnC_def failC_def split: prod.splits option.splits if_splits)
qed

text \<open>Resynchronising writes rows that have an identifier, so that a nonce has been assigned already.\<close>

lemma resync_keeps:
  assumes E: "MessageRepo (me_repo env) = M" "cid_str (me_codec env) = cstr" and node: "lookups_ok env" and good: "good db"
    and run: "updateFilledMessage env msg db = (r, db')"
  shows "good db'"
proof (cases "db' = db")
  case True
  then show ?thesis using good by simp
next
  case False
  obtain c u lk q where lk: "me_StateSearchMsg env c = Inr (Some lk)"
    and upd: "mr_UpdateMessageInfoByCid M (cstr u) (Some (lk_Receipt lk)) (lk_Height lk) OnChainMsg (lk_TipSet lk) db = (q, db')"
    using run False E unfolding updateFilledMessage_def UpdateMessageInfoByCid_def
    by (auto simp: comp_simps tryE_def split: prod.splits sum.splits option.splits error.splits)
  obtain v where q: "q = Inr v" using upd False InfoByCid_err by (cases q) blast+
  have lkok: "0 \<le> lk_Height lk" "lk_Height lk < 2 ^ 63" "CidUndef \<notin> set (lk_TipSet lk)" using node lk by (auto simp: lookups_ok_def)
  obtain t where e: "inv db'" "msgs db' = upd_where (\<lambda>m. m_UnsignedCid m = Some u)
      (\<lambda>m. m\<lparr>m_Height := lk_Height lk, m_Receipt := Some (lk_Receipt lk), m_State := OnChainMsg, m_TipSetKey := lk_TipSet lk, m_UpdatedAt := t\<rparr>) (msgs db)"
    using InfoByCid [OF conjunct1 [OF good] lkok upd [unfolded q, simplified]] by blast
  have "list_all2 keeps_nonce (msgs db) (msgs db')"
    unfolding e(2) by (rule list_all2_upd_where) (auto simp: keeps_nonce_def assigned_def)
  then show ?thesis by (rule keeps_good [OF good e(1) msg_frame(4) [OF upd]])
qed

lemma resync_loop_keeps:
  assumes E: "MessageRepo (me_repo env) = M" "cid_str (me_codec env) = cstr" and node: "lookups_ok env" and good: "good db"
    and run: "update_filled_loop env ms db = (r, db')"
  shows "good db'"
  using good run
proof (induction ms arbitrary: db r db')
  case Nil
  then show ?case by (simp add: returnC_def)
next
  case (Cons m ms)
  obtain q db1 where one: "updateFilledMessage env m db = (q, db1)" by fastforce
  note g1 = resync_keeps [OF E node Cons.prems(1) one]
  obtain r2 db2 where rest: "update_filled_loop env ms db1 = (r2, db2)" by fastforce
  have "db' = db1 \<or> db' = db2" using Cons.prems(2) one rest by (auto simp: comp_simps split: prod.splits sum.splits)
  then show ?case using g1 Cons.IH [OF g1 rest] by auto
qed

lemma step_good:
  assumes R: "MessageRepo R = M" "AddressRepo R = A" "Transaction R = tx" "cid_str C = cstr"
    and step: "messager_step R C msgs addrs db db'" and good: "good db"
  shows "good db'"
  using step
proof cases
  case (push env account i c meta r)
  then obtain r' where run: "pushMessage env (new_message i c meta account) db = (r', db')"
    by (auto simp: PushMessageWithId_def comp_simps split: prod.splits sum.splits)
  show ?thesis by (rule push_good [OF _ _ _ good run]) (use push R in \<open>simp_all add: assigned_def new_message_def\<close>)
next
  case (select env ai addr applied ts mx sp cache r' cache')
  then show ?thesis
    using good R run_keeps_nonces [of env db ai addr mx ts applied sp cache r' "(db', cache')"]
      run_keeps_live [of env db ai addr applied ts mx sp cache r' "(db', cache')"]
    by (simp add: messager_inv_def nonces_clear_def)
next
  case (refresh renv h tc ru tc')
  have C: "cid_str (re_codec renv) = cstr" and RR: "MessageRepo (re_repo renv) = M" "Transaction (re_repo renv) = tx"
    using refresh R by simp_all
  show ?thesis
  proof (cases rule: doRefresh_cases [OF refresh(5)])
    case 1
    then show ?thesis using good by simp
  next
    case (2 cs as q)
    note eff = updateMessageState_effect [OF RR(1) C RR(2) refresh(4) conjunct1 [OF good] processBlock_ok [OF refresh(3) 2(2)] 2(3)]
    show ?thesis
    proof (cases q)
      case (Inl e)
      then have "db' = db" using eff by simp
      then show ?thesis using good by simp
    next
      case (Inr u)
      then show ?thesis using eff by (intro keeps_good [OF good] list_all2_mono [OF _ refreshed_keeps_nonce]) auto
    qed
  qed
next
  case (clear env' addr ri)
  then have eff: "case ri of Inl _ \<Rightarrow> db' = db | Inr n \<Rightarrow> inv db' \<and> addrs db' = addrs db \<and> (\<exists>is. list_all2 (restated FailedMsg is) (msgs db) (msgs db'))"
    using clear_effect [of env' db addr ri db'] R good by (auto split: sum.splits)
  show ?thesis
  proof (cases ri)
    case (Inl e)
    then have "db' = db" using eff by simp
    then show ?thesis using good by simp
  next
    case (Inr u)
    then obtain "is" where "inv db'" "addrs db' = addrs db" "list_all2 (restated FailedMsg is) (msgs db) (msgs db')" using eff by auto
    then show ?thesis by (intro keeps_good [OF good] list_all2_mono [OF _ restated_keeps_nonce])
  qed
next
  case (recover env' addr rl)
  with recover_keeps [of env' db addr rl db'] R good show ?thesis by (intro keeps_good [OF good]) auto
next
  case (mark_bad env' i ru)
  then have run: "mr_MarkBadMessage M i db = (ru, db')" using R by (simp add: MarkBadMessage_def)
  show ?thesis
  proof (cases ru)
    case (Inl e)
    then have "db' = db" using MarkBad_err run by blast
    then show ?thesis using good by simp
  next
    case (Inr u)
    with MarkBad [OF conjunct1 [OF good], of i db'] run obtain t where e: "inv db'"
      "msgs db' = upd_where (\<lambda>m. m_ID m = i) (\<lambda>m. m\<lparr>m_State := FailedMsg, m_UpdatedAt := t\<rparr>) (msgs db)" by auto
    have "list_all2 keeps_nonce (msgs db) (msgs db')"
      unfolding e(2) by (rule list_all2_upd_where) (auto simp: keeps_nonce_def assigned_def)
    then show ?thesis by (rule keeps_good [OF good e(1) msg_frame(5) [OF run]])
  qed
next
  case (replace env' p ch rc ch')
  have M: "MessageRepo (me_repo env') = M" using replace(1) R(1) by simp
  note eff = replace_effect [OF M conjunct1 [OF good] replace(2)]
  show ?thesis
  proof (cases "db' = db")
    case True
    then show ?thesis using good by simp
  next
    case False
    then obtain i m where "list_all2 (replaced_by i m) (msgs db) (msgs db')" using eff by auto
    then have "list_all2 keeps_nonce (msgs db) (msgs db')" by (rule list_all2_mono) (rule replaced_keeps_nonce)
    then show ?thesis using eff by (intro keeps_good [OF good]) auto
  qed
next
  case (resync_all env' ri)
  have E: "MessageRepo (me_repo env') = M" "cid_str (me_codec env') = cstr" using resync_all R by simp_all
  have "\<exists>ms r. update_filled_loop env' ms db = (r, db') \<or> db' = db"
    using resync_all(4) by (auto simp: UpdateAllFilledMessage_def comp_simps split: sum.splits)
  then show ?thesis using resync_loop_keeps [OF E resync_all(3) good] good by blast
next
  case (resync_one env' i rs)
  have E: "MessageRepo (me_repo env') = M" "cid_str (me_codec env') = cstr" using resync_one R by simp_all
  have "\<exists>m r. updateFilledMessage env' m db = (r, db') \<or> db' = db"
    using resync_one(4) by (auto simp: UpdateFilledMessageByID_def comp_simps split: sum.splits prod.splits)
  then show ?thesis using resync_keeps [OF E resync_one(3) good] good by blast
next
  case (forbid addr ru)
  then obtain r' where "ar_UpdateState A addr AddressStateForbbiden db = (r', db')"
    using R by (auto simp: ForbiddenAddress_def comp_simps split: prod.splits sum.splits)
  then show ?thesis by (rule set_state_good [OF good])
next
  case (node_push penv client b ru)
  have M: "MessageRepo (pe_repo penv) = M" using node_push(1) R(1) by simp
  note eff = run_push_notes [OF M conjunct1 [OF good] node_push(2)]
  have "list_all2 keeps_nonce (msgs db) (msgs db')"
  proof (cases "msgs db' = msgs db")
    case True
    have "list_all2 keeps_nonce (msgs db) (msgs db)" by (rule list.rel_refl) (simp add: keeps_nonce_def)
    then show ?thesis unfolding True .
  next
    case False
    then obtain err where "list_all2 (error_noted (pe_Cid penv ` set b) (error_text err)) (msgs db) (msgs db')" using eff by auto
    then show ?thesis by (rule list_all2_mono) (rule error_noted_keeps_nonce)
  qed
  then show ?thesis using eff by (intro keeps_good [OF good _ run_push_addrs [OF M node_push(2)]]) auto
next
  case (activate addr ru)
  then obtain r' where "ar_UpdateState A addr AddressStateAlive db = (r', db')"
    using R by (auto simp: ActiveAddress_def comp_simps split: prod.splits sum.splits)
  then show ?thesis by (rule set_state_good [OF good])
qed

lemma reachable_good:
  assumes R: "MessageRepo R = M" "AddressRepo R = A" "Transaction R = tx" "cid_str C = cstr"
    and steps: "(messager_step R C msgs addrs)\<^sup>*\<^sup>* db db'" and good: "good db"
  shows "good db'"
  using steps good by (induction rule: rtranclp_induct) (use step_good [OF R] in blast)+

end

section \<open>Properties\<close>


lemma sample_step:
  "messager_step (se_repo sample_env) plain_codec (sqlite_msgs plain_codec) (sqlite_addrs plain_codec) waiting_db
     (fst (snd (sample_round (waiting_db, Map.empty))))"
proof (rule messager_step.select [of sample_env _ sample_address])
  show "se_repo sample_env = se_repo sample_env" ..
  show "sample_address \<in> set (live (sqlite_addrs plain_codec waiting_db))" unfolding waiting_db_rows(2) by simp
  show "a_Addr sample_address = Addr 1 ''from''" by (simp add: sample_address_def)
  show "nonces_clear sample_env (Addr 1 ''from'') NewNonceMap sample_ts 20 (sqlite_msgs plain_codec waiting_db) sample_address"
    using waiting_db_rows(1) by (simp add: nonces_clear_def sample_nonce sample_address_def list_all_iff)
  show "sample_round (waiting_db, Map.empty) = (fst (sample_round (waiting_db, Map.empty)),
      (fst (snd (sample_round (waiting_db, Map.empty))), snd (snd (sample_round (waiting_db, Map.empty)))))"
    by (simp only: prod.collapse)
qed

lemma waiting_db_good: "messager_inv (sqlite_msgs plain_codec waiting_db) (sqlite_addrs plain_codec waiting_db)"
  using waiting_db_rows(1) unfolding messager_inv_def assigned_live_def list_all_iff by (auto intro!: nonce_invI)

lemma sample_round_row: "\<exists>m \<in> set (sqlite_msgs plain_codec (fst (snd (sample_round (waiting_db, Map.empty))))). m_State m = FillMsg"
proof (rule ccontr)
  assume "\<not> ?thesis"
  then have "filter (\<lambda>m. m_State m = FillMsg) (sqlite_msgs plain_codec (fst (snd (sample_round (waiting_db, Map.empty))))) = []"
    by (simp only: filter_empty_conv bex_simps simp_thms)
  with sample_round_fills show False by (simp only: list.size(3) zero_neq_numeral)
qed


end
