(* ===== verification/Gateway.thy ===== *)
theory Gateway
  imports Codec
begin

text \<open>
  The wallet proxy (\<open>gateway/gateway_client.go\<close>): the gateways dialled at start-up, the
  cache of the gateway that holds an address' key, the race between the gateways that fills it,
  and signing with one retry. A client is named by its URL. What the gateways answer, which of
  those that have the key answers first, and the text of an address are parameters
  (\<open>wallet_env\<close>); a signing call may answer differently the second time, so it has the
  number of the attempt as an argument.
\<close>

type_synonym wallet_client = string
type_synonym cacheKey = string

record wallet_env =
  we_str :: "address \<Rightarrow> string"
  we_WalletHas :: "wallet_client \<Rightarrow> address \<Rightarrow> string list \<Rightarrow> bool \<times> error option"
  we_WalletSign :: "nat \<Rightarrow> wallet_client \<Rightarrow> address \<Rightarrow> string list \<Rightarrow> bytes \<Rightarrow> signature result"
  we_first :: "wallet_client list \<Rightarrow> wallet_client"

record WalletProxy =
  wp_clients :: "wallet_client list"
  wp_cache :: "cacheKey \<Rightarrow> wallet_client option"

section \<open>The operations\<close>

definition newCacheKey :: "wallet_env \<Rightarrow> address \<Rightarrow> cacheKey" where
  "newCacheKey env addr = ''walletClientCache:'' @ we_str env addr"

definition putCache :: "wallet_env \<Rightarrow> address \<Rightarrow> wallet_client \<Rightarrow> WalletProxy \<Rightarrow> WalletProxy" where
  "putCache env addr client w = w\<lparr>wp_cache := (wp_cache w)(newCacheKey env addr \<mapsto> client)\<rparr>"

definition delCache :: "wallet_env \<Rightarrow> address \<Rightarrow> WalletProxy \<Rightarrow> bool \<times> WalletProxy" where
  "delCache env addr w =
     (let key = newCacheKey env addr
      in if wp_cache w key \<noteq> None then (True, w\<lparr>wp_cache := (wp_cache w)(key := None)\<rparr>) else (False, w))"

definition getCachedClient :: "wallet_env \<Rightarrow> address \<Rightarrow> WalletProxy \<Rightarrow> wallet_client option" where
  "getCachedClient env addr w = wp_cache w (newCacheKey env addr)"

text \<open>
  Every gateway is asked at once; a gateway's error is only logged, its \<open>has\<close> still
  counts. The first of those that have the key is taken and cached.
\<close>

definition holders :: "wallet_env \<Rightarrow> address \<Rightarrow> string list \<Rightarrow> WalletProxy \<Rightarrow> wallet_client list" where
  "holders env addr accounts w = filter (\<lambda>c. fst (we_WalletHas env c addr accounts)) (wp_clients w)"

definition fastSelectAvaGatewayClient ::
  "wallet_env \<Rightarrow> address \<Rightarrow> string list \<Rightarrow> (WalletProxy, wallet_client) comp" where
  "fastSelectAvaGatewayClient env addr accounts w =
     (if holders env addr accounts w = []
      then (Inl (Err (''can't find a wallet, address: '' @ we_str env addr)), w)
      else let c = we_first env (holders env addr accounts w) in (Inr c, putCache env addr c w))"

definition proxy_WalletHas :: "wallet_env \<Rightarrow> address \<Rightarrow> string list \<Rightarrow> (WalletProxy, bool) comp" where
  "proxy_WalletHas env addr accounts w =
     (case getCachedClient env addr w of
        Some c \<Rightarrow> (Inr True, w)
      | None \<Rightarrow> bindC (fastSelectAvaGatewayClient env addr accounts) (\<lambda>c. returnC True) w)"

definition proxy_WalletSign :: "wallet_env \<Rightarrow> address \<Rightarrow> string list \<Rightarrow> bytes \<Rightarrow> (WalletProxy, signature) comp" where
  "proxy_WalletSign env addr accounts toSign w =
     (case getCachedClient env addr w of
        None \<Rightarrow>
          bindC (fastSelectAvaGatewayClient env addr accounts) (\<lambda>c.
            liftC (we_WalletSign env 0 c addr accounts toSign)) w
      | Some c \<Rightarrow>
          (case we_WalletSign env 0 c addr accounts toSign of
             Inr s \<Rightarrow> (Inr s, w)
           | Inl err \<Rightarrow>
               bindC (fastSelectAvaGatewayClient env addr accounts) (\<lambda>c'.
                 liftC (we_WalletSign env 1 c' addr accounts toSign)) (snd (delCache env addr w))))"

text \<open>\<open>NewWalletClient\<close>: all configured gateways must be dialled, and there must be one.\<close>

fun dial_gateways :: "(string \<Rightarrow> unit result) \<Rightarrow> string list \<Rightarrow> wallet_client list \<Rightarrow> wallet_client list result" where
  "dial_gateways dial [] clients = Inr clients"
| "dial_gateways dial (url # urls) clients =
     bindE (mapErrE (Wrap (''create geteway client with url:'' @ url @ '' failed: '')) (dial url)) (\<lambda>_.
       dial_gateways dial urls (if url \<in> set clients then clients else clients @ [url]))"

definition NewWalletClient :: "(string \<Rightarrow> unit result) \<Rightarrow> string list \<Rightarrow> WalletProxy result" where
  "NewWalletClient dial urls =
     bindE (dial_gateways dial urls []) (\<lambda>clients.
       if clients = [] then Inl (Err ''can't create any gateway client, please check GatewayConfig'')
       else Inr \<lparr>wp_clients = clients, wp_cache = (\<lambda>_. None)\<rparr>)"

section \<open>The contract of the proxy\<close>

text \<open>
  What the race promises: it picks among the clients that have the key, and the texts of two
  addresses differ. Inside, the lemmas the properties rest on.
\<close>

definition proxy_ok :: "WalletProxy \<Rightarrow> bool" where
  "proxy_ok w \<longleftrightarrow> (\<forall>k c. wp_cache w k = Some c \<longrightarrow> c \<in> set (wp_clients w))"

locale wallet_gateways =
  fixes env :: wallet_env
  assumes first: "l \<noteq> [] \<Longrightarrow> we_first env l \<in> set l"
    and str_inj: "we_str env a = we_str env b \<Longrightarrow> a = b"
begin

lemma key_inj [simp]: "newCacheKey env a = newCacheKey env b \<longleftrightarrow> a = b"
  using str_inj by (auto simp: newCacheKey_def)

lemma select_spec:
  assumes "fastSelectAvaGatewayClient env addr accounts w = (r, w')" "proxy_ok w"
  shows "proxy_ok w' \<and> wp_clients w' = wp_clients w
    \<and> (\<forall>b. b \<noteq> addr \<longrightarrow> getCachedClient env b w' = getCachedClient env b w)
    \<and> (case r of Inr c \<Rightarrow> c \<in> set (holders env addr accounts w) \<and> getCachedClient env addr w' = Some c
        | Inl _ \<Rightarrow> holders env addr accounts w = [] \<and> w' = w)"
  using assms first [of "holders env addr accounts w"]
  by (auto simp: fastSelectAvaGatewayClient_def Let_def putCache_def getCachedClient_def proxy_ok_def holders_def split: if_splits)

lemma delCache_spec:
  "proxy_ok w \<Longrightarrow> proxy_ok (snd (delCache env addr w))"
  "wp_clients (snd (delCache env addr w)) = wp_clients w"
  "getCachedClient env b (snd (delCache env addr w)) = (if b = addr then None else getCachedClient env b w)"
  by (auto simp: delCache_def Let_def proxy_ok_def getCachedClient_def)

lemma holders_del [simp]: "holders env addr accounts (snd (delCache env a w)) = holders env addr accounts w"
  by (simp add: holders_def delCache_spec)

lemma sign_spec:
  assumes run: "proxy_WalletSign env addr accounts toSign w = (r, w')" and ok: "proxy_ok w"
  shows "proxy_ok w' \<and> wp_clients w' = wp_clients w
    \<and> (\<forall>b. b \<noteq> addr \<longrightarrow> getCachedClient env b w' = getCachedClient env b w)
    \<and> (\<forall>s. r = Inr s \<longrightarrow> (\<exists>c n. getCachedClient env addr w' = Some c \<and> c \<in> set (wp_clients w)
         \<and> (getCachedClient env addr w = Some c \<or> c \<in> set (holders env addr accounts w))
         \<and> we_WalletSign env n c addr accounts toSign = Inr s))"
proof (cases "getCachedClient env addr w")
  case None
  then obtain q w1 where sel: "fastSelectAvaGatewayClient env addr accounts w = (q, w1)"
    "(r, w') = (case q of Inl e \<Rightarrow> (Inl e, w1) | Inr c \<Rightarrow> (we_WalletSign env 0 c addr accounts toSign, w1))"
    using run by (cases "fastSelectAvaGatewayClient env addr accounts w")
      (auto simp: proxy_WalletSign_def bindC_def liftC_def split: sum.splits)
  show ?thesis using select_spec [OF sel(1) ok] sel(2) by (cases q) (auto simp: holders_def)
next
  case (Some c)
  have mem: "c \<in> set (wp_clients w)" using ok Some by (auto simp: proxy_ok_def getCachedClient_def)
  show ?thesis
  proof (cases "we_WalletSign env 0 c addr accounts toSign")
    case (Inr s)
    then show ?thesis using run Some ok mem by (auto simp: proxy_WalletSign_def)
  next
    case (Inl err)
    then obtain q w1 where sel: "fastSelectAvaGatewayClient env addr accounts (snd (delCache env addr w)) = (q, w1)"
      "(r, w') = (case q of Inl e \<Rightarrow> (Inl e, w1) | Inr c \<Rightarrow> (we_WalletSign env 1 c addr accounts toSign, w1))"
      using run Some by (cases "fastSelectAvaGatewayClient env addr accounts (snd (delCache env addr w))")
        (auto simp: proxy_WalletSign_def bindC_def liftC_def split: sum.splits)
    show ?thesis
      using select_spec [OF sel(1) delCache_spec(1) [OF ok]] sel(2) by (cases q) (auto simp: holders_def delCache_spec)
  qed
qed

lemma retry_spec:
  assumes "getCachedClient env addr w = Some c" "we_WalletSign env 0 c addr accounts toSign = Inl err"
    "holders env addr accounts w \<noteq> []"
  shows "\<exists>c' w'. c' \<in> set (holders env addr accounts w) \<and> getCachedClient env addr w' = Some c'
    \<and> proxy_WalletSign env addr accounts toSign w = (we_WalletSign env 1 c' addr accounts toSign, w')"
  using assms first [of "holders env addr accounts w"]
  by (auto simp: proxy_WalletSign_def fastSelectAvaGatewayClient_def Let_def bindC_def liftC_def putCache_def getCachedClient_def)

end

text \<open>Gateways that answer in the order they are configured in, with the addresses' own texts.\<close>

definition ordered_env :: "codec \<Rightarrow> (wallet_client \<Rightarrow> address \<Rightarrow> string list \<Rightarrow> bool \<times> error option) \<Rightarrow>
    (nat \<Rightarrow> wallet_client \<Rightarrow> address \<Rightarrow> string list \<Rightarrow> bytes \<Rightarrow> signature result) \<Rightarrow> wallet_env" where
  "ordered_env C has sign = \<lparr>we_str = ad_str C, we_WalletHas = has, we_WalletSign = sign, we_first = hd\<rparr>"

sublocale text_codec \<subseteq> gateways: wallet_gateways "ordered_env C has sign" for has sign
  by unfold_locales (simp_all add: ordered_env_def)

section \<open>The properties\<close>

text \<open>Two gateways, of which only the second has the key; the first is still cached and fails.\<close>

definition sample_gateways :: wallet_env where
  "sample_gateways = ordered_env plain_codec (\<lambda>c a l. (c = ''g2'', None))
     (\<lambda>n c a l d. if c = ''g2'' then Inr ''sig'' else Inl (Err ''key not found''))"

definition stale_proxy :: WalletProxy where
  "stale_proxy = putCache sample_gateways (Addr 1 ''from'') ''g1'' \<lparr>wp_clients = [''g1'', ''g2''], wp_cache = (\<lambda>_. None)\<rparr>"

lemma stale_proxy_ok: "proxy_ok stale_proxy"
  by (simp add: stale_proxy_def putCache_def proxy_ok_def)

lemma sample_gateways_ok: "wallet_gateways sample_gateways"
  unfolding sample_gateways_def by (rule plain.gateways.wallet_gateways_axioms)

text \<open>
  C17: signing keeps the proxy's cache within the configured gateways and leaves the entries of
  other addresses alone; a signature it returns was made by a configured gateway that was cached
  for the address or says it has the key, and that gateway is the one cached afterwards.
\<close>

theorem sign_by_cached_or_holder:
  assumes "wallet_gateways env" "proxy_ok w" "proxy_WalletSign env addr accounts toSign w = (r, w')"
  shows "proxy_ok w' \<and> wp_clients w' = wp_clients w
    \<and> (\<forall>b. b \<noteq> addr \<longrightarrow> getCachedClient env b w' = getCachedClient env b w)
    \<and> (\<forall>s. r = Inr s \<longrightarrow> (\<exists>c n. getCachedClient env addr w' = Some c \<and> c \<in> set (wp_clients w)
         \<and> (getCachedClient env addr w = Some c \<or> c \<in> set (holders env addr accounts w))
         \<and> we_WalletSign env n c addr accounts toSign = Inr s))"
  by (rule wallet_gateways.sign_spec [OF assms(1,3,2)])

theorem sign_by_cached_or_holder_witness:
  "\<exists>w'. proxy_WalletSign sample_gateways (Addr 1 ''from'') [] None stale_proxy = (Inr ''sig'', w') \<and> proxy_ok w'"
proof -
  obtain r w' where run: "proxy_WalletSign sample_gateways (Addr 1 ''from'') [] None stale_proxy = (r, w')" by (metis surj_pair)
  have "fst (proxy_WalletSign sample_gateways (Addr 1 ''from'') [] None stale_proxy) = Inr ''sig''" by code_simp
  with sign_by_cached_or_holder [OF sample_gateways_ok stale_proxy_ok run] run show ?thesis by simp
qed

text \<open>
  C18: a cached gateway that cannot sign is not the end: when any gateway has the key, one of
  those signs in the second attempt, whose outcome is the outcome, and it replaces the cache entry.
\<close>

theorem sign_retries_with_holder:
  assumes "wallet_gateways env" "getCachedClient env addr w = Some c" "we_WalletSign env 0 c addr accounts toSign = Inl err"
    and "holders env addr accounts w \<noteq> []"
  shows "\<exists>c' w'. c' \<in> set (holders env addr accounts w) \<and> getCachedClient env addr w' = Some c'
    \<and> proxy_WalletSign env addr accounts toSign w = (we_WalletSign env 1 c' addr accounts toSign, w')"
  by (rule wallet_gateways.retry_spec [OF assms])

theorem sign_retries_with_holder_witness:
  "\<exists>w'. proxy_WalletSign sample_gateways (Addr 1 ''from'') [] None stale_proxy = (Inr ''sig'', w')
     \<and> getCachedClient sample_gateways (Addr 1 ''from'') w' = Some ''g2''"
proof -
  have h: "getCachedClient sample_gateways (Addr 1 ''from'') stale_proxy = Some ''g1''"
    "we_WalletSign sample_gateways 0 ''g1'' (Addr 1 ''from'') [] None = Inl (Err ''key not found'')"
    "holders sample_gateways (Addr 1 ''from'') [] stale_proxy = [''g2'']"
    "we_WalletSign sample_gateways 1 ''g2'' (Addr 1 ''from'') [] None = Inr ''sig''" by code_simp+
  from sign_retries_with_holder [OF sample_gateways_ok h(1,2)] h(3,4) show ?thesis by auto
qed

end
