(* ===== verification/Works.thy ===== *)
theory Works
  imports Selector
begin

text \<open>
  The selection manager (\<open>service/message_selector.go\<close>): the works it keeps, one per active
  address, the goroutines that \<open>SelectMessage\<close> starts for them, and the control channel of
  capacity one that lets a work select once at a time. Works are cells of a heap, because a
  goroutine holds on to the work it was started for after the manager has dropped it.
\<close>

section \<open>The state\<close>

text \<open>
  \<open>w_done\<close> is the cancelled context, \<open>w_token\<close> whether the control channel holds its one
  element, \<open>w_closed\<close> whether it is closed.
\<close>

record work =
  w_addr :: address
  w_done :: bool
  w_token :: bool
  w_closed :: bool
  w_actorCache :: actor_cache

definition newWork :: "address \<Rightarrow> work" where
  "newWork addr = \<lparr>w_addr = addr, w_done = False, w_token = False, w_closed = False, w_actorCache = (\<lambda>_. None)\<rparr>"

text \<open>
  A goroutine of \<open>startSelectMessage\<close>: before its check of the context, between that and
  its send on the control channel, and selecting.
\<close>

datatype phase = Spawned | Checked | Running

record task =
  tk_work :: nat
  tk_appliedNonce :: nonce_map
  tk_addrInfo :: "address_info option"
  tk_ts :: tipset
  tk_max :: u64
  tk_sharedParams :: shared_spec
  tk_phase :: phase

record MsgSelectMgr =
  wm_heap :: "work list"
  wm_works :: "address \<Rightarrow> nat option"
  wm_tasks :: "task list"
  wm_receiver :: "signed_msg list list"
  wm_crashed :: bool

definition newMgr :: MsgSelectMgr where
  "newMgr = \<lparr>wm_heap = [], wm_works = (\<lambda>_. None), wm_tasks = [], wm_receiver = [], wm_crashed = False\<rparr>"

section \<open>Updating the works\<close>

definition finish :: "work \<Rightarrow> work" where
  "finish w = w\<lparr>w_token := False\<rparr>"

definition close_work :: "work \<Rightarrow> work" where
  "close_work w = w\<lparr>w_done := True, w_closed := True\<rparr>"

definition add_work :: "(address \<Rightarrow> nat option) \<Rightarrow> address \<Rightarrow> work list \<times> (address \<Rightarrow> nat option) \<Rightarrow> work list \<times> (address \<Rightarrow> nat option)" where
  "add_work works addr = (\<lambda>(heap, ws). case works addr of
      None \<Rightarrow> (heap @ [newWork addr], ws(addr \<mapsto> length heap))
    | Some w \<Rightarrow> (heap, ws(addr \<mapsto> w)))"

text \<open>
  The works left over: one whose control channel takes the manager's token is closed and
  dropped, one that is busy stays. \<open>addrs\<close> are the keys of the map of active addresses.
\<close>

definition tryUpdateWorks :: "address list \<Rightarrow> MsgSelectMgr \<Rightarrow> MsgSelectMgr" where
  "tryUpdateWorks addrs m =
     (let works = wm_works m;
          (heap, ws) = fold (add_work works) addrs (wm_heap m, \<lambda>_. None);
          idle = (\<lambda>i w. works (w_addr w) = Some i \<and> ws (w_addr w) = None \<and> \<not> w_token w)
      in m\<lparr>wm_heap := map (\<lambda>i. if idle i (heap ! i) then close_work ((heap ! i)\<lparr>w_token := True\<rparr>) else heap ! i) [0..<length heap],
           wm_works := (\<lambda>a. case ws a of Some i \<Rightarrow> Some i
             | None \<Rightarrow> (case works a of Some i \<Rightarrow> if w_token (heap ! i) then Some i else None | None \<Rightarrow> None))\<rparr>)"

definition live_works :: "MsgSelectMgr \<Rightarrow> nat list" where
  "live_works m = filter (\<lambda>i. wm_works m (w_addr (wm_heap m ! i)) = Some i) [0..<length (wm_heap m)]"

text \<open>An address without an entry in a Go map reads as nil, a number as zero.\<close>

definition spawn :: "nonce_map \<Rightarrow> (address \<Rightarrow> address_info option) \<Rightarrow> tipset \<Rightarrow> (address \<Rightarrow> u64 option) \<Rightarrow> shared_spec \<Rightarrow>
    MsgSelectMgr \<Rightarrow> nat \<Rightarrow> task" where
  "spawn appliedNonce addrInfos ts addrSelMsgNum sharedParams m i =
     (let a = w_addr (wm_heap m ! i)
      in \<lparr>tk_work = i, tk_appliedNonce = appliedNonce, tk_addrInfo = addrInfos a, tk_ts = ts,
          tk_max = (case addrSelMsgNum a of None \<Rightarrow> 0 | Some n \<Rightarrow> n), tk_sharedParams = sharedParams, tk_phase = Spawned\<rparr>)"

definition SelectMessage :: "'db repo \<Rightarrow> (tipset_key \<Rightarrow> chain_msg list result) \<Rightarrow> tipset \<Rightarrow> 'db \<Rightarrow> (MsgSelectMgr, unit) comp" where
  "SelectMessage R chainGetMessagesInTipset ts db m =
     (case sps_GetSharedParams R db of Inl err \<Rightarrow> (Inl err, m) | Inr sharedParams \<Rightarrow>
     (case as_ListActiveAddress R db of Inl err \<Rightarrow> (Inl err, m) | Inr activeAddrs \<Rightarrow>
       let m' = tryUpdateWorks (remdups (map a_Addr activeAddrs)) m
       in case getNonceInTipset chainGetMessagesInTipset ts of Inl err \<Rightarrow> (Inl err, m') | Inr appliedNonce \<Rightarrow>
          (Inr (), m'\<lparr>wm_tasks := wm_tasks m' @
             map (spawn appliedNonce (addressMap activeAddrs) ts (addrSelectMsgNum activeAddrs (sp_SelMsgNum sharedParams)) sharedParams m')
               (live_works m')\<rparr>)))"

definition newMsgSelectMgr :: "'db repo \<Rightarrow> 'db \<Rightarrow> MsgSelectMgr result" where
  "newMsgSelectMgr R db = bindE (as_ListActiveAddress R db) (\<lambda>addrInfos.
     Inr (tryUpdateWorks (remdups (map a_Addr addrInfos)) newMgr))"

section \<open>The goroutines\<close>

definition end_task :: "nat \<Rightarrow> MsgSelectMgr \<Rightarrow> MsgSelectMgr" where
  "end_task k m = m\<lparr>wm_tasks := take k (wm_tasks m) @ drop (Suc k) (wm_tasks m)\<rparr>"

definition set_phase :: "nat \<Rightarrow> phase \<Rightarrow> MsgSelectMgr \<Rightarrow> MsgSelectMgr" where
  "set_phase k ph m = m\<lparr>wm_tasks := (wm_tasks m)[k := (wm_tasks m ! k)\<lparr>tk_phase := ph\<rparr>]\<rparr>"

definition on_work :: "nat \<Rightarrow> (work \<Rightarrow> work) \<Rightarrow> MsgSelectMgr \<Rightarrow> MsgSelectMgr" where
  "on_work i f m = m\<lparr>wm_heap := (wm_heap m)[i := f (wm_heap m ! i)]\<rparr>"

definition offer :: "signed_msg list \<Rightarrow> MsgSelectMgr \<Rightarrow> MsgSelectMgr" where
  "offer batch m = (if batch \<noteq> [] \<and> length (wm_receiver m) < 100 then m\<lparr>wm_receiver := wm_receiver m @ [batch]\<rparr> else m)"

text \<open>
  One move of goroutine \<open>k\<close>: the check of the context, the non-blocking send on the
  control channel (a send on a closed channel panics), and the selection, after which the
  token is taken back. A panic ends the process.
\<close>

definition startSelectMessage :: "'db sel_env \<Rightarrow> nat \<Rightarrow> 'db \<times> MsgSelectMgr \<Rightarrow> 'db \<times> MsgSelectMgr" where
  "startSelectMessage env k = (\<lambda>(db, m).
     let t = wm_tasks m ! k; i = tk_work t; w = wm_heap m ! i
     in case tk_phase t of
          Spawned \<Rightarrow> (db, if w_done w then end_task k m else set_phase k Checked m)
        | Checked \<Rightarrow> (db, if w_closed w then m\<lparr>wm_crashed := True\<rparr>
                          else if w_token w then end_task k m
                          else set_phase k Running (on_work i (\<lambda>w. w\<lparr>w_token := True\<rparr>) m))
        | Running \<Rightarrow>
            (case run_selection env (w_addr w) (tk_appliedNonce t) (tk_addrInfo t) (tk_ts t) (tk_max t) (Some (tk_sharedParams t))
                    (db, w_actorCache w) of
               (Inl (Panic p), (db', cache)) \<Rightarrow> (db', m\<lparr>wm_crashed := True\<rparr>)
             | (Inl err, (db', cache)) \<Rightarrow> (db', end_task k (on_work i (\<lambda>w. finish (w\<lparr>w_actorCache := cache\<rparr>)) m))
             | (Inr batch, (db', cache)) \<Rightarrow>
                 (db', offer batch (end_task k (on_work i (\<lambda>w. finish (w\<lparr>w_actorCache := cache\<rparr>)) m)))))"

text \<open>
  The manager and its goroutines beside the rest of the messager, which changes the database as
  it likes.
\<close>

inductive works_step :: "'db sel_env \<Rightarrow> (tipset_key \<Rightarrow> chain_msg list result) \<Rightarrow> 'db \<times> MsgSelectMgr \<Rightarrow> 'db \<times> MsgSelectMgr \<Rightarrow> bool"
  for env get where
  select: "\<not> wm_crashed m \<Longrightarrow> SelectMessage (se_repo env) get ts db m = (r, m') \<Longrightarrow> works_step env get (db, m) (db, m')"
| move: "\<not> wm_crashed m \<Longrightarrow> k < length (wm_tasks m) \<Longrightarrow> works_step env get (db, m) (startSelectMessage env k (db, m))"
| others: "\<not> wm_crashed m \<Longrightarrow> works_step env get (db, m) (db', m)"

inductive_cases works_stepE: "works_step env get s s'"

section \<open>The invariant\<close>

definition open_work :: "MsgSelectMgr \<Rightarrow> nat \<Rightarrow> bool" where
  "open_work m i \<longleftrightarrow> i < length (wm_heap m) \<and> \<not> w_closed (wm_heap m ! i)"

abbreviation running :: "MsgSelectMgr \<Rightarrow> nat \<Rightarrow> task list" where
  "running m i \<equiv> filter (\<lambda>t. tk_work t = i \<and> tk_phase t = Running) (wm_tasks m)"

definition works_ok :: "MsgSelectMgr \<Rightarrow> bool" where
  "works_ok m \<longleftrightarrow>
     (\<forall>t \<in> set (wm_tasks m). tk_work t < length (wm_heap m))
   \<and> (\<forall>a i. wm_works m a = Some i \<longrightarrow> open_work m i \<and> w_addr (wm_heap m ! i) = a)
   \<and> (\<forall>i. open_work m i \<longrightarrow> wm_works m (w_addr (wm_heap m ! i)) = Some i)
   \<and> (\<forall>i < length (wm_heap m). length (running m i) = (if w_token (wm_heap m ! i) \<and> open_work m i then 1 else 0))"

text \<open>The loop over the active addresses: what it has built for those seen so far.\<close>

definition added :: "work list \<Rightarrow> (address \<Rightarrow> nat option) \<Rightarrow> work list \<Rightarrow> (address \<Rightarrow> nat option) \<Rightarrow> bool" where
  "added heap0 works heap ws \<longleftrightarrow>
     (\<exists>ext. heap = heap0 @ ext \<and> (\<forall>w \<in> set ext. \<not> w_token w \<and> \<not> w_closed w))
   \<and> (\<forall>a i. ws a = Some i \<longrightarrow> i < length heap \<and> \<not> w_closed (heap ! i) \<and> w_addr (heap ! i) = a)
   \<and> (\<forall>i < length heap. \<not> w_closed (heap ! i) \<longrightarrow> ws (w_addr (heap ! i)) = Some i \<or> works (w_addr (heap ! i)) = Some i)
   \<and> (\<forall>a i. ws a \<noteq> None \<longrightarrow> works a = Some i \<longrightarrow> ws a = Some i)"

lemma add_work_added:
  assumes "added heap0 works heap ws" "ws a = None" "add_work works a (heap, ws) = (heap', ws')"
    and "\<And>a i. works a = Some i \<Longrightarrow> i < length heap0 \<and> \<not> w_closed (heap0 ! i) \<and> w_addr (heap0 ! i) = a"
  shows "added heap0 works heap' ws' \<and> dom ws' = insert a (dom ws)"
proof -
  obtain ext where ext: "heap = heap0 @ ext" "\<forall>w \<in> set ext. \<not> w_token w \<and> \<not> w_closed w"
    and ws: "\<And>b i. ws b = Some i \<Longrightarrow> i < length heap \<and> \<not> w_closed (heap ! i) \<and> w_addr (heap ! i) = b"
    and cover: "\<And>i. i < length heap \<Longrightarrow> \<not> w_closed (heap ! i) \<Longrightarrow> ws (w_addr (heap ! i)) = Some i \<or> works (w_addr (heap ! i)) = Some i"
    and agree: "\<And>b i. ws b \<noteq> None \<Longrightarrow> works b = Some i \<Longrightarrow> ws b = Some i"
    using assms(1) unfolding added_def by blast
  show ?thesis
proof (cases "works a")
  case None
  then have e: "heap' = heap @ [newWork a]" "ws' = ws(a \<mapsto> length heap)" using assms(3) by (auto simp: add_work_def)
  have none: "w_addr (heap ! i) \<noteq> a" if "i < length heap" "\<not> w_closed (heap ! i)" for i
    using assms(1,2) None that unfolding added_def by (metis option.distinct(1))
  have "\<exists>ext. heap' = heap0 @ ext \<and> (\<forall>w \<in> set ext. \<not> w_token w \<and> \<not> w_closed w)"
    unfolding e by (rule exI [of _ "ext @ [newWork a]"]) (use ext in \<open>auto simp: newWork_def\<close>)
  moreover have "i < length heap' \<and> \<not> w_closed (heap' ! i) \<and> w_addr (heap' ! i) = b" if "ws' b = Some i" for b i
    using that ws [of b i] unfolding e by (auto simp: nth_append newWork_def split: if_splits)
  moreover have "ws' (w_addr (heap' ! i)) = Some i \<or> works (w_addr (heap' ! i)) = Some i"
    if "i < length heap'" "\<not> w_closed (heap' ! i)" for i
    using that cover [of i] none [of i] unfolding e by (cases "i = length heap") (auto simp: nth_append newWork_def)
  moreover have "ws' b = Some i" if "ws' b \<noteq> None" "works b = Some i" for b i
    using that agree [of b i] None unfolding e by (auto split: if_splits)
  ultimately have "added heap0 works heap' ws'" unfolding added_def by blast
  then show ?thesis by (simp add: e(2))
next
  case (Some j)
  then have e: "heap' = heap" "ws' = ws(a \<mapsto> j)" using assms(3) by (auto simp: add_work_def)
  have j: "j < length heap" "\<not> w_closed (heap ! j)" "w_addr (heap ! j) = a"
    using assms(1) assms(4) [OF Some] unfolding added_def by (auto simp: nth_append)
  have "ws' b = Some i \<Longrightarrow> i < length heap' \<and> \<not> w_closed (heap' ! i) \<and> w_addr (heap' ! i) = b" for b i
    using ws [of b i] j unfolding e by (auto split: if_splits)
  moreover have "ws' (w_addr (heap' ! i)) = Some i \<or> works (w_addr (heap' ! i)) = Some i"
    if "i < length heap'" "\<not> w_closed (heap' ! i)" for i
    using that cover [of i] Some assms(2) unfolding e by (cases "w_addr (heap ! i) = a") auto
  moreover have "ws' b = Some i" if "ws' b \<noteq> None" "works b = Some i" for b i
    using that agree [of b i] Some unfolding e by (auto split: if_splits)
  ultimately have "added heap0 works heap' ws'" using ext unfolding added_def e(1) by blast
  then show ?thesis by (simp add: e(2))
qed
qed

lemma add_works_added:
  assumes works: "\<And>a i. works a = Some i \<Longrightarrow> i < length heap0 \<and> \<not> w_closed (heap0 ! i) \<and> w_addr (heap0 ! i) = a"
    and "added heap0 works heap ws" "distinct as" "dom ws \<inter> set as = {}" "fold (add_work works) as (heap, ws) = (heap', ws')"
  shows "added heap0 works heap' ws' \<and> dom ws' = dom ws \<union> set as"
  using assms(2-)
proof (induction as arbitrary: heap ws)
  case (Cons a as)
  obtain heap1 ws1 where one: "add_work works a (heap, ws) = (heap1, ws1)" by (cases "add_work works a (heap, ws)")
  have "ws a = None" using Cons.prems(3) by auto
  from add_work_added [OF Cons.prems(1) this one works] have h: "added heap0 works heap1 ws1" "dom ws1 = insert a (dom ws)" by auto
  have "added heap0 works heap' ws' \<and> dom ws' = dom ws1 \<union> set as"
    by (rule Cons.IH [OF h(1)]) (use Cons.prems h(2) one in auto)
  then show ?case using h(2) by auto
qed simp

lemma updateWorks_facts:
  assumes ok: "works_ok m" and d: "distinct addrs" and m': "m' = tryUpdateWorks addrs m"
  obtains heap ws where "added (wm_heap m) (wm_works m) heap ws" "dom ws = set addrs" "length (wm_heap m') = length heap"
    "\<And>i. i < length heap \<Longrightarrow> wm_heap m' ! i = (if wm_works m (w_addr (heap ! i)) = Some i \<and> ws (w_addr (heap ! i)) = None \<and> \<not> w_token (heap ! i)
        then close_work ((heap ! i)\<lparr>w_token := True\<rparr>) else heap ! i)"
    "\<And>a. wm_works m' a = (case ws a of Some i \<Rightarrow> Some i
        | None \<Rightarrow> (case wm_works m a of Some i \<Rightarrow> if w_token (heap ! i) then Some i else None | None \<Rightarrow> None))"
    "wm_tasks m' = wm_tasks m" "wm_crashed m' = wm_crashed m"
proof -
  obtain heap ws where f: "fold (add_work (wm_works m)) addrs (wm_heap m, \<lambda>_. None) = (heap, ws)"
    by (cases "fold (add_work (wm_works m)) addrs (wm_heap m, \<lambda>_. None)")
  have w: "i < length (wm_heap m) \<and> \<not> w_closed (wm_heap m ! i) \<and> w_addr (wm_heap m ! i) = a" if "wm_works m a = Some i" for a i
    using ok that unfolding works_ok_def open_work_def by blast
  have "added (wm_heap m) (wm_works m) (wm_heap m) (\<lambda>_. None)"
    using ok unfolding works_ok_def added_def open_work_def by auto
  from add_works_added [OF w this d _ f] have a: "added (wm_heap m) (wm_works m) heap ws" "dom ws = set addrs" by auto
  show ?thesis by (rule that [OF a]) (simp_all add: m' tryUpdateWorks_def f Let_def)
qed

lemma updateWorks_ok:
  assumes ok: "works_ok m" and d: "distinct addrs"
  shows "works_ok (tryUpdateWorks addrs m)"
proof -
  define m' where "m' = tryUpdateWorks addrs m"
  obtain heap ws where ad: "added (wm_heap m) (wm_works m) heap ws" and "dom ws = set addrs"
    and len: "length (wm_heap m') = length heap"
    and nth: "\<And>i. i < length heap \<Longrightarrow> wm_heap m' ! i = (if wm_works m (w_addr (heap ! i)) = Some i \<and> ws (w_addr (heap ! i)) = None \<and> \<not> w_token (heap ! i)
        then close_work ((heap ! i)\<lparr>w_token := True\<rparr>) else heap ! i)"
    and works': "\<And>a. wm_works m' a = (case ws a of Some i \<Rightarrow> Some i
        | None \<Rightarrow> (case wm_works m a of Some i \<Rightarrow> if w_token (heap ! i) then Some i else None | None \<Rightarrow> None))"
    and tasks: "wm_tasks m' = wm_tasks m" and "wm_crashed m' = wm_crashed m"
    by (rule updateWorks_facts [OF ok d m'_def]) (rule that)
  obtain ext where ext: "heap = wm_heap m @ ext" "\<forall>w \<in> set ext. \<not> w_token w \<and> \<not> w_closed w"
    and ws: "\<And>b i. ws b = Some i \<Longrightarrow> i < length heap \<and> \<not> w_closed (heap ! i) \<and> w_addr (heap ! i) = b"
    and cover: "\<And>i. i < length heap \<Longrightarrow> \<not> w_closed (heap ! i) \<Longrightarrow> ws (w_addr (heap ! i)) = Some i \<or> wm_works m (w_addr (heap ! i)) = Some i"
    and agree: "\<And>b i. ws b \<noteq> None \<Longrightarrow> wm_works m b = Some i \<Longrightarrow> ws b = Some i"
    using ad unfolding added_def by blast
  have len0: "length heap = length (wm_heap m) + length ext" using ext(1) by simp
  have tk: "tk_work t < length (wm_heap m)" if "t \<in> set (wm_tasks m)" for t using ok that unfolding works_ok_def by blast
  have old: "i < length (wm_heap m) \<and> heap ! i = wm_heap m ! i \<and> \<not> w_closed (heap ! i) \<and> w_addr (heap ! i) = a" if "wm_works m a = Some i" for a i
    using ok that unfolding works_ok_def open_work_def ext(1) by (simp add: nth_append)
  have new: "\<not> w_token (heap ! i)" if "i < length heap" "\<not> i < length (wm_heap m)" for i
    using that ext(2) unfolding ext(1) by (simp add: nth_append)
  have addr: "w_addr (wm_heap m' ! i) = w_addr (heap ! i)" if "i < length heap" for i
    using nth [OF that] by (simp add: close_work_def)
  have opened: "open_work m' i \<longleftrightarrow> i < length heap \<and> \<not> w_closed (heap ! i) \<and> (wm_works m (w_addr (heap ! i)) = Some i \<longrightarrow> ws (w_addr (heap ! i)) = None \<longrightarrow> w_token (heap ! i))" for i
    using nth [of i] len by (auto simp: open_work_def close_work_def split: if_splits)
  have "\<forall>t \<in> set (wm_tasks m'). tk_work t < length (wm_heap m')" using tk tasks len ext(1) by fastforce
  moreover have "open_work m' i \<and> w_addr (wm_heap m' ! i) = a" if e: "wm_works m' a = Some i" for a i
  proof (cases "ws a")
    case None
    then have w: "wm_works m a = Some i" "w_token (heap ! i)" using e works' by (auto split: option.splits if_splits)
    from old [OF w(1)] len0 have "i < length heap" "\<not> w_closed (heap ! i)" "w_addr (heap ! i) = a" by linarith+
    with w(2) show ?thesis using addr [of i] by (simp add: opened)
  next
    case (Some j)
    then have "ws a = Some i" using e works' by simp
    with ws [of a i] show ?thesis using addr [of i] opened by auto
  qed
  moreover have "wm_works m' (w_addr (wm_heap m' ! i)) = Some i" if o: "open_work m' i" for i
  proof -
    have i: "i < length heap" "\<not> w_closed (heap ! i)" using o opened by auto
    show ?thesis
    proof (cases "ws (w_addr (heap ! i))")
      case None
      with cover [OF i] o opened show ?thesis by (simp add: addr [OF i(1)] works')
    next
      case (Some j)
      with cover [OF i] agree [of "w_addr (heap ! i)" i] show ?thesis by (auto simp: addr [OF i(1)] works')
    qed
  qed
  moreover have "length (running m' i) = (if w_token (wm_heap m' ! i) \<and> open_work m' i then 1 else 0)" if i: "i < length (wm_heap m')" for i
  proof (cases "i < length (wm_heap m)")
    case True
    have e: "heap ! i = wm_heap m ! i" "i < length heap" using True ext(1) by (simp_all add: nth_append)
    have "length (running m i) = (if w_token (wm_heap m ! i) \<and> open_work m i then 1 else 0)" using ok True unfolding works_ok_def by blast
    moreover have "w_token (wm_heap m' ! i) \<and> open_work m' i \<longleftrightarrow> w_token (wm_heap m ! i) \<and> open_work m i"
      using True i by (auto simp: nth [OF e(2)] opened e open_work_def close_work_def)
    ultimately show ?thesis unfolding tasks by presburger
  next
    case False
    then have "running m i = []" using tk by (auto simp: filter_empty_conv)
    moreover have "\<not> (w_token (wm_heap m' ! i) \<and> open_work m' i)"
      using new [of i] False i len opened nth [of i] by (auto simp: close_work_def open_work_def)
    ultimately show ?thesis unfolding tasks by simp
  qed
  ultimately show ?thesis unfolding works_ok_def m'_def [symmetric] by blast
qed

lemma spawned_ok:
  assumes "works_ok m" "\<forall>t \<in> set ts. tk_phase t = Spawned \<and> tk_work t < length (wm_heap m)"
  shows "works_ok (m\<lparr>wm_tasks := wm_tasks m @ ts\<rparr>)"
proof -
  have "filter (\<lambda>t. tk_work t = i \<and> tk_phase t = Running) ts = []" for i using assms(2) by (auto simp: filter_empty_conv)
  then show ?thesis using assms unfolding works_ok_def open_work_def by auto
qed

lemma SelectMessage_ok:
  assumes ok: "works_ok m" and run: "SelectMessage R get ts db m = (r, m')"
  shows "works_ok m'"
proof -
  have upd: "works_ok (tryUpdateWorks (remdups as) m)" for as by (rule updateWorks_ok [OF ok]) simp
  have more: "works_ok (n\<lparr>wm_tasks := wm_tasks n @ map (spawn ap ai ts se sp n) (live_works n)\<rparr>)" if "works_ok n" for n ap ai se sp
    by (rule spawned_ok [OF that]) (auto simp: spawn_def Let_def live_works_def)
  show ?thesis using run ok unfolding SelectMessage_def Let_def
    by (cases "sps_GetSharedParams R db"; cases "as_ListActiveAddress R db"; cases "getNonceInTipset get ts")
      (auto intro: upd more)
qed

text \<open>
  The three moves that touch a task: it ends, it goes on to its send, it takes the token; and
  the move that gives the token back.
\<close>

lemma filter_nth:
  assumes "k < length l"
  shows "length (filter P l) = length (filter P (take k l)) + (if P (l ! k) then 1 else 0) + length (filter P (drop (Suc k) l))"
  using arg_cong [OF id_take_nth_drop [OF assms], of "\<lambda>l. length (filter P l)"] by simp

lemma filter_drop_nth:
  "k < length l \<Longrightarrow> length (filter P (take k l @ drop (Suc k) l)) = length (filter P l) - (if P (l ! k) then 1 else 0)"
  by (simp add: filter_nth)

lemma filter_update_nth:
  "k < length l \<Longrightarrow> length (filter P (l[k := x])) = length (filter P l) - (if P (l ! k) then 1 else 0) + (if P x then 1 else 0)"
  by (simp add: filter_nth [of k l] upd_conv_take_nth_drop)

lemma end_idle_ok:
  assumes "works_ok m" "k < length (wm_tasks m)" "tk_phase (wm_tasks m ! k) \<noteq> Running"
  shows "works_ok (end_task k m)"
  using assms filter_drop_nth [OF assms(2)] set_take_subset [of k "wm_tasks m"] set_drop_subset [of "Suc k" "wm_tasks m"]
  unfolding works_ok_def open_work_def end_task_def by auto

lemma check_ok:
  assumes "works_ok m" "k < length (wm_tasks m)" "tk_phase (wm_tasks m ! k) = Spawned"
  shows "works_ok (set_phase k Checked m)"
proof -
  have "tk_work (wm_tasks m ! k) < length (wm_heap m)" using assms(1,2) unfolding works_ok_def by auto
  then have "\<forall>t \<in> set (wm_tasks (set_phase k Checked m)). tk_work t < length (wm_heap m)"
    using assms(1) set_update_subset_insert [of "wm_tasks m" k] unfolding works_ok_def set_phase_def by fastforce
  then show ?thesis
    using assms filter_update_nth [OF assms(2)] unfolding works_ok_def open_work_def set_phase_def by auto
qed

lemma take_ok:
  assumes ok: "works_ok m" and k: "k < length (wm_tasks m)" "tk_phase (wm_tasks m ! k) = Checked" and i: "i = tk_work (wm_tasks m ! k)"
    and free: "\<not> w_closed (wm_heap m ! i)" "\<not> w_token (wm_heap m ! i)"
  shows "works_ok (set_phase k Running (on_work i (\<lambda>w. w\<lparr>w_token := True\<rparr>) m))"
proof -
  let ?m = "set_phase k Running (on_work i (\<lambda>w. w\<lparr>w_token := True\<rparr>) m)"
  have len: "i < length (wm_heap m)" using ok k(1) unfolding works_ok_def i by auto
  have "\<forall>t \<in> set (wm_tasks ?m). tk_work t < length (wm_heap ?m)"
    using ok len i set_update_subset_insert [of "wm_tasks m" k] unfolding works_ok_def set_phase_def on_work_def by fastforce
  moreover have o: "open_work ?m j \<longleftrightarrow> open_work m j" "w_addr (wm_heap ?m ! j) = w_addr (wm_heap m ! j)" for j
    using len by (auto simp: open_work_def set_phase_def on_work_def nth_list_update)
  moreover have "length (running ?m j) = (if w_token (wm_heap ?m ! j) \<and> open_work ?m j then 1 else 0)" if "j < length (wm_heap ?m)" for j
    using ok len that k free i unfolding o works_ok_def
    by (auto simp: set_phase_def on_work_def nth_list_update filter_update_nth [OF k(1)] open_work_def)
  ultimately show ?thesis using ok unfolding works_ok_def by (simp add: set_phase_def on_work_def)
qed

lemma finish_ok:
  assumes ok: "works_ok m" and k: "k < length (wm_tasks m)" "tk_phase (wm_tasks m ! k) = Running" and i: "i = tk_work (wm_tasks m ! k)"
  shows "works_ok (end_task k (on_work i (\<lambda>w. finish (w\<lparr>w_actorCache := c\<rparr>)) m))"
proof -
  let ?m = "end_task k (on_work i (\<lambda>w. finish (w\<lparr>w_actorCache := c\<rparr>)) m)"
  have len: "i < length (wm_heap m)" using ok k(1) unfolding works_ok_def i by auto
  have "\<forall>t \<in> set (wm_tasks ?m). tk_work t < length (wm_heap ?m)"
    using ok set_take_subset [of k "wm_tasks m"] set_drop_subset [of "Suc k" "wm_tasks m"]
    unfolding works_ok_def end_task_def on_work_def by auto
  moreover have o: "open_work ?m j \<longleftrightarrow> open_work m j" "w_addr (wm_heap ?m ! j) = w_addr (wm_heap m ! j)" for j
    using len by (auto simp: open_work_def end_task_def on_work_def finish_def nth_list_update)
  moreover have "length (running ?m j) = (if w_token (wm_heap ?m ! j) \<and> open_work ?m j then 1 else 0)" if "j < length (wm_heap ?m)" for j
  proof -
    have "length (running m j) = (if w_token (wm_heap m ! j) \<and> open_work m j then 1 else 0)"
      using ok that unfolding works_ok_def by (simp add: end_task_def on_work_def)
    moreover have "length (running ?m j) = length (running m j) - (if i = j then 1 else 0)"
      using filter_drop_nth [OF k(1), of "\<lambda>t. tk_work t = j \<and> tk_phase t = Running"] k(2) i
      by (simp add: end_task_def on_work_def del: filter_append length_append)
    ultimately show ?thesis using len unfolding o
      by (simp add: end_task_def on_work_def finish_def nth_list_update del: filter_append)
  qed
  ultimately show ?thesis using ok unfolding works_ok_def by (simp add: end_task_def on_work_def)
qed

lemma works_ok_frame [simp]:
  "works_ok (m\<lparr>wm_crashed := b\<rparr>) = works_ok m" "works_ok (offer batch m) = works_ok m"
  by (simp_all add: works_ok_def open_work_def offer_def)

lemma move_ok:
  assumes "works_ok m" "k < length (wm_tasks m)" "startSelectMessage env k (db, m) = (db', m')"
  shows "works_ok m'"
  using assms
  by (cases "tk_phase (wm_tasks m ! k)")
    (auto simp: startSelectMessage_def Let_def intro: end_idle_ok check_ok take_ok finish_ok
      split: if_splits prod.splits sum.splits error.splits)

lemma works_step_ok: "works_step env get s s' \<Longrightarrow> works_ok (snd s) \<Longrightarrow> works_ok (snd s')"
  by (induction rule: works_step.induct) (auto intro: SelectMessage_ok move_ok prod.collapse [symmetric])

lemma newMgr_ok: "works_ok newMgr"
  by (simp add: works_ok_def newMgr_def open_work_def)

end
