(* ===== verification/WorksProps.thy ===== *)
theory WorksProps
  imports Works SelectorProps
begin

text \<open>
  What the selection manager guarantees: no two goroutines select for one address at a time,
  however often rounds are started and addresses come and go; the works follow the active
  addresses; and where the hand-over of a dropped work can crash.
\<close>

section \<open>Lemmas\<close>

lemma two_in_filter:
  assumes "k < length l" "j < length l" "k \<noteq> j" "P (l ! k)" "P (l ! j)"
  shows "2 \<le> length (filter P l)"
proof -
  have "{k, j} \<subseteq> {i. i < length l \<and> P (l ! i)}" using assms by auto
  from card_mono [OF _ this] show ?thesis using assms(3) by (simp add: length_filter_conv_card)
qed

lemma running_open:
  assumes "works_ok m" "k < length (wm_tasks m)" "tk_phase (wm_tasks m ! k) = Running" "i = tk_work (wm_tasks m ! k)"
  shows "length (running m i) = 1 \<and> open_work m i"
proof -
  have "running m i \<noteq> []" using assms(2-4) nth_mem [OF assms(2)] by (auto simp: filter_empty_conv)
  moreover have "i < length (wm_heap m)" using assms(1,2,4) unfolding works_ok_def by auto
  then have "length (running m i) = (if w_token (wm_heap m ! i) \<and> open_work m i then 1 else 0)"
    using assms(1) unfolding works_ok_def by blast
  ultimately show ?thesis by (simp split: if_splits)
qed

lemma reachable_ok:
  assumes "(works_step env get)\<^sup>*\<^sup>* s s'" "works_ok (snd s)"
  shows "works_ok (snd s')"
  using assms by (induction rule: rtranclp_induct) (auto intro: works_step_ok)

lemma new_mgr_ok: "newMsgSelectMgr R db = Inr m \<Longrightarrow> works_ok m"
  by (auto simp: newMsgSelectMgr_def bindE_Inr_iff intro: updateWorks_ok newMgr_ok)

lemma run_selection_nil:
  "\<exists>p. fst (run_selection env addr ap None ts mx sp s) = Inl (Panic p)"
  by (cases s) (simp add: run_selection_def selectMessage_def comp_simps)

lemma works_follow_facts:
  assumes "works_ok m" "distinct addrs"
  shows "works_ok (tryUpdateWorks addrs m)
    \<and> dom (wm_works (tryUpdateWorks addrs m)) = set addrs \<union> {a. \<exists>i. wm_works m a = Some i \<and> w_token (wm_heap m ! i)}
    \<and> (\<forall>a i. wm_works m a = Some i \<longrightarrow> a \<in> dom (wm_works (tryUpdateWorks addrs m)) \<longrightarrow> wm_works (tryUpdateWorks addrs m) a = Some i)"
proof -
  define m' where "m' = tryUpdateWorks addrs m"
  obtain heap ws where ad: "added (wm_heap m) (wm_works m) heap ws" and d: "dom ws = set addrs"
    and "length (wm_heap m') = length heap"
    and "\<And>i. i < length heap \<Longrightarrow> wm_heap m' ! i = (if wm_works m (w_addr (heap ! i)) = Some i \<and> ws (w_addr (heap ! i)) = None \<and> \<not> w_token (heap ! i)
        then close_work ((heap ! i)\<lparr>w_token := True\<rparr>) else heap ! i)"
    and works': "\<And>a. wm_works m' a = (case ws a of Some i \<Rightarrow> Some i
        | None \<Rightarrow> (case wm_works m a of Some i \<Rightarrow> if w_token (heap ! i) then Some i else None | None \<Rightarrow> None))"
    and "wm_tasks m' = wm_tasks m" "wm_crashed m' = wm_crashed m"
    by (rule updateWorks_facts [OF assms m'_def]) (rule that)
  have old: "heap ! i = wm_heap m ! i" if "wm_works m a = Some i" for a i
    using ad assms(1) that unfolding added_def works_ok_def open_work_def by (auto simp: nth_append)
  have agree: "ws a = Some i" if "ws a \<noteq> None" "wm_works m a = Some i" for a i using ad that unfolding added_def by blast
  have "dom (wm_works m') = set addrs \<union> {a. \<exists>i. wm_works m a = Some i \<and> w_token (wm_heap m ! i)}"
    unfolding d [symmetric] by (rule set_eqI) (use old agree in \<open>auto simp: works' dom_def split: option.splits if_splits\<close>)
  moreover have "wm_works m' a = Some i" if "wm_works m a = Some i" "a \<in> dom (wm_works m')" for a i
    using that agree [of a i] unfolding works' dom_def by (auto split: option.splits if_splits)
  ultimately show ?thesis using updateWorks_ok [OF assms] unfolding m'_def by blast
qed

lemma addressMap_None: "a \<notin> a_Addr ` set l \<Longrightarrow> addressMap l a = None"
proof -
  have "foldl (\<lambda>m a. m(a_Addr a \<mapsto> a)) m l a = m a" if "a \<notin> a_Addr ` set l" for m using that by (induction l arbitrary: m) auto
  then show "a \<notin> a_Addr ` set l \<Longrightarrow> addressMap l a = None" by (simp add: addressMap_def)
qed

lemma nil_crashes:
  assumes "k < length (wm_tasks m)" "tk_phase (wm_tasks m ! k) = Running" "tk_addrInfo (wm_tasks m ! k) = None"
  shows "wm_crashed (snd (startSelectMessage env k (db, m)))"
proof -
  let ?t = "wm_tasks m ! k"
  let ?w = "wm_heap m ! tk_work ?t"
  obtain p where "fst (run_selection env (w_addr ?w) (tk_appliedNonce ?t) None (tk_ts ?t) (tk_max ?t) (Some (tk_sharedParams ?t)) (db, w_actorCache ?w)) = Inl (Panic p)"
    using run_selection_nil by blast
  then show ?thesis using assms by (auto simp: startSelectMessage_def Let_def split: prod.splits)
qed

text \<open>Moves of the goroutines in a given order.\<close>

fun can_move :: "'db sel_env \<Rightarrow> nat list \<Rightarrow> 'db \<times> MsgSelectMgr \<Rightarrow> bool" where
  "can_move env [] s = True"
| "can_move env (k # ks) s = (\<not> wm_crashed (snd s) \<and> k < length (wm_tasks (snd s)) \<and> can_move env ks (startSelectMessage env k s))"

lemma can_move_reach: "can_move env ks s \<Longrightarrow> (works_step env get)\<^sup>*\<^sup>* s (fold (startSelectMessage env) ks s)"
proof (induction ks arbitrary: s)
  case (Cons k ks)
  have "works_step env get s (startSelectMessage env k s)"
    using Cons.prems works_step.move [of "snd s" k env get "fst s"] by simp
  then show ?case using Cons by (simp add: converse_rtranclp_into_rtranclp)
qed simp

section \<open>A sample manager\<close>

text \<open>Two active addresses, a round of selection started, and a work about to be dropped.\<close>

definition two_db :: sqlite_db where
  "two_db = waiting_db\<lparr>t_addresses := t_addresses waiting_db @
     [sqlite_fromAddress plain_codec (sample_address\<lparr>a_ID := ''2'', a_Addr := Addr 1 ''other''\<rparr>)],
     t_shared_params := [sqlite_fromSharedParams DefSharedParams]\<rparr>"

definition sample_get :: "tipset_key \<Rightarrow> chain_msg list result" where
  "sample_get k = Inr []"

definition sample_mgr :: MsgSelectMgr where
  "sample_mgr = (case newMsgSelectMgr (se_repo sample_env) two_db of Inr m \<Rightarrow> m | Inl _ \<Rightarrow> newMgr)"

definition sample_started :: "sqlite_db \<times> MsgSelectMgr" where
  "sample_started = (two_db, snd (SelectMessage (se_repo sample_env) sample_get sample_ts two_db sample_mgr))"

lemma sample_mgr_new: "newMsgSelectMgr (se_repo sample_env) two_db = Inr sample_mgr"
proof -
  have "case newMsgSelectMgr (se_repo sample_env) two_db of Inr m \<Rightarrow> True | Inl _ \<Rightarrow> False" by code_simp
  then show ?thesis by (auto simp: sample_mgr_def split: sum.splits)
qed

lemma sample_started_reach: "(works_step sample_env sample_get)\<^sup>*\<^sup>* (two_db, sample_mgr) sample_started"
proof -
  have "\<not> wm_crashed sample_mgr" by code_simp
  then show ?thesis unfolding sample_started_def by (intro r_into_rtranclp works_step.select [OF _ prod.collapse [symmetric]])
qed

lemma sample_moves:
  "can_move sample_env [0, 1, 0, 1] sample_started"
  "map tk_phase (wm_tasks (snd (fold (startSelectMessage sample_env) [0, 1, 0, 1] sample_started))) = [Running, Running]"
  by code_simp+

definition checked_mgr :: MsgSelectMgr where
  "checked_mgr = \<lparr>wm_heap = [newWork (Addr 1 ''from'')], wm_works = [Addr 1 ''from'' \<mapsto> 0],
     wm_tasks = [\<lparr>tk_work = 0, tk_appliedNonce = NewNonceMap, tk_addrInfo = Some sample_address, tk_ts = sample_ts, tk_max = 20,
       tk_sharedParams = DefSharedParams, tk_phase = Checked\<rparr>], wm_receiver = [], wm_crashed = False\<rparr>"

lemma checked_mgr_ok: "works_ok checked_mgr"
  by (simp add: works_ok_def checked_mgr_def open_work_def newWork_def)

section \<open>The properties\<close>

text \<open>
  C14: at most one selection runs per address: in every state the manager reaches, two goroutines
  that are selecting work for different addresses. It is this that makes the nonces read at the
  start of a selection still right when its messages are saved.
\<close>

theorem one_selection_per_address:
  assumes "newMsgSelectMgr (se_repo env) db = Inr m0" "(works_step env get)\<^sup>*\<^sup>* (db, m0) (db', m)"
    and k: "k < length (wm_tasks m)" "tk_phase (wm_tasks m ! k) = Running"
    and j: "j < length (wm_tasks m)" "tk_phase (wm_tasks m ! j) = Running" and "k \<noteq> j"
  shows "w_addr (wm_heap m ! tk_work (wm_tasks m ! k)) \<noteq> w_addr (wm_heap m ! tk_work (wm_tasks m ! j))"
proof
  assume same: "w_addr (wm_heap m ! tk_work (wm_tasks m ! k)) = w_addr (wm_heap m ! tk_work (wm_tasks m ! j))"
  have ok: "works_ok m" using reachable_ok [OF assms(2)] new_mgr_ok [OF assms(1)] by simp
  have o: "length (running m (tk_work (wm_tasks m ! k))) = 1" "open_work m (tk_work (wm_tasks m ! k))" "open_work m (tk_work (wm_tasks m ! j))"
    using running_open [OF ok k refl] running_open [OF ok j refl] by simp_all
  have u: "wm_works m (w_addr (wm_heap m ! i)) = Some i" if "open_work m i" for i using ok that unfolding works_ok_def by blast
  have e: "tk_work (wm_tasks m ! j) = tk_work (wm_tasks m ! k)" using u [OF o(2), unfolded same] u [OF o(3)] by (metis option.inject)
  have "2 \<le> length (running m (tk_work (wm_tasks m ! k)))"
    using k(2) j(2) e
    by (intro two_in_filter [where P = "\<lambda>t. tk_work t = tk_work (wm_tasks m ! k) \<and> tk_phase t = Running", OF k(1) j(1) \<open>k \<noteq> j\<close>] conjI refl)
  with o(1) show False by simp
qed

theorem one_selection_per_address_witness:
  "\<exists>s. (works_step sample_env sample_get)\<^sup>*\<^sup>* (two_db, sample_mgr) s \<and> map tk_phase (wm_tasks (snd s)) = [Running, Running]
     \<and> w_addr (wm_heap (snd s) ! tk_work (wm_tasks (snd s) ! 0)) \<noteq> w_addr (wm_heap (snd s) ! tk_work (wm_tasks (snd s) ! 1))"
proof -
  obtain db' m where s: "fold (startSelectMessage sample_env) [0, 1, 0, 1] sample_started = (db', m)" by (metis surj_pair)
  have r: "(works_step sample_env sample_get)\<^sup>*\<^sup>* (two_db, sample_mgr) (db', m)"
    using rtranclp_trans [OF sample_started_reach can_move_reach [OF sample_moves(1)]] s by simp
  have ph: "map tk_phase (wm_tasks m) = [Running, Running]" using sample_moves(2) unfolding s by simp
  then have t: "length (wm_tasks m) = 2" "tk_phase (wm_tasks m ! 0) = Running" "tk_phase (wm_tasks m ! 1) = Running"
    by (auto simp: map_eq_Cons_conv)
  from one_selection_per_address [OF sample_mgr_new r, of 0 1] r ph t show ?thesis by (intro exI [of _ "(db', m)"]) simp
qed

text \<open>
  C19: updating the works gives every active address a work, keeps the work it had, and drops the
  work of an inactive address exactly when it is not selecting.
\<close>

theorem works_follow_active_addresses:
  assumes "works_ok m" "distinct addrs"
  shows "works_ok (tryUpdateWorks addrs m)
    \<and> dom (wm_works (tryUpdateWorks addrs m)) = set addrs \<union> {a. \<exists>i. wm_works m a = Some i \<and> w_token (wm_heap m ! i)}
    \<and> (\<forall>a i. wm_works m a = Some i \<longrightarrow> a \<in> dom (wm_works (tryUpdateWorks addrs m)) \<longrightarrow> wm_works (tryUpdateWorks addrs m) a = Some i)"
  by (rule works_follow_facts [OF assms])

theorem works_follow_active_addresses_witness:
  "dom (wm_works (tryUpdateWorks [Addr 1 ''other''] checked_mgr)) = {Addr 1 ''other''}"
  using works_follow_active_addresses [OF checked_mgr_ok, of "[Addr 1 ''other'']"]
  by (auto simp: checked_mgr_def newWork_def split: if_splits)

text \<open>
  A goroutine that has passed the check of its work's context but not yet sent on the control
  channel brings the process down when the work's address is dropped in between: the update
  closes the idle channel and the send panics.
\<close>

theorem closing_races_with_start:
  assumes ok: "works_ok m" and k: "k < length (wm_tasks m)" "tk_phase (wm_tasks m ! k) = Checked"
    and idle: "open_work m (tk_work (wm_tasks m ! k))" "\<not> w_token (wm_heap m ! tk_work (wm_tasks m ! k))"
    and gone: "distinct addrs" "w_addr (wm_heap m ! tk_work (wm_tasks m ! k)) \<notin> set addrs"
  shows "wm_crashed (snd (startSelectMessage env k (db, tryUpdateWorks addrs m)))"
proof -
  let ?i = "tk_work (wm_tasks m ! k)"
  define m' where "m' = tryUpdateWorks addrs m"
  obtain heap ws where ad: "added (wm_heap m) (wm_works m) heap ws" and d: "dom ws = set addrs"
    and "length (wm_heap m') = length heap"
    and nth: "\<And>i. i < length heap \<Longrightarrow> wm_heap m' ! i = (if wm_works m (w_addr (heap ! i)) = Some i \<and> ws (w_addr (heap ! i)) = None \<and> \<not> w_token (heap ! i)
        then close_work ((heap ! i)\<lparr>w_token := True\<rparr>) else heap ! i)"
    and "\<And>a. wm_works m' a = (case ws a of Some i \<Rightarrow> Some i
        | None \<Rightarrow> (case wm_works m a of Some i \<Rightarrow> if w_token (heap ! i) then Some i else None | None \<Rightarrow> None))"
    and tasks: "wm_tasks m' = wm_tasks m" and "wm_crashed m' = wm_crashed m"
    by (rule updateWorks_facts [OF ok gone(1) m'_def]) (rule that)
  have i: "?i < length heap" "heap ! ?i = wm_heap m ! ?i"
    using ad idle(1) unfolding added_def open_work_def by (auto simp: nth_append)
  have w: "wm_works m (w_addr (wm_heap m ! ?i)) = Some ?i" using ok idle(1) unfolding works_ok_def by blast
  have "ws (w_addr (wm_heap m ! ?i)) = None" using d gone(2) by blast
  then have "w_closed (wm_heap m' ! ?i)" using nth [OF i(1)] w idle(2) unfolding i(2) by (simp add: close_work_def)
  then show ?thesis using k(2) tasks unfolding m'_def [symmetric] by (simp add: startSelectMessage_def Let_def)
qed

theorem closing_races_with_start_witness:
  "\<not> wm_crashed (tryUpdateWorks [] checked_mgr)
   \<and> wm_crashed (snd (startSelectMessage sample_env 0 (two_db, tryUpdateWorks [] checked_mgr)))"
proof
  show "\<not> wm_crashed (tryUpdateWorks [] checked_mgr)" by code_simp
  show "wm_crashed (snd (startSelectMessage sample_env 0 (two_db, tryUpdateWorks [] checked_mgr)))"
    by (rule closing_races_with_start [OF checked_mgr_ok]) (simp_all add: checked_mgr_def open_work_def newWork_def)
qed

text \<open>
  A work that is busy when its address becomes inactive stays, and the round starts a goroutine
  for it without an address record; when such a goroutine gets to select, it dereferences nil and
  the process ends.
\<close>

theorem busy_work_of_inactive_address_crashes:
  assumes ok: "works_ok m" and busy: "wm_works m a = Some i" "w_token (wm_heap m ! i)"
    and db: "sps_GetSharedParams (se_repo env) db = Inr sp" "as_ListActiveAddress (se_repo env) db = Inr active" "a \<notin> a_Addr ` set active"
    and nonces: "getNonceInTipset get ts = Inr ap"
  shows "\<exists>t \<in> set (wm_tasks (snd (SelectMessage (se_repo env) get ts db m))). tk_work t = i \<and> tk_phase t = Spawned
    \<and> (\<forall>n k db'. k < length (wm_tasks n) \<longrightarrow> wm_tasks n ! k = t\<lparr>tk_phase := Running\<rparr> \<longrightarrow> wm_crashed (snd (startSelectMessage env k (db', n))))"
proof -
  let ?m = "tryUpdateWorks (remdups (map a_Addr active)) m"
  let ?t = "spawn ap (addressMap active) ts (addrSelectMsgNum active (sp_SelMsgNum sp)) sp ?m i"
  have f: "works_ok ?m" "wm_works ?m a = Some i"
    using works_follow_facts [OF ok, of "remdups (map a_Addr active)"] busy by auto
  then have w: "w_addr (wm_heap ?m ! i) = a" "i < length (wm_heap ?m)" unfolding works_ok_def open_work_def by blast+
  have mem: "?t \<in> set (wm_tasks (snd (SelectMessage (se_repo env) get ts db m)))"
    unfolding SelectMessage_def db nonces using w f(2) by (simp add: Let_def live_works_def)
  have t: "tk_work ?t = i" "tk_phase ?t = Spawned" "tk_addrInfo ?t = None"
    by (simp_all add: spawn_def Let_def w addressMap_None [OF db(3)])
  have "wm_crashed (snd (startSelectMessage env k (db', n)))" if "k < length (wm_tasks n)" "wm_tasks n ! k = ?t\<lparr>tk_phase := Running\<rparr>" for n k db'
    by (rule nil_crashes [OF that(1)]) (simp_all add: that(2) t(3))
  with mem t(1,2) show ?thesis by blast
qed

text \<open>A second round while the work of a meanwhile forbidden address is selecting.\<close>

definition busy_mgr :: MsgSelectMgr where
  "busy_mgr = checked_mgr\<lparr>wm_heap := [(newWork (Addr 1 ''from''))\<lparr>w_token := True\<rparr>], wm_tasks := map (\<lambda>t. t\<lparr>tk_phase := Running\<rparr>) (wm_tasks checked_mgr)\<rparr>"

lemma busy_mgr_ok: "works_ok busy_mgr"
  by (simp add: works_ok_def busy_mgr_def checked_mgr_def open_work_def newWork_def)

definition forbidden_db :: sqlite_db where
  "forbidden_db = two_db\<lparr>t_addresses := [sqlite_fromAddress plain_codec (sample_address\<lparr>a_State := AddressStateForbbiden\<rparr>)]\<rparr>"

theorem busy_work_of_inactive_address_crashes_witness:
  "\<exists>t. t \<in> set (wm_tasks (snd (SelectMessage (se_repo sample_env) sample_get sample_ts forbidden_db busy_mgr))) \<and> tk_phase t = Spawned
     \<and> wm_crashed (snd (startSelectMessage sample_env 0 (forbidden_db, busy_mgr\<lparr>wm_tasks := [t\<lparr>tk_phase := Running\<rparr>]\<rparr>)))"
proof -
  have sp: "case sps_GetSharedParams (se_repo sample_env) forbidden_db of Inr sp \<Rightarrow> True | Inl _ \<Rightarrow> False" by code_simp
  then obtain sp where s: "sps_GetSharedParams (se_repo sample_env) forbidden_db = Inr sp" by (auto split: sum.splits)
  have l: "as_ListActiveAddress (se_repo sample_env) forbidden_db = Inr []" by code_simp
  have n: "getNonceInTipset sample_get sample_ts = Inr NewNonceMap" by (simp add: getNonceInTipset_def sample_get_def mapErrE_def)
  from busy_work_of_inactive_address_crashes [OF busy_mgr_ok _ _ s l _ n, of "Addr 1 ''from''" 0]
  obtain t where t: "t \<in> set (wm_tasks (snd (SelectMessage (se_repo sample_env) sample_get sample_ts forbidden_db busy_mgr)))" "tk_phase t = Spawned"
    "\<forall>n k db'. k < length (wm_tasks n) \<longrightarrow> wm_tasks n ! k = t\<lparr>tk_phase := Running\<rparr> \<longrightarrow> wm_crashed (snd (startSelectMessage sample_env k (db', n)))"
    by (auto simp: busy_mgr_def checked_mgr_def)
  from t(3) [rule_format, of 0 "busy_mgr\<lparr>wm_tasks := [t\<lparr>tk_phase := Running\<rparr>]\<rparr>" forbidden_db] t(1,2) show ?thesis by auto
qed

end
