(* ===== verification/Api.thy ===== *)
theory Api
  imports MessageService
begin

text \<open>
  The API (\<open>api/messager_impl.go\<close>) over the services: which operation asks the auth client
  for permission on which address before it reaches the service. The answers of the auth
  service (\<open>CheckPermissionBySigner\<close>, \<open>HasPerm\<close>, \<open>ListSigners\<close>) and the caller's name
  in the request context are parameters (\<open>api_env\<close>). The pass-through operations of the
  network and of logging are left out: they only call a library.
\<close>

record 'db api_env =
  ae_ms :: "'db ms_env"
  ae_CheckPermissionBySigner :: "address list \<Rightarrow> unit result"
  ae_HasPermAdmin :: bool
  ae_CtxGetName :: "string option"
  ae_ListSigners :: "string \<Rightarrow> address list result"

abbreviation ae_repo :: "'db api_env \<Rightarrow> 'db repo" where "ae_repo A \<equiv> me_repo (ae_ms A)"

definition ctx_name :: "'db api_env \<Rightarrow> string" where
  "ctx_name A = (case ae_CtxGetName A of None \<Rightarrow> '''' | Some n \<Rightarrow> n)"

definition isAdmin :: "'db api_env \<Rightarrow> bool" where
  "isAdmin A = ae_HasPermAdmin A"

definition getSigners :: "'db api_env \<Rightarrow> address list result" where
  "getSigners A = (case ae_CtxGetName A of
      None \<Rightarrow> Inl (Err ''user not found'')
    | Some user \<Rightarrow> ae_ListSigners A user)"

definition resolveAddress :: "'db api_env \<Rightarrow> address \<Rightarrow> address result" where
  "resolveAddress A addr =
     (if Protocol_is_ID addr
      then mapErrE (Wrap ''getting key address failed: '') (me_StateAccountKey (ae_ms A) addr)
      else Inr addr)"

text \<open>The two guards: by address, and by the sender of a message that is read first.\<close>

definition guard_addr :: "'db api_env \<Rightarrow> address \<Rightarrow> ('db, unit) comp" where
  "guard_addr A addr = liftC (ae_CheckPermissionBySigner A [addr])"

definition guard_msg :: "'db api_env \<Rightarrow> ('db \<Rightarrow> message result) \<Rightarrow> 'db \<Rightarrow> message result" where
  "guard_msg A q db =
     bindE (mapErrE (Wrap ''get message by id error: '') (q db)) (\<lambda>msg.
     bindE (ae_CheckPermissionBySigner A [m_From msg]) (\<lambda>_. Inr msg))"

section \<open>Messages\<close>

definition api_HasMessageByUid :: "'db api_env \<Rightarrow> string \<Rightarrow> 'db \<Rightarrow> bool result" where
  "api_HasMessageByUid A i = HasMessageByUid (ae_ms A) i"

text \<open>\<open>polls\<close> are the outcomes of the service's polls, as for the service's \<open>WaitMessage\<close>.\<close>

definition api_WaitMessage :: "'db api_env \<Rightarrow> string \<Rightarrow> u64 \<Rightarrow> message result list \<Rightarrow> 'db \<Rightarrow> message result" where
  "api_WaitMessage A i confidence polls db =
     bindE (guard_msg A (GetMessageByUid (ae_ms A) i) db) (\<lambda>_. WaitMessage confidence polls)"

definition api_PushMessage :: "'db api_env \<Rightarrow> chain_msg \<Rightarrow> send_spec option \<Rightarrow> ('db, string) comp" where
  "api_PushMessage A msg meta =
     bindC (liftC (resolveAddress A (c_From msg))) (\<lambda>from.
     bindC (guard_addr A from) (\<lambda>_. PushMessage (ae_ms A) (ctx_name A) (msg\<lparr>c_From := from\<rparr>) meta))"

definition api_PushMessageWithId :: "'db api_env \<Rightarrow> string \<Rightarrow> chain_msg \<Rightarrow> send_spec option \<Rightarrow> ('db, string) comp" where
  "api_PushMessageWithId A i msg meta =
     bindC (liftC (resolveAddress A (c_From msg))) (\<lambda>from.
     bindC (guard_addr A from) (\<lambda>_. PushMessageWithId (ae_ms A) (ctx_name A) i (msg\<lparr>c_From := from\<rparr>) meta))"

definition api_GetMessageByUid :: "'db api_env \<Rightarrow> string \<Rightarrow> 'db \<Rightarrow> message result" where
  "api_GetMessageByUid A i = guard_msg A (GetMessageByUid (ae_ms A) i)"

definition api_GetMessageBySignedCid :: "'db api_env \<Rightarrow> cid \<Rightarrow> 'db \<Rightarrow> message result" where
  "api_GetMessageBySignedCid A c = guard_msg A (GetMessageBySignedCid (ae_ms A) c)"

definition api_GetMessageByUnsignedCid :: "'db api_env \<Rightarrow> cid \<Rightarrow> 'db \<Rightarrow> message result" where
  "api_GetMessageByUnsignedCid A c = guard_msg A (GetMessageByUnsignedCid (ae_ms A) c)"

definition api_GetMessageByFromAndNonce :: "'db api_env \<Rightarrow> address \<Rightarrow> u64 \<Rightarrow> 'db \<Rightarrow> message result" where
  "api_GetMessageByFromAndNonce A from nonce = guard_msg A (GetMessageByFromAndNonce (ae_ms A) from nonce)"

definition api_ListMessage :: "'db api_env \<Rightarrow> msg_query_params \<Rightarrow> 'db \<Rightarrow> message list result" where
  "api_ListMessage A p db =
     (if length (q_From p) = 0
      then (if \<not> isAdmin A
            then bindE (getSigners A) (\<lambda>signers.
                   if length signers = 0 then Inr [] else ListMessage (ae_ms A) (p\<lparr>q_From := signers\<rparr>) db)
            else ListMessage (ae_ms A) p db)
      else bindE (ae_CheckPermissionBySigner A (q_From p)) (\<lambda>_. ListMessage (ae_ms A) p db))"

definition api_ListMessageByFromState ::
  "'db api_env \<Rightarrow> address \<Rightarrow> message_state \<Rightarrow> bool \<Rightarrow> int \<Rightarrow> int \<Rightarrow> time \<Rightarrow> 'db \<Rightarrow> message list result" where
  "api_ListMessageByFromState A = ListMessageByFromState (ae_ms A)"

definition api_ListMessageByAddress :: "'db api_env \<Rightarrow> address \<Rightarrow> 'db \<Rightarrow> message list result" where
  "api_ListMessageByAddress A = ListMessageByAddress (ae_ms A)"

definition api_ListFailedMessage :: "'db api_env \<Rightarrow> 'db \<Rightarrow> message list result" where
  "api_ListFailedMessage A db =
     (if isAdmin A then ListFailedMessage (ae_ms A) empty_query db
      else bindE (getSigners A) (\<lambda>signers.
        if length signers = 0 then Inr [] else ListFailedMessage (ae_ms A) (empty_query\<lparr>q_From := signers\<rparr>) db))"

text \<open>The empty address is the undefined one.\<close>

definition api_ListBlockedMessage :: "'db api_env \<Rightarrow> address \<Rightarrow> time \<Rightarrow> 'db \<Rightarrow> message list result" where
  "api_ListBlockedMessage A addr d db =
     (if addr \<noteq> AddrUndef
      then bindE (ae_CheckPermissionBySigner A [addr]) (\<lambda>_. ListBlockedMessage (ae_ms A) (empty_query\<lparr>q_From := [addr]\<rparr>) d db)
      else ListBlockedMessage (ae_ms A) empty_query d db)"

definition api_UpdateMessageStateByID :: "'db api_env \<Rightarrow> string \<Rightarrow> message_state \<Rightarrow> ('db, unit) comp" where
  "api_UpdateMessageStateByID A i state =
     bindC (queryC (guard_msg A (GetMessageByUid (ae_ms A) i))) (\<lambda>_. UpdateMessageStateByID (ae_ms A) i state)"

definition api_UpdateAllFilledMessage :: "'db api_env \<Rightarrow> ('db, int) comp" where
  "api_UpdateAllFilledMessage A = UpdateAllFilledMessage (ae_ms A)"

definition api_UpdateFilledMessageByID :: "'db api_env \<Rightarrow> string \<Rightarrow> ('db, string) comp" where
  "api_UpdateFilledMessageByID A i =
     bindC (queryC (guard_msg A (GetMessageByUid (ae_ms A) i))) (\<lambda>msg.
       if m_State msg = OnChainMsg \<or> m_State msg = NonceConflictMsg then failC (Err ''message state has been final, can not update'')
       else UpdateFilledMessageByID (ae_ms A) i)"

definition api_ReplaceMessage :: "'db api_env \<Rightarrow> replace_params option \<Rightarrow> ('db \<times> msg_channel, cid) comp" where
  "api_ReplaceMessage A paramsP =
     (case paramsP of None \<Rightarrow> failC (Panic ''nil ReplacMessageParams'') | Some params \<Rightarrow>
        bindC (askDb (guard_msg A (GetMessageByUid (ae_ms A) (rp_ID params)))) (\<lambda>_. ReplaceMessage (ae_ms A) paramsP))"

definition api_RepublishMessage :: "'db api_env \<Rightarrow> string \<Rightarrow> ('db \<times> msg_channel, unit) comp" where
  "api_RepublishMessage A i = RepublishMessage (ae_ms A) i"

definition api_MarkBadMessage :: "'db api_env \<Rightarrow> string \<Rightarrow> ('db, unit) comp" where
  "api_MarkBadMessage A i =
     bindC (queryC (guard_msg A (GetMessageByUid (ae_ms A) i))) (\<lambda>_. MarkBadMessage (ae_ms A) i)"

definition api_RecoverFailedMsg :: "'db api_env \<Rightarrow> address \<Rightarrow> ('db, string list) comp" where
  "api_RecoverFailedMsg A addr = bindC (guard_addr A addr) (\<lambda>_. RecoverFailedMsg (ae_ms A) addr)"

text \<open>The service clears in the goroutine of the next head; here the request has been served.\<close>

definition api_ClearUnFillMessage :: "'db api_env \<Rightarrow> address \<Rightarrow> ('db, int) comp" where
  "api_ClearUnFillMessage A addr = bindC (guard_addr A addr) (\<lambda>_. clearUnFillMessage (ae_ms A) addr)"

definition api_Send :: "'db api_env \<Rightarrow> (address \<Rightarrow> method_num \<Rightarrow> string \<Rightarrow> bytes result) \<Rightarrow> (string \<Rightarrow> bytes result) \<Rightarrow>
    method_num \<Rightarrow> quick_send \<Rightarrow> ('db, string) comp" where
  "api_Send A dec hexDecode MethodSend p =
     bindC (guard_addr A (qs_From p)) (\<lambda>_. Send (ae_ms A) dec hexDecode MethodSend p)"

section \<open>Addresses\<close>

definition api_GetAddress :: "'db api_env \<Rightarrow> address \<Rightarrow> 'db \<Rightarrow> address_info result" where
  "api_GetAddress A addr db = bindE (ae_CheckPermissionBySigner A [addr]) (\<lambda>_. as_GetAddress (ae_repo A) addr db)"

definition api_HasAddress :: "'db api_env \<Rightarrow> address \<Rightarrow> 'db \<Rightarrow> bool result" where
  "api_HasAddress A addr db = bindE (ae_CheckPermissionBySigner A [addr]) (\<lambda>_. as_HasAddress (ae_repo A) addr db)"

definition api_WalletHas :: "'db api_env \<Rightarrow> address \<Rightarrow> bool result" where
  "api_WalletHas A addr = bindE (ae_CheckPermissionBySigner A [addr]) (\<lambda>_.
     as_WalletHas (me_GetUserBySigner (ae_ms A)) (me_WalletHas (ae_ms A)) (ctx_name A) addr)"

text \<open>The listing keeps the addresses the caller may see; a failing check drops the address.\<close>

definition api_ListAddress :: "'db api_env \<Rightarrow> 'db \<Rightarrow> address_info list result" where
  "api_ListAddress A db = bindE (as_ListAddress (ae_repo A) db) (\<lambda>l.
     Inr (filter (\<lambda>ai. \<not> isl (ae_CheckPermissionBySigner A [a_Addr ai])) l))"

definition api_UpdateNonce :: "'db api_env \<Rightarrow> address \<Rightarrow> u64 \<Rightarrow> ('db, unit) comp" where
  "api_UpdateNonce A addr nonce = bindC (guard_addr A addr) (\<lambda>_. as_UpdateNonce (ae_repo A) addr nonce)"

definition api_DeleteAddress :: "'db api_env \<Rightarrow> address \<Rightarrow> ('db, unit) comp" where
  "api_DeleteAddress A addr = bindC (guard_addr A addr) (\<lambda>_. as_DeleteAddress (ae_repo A) (me_codec (ae_ms A)) addr)"

definition api_ForbiddenAddress :: "'db api_env \<Rightarrow> address \<Rightarrow> ('db, unit) comp" where
  "api_ForbiddenAddress A addr = bindC (guard_addr A addr) (\<lambda>_. ForbiddenAddress (ae_repo A) addr)"

definition api_ActiveAddress :: "'db api_env \<Rightarrow> address \<Rightarrow> ('db, unit) comp" where
  "api_ActiveAddress A addr = bindC (guard_addr A addr) (\<lambda>_. ActiveAddress (ae_repo A) addr)"

definition api_SetSelectMsgNum :: "'db api_env \<Rightarrow> address \<Rightarrow> u64 \<Rightarrow> ('db, unit) comp" where
  "api_SetSelectMsgNum A addr num = bindC (guard_addr A addr) (\<lambda>_. SetSelectMsgNum (ae_repo A) addr num)"

definition api_SetFeeParams :: "'db api_env \<Rightarrow> (string \<Rightarrow> int result) \<Rightarrow> address_spec \<Rightarrow> ('db, unit) comp" where
  "api_SetFeeParams A big_parse params = bindC (guard_addr A (asp_Address params)) (\<lambda>_. SetFeeParams (ae_repo A) big_parse params)"

section \<open>Shared parameters, nodes, actor configurations\<close>

definition api_GetSharedParams :: "'db api_env \<Rightarrow> 'db \<Rightarrow> shared_spec result" where
  "api_GetSharedParams A = sps_GetSharedParams (ae_repo A)"

definition api_SetSharedParams :: "'db api_env \<Rightarrow> shared_spec \<Rightarrow> ('db, unit) comp" where
  "api_SetSharedParams A params = sps_SetSharedParams (ae_repo A) params"

definition api_SaveNode :: "'db api_env \<Rightarrow> (string \<Rightarrow> string \<Rightarrow> unit result) \<Rightarrow> node \<Rightarrow> ('db, unit) comp" where
  "api_SaveNode A dial nd = ns_SaveNode (NodeRepo (ae_repo A)) dial nd"

definition api_GetNode :: "'db api_env \<Rightarrow> string \<Rightarrow> 'db \<Rightarrow> node result" where
  "api_GetNode A = ns_GetNode (NodeRepo (ae_repo A))"

definition api_HasNode :: "'db api_env \<Rightarrow> string \<Rightarrow> 'db \<Rightarrow> bool result" where
  "api_HasNode A = ns_HasNode (NodeRepo (ae_repo A))"

definition api_ListNode :: "'db api_env \<Rightarrow> 'db \<Rightarrow> node list result" where
  "api_ListNode A = ns_ListNode (NodeRepo (ae_repo A))"

definition api_DeleteNode :: "'db api_env \<Rightarrow> string \<Rightarrow> ('db, unit) comp" where
  "api_DeleteNode A name = ns_DeleteNode (NodeRepo (ae_repo A)) name"

definition ms_SaveActorCfg :: "'db ms_env \<Rightarrow> actor_cfg \<Rightarrow> ('db, unit) comp" where
  "ms_SaveActorCfg env cfg = cr_SaveActorCfg (ActorCfgRepo (me_repo env)) cfg"

definition ms_UpdateActorCfg :: "'db ms_env \<Rightarrow> uuid \<Rightarrow> change_gas_spec \<Rightarrow> ('db, unit) comp" where
  "ms_UpdateActorCfg env i spec = cr_UpdateSelectSpecById (ActorCfgRepo (me_repo env)) i spec"

definition ms_ListActorCfg :: "'db ms_env \<Rightarrow> 'db \<Rightarrow> actor_cfg list result" where
  "ms_ListActorCfg env = cr_ListActorCfg (ActorCfgRepo (me_repo env))"

definition ms_GetActorCfgByID :: "'db ms_env \<Rightarrow> uuid \<Rightarrow> 'db \<Rightarrow> actor_cfg result" where
  "ms_GetActorCfgByID env = cr_GetActorCfgByID (ActorCfgRepo (me_repo env))"

definition api_SaveActorCfg :: "'db api_env \<Rightarrow> actor_cfg \<Rightarrow> ('db, unit) comp" where
  "api_SaveActorCfg A cfg = ms_SaveActorCfg (ae_ms A) cfg"

definition api_UpdateActorCfg :: "'db api_env \<Rightarrow> uuid \<Rightarrow> change_gas_spec \<Rightarrow> ('db, unit) comp" where
  "api_UpdateActorCfg A i spec = ms_UpdateActorCfg (ae_ms A) i spec"

definition api_ListActorCfg :: "'db api_env \<Rightarrow> 'db \<Rightarrow> actor_cfg list result" where
  "api_ListActorCfg A = ms_ListActorCfg (ae_ms A)"

definition api_GetActorCfgByID :: "'db api_env \<Rightarrow> uuid \<Rightarrow> 'db \<Rightarrow> actor_cfg result" where
  "api_GetActorCfgByID A = ms_GetActorCfgByID (ae_ms A)"

end
