(* ===== verification/ApiProps.thy ===== *)
theory ApiProps
  imports Api MessageServiceProps
begin

text \<open>
  What the permission checks of the API achieve: the calls that change messages leave the
  messages of an address the caller has no permission for alone, and the message listing
  returns only messages of permitted senders.
\<close>

section \<open>Calls\<close>

datatype api_call =
    ApiPush string chain_msg "send_spec option"
  | ApiSetState string message_state
  | ApiMarkBad string
  | ApiRecover address
  | ApiClear address

text \<open>The database after a call, whether it succeeds or fails.\<close>

fun api_run :: "'db api_env \<Rightarrow> api_call \<Rightarrow> 'db \<Rightarrow> 'db" where
  "api_run A (ApiPush i msg meta) db = snd (api_PushMessageWithId A i msg meta db)"
| "api_run A (ApiSetState i st) db = snd (api_UpdateMessageStateByID A i st db)"
| "api_run A (ApiMarkBad i) db = snd (api_MarkBadMessage A i db)"
| "api_run A (ApiRecover addr) db = snd (api_RecoverFailedMsg A addr db)"
| "api_run A (ApiClear addr) db = snd (api_ClearUnFillMessage A addr db)"

abbreviation sent_by :: "address \<Rightarrow> message list \<Rightarrow> message list" where
  "sent_by a ms \<equiv> filter (\<lambda>m. m_From m = a) ms"

lemma restated_foreign:
  "list_all2 (restated st js) l l' \<Longrightarrow> (\<And>m. m \<in> set l \<Longrightarrow> m_ID m \<in> js \<Longrightarrow> m_From m \<noteq> a) \<Longrightarrow> sent_by a l' = sent_by a l"
proof (induction rule: list_all2_induct)
  case (Cons m l m' l')
  have "sent_by a l' = sent_by a l" using Cons.IH Cons.prems by simp
  moreover have "m_From m' = a \<longleftrightarrow> m_From m = a" "m_From m = a \<Longrightarrow> m' = m"
    using Cons.hyps(1) Cons.prems [of m] by (auto simp: restated_def split: if_splits)
  ultimately show ?case by auto
qed simp

lemma read_one_Inr: "read_one env q db = Inr m \<Longrightarrow> \<exists>m0. q db = Inr m0 \<and> m_ID m = m_ID m0 \<and> m_From m = m_From m0"
  by (auto simp: read_one_def with_confidence_def comp_inv split: if_splits)

context repo_store
begin

text \<open>A permitted read by identifier finds the one row of that identifier.\<close>

lemma guarded_row:
  assumes E: "MessageRepo (me_repo (ae_ms A')) = M" and db: "inv db"
    and run: "guard_msg A' (GetMessageByUid (ae_ms A') i) db = Inr m0" and no: "isl (ae_CheckPermissionBySigner A' [a])"
    and m: "m \<in> set (msgs db)" "m_ID m = i"
  shows "m_From m \<noteq> a"
proof -
  have g: "GetMessageByUid (ae_ms A') i db = Inr m0" "\<exists>u. ae_CheckPermissionBySigner A' [m_From m0] = Inr u"
    using run by (auto simp: guard_msg_def comp_inv)
  obtain m1 where m1: "mr_GetMessageByUid M i db = Inr m1" "m_From m0 = m_From m1"
    using read_one_Inr [OF g(1) [unfolded GetMessageByUid_def E]] by auto
  have "m = m1" by (rule Get_unique [OF db m1(1) m])
  then show ?thesis using g(2) m1(2) no by auto
qed

lemma recover_loop_some:
  assumes E: "MessageRepo (me_repo env) = M"
  shows "inv db \<Longrightarrow> recover_loop env n l db = (r, db') \<Longrightarrow>
    inv db' \<and> (\<exists>js \<subseteq> m_ID ` set l. list_all2 (restated FillMsg js) (msgs db) (msgs db'))"
proof (induction l arbitrary: db r)
  case Nil
  then show ?case using restated_none by (auto simp: comp_inv)
next
  case (Cons m l)
  show ?case
  proof (cases "n \<le> m_Nonce m")
    case True
    obtain q db1 where one: "mr_UpdateMessageStateByID M (m_ID m) FillMsg db = (q, db1)" by (cases "mr_UpdateMessageStateByID M (m_ID m) FillMsg db")
    show ?thesis
    proof (cases q)
      case (Inl e)
      then have "db' = db" using StateByID_err one Cons.prems(2) True by (auto simp: E comp_simps)
      then show ?thesis using Cons.prems(1) restated_none by blast
    next
      case (Inr u)
      then obtain r' where rest: "recover_loop env n l db1 = (r', db')"
        using Cons.prems(2) True one by (auto simp: E comp_simps split: sum.splits prod.splits)
      obtain t where db1: "inv db1" "msgs db1 = upd_where (\<lambda>x. m_ID x = m_ID m) (\<lambda>x. x\<lparr>m_State := FillMsg, m_UpdatedAt := t\<rparr>) (msgs db)"
        using StateByID [OF Cons.prems(1) one [unfolded Inr, simplified]] by blast
      obtain js where js: "inv db'" "js \<subseteq> m_ID ` set l" "list_all2 (restated FillMsg js) (msgs db1) (msgs db')"
        using Cons.IH [OF db1(1) rest] by blast
      have "list_all2 (restated FillMsg ({m_ID m} \<union> js)) (msgs db) (msgs db')"
        by (rule restated_all_trans [OF restated_one [of FillMsg "m_ID m" "msgs db" t, folded db1(2)] js(3)])
      then show ?thesis using js(1,2) by (intro conjI exI [of _ "{m_ID m} \<union> js"]) auto
    qed
  next
    case False
    then have "recover_loop env n l db = (r, db')" using Cons.prems(2) by simp
    from Cons.IH [OF Cons.prems(1) this] show ?thesis by auto
  qed
qed

text \<open>The calls one by one; \<open>foreign\<close> says what stays.\<close>

abbreviation foreign :: "address \<Rightarrow> 'db \<Rightarrow> 'db \<Rightarrow> bool" where
  "foreign a db db' \<equiv> inv db' \<and> sent_by a (msgs db') = sent_by a (msgs db)"

lemma set_state_foreign:
  assumes E: "MessageRepo (me_repo (ae_ms A')) = M" and db: "inv db" and no: "isl (ae_CheckPermissionBySigner A' [a])"
  shows "foreign a db (snd (api_UpdateMessageStateByID A' i st db))"
proof (cases "guard_msg A' (GetMessageByUid (ae_ms A') i) db")
  case (Inl e)
  then show ?thesis using db by (simp add: api_UpdateMessageStateByID_def comp_simps)
next
  case (Inr m0)
  note row = guarded_row [OF E db Inr no]
  obtain q db' where run: "mr_UpdateMessageStateByID M i st db = (q, db')" by (cases "mr_UpdateMessageStateByID M i st db")
  have s: "snd (api_UpdateMessageStateByID A' i st db) = db'"
    using Inr run by (simp add: api_UpdateMessageStateByID_def UpdateMessageStateByID_def E comp_simps)
  show ?thesis unfolding s
  proof (cases q)
    case (Inl e)
    then show "foreign a db db'" using StateByID_err run db by blast
  next
    case (Inr u)
    obtain t where "inv db'" "msgs db' = upd_where (\<lambda>x. m_ID x = i) (\<lambda>x. x\<lparr>m_State := st, m_UpdatedAt := t\<rparr>) (msgs db)"
      using StateByID [OF db run [unfolded Inr, simplified]] by blast
    then show "foreign a db db'" using restated_foreign [OF restated_one [of st i "msgs db" t]] row by simp
  qed
qed

lemma mark_bad_foreign:
  assumes E: "MessageRepo (me_repo (ae_ms A')) = M" and db: "inv db" and no: "isl (ae_CheckPermissionBySigner A' [a])"
  shows "foreign a db (snd (api_MarkBadMessage A' i db))"
proof (cases "guard_msg A' (GetMessageByUid (ae_ms A') i) db")
  case (Inl e)
  then show ?thesis using db by (simp add: api_MarkBadMessage_def comp_simps)
next
  case (Inr m0)
  note row = guarded_row [OF E db Inr no]
  obtain q db' where run: "mr_MarkBadMessage M i db = (q, db')" by (cases "mr_MarkBadMessage M i db")
  have s: "snd (api_MarkBadMessage A' i db) = db'"
    using Inr run by (simp add: api_MarkBadMessage_def MarkBadMessage_def E comp_simps)
  show ?thesis unfolding s
  proof (cases q)
    case (Inl e)
    then show "foreign a db db'" using MarkBad_err run db by blast
  next
    case (Inr u)
    obtain t where "inv db'" "msgs db' = upd_where (\<lambda>x. m_ID x = i) (\<lambda>x. x\<lparr>m_State := FailedMsg, m_UpdatedAt := t\<rparr>) (msgs db)"
      using MarkBad [OF db run [unfolded Inr, simplified]] by blast
    then show "foreign a db db'" using restated_foreign [OF restated_one [of FailedMsg i "msgs db" t]] row by simp
  qed
qed

lemma own_ids:
  assumes "inv db" "m \<in> set (msgs db)" "m_ID m \<in> m_ID ` S" "S \<subseteq> {x \<in> set (msgs db). m_From x = addr}"
  shows "m_From m = addr"
proof -
  obtain x where x: "x \<in> set (msgs db)" "m_From x = addr" "m_ID m = m_ID x" using assms(3,4) by auto
  have "m = x" using ids [OF assms(1)] assms(2) x(1,3) unfolding distinct_map inj_on_def by blast
  with x(2) show ?thesis by simp
qed

lemma clear_foreign:
  assumes E: "MessageRepo (me_repo (ae_ms A')) = M" "Transaction (me_repo (ae_ms A')) = tx" and db: "inv db"
    and no: "isl (ae_CheckPermissionBySigner A' [a])"
  shows "foreign a db (snd (api_ClearUnFillMessage A' addr db))"
proof (cases "ae_CheckPermissionBySigner A' [addr]")
  case (Inl e)
  then show ?thesis using db by (simp add: api_ClearUnFillMessage_def guard_addr_def comp_simps)
next
  case (Inr u)
  then have ne: "addr \<noteq> a" using no by auto
  obtain r db' where run: "clearUnFillMessage (ae_ms A') addr db = (r, db')" by (cases "clearUnFillMessage (ae_ms A') addr db")
  have s: "snd (api_ClearUnFillMessage A' addr db) = db'" using Inr run by (simp add: api_ClearUnFillMessage_def guard_addr_def comp_simps)
  let ?S = "{m \<in> set (msgs db). m_From m = addr \<and> m_State m = UnFillMsg}"
  have S: "{m_ID m |m. m \<in> set (msgs db) \<and> m_From m = addr \<and> m_State m = UnFillMsg} = m_ID ` ?S" by auto
  have keep: "sent_by a (msgs db') = sent_by a (msgs db)" if "list_all2 (restated FailedMsg (m_ID ` ?S)) (msgs db) (msgs db')"
  proof (rule restated_foreign [OF that])
    fix m assume "m \<in> set (msgs db)" "m_ID m \<in> m_ID ` ?S"
    from own_ids [OF db this, of addr] ne show "m_From m \<noteq> a" by blast
  qed
  show ?thesis unfolding s using clear_effect [OF E db run] keep db unfolding S by (cases r) auto
qed

lemma recover_foreign:
  assumes E: "MessageRepo (me_repo (ae_ms A')) = M" and db: "inv db" and no: "isl (ae_CheckPermissionBySigner A' [a])"
  shows "foreign a db (snd (api_RecoverFailedMsg A' addr db))"
proof (cases "snd (api_RecoverFailedMsg A' addr db) = db")
  case False
  then obtain n l r where l: "mr_GetSignedMessageFromFailedMsg M addr db = Inr l" "\<exists>u. ae_CheckPermissionBySigner A' [addr] = Inr u"
    "recover_loop (ae_ms A') n l db = (r, snd (api_RecoverFailedMsg A' addr db))"
    unfolding api_RecoverFailedMsg_def RecoverFailedMsg_def guard_addr_def E
    by (auto simp: comp_simps split: sum.splits if_splits prod.splits) (blast intro: prod.collapse [symmetric])
  have ne: "addr \<noteq> a" using l(2) no by auto
  obtain js where js: "inv (snd (api_RecoverFailedMsg A' addr db))" "js \<subseteq> m_ID ` set l"
    "list_all2 (restated FillMsg js) (msgs db) (msgs (snd (api_RecoverFailedMsg A' addr db)))"
    using recover_loop_some [OF E db l(3)] by blast
  have "m_From m \<noteq> a" if "m \<in> set (msgs db)" "m_ID m \<in> js" for m
    using own_ids [OF db that(1), of "set l" addr] that(2) js(2) ListFailedSigned_set [OF db l(1)] ne by auto
  then show ?thesis using js(1) restated_foreign [OF js(3)] by blast
qed (use db in simp)

lemma push_foreign:
  assumes E: "MessageRepo (me_repo (ae_ms A')) = M" "AddressRepo (me_repo (ae_ms A')) = A" "Transaction (me_repo (ae_ms A')) = tx" and db: "inv db"
    and no: "isl (ae_CheckPermissionBySigner A' [a])"
    and keys: "\<And>x k. me_StateAccountKey (ae_ms A') x = Inr k \<Longrightarrow> \<not> Protocol_is_ID k"
  shows "foreign a db (snd (api_PushMessageWithId A' i msg meta db))"
proof (cases "snd (api_PushMessageWithId A' i msg meta db) = db")
  case False
  then obtain frm r where f: "resolveAddress A' (c_From msg) = Inr frm" "\<exists>u. ae_CheckPermissionBySigner A' [frm] = Inr u"
    "pushMessage (ae_ms A') (new_message i (msg\<lparr>c_From := frm\<rparr>) meta (ctx_name A')) db = (r, snd (api_PushMessageWithId A' i msg meta db))"
    unfolding api_PushMessageWithId_def PushMessageWithId_def guard_addr_def
    by (auto simp: comp_simps split: sum.splits prod.splits)
  have ne: "frm \<noteq> a" and key: "\<not> Protocol_is_ID frm"
    using f(1,2) no keys by (auto simp: resolveAddress_def comp_inv split: if_splits)
  have snd: "push_sender (ae_ms A') (new_message i (msg\<lparr>c_From := frm\<rparr>) meta (ctx_name A')) = Inr frm"
    using key by (simp add: push_sender_def new_message_def)
  note p = push_effect [OF E db f(3)]
  show ?thesis
  proof (cases r)
    case (Inl e)
    then show ?thesis using p by auto
  next
    case (Inr u)
    then obtain m' where "stored_as (pushed frm (new_message i (msg\<lparr>c_From := frm\<rparr>) meta (ctx_name A'))) m'"
      "msgs (snd (api_PushMessageWithId A' i msg meta db)) = msgs db @ [m']" using p snd by auto
    then show ?thesis using p ne by (auto simp: stored_as_simps(2) pushed_def)
  qed
qed (use db in simp)

end

section \<open>A sample API\<close>

text \<open>A caller with permission on one address, over the tables with a waiting message of another.\<close>

definition sample_api :: "sqlite_db api_env" where
  "sample_api = \<lparr>ae_ms = sample_menv, ae_CheckPermissionBySigner = (\<lambda>l. if set l \<subseteq> {Addr 1 ''mine''} then Inr () else Inl (Err ''no permission'')),
     ae_HasPermAdmin = False, ae_CtxGetName = Some ''user'', ae_ListSigners = (\<lambda>_. Inr [Addr 1 ''from''])\<rparr>"

lemma sample_api_keys: "me_StateAccountKey (ae_ms sample_api) x = Inr k \<Longrightarrow> \<not> Protocol_is_ID k"
  by (auto simp: sample_api_def sample_menv_def)

section \<open>The properties\<close>



text \<open>
  C16: a caller who is no administrator gets from the message listing only messages of senders
  the caller named and has permission for, or, naming none, of the caller's own signers.
\<close>

theorem api_lists_only_permitted:
  fixes A :: "'db api_env"
  assumes store: "message_store (MessageRepo (ae_repo A)) ok msgs cstr" and ok: "ok db"
    and caller: "\<not> isAdmin A" and run: "api_ListMessage A p db = Inr l" and m: "m \<in> set l"
  shows "(if q_From p = [] then \<exists>signers. getSigners A = Inr signers \<and> m_From m \<in> set signers
    else ae_CheckPermissionBySigner A (q_From p) = Inr () \<and> m_From m \<in> set (q_From p))"
proof -
  have listed: "m_From m \<in> set (q_From q)" if lq: "ListMessage (ae_ms A) q db = Inr l" and nq: "q_From q \<noteq> []" for q
  proof -
    obtain ts l0 where l0: "mr_ListMessageByParams (MessageRepo (ae_repo A)) q db = Inr l0" "l = map (with_confidence ts) l0"
      using lq by (auto simp: ListMessage_def read_many_def comp_inv)
    obtain m0 where m0: "m0 \<in> set l0" "m_From m = m_From m0" using m l0(2) by (auto simp: with_confidence_def)
    have "m0 \<in># mset (filter (params_match q) (msgs db))"
      using conjunct1 [OF message_store.ListParams [OF store ok l0(1)]] m0(1) by (auto dest: mset_subset_eqD)
    then show ?thesis using nq m0(2) by (auto simp: params_match_def)
  qed
  show ?thesis
  proof (cases "q_From p = []")
    case True
    then obtain signers where s: "getSigners A = Inr signers" "signers \<noteq> []" "ListMessage (ae_ms A) (p\<lparr>q_From := signers\<rparr>) db = Inr l"
      using run caller m by (auto simp: api_ListMessage_def comp_inv split: if_splits)
    then show ?thesis using listed [OF s(3)] True by simp
  next
    case False
    then have "ae_CheckPermissionBySigner A (q_From p) = Inr ()" "ListMessage (ae_ms A) p db = Inr l"
      using run by (auto simp: api_ListMessage_def comp_inv)
    then show ?thesis using listed False by simp
  qed
qed

theorem api_lists_only_permitted_witness:
  "\<exists>m. api_ListMessage sample_api empty_query sent_db = Inr [m] \<and> m_From m \<in> set [Addr 1 ''from'']"
proof -
  have "case api_ListMessage sample_api empty_query sent_db of Inr l \<Rightarrow> length l = 1 | Inl _ \<Rightarrow> False" by code_simp
  then obtain m where l: "api_ListMessage sample_api empty_query sent_db = Inr [m]" by (auto simp: length_Suc_conv split: sum.splits)
  have store: "message_store (MessageRepo (ae_repo sample_api)) (sqlite_inv plain_codec) (sqlite_msgs plain_codec) (cid_str plain_codec)"
    using repo_store.axioms(1) [OF sample_menv_store] by (simp add: sample_api_def)
  from api_lists_only_permitted [OF store sent_db_inv _ l, of m] l show ?thesis
    by (simp add: isAdmin_def getSigners_def sample_api_def empty_query_def)
qed

end
