(* ===== verification/PushLoop.thy ===== *)
theory PushLoop
  imports MessageService WorksProps MessageServiceProps
begin

text \<open>
  The loop that starts a selection for every new head (\<open>service/message_service.go\<close>:
  \<open>StartPushMessage\<close>, \<open>delaySelectMessage\<close>, \<open>tryClearUnFillMsg\<close>) and the
  requests to clear waiting messages that it serves (\<open>ClearUnFillMessage\<close>), which meet on two
  unbuffered channels: a request goes out on one, its result comes back on the other.
\<close>

section \<open>The state\<close>

text \<open>
  A request is asking (blocked in its send), awaiting the result, answered, or given up because
  the caller's context ended. \<open>pl_waiting\<close> is the head whose goroutine is still in its
  waiting time (a new head cancels it), \<open>pl_blocked\<close> are the goroutines blocked in the send of
  a result.
\<close>

datatype clear_request = Asking address | Awaiting address | Answered "int result" | GaveUp

record 'db push_state =
  pl_db :: 'db
  pl_latest :: "tipset option"
  pl_waiting :: "tipset option"
  pl_requests :: "clear_request list"
  pl_blocked :: "(tipset \<times> int result) list"
  pl_mgr :: MsgSelectMgr

section \<open>The moves\<close>

text \<open>A head equal to the last one is skipped; otherwise its goroutine replaces the waiting one.\<close>

definition StartPushMessage :: "tipset \<Rightarrow> 'db push_state \<Rightarrow> 'db push_state" where
  "StartPushMessage newHead s =
     (if (case pl_latest s of None \<Rightarrow> False | Some latest \<Rightarrow> ts_Key latest = ts_Key newHead) then s
      else s\<lparr>pl_latest := Some newHead, pl_waiting := Some newHead\<rparr>)"

definition select_head :: "'db repo \<Rightarrow> (tipset_key \<Rightarrow> chain_msg list result) \<Rightarrow> bool \<Rightarrow> tipset \<Rightarrow> 'db push_state \<Rightarrow> 'db push_state" where
  "select_head R get skipPushMsg ts s =
     (if skipPushMsg then s else s\<lparr>pl_mgr := snd (SelectMessage R get ts (pl_db s) (pl_mgr s))\<rparr>)"

text \<open>
  After the waiting time: the request \<open>k\<close> that is asking is taken and served, which leaves the
  goroutine at the send of the result; without one it goes on to select.
\<close>

definition delaySelectMessage :: "'db ms_env \<Rightarrow> (tipset_key \<Rightarrow> chain_msg list result) \<Rightarrow> bool \<Rightarrow> nat option \<Rightarrow> 'db push_state \<Rightarrow> 'db push_state" where
  "delaySelectMessage env get skipPushMsg k s =
     (case pl_waiting s of None \<Rightarrow> s | Some ts \<Rightarrow>
        let s' = s\<lparr>pl_waiting := None\<rparr>
        in case k of
             None \<Rightarrow> select_head (me_repo env) get skipPushMsg ts s'
           | Some k \<Rightarrow> (case pl_requests s ! k of
               Asking addr \<Rightarrow> (case clearUnFillMessage env addr (pl_db s) of (r, db') \<Rightarrow>
                 s'\<lparr>pl_db := db', pl_requests := (pl_requests s)[k := Awaiting addr], pl_blocked := pl_blocked s @ [(ts, r)]\<rparr>)
             | _ \<Rightarrow> s'))"

text \<open>The result of the blocked goroutine \<open>j\<close> reaches the awaiting request \<open>k\<close>.\<close>

definition tryClearUnFillMsg :: "'db repo \<Rightarrow> (tipset_key \<Rightarrow> chain_msg list result) \<Rightarrow> bool \<Rightarrow> nat \<Rightarrow> nat \<Rightarrow> 'db push_state \<Rightarrow> 'db push_state" where
  "tryClearUnFillMsg R get skipPushMsg j k s =
     (case pl_blocked s ! j of (ts, r) \<Rightarrow>
        select_head R get skipPushMsg ts
          (s\<lparr>pl_blocked := take j (pl_blocked s) @ drop (Suc j) (pl_blocked s), pl_requests := (pl_requests s)[k := Answered r]\<rparr>))"

definition ClearUnFillMessage :: "address \<Rightarrow> 'db push_state \<Rightarrow> 'db push_state" where
  "ClearUnFillMessage addr s = s\<lparr>pl_requests := pl_requests s @ [Asking addr]\<rparr>"

definition give_up :: "nat \<Rightarrow> 'db push_state \<Rightarrow> 'db push_state" where
  "give_up k s = s\<lparr>pl_requests := (pl_requests s)[k := GaveUp]\<rparr>"

fun is_asking :: "clear_request \<Rightarrow> bool" where
  "is_asking (Asking _) = True"
| "is_asking _ = False"

fun is_awaiting :: "clear_request \<Rightarrow> bool" where
  "is_awaiting (Awaiting _) = True"
| "is_awaiting _ = False"

text \<open>A request that is asking cannot be given up: its send does not look at the context.\<close>

inductive push_step :: "'db ms_env \<Rightarrow> (tipset_key \<Rightarrow> chain_msg list result) \<Rightarrow> bool \<Rightarrow> 'db push_state \<Rightarrow> 'db push_state \<Rightarrow> bool"
  for env get skip where
  head: "push_step env get skip s (StartPushMessage ts s)"
| ask: "push_step env get skip s (ClearUnFillMessage addr s)"
| idle: "\<not> list_ex is_asking (pl_requests s) \<Longrightarrow> push_step env get skip s (delaySelectMessage env get skip None s)"
| serve: "k < length (pl_requests s) \<Longrightarrow> is_asking (pl_requests s ! k) \<Longrightarrow> push_step env get skip s (delaySelectMessage env get skip (Some k) s)"
| answer: "j < length (pl_blocked s) \<Longrightarrow> k < length (pl_requests s) \<Longrightarrow> is_awaiting (pl_requests s ! k) \<Longrightarrow>
    push_step env get skip s (tryClearUnFillMsg (me_repo env) get skip j k s)"
| cancel: "k < length (pl_requests s) \<Longrightarrow> is_awaiting (pl_requests s ! k) \<Longrightarrow> push_step env get skip s (give_up k s)"

section \<open>The result of an abandoned request\<close>

definition push_start :: "sqlite_db push_state" where
  "push_start = \<lparr>pl_db = two_db, pl_latest = None, pl_waiting = None, pl_requests = [], pl_blocked = [], pl_mgr = sample_mgr\<rparr>"

definition other_ts :: tipset where
  "other_ts = sample_ts\<lparr>ts_Key := [Cid ''i''], ts_Height := 11\<rparr>"

text \<open>Two requests, a head that serves the first, whose caller gives up, and a head that serves the second.\<close>

definition push_asked :: "sqlite_db push_state" where
  "push_asked = StartPushMessage sample_ts (ClearUnFillMessage (Addr 1 ''other'') (ClearUnFillMessage (Addr 1 ''from'') push_start))"

definition push_first :: "sqlite_db push_state" where
  "push_first = delaySelectMessage sample_menv sample_get False (Some 0) push_asked"

definition push_abandoned :: "sqlite_db push_state" where
  "push_abandoned = StartPushMessage other_ts (give_up 0 push_first)"

definition push_served :: "sqlite_db push_state" where
  "push_served = delaySelectMessage sample_menv sample_get False (Some 1) push_abandoned"

lemma push_served_reach: "(push_step sample_menv sample_get False)\<^sup>*\<^sup>* push_start push_served"
proof -
  let ?S = "push_step sample_menv sample_get False"
  have c: "0 < length (pl_requests push_asked) \<and> is_asking (pl_requests push_asked ! 0)"
    "0 < length (pl_requests push_first) \<and> is_awaiting (pl_requests push_first ! 0)"
    "1 < length (pl_requests push_abandoned) \<and> is_asking (pl_requests push_abandoned ! 1)" by code_simp+
  note ask = push_step.ask [of sample_menv sample_get False] and head = push_step.head [of sample_menv sample_get False]
  have "?S\<^sup>*\<^sup>* push_start push_asked" unfolding push_asked_def
    by (rule rtranclp.intros(2) [where r = ?S], rule rtranclp.intros(2) [where r = ?S], rule rtranclp.intros(2) [where r = ?S])
      (rule rtranclp.rtrancl_refl ask head)+
  moreover have "?S push_asked push_first" unfolding push_first_def using c(1) by (intro push_step.serve) blast+
  moreover have "?S push_first (give_up 0 push_first)" using c(2) by (intro push_step.cancel) blast+
  moreover have "?S (give_up 0 push_first) push_abandoned" unfolding push_abandoned_def by (rule head)
  moreover have "?S push_abandoned push_served" unfolding push_served_def using c(3) by (intro push_step.serve) blast+
  ultimately show ?thesis by (meson rtranclp.rtrancl_into_rtrancl)
qed


end
