(* ===== verification/Cli.thy ===== *)
theory Cli
  imports Api
begin

text \<open>
  The command line (\<open>cli\<close>): what each command does with its flags and arguments before, between
  and after its calls of the API. The parsed command line (\<open>urfave/cli\<close>), the connections, the
  parsers of amounts, numbers, durations and identifiers, and the tables of built-in actors are
  parameters; printing is left out, so that a command that only prints returns what it prints.
\<close>

section \<open>The command line and the connection\<close>

text \<open>
  \<open>cli.Context\<close>: which flags are set, their values (the default for one that is not), and the
  arguments. \<open>x_State\<close> is the state whose number the flag \<open>state\<close> has.
\<close>

record cli_ctx =
  x_IsSet :: "string \<Rightarrow> bool"
  x_String :: "string \<Rightarrow> string"
  x_Bool :: "string \<Rightarrow> bool"
  x_Int :: "string \<Rightarrow> int"
  x_Uint64 :: "string \<Rightarrow> u64"
  x_Float64 :: "string \<Rightarrow> float64"
  x_State :: message_state
  x_Args :: "string list"

definition arg_at :: "cli_ctx \<Rightarrow> nat \<Rightarrow> string" where
  "arg_at ctx k = (if k < length (x_Args ctx) then x_Args ctx ! k else '''')"

record 'db cli_env =
  ce_api :: "'db api_env"
  ce_getAPI :: "unit result"
  ce_getNodeAPI :: "unit result"
  ce_LoadBuiltinActors :: "unit result"
  ce_codec :: codec
  ce_ParseFIL :: "string \<Rightarrow> int result"
  ce_BigFromString :: "string \<Rightarrow> int result"
  ce_ParseUint :: "string \<Rightarrow> u64 result"
  ce_ParseDuration :: "string \<Rightarrow> time result"
  ce_ParseUUID :: "string \<Rightarrow> uuid result"
  ce_NewUUID :: uuid
  ce_MessageConfidence :: u64
  ce_NewMessageParser :: "unit result"
  ce_ParseMessage :: "message \<Rightarrow> unit result"
  ce_MethodsMap :: "cid \<Rightarrow> method_num \<Rightarrow> (string \<times> int) option"

text \<open>A call of the API over RPC: the error that arrives is the text of the server's, also for a panic.\<close>

definition rpcC :: "('s, 'a) comp \<Rightarrow> ('s, 'a) comp" where
  "rpcC f s = (case f s of (Inl e, s') \<Rightarrow> (Inl (Err (error_text e)), s') | (Inr x, s') \<Rightarrow> (Inr x, s'))"

definition connect :: "'db cli_env \<Rightarrow> ('s, unit) comp" where
  "connect env = liftC (ce_getAPI env)"

definition connect_both :: "'db cli_env \<Rightarrow> ('s, unit) comp" where
  "connect_both env = bindC (connect env) (\<lambda>_. bindC (liftC (ce_getNodeAPI env)) (\<lambda>_. liftC (ce_LoadBuiltinActors env)))"

definition parse_addr :: "'db cli_env \<Rightarrow> string \<Rightarrow> ('s, address) comp" where
  "parse_addr env s = liftC (ad_parse (ce_codec env) s)"

text \<open>A call whose error is printed before the loop goes on.\<close>

definition printed :: "('s, 'a) comp \<Rightarrow> ('s, unit) comp" where
  "printed f = dropC (attemptC f)"

section \<open>Repository path (cli/cmd.go)\<close>

text \<open>\<open>stat\<close> says whether a path exists and is a directory.\<close>

definition hasFSRepo :: "(string \<Rightarrow> bool option result) \<Rightarrow> string \<Rightarrow> bool result" where
  "hasFSRepo stat repoPath = bindE (stat repoPath) (\<lambda>fi. case fi of
      None \<Rightarrow> Inr False
    | Some isDir \<Rightarrow> if \<not> isDir then Inl (Err (repoPath @ '' is not a folder'')) else Inr True)"

definition OldRepoPath :: string where
  "OldRepoPath = ''~/.venus-messager''"

definition GetRepoPath :: "(string \<Rightarrow> string result) \<Rightarrow> (string \<Rightarrow> bool option result) \<Rightarrow> cli_ctx \<Rightarrow> string result" where
  "GetRepoPath expand stat ctx =
     bindE (expand (x_String ctx ''repo'')) (\<lambda>repoPath.
     bindE (hasFSRepo stat repoPath) (\<lambda>has.
       if \<not> has
       then bindE (expand OldRepoPath) (\<lambda>rPath.
            bindE (hasFSRepo stat rPath) (\<lambda>has. if has then Inr rPath else Inr repoPath))
       else Inr repoPath))"

section \<open>Flags of a replacement (cli/flag.go)\<close>

definition flag_amount :: "(string \<Rightarrow> int result) \<Rightarrow> string \<Rightarrow> cli_ctx \<Rightarrow> string \<Rightarrow> bigint result" where
  "flag_amount parse what ctx name =
     (if x_IsSet ctx name
      then bindE (mapErrE (\<lambda>e. Err (what @ error_text e)) (parse (x_String ctx name))) (\<lambda>v. Inr (Some v))
      else Inr None)"

definition ParseFlagToReplaceMessaeParams :: "'db cli_env \<Rightarrow> cli_ctx \<Rightarrow> replace_params result" where
  "ParseFlagToReplaceMessaeParams env ctx =
     bindE (flag_amount (ce_ParseFIL env) ''parse max fee failed: '' ctx ''max-fee'') (\<lambda>maxFee.
     bindE (flag_amount (ce_BigFromString env) ''parse gas premium failed: '' ctx ''gas-premium'') (\<lambda>gasPremium.
     bindE (flag_amount (ce_BigFromString env) ''parse gas feecap failed: '' ctx ''gas-feecap'') (\<lambda>gasFeecap.
     Inr \<lparr>rp_ID = '''', rp_Auto = x_Bool ctx ''auto'', rp_MaxFee = maxFee, rp_GasLimit = x_Int ctx ''gas-limit'',
          rp_GasPremium = gasPremium, rp_GasFeecap = gasFeecap, rp_GasOverPremium = x_Float64 ctx ''gas-over-premium''\<rparr>)))"

section \<open>Messages (cli/msg.go)\<close>

definition searchCmd :: "'db cli_env \<Rightarrow> cli_ctx \<Rightarrow> ('db, message) comp" where
  "searchCmd env ctx =
     bindC (connect_both env) (\<lambda>_.
     bindC (if length (x_String ctx ''id'') > 0
            then rpcC (queryC (api_GetMessageByUid (ce_api env) (x_String ctx ''id'')))
            else if length (x_String ctx ''cid'') > 0
            then bindC (liftC (cid_dec (ce_codec env) (x_String ctx ''cid''))) (\<lambda>c.
                   rpcC (queryC (api_GetMessageBySignedCid (ce_api env) c)))
            else failC (Err ''value of query must be entered'')) (\<lambda>msg.
     bindC (liftC (case ce_NewMessageParser env of Inl err \<Rightarrow> Inr () | Inr _ \<Rightarrow> ce_ParseMessage env msg)) (\<lambda>_. returnC msg)))"

text \<open>
  The receipt is printed without a look whether there is one. \<open>polls\<close> are the server's polls.
\<close>

definition waitMessagerCmd :: "'db cli_env \<Rightarrow> message result list \<Rightarrow> cli_ctx \<Rightarrow> ('db, message) comp" where
  "waitMessagerCmd env polls ctx =
     bindC (connect env) (\<lambda>_.
       if length (x_Args ctx) = 0 then failC (Err ''must has id argument'')
       else bindC (rpcC (queryC (api_WaitMessage (ce_api env) (arg_at ctx 0) (ce_MessageConfidence env) polls))) (\<lambda>msg.
         case m_Receipt msg of None \<Rightarrow> failC (Panic ''nil MessageReceipt'') | Some _ \<Rightarrow> returnC msg))"

definition listCmd :: "'db cli_env \<Rightarrow> cli_ctx \<Rightarrow> ('db, message list) comp" where
  "listCmd env ctx =
     bindC (connect_both env) (\<lambda>_.
     bindC (if length (x_String ctx ''from'') > 0 then parse_addr env (x_String ctx ''from'') else returnC AddrUndef) (\<lambda>from.
     bindC (if length (x_String ctx ''time'') > 0 then liftC (ce_ParseDuration env (x_String ctx ''time'')) else returnC 0) (\<lambda>d.
       rpcC (queryC (api_ListMessageByFromState (ce_api env) from (x_State ctx) False (x_Int ctx ''page-index'') (x_Int ctx ''page-size'') d)))))"

definition listFailedCmd :: "'db cli_env \<Rightarrow> cli_ctx \<Rightarrow> ('db, message list) comp" where
  "listFailedCmd env ctx =
     bindC (connect_both env) (\<lambda>_.
     bindC (rpcC (queryC (api_ListFailedMessage (ce_api env)))) (\<lambda>msgs.
       returnC (if length (x_String ctx ''from'') > 0
                then filter (\<lambda>msg. ad_str (ce_codec env) (m_From msg) = x_String ctx ''from'') msgs else msgs)))"

definition ListBlockedMessageCmd :: "'db cli_env \<Rightarrow> cli_ctx \<Rightarrow> ('db, message list) comp" where
  "ListBlockedMessageCmd env ctx =
     bindC (connect_both env) (\<lambda>_.
     bindC (liftC (ce_ParseDuration env (x_String ctx ''time''))) (\<lambda>t.
     bindC (if x_IsSet ctx ''from'' then parse_addr env (x_String ctx ''from'') else returnC AddrUndef) (\<lambda>addr.
       rpcC (queryC (api_ListBlockedMessage (ce_api env) addr t)))))"

definition updateAllFilledMessageCmd :: "'db cli_env \<Rightarrow> cli_ctx \<Rightarrow> ('db, int) comp" where
  "updateAllFilledMessageCmd env ctx = bindC (connect env) (\<lambda>_. rpcC (api_UpdateAllFilledMessage (ce_api env)))"

definition updateFilledMessageCmd :: "'db cli_env \<Rightarrow> cli_ctx \<Rightarrow> ('db, unit) comp" where
  "updateFilledMessageCmd env ctx =
     bindC (connect env) (\<lambda>_.
     bindC (if length (x_String ctx ''id'') = 0
            then (if length (x_String ctx ''signed_cid'') > 0
                  then bindC (liftC (cid_dec (ce_codec env) (x_String ctx ''signed_cid''))) (\<lambda>c.
                       bindC (rpcC (queryC (api_GetMessageBySignedCid (ce_api env) c))) (\<lambda>msg. returnC (m_ID msg)))
                  else if length (x_String ctx ''unsigned_cid'') > 0
                  then bindC (liftC (cid_dec (ce_codec env) (x_String ctx ''unsigned_cid''))) (\<lambda>c.
                       bindC (rpcC (queryC (api_GetMessageByUnsignedCid (ce_api env) c))) (\<lambda>msg. returnC (m_ID msg)))
                  else failC (Err ''value of query must be entered''))
            else returnC (x_String ctx ''id'')) (\<lambda>i.
       dropC (rpcC (api_UpdateFilledMessageByID (ce_api env) i))))"

text \<open>Another number of arguments than one or two shows the help (\<open>None\<close>).\<close>

definition replaceCmd :: "'db cli_env \<Rightarrow> cli_ctx \<Rightarrow> ('db \<times> msg_channel, cid option) comp" where
  "replaceCmd env ctx =
     bindC (connect env) (\<lambda>_.
     bindC (if length (x_Args ctx) = 1 then returnC (Some (arg_at ctx 0))
            else if length (x_Args ctx) = 2
            then bindC (parse_addr env (arg_at ctx 0)) (\<lambda>f.
                 bindC (liftC (ce_ParseUint env (arg_at ctx 1))) (\<lambda>n.
                 bindC (mapErrC (Wrap ''could not find referenced message: '')
                   (rpcC (askDb (api_GetMessageByFromAndNonce (ce_api env) f n)))) (\<lambda>msg. returnC (Some (m_ID msg)))))
            else returnC None) (\<lambda>ido. case ido of
         None \<Rightarrow> returnC None
       | Some i \<Rightarrow>
           bindC (liftC (ParseFlagToReplaceMessaeParams env ctx)) (\<lambda>params.
           bindC (rpcC (api_ReplaceMessage (ce_api env) (Some (params\<lparr>rp_ID := i\<rparr>)))) (\<lambda>c. returnC (Some c)))))"

definition republishCmd :: "'db cli_env \<Rightarrow> cli_ctx \<Rightarrow> ('db \<times> msg_channel, unit) comp" where
  "republishCmd env ctx =
     bindC (connect env) (\<lambda>_.
       if length (x_Args ctx) = 0 then failC (Err ''must has id argument'')
       else rpcC (api_RepublishMessage (ce_api env) (arg_at ctx 0)))"

definition confirmed :: "cli_ctx \<Rightarrow> ('s, 'a) comp \<Rightarrow> ('s, 'a) comp" where
  "confirmed ctx f = (if \<not> x_Bool ctx ''really-do-it'' then failC (Err ''confirm to exec this command, specify --really-do-it'') else f)"

definition mark_each :: "'db cli_env \<Rightarrow> string list \<Rightarrow> ('db, unit) comp" where
  "mark_each env = forC (\<lambda>i. printed (rpcC (api_MarkBadMessage (ce_api env) i)))"

definition markBadCmd :: "'db cli_env \<Rightarrow> cli_ctx \<Rightarrow> ('db, unit) comp" where
  "markBadCmd env ctx =
     bindC (connect env) (\<lambda>_. confirmed ctx
       (if x_IsSet ctx ''from''
        then bindC (parse_addr env (x_String ctx ''from'')) (\<lambda>fromAddr.
             bindC (rpcC (queryC (api_ListMessageByAddress (ce_api env) fromAddr))) (\<lambda>msgs.
               mark_each env (map m_ID (filter (\<lambda>msg. m_State msg = UnFillMsg \<and> length (m_ErrorMsg msg) > 0) msgs))))
        else if length (x_Args ctx) = 0 then failC (Err ''must has id argument'')
        else mark_each env (x_Args ctx)))"

definition recover_one :: "'db cli_env \<Rightarrow> string \<Rightarrow> ('db, unit) comp" where
  "recover_one env i =
     bindC (rpcC (queryC (api_GetMessageByUid (ce_api env) i))) (\<lambda>msg.
       if m_State msg \<noteq> FailedMsg then returnC ()
       else if m_Nonce msg \<noteq> 0 \<and> m_Signature msg \<noteq> None
       then printed (rpcC (api_UpdateMessageStateByID (ce_api env) i FillMsg))
       else printed (rpcC (api_UpdateMessageStateByID (ce_api env) i UnFillMsg)))"

definition recoverFailedMsgCmd :: "'db cli_env \<Rightarrow> cli_ctx \<Rightarrow> ('db, string list) comp" where
  "recoverFailedMsgCmd env ctx =
     bindC (connect env) (\<lambda>_. confirmed ctx
       (if x_IsSet ctx ''from''
        then bindC (parse_addr env (x_String ctx ''from'')) (\<lambda>fromAddr. rpcC (api_RecoverFailedMsg (ce_api env) fromAddr))
        else if length (x_Args ctx) = 0 then failC (Err ''must has id argument'')
        else bindC (forC (recover_one env) (x_Args ctx)) (\<lambda>_. returnC [])))"

definition clearUnFillMessageCmd :: "'db cli_env \<Rightarrow> cli_ctx \<Rightarrow> ('db, int) comp" where
  "clearUnFillMessageCmd env ctx =
     bindC (connect env) (\<lambda>_. confirmed ctx
       (if x_Args ctx = [] then failC (Err ''must pass address'')
        else bindC (parse_addr env (arg_at ctx 0)) (\<lambda>addr. rpcC (api_ClearUnFillMessage (ce_api env) addr))))"

definition updateMessageStateCmd :: "'db cli_env \<Rightarrow> cli_ctx \<Rightarrow> ('db, unit) comp" where
  "updateMessageStateCmd env ctx = confirmed ctx
     (bindC (connect env) (\<lambda>_.
      bindC (rpcC (queryC (api_GetMessageByUid (ce_api env) (x_String ctx ''id'')))) (\<lambda>msg.
        if m_State msg = x_State ctx then failC (Err ''the state has not changed, no need to update'')
        else rpcC (api_UpdateMessageStateByID (ce_api env) (x_String ctx ''id'') (x_State ctx)))))"

section \<open>Sending (cli/send.go)\<close>

text \<open>
  The decoders and the number of the method \<open>Send\<close> are the server's, as for \<open>api_Send\<close>; the
  account of the flag is a field no operation reads.
\<close>

definition flag_codec :: "cli_ctx \<Rightarrow> (string \<times> params_codec) result" where
  "flag_codec ctx =
     (let (ps, ty) = (if x_IsSet ctx ''params-json'' then (x_String ctx ''params-json'', QuickSendParamsCodecJSON) else ('''', CodecOther ''''))
      in if x_IsSet ctx ''params-hex''
         then (if length ps \<noteq> 0 then Inl (Err ''can only specify one of params-json and params-hex'')
               else Inr (x_String ctx ''params-hex'', QuickSendParamsCodecHex))
         else Inr (ps, ty))"

definition set_amount :: "'db cli_env \<Rightarrow> cli_ctx \<Rightarrow> string \<Rightarrow> bigint option result" where
  "set_amount env ctx name =
     (if x_IsSet ctx name then bindE (ce_BigFromString env (x_String ctx name)) (\<lambda>g. Inr (Some (Some g))) else Inr None)"

definition SendCmd :: "'db cli_env \<Rightarrow> (address \<Rightarrow> method_num \<Rightarrow> string \<Rightarrow> bytes result) \<Rightarrow> (string \<Rightarrow> bytes result) \<Rightarrow>
    method_num \<Rightarrow> cli_ctx \<Rightarrow> ('db, string) comp" where
  "SendCmd env dec hexDecode MethodSend ctx =
     (if length (x_Args ctx) \<noteq> 2 then failC (Err ''send expects two arguments, target and amount'')
      else
        bindC (connect env) (\<lambda>_.
        bindC (mapErrC (Wrap ''failed to parse target address: '') (parse_addr env (arg_at ctx 0))) (\<lambda>to.
        bindC (mapErrC (Wrap ''failed to parse amount: '') (liftC (ce_ParseFIL env (arg_at ctx 1)))) (\<lambda>val.
        bindC (mapErrC (Wrap ''failed to parse from address: '') (parse_addr env (x_String ctx ''from''))) (\<lambda>addr.
        bindC (liftC (set_amount env ctx ''gas-premium'')) (\<lambda>gp.
        bindC (liftC (set_amount env ctx ''gas-feecap'')) (\<lambda>gfc.
        bindC (liftC (flag_codec ctx)) (\<lambda>(ps, ty).
          rpcC (api_Send (ce_api env) dec hexDecode MethodSend
            \<lparr>qs_To = to, qs_From = addr, qs_Val = Some val, qs_Method = x_Uint64 ctx ''method'', qs_Params = ps, qs_ParamsType = ty,
             qs_GasPremium = gp, qs_GasFeeCap = gfc,
             qs_GasLimit = (if x_IsSet ctx ''gas-limit'' then Some (x_Int ctx ''gas-limit'') else None)\<rparr>)))))))))"

end
