(* ===== verification/CliAdmin.thy ===== *)
theory CliAdmin
  imports Cli
begin

text \<open>
  The commands for addresses, nodes, shared parameters and actor configurations
  (\<open>cli/address.go\<close>, \<open>cli/node.go\<close>, \<open>cli/shared_params.go\<close>, \<open>cli/actor_cfg.go\<close>)
  and the batch replacement of blocked messages (\<open>tools/internal/batch_replace.go\<close>).
\<close>

section \<open>Addresses (cli/address.go)\<close>

definition on_address :: "'db cli_env \<Rightarrow> cli_ctx \<Rightarrow> (address \<Rightarrow> ('db, 'a) comp) \<Rightarrow> ('db, 'a) comp" where
  "on_address env ctx f =
     bindC (connect env) (\<lambda>_.
       if x_Args ctx = [] then failC (Err ''must pass address'') else bindC (parse_addr env (arg_at ctx 0)) f)"

definition searchAddrCmd :: "'db cli_env \<Rightarrow> cli_ctx \<Rightarrow> ('db, address_info) comp" where
  "searchAddrCmd env ctx = on_address env ctx (\<lambda>addr. rpcC (queryC (api_GetAddress (ce_api env) addr)))"

definition listAddrCmd :: "'db cli_env \<Rightarrow> cli_ctx \<Rightarrow> ('db, address_info list) comp" where
  "listAddrCmd env ctx = bindC (connect env) (\<lambda>_. rpcC (queryC (api_ListAddress (ce_api env))))"

definition deleteAddrCmd :: "'db cli_env \<Rightarrow> cli_ctx \<Rightarrow> ('db, unit) comp" where
  "deleteAddrCmd env ctx = on_address env ctx (\<lambda>addr. rpcC (api_DeleteAddress (ce_api env) addr))"

definition if_known :: "'db cli_env \<Rightarrow> address \<Rightarrow> ('db, unit) comp \<Rightarrow> ('db, unit) comp" where
  "if_known env addr f =
     bindC (rpcC (queryC (api_HasAddress (ce_api env) addr))) (\<lambda>hasAddr.
       if \<not> hasAddr then failC (Err ''address not exist'') else f)"

definition forbiddenAddrCmd :: "'db cli_env \<Rightarrow> cli_ctx \<Rightarrow> ('db, unit) comp" where
  "forbiddenAddrCmd env ctx = on_address env ctx (\<lambda>addr. if_known env addr (rpcC (api_ForbiddenAddress (ce_api env) addr)))"

definition activeAddrCmd :: "'db cli_env \<Rightarrow> cli_ctx \<Rightarrow> ('db, unit) comp" where
  "activeAddrCmd env ctx = on_address env ctx (\<lambda>addr. if_known env addr (rpcC (api_ActiveAddress (ce_api env) addr)))"

definition setAddrSelMsgNumCmd :: "'db cli_env \<Rightarrow> cli_ctx \<Rightarrow> ('db, unit) comp" where
  "setAddrSelMsgNumCmd env ctx = on_address env ctx (\<lambda>addr. rpcC (api_SetSelectMsgNum (ce_api env) addr (x_Uint64 ctx ''num'')))"

text \<open>\<open>big_parse\<close> is the server's parser of amounts.\<close>

definition setFeeParamsCmd :: "'db cli_env \<Rightarrow> (string \<Rightarrow> int result) \<Rightarrow> cli_ctx \<Rightarrow> ('db, unit) comp" where
  "setFeeParamsCmd env big_parse ctx = on_address env ctx (\<lambda>addr.
     rpcC (api_SetFeeParams (ce_api env) big_parse
       \<lparr>asp_Address = addr, asp_GasOverEstimation = x_Float64 ctx ''gas-overestimation'', asp_GasOverPremium = x_Float64 ctx ''gas-over-premium'',
        asp_MaxFeeStr = x_String ctx ''max-fee'', asp_GasFeeCapStr = x_String ctx ''gas-feecap'', asp_BaseFeeStr = x_String ctx ''base-fee''\<rparr>))"

section \<open>Nodes (cli/node.go)\<close>

text \<open>\<open>dial\<close> is the server's test of the node.\<close>

definition addNodeCmd :: "'db cli_env \<Rightarrow> (string \<Rightarrow> string \<Rightarrow> unit result) \<Rightarrow> cli_ctx \<Rightarrow> ('db, unit) comp" where
  "addNodeCmd env dial ctx =
     bindC (connect env) (\<lambda>_.
       if length (x_String ctx ''url'') = 0 then failC (Err ''url cannot be empty'')
       else if length (x_String ctx ''token'') = 0 then failC (Err ''token cannot be empty'')
       else bindC (rpcC (queryC (api_HasNode (ce_api env) (x_String ctx ''name'')))) (\<lambda>has.
         if has then failC (Err ''node exist'')
         else rpcC (api_SaveNode (ce_api env) dial
           \<lparr>n_ID = ce_NewUUID env, n_Name = x_String ctx ''name'', n_URL = x_String ctx ''url'', n_Token = x_String ctx ''token'',
            n_Type = 0, n_CreatedAt = 0, n_UpdatedAt = 0\<rparr>)))"

definition searchNodeCmd :: "'db cli_env \<Rightarrow> cli_ctx \<Rightarrow> ('db, node) comp" where
  "searchNodeCmd env ctx =
     bindC (connect env) (\<lambda>_.
       if x_Args ctx = [] then failC (Err ''must pass node name'') else rpcC (queryC (api_GetNode (ce_api env) (arg_at ctx 0))))"

definition listNodeCmd :: "'db cli_env \<Rightarrow> cli_ctx \<Rightarrow> ('db, node list) comp" where
  "listNodeCmd env ctx = bindC (connect env) (\<lambda>_. rpcC (queryC (api_ListNode (ce_api env))))"

definition deleteNodeCmd :: "'db cli_env \<Rightarrow> cli_ctx \<Rightarrow> ('db, unit) comp" where
  "deleteNodeCmd env ctx =
     bindC (connect env) (\<lambda>_.
       if x_Args ctx = [] then failC (Err ''must pass name'') else rpcC (api_DeleteNode (ce_api env) (arg_at ctx 0)))"

section \<open>Shared parameters (cli/shared_params.go)\<close>

definition or_flag :: "(string \<Rightarrow> int result) \<Rightarrow> string \<Rightarrow> cli_ctx \<Rightarrow> string \<Rightarrow> bigint \<Rightarrow> bigint result" where
  "or_flag parse what ctx name old =
     (if x_IsSet ctx name then bindE (mapErrE (\<lambda>e. Err (what @ error_text e)) (parse (x_String ctx name))) (\<lambda>v. Inr (Some v)) else Inr old)"

text \<open>More than one argument shows the help.\<close>

definition setSharedParamsCmd :: "'db cli_env \<Rightarrow> cli_ctx \<Rightarrow> ('db, unit) comp" where
  "setSharedParamsCmd env ctx =
     (if length (x_Args ctx) > 1 then returnC ()
      else
        bindC (connect env) (\<lambda>_.
        bindC (rpcC (queryC (api_GetSharedParams (ce_api env)))) (\<lambda>params. let f = sp_FeeSpec params in
        bindC (liftC (or_flag (ce_BigFromString env) ''parse max-fee failed '' ctx ''max-fee'' (f_MaxFee f))) (\<lambda>maxFee.
        bindC (liftC (or_flag (ce_BigFromString env) ''parse gas-feecap failed '' ctx ''gas-feecap'' (f_GasFeeCap f))) (\<lambda>gasFeeCap.
        bindC (liftC (or_flag (ce_BigFromString env) ''parse basefee failed '' ctx ''base-fee'' (f_BaseFee f))) (\<lambda>baseFee.
          rpcC (api_SetSharedParams (ce_api env)
            (params\<lparr>sp_SelMsgNum := (if x_IsSet ctx ''sel-msg-num'' then x_Uint64 ctx ''sel-msg-num'' else sp_SelMsgNum params),
              sp_FeeSpec := f\<lparr>f_GasOverEstimation := (if x_IsSet ctx ''gas-over-estimation'' then x_Float64 ctx ''gas-over-estimation'' else f_GasOverEstimation f),
                f_MaxFee := maxFee, f_GasFeeCap := gasFeeCap, f_BaseFee := baseFee,
                f_GasOverPremium := (if x_IsSet ctx ''gas-over-premium'' then x_Float64 ctx ''gas-over-premium'' else f_GasOverPremium f)\<rparr>\<rparr>))))))))"

definition getSharedParamCmd :: "'db cli_env \<Rightarrow> cli_ctx \<Rightarrow> ('db, shared_spec) comp" where
  "getSharedParamCmd env ctx = bindC (connect env) (\<lambda>_. rpcC (queryC (api_GetSharedParams (ce_api env))))"

section \<open>Actor configurations (cli/actor_cfg.go)\<close>

definition fee_flags :: "string list" where
  "fee_flags = [''gas-overestimation'', ''gas-over-premium'', ''gas-feecap'', ''max-fee'', ''base-fee'']"

definition set_float :: "cli_ctx \<Rightarrow> string \<Rightarrow> float64 option" where
  "set_float ctx name = (if x_IsSet ctx name then Some (x_Float64 ctx name) else None)"

definition listActorCfgCmd :: "'db cli_env \<Rightarrow> cli_ctx \<Rightarrow> ('db, actor_cfg list) comp" where
  "listActorCfgCmd env ctx = bindC (connect_both env) (\<lambda>_. rpcC (queryC (api_ListActorCfg (ce_api env))))"

definition updateActorCfgCmd :: "'db cli_env \<Rightarrow> cli_ctx \<Rightarrow> ('db, unit) comp" where
  "updateActorCfgCmd env ctx =
     bindC (connect_both env) (\<lambda>_.
       if length (x_Args ctx) \<noteq> 1 then failC (Err ''must specify one uid argument'')
       else bindC (liftC (ce_ParseUUID env (arg_at ctx 0))) (\<lambda>i.
         bindC (liftC (flag_amount (ce_BigFromString env) ''parsing feecap failed '' ctx ''gas-feecap'')) (\<lambda>gasFeeCap.
         bindC (liftC (flag_amount (ce_BigFromString env) ''parsing maxfee failed '' ctx ''max-fee'')) (\<lambda>maxfee.
         bindC (liftC (flag_amount (ce_BigFromString env) ''parsing maxfee failed '' ctx ''base-fee'')) (\<lambda>basefee.
           if \<not> list_ex (x_IsSet ctx) fee_flags then failC (Err ''no new params to update'')
           else rpcC (api_UpdateActorCfg (ce_api env) i
             \<lparr>cg_GasOverEstimation = set_float ctx ''gas-overestimation'', cg_MaxFee = maxfee, cg_GasFeeCap = gasFeeCap,
              cg_GasOverPremium = set_float ctx ''gas-over-premium'', cg_BaseFee = basefee\<rparr>))))))"

definition addActorCfgCmd :: "'db cli_env \<Rightarrow> cli_ctx \<Rightarrow> ('db, unit) comp" where
  "addActorCfgCmd env ctx =
     bindC (connect_both env) (\<lambda>_.
       if length (x_Args ctx) \<noteq> 2 then failC (Err ''must specify code and method argument'')
       else
         bindC (liftC (cid_dec (ce_codec env) (arg_at ctx 0))) (\<lambda>codeCid.
         bindC (liftC (ce_ParseUint env (arg_at ctx 1))) (\<lambda>method.
         bindC (liftC (if x_IsSet ctx ''version'' then Inr (x_Int ctx ''version'')
                       else (case ce_MethodsMap env codeCid method of
                           None \<Rightarrow> Inl (Err ''actor not found'') | Some (name, version) \<Rightarrow> Inr version))) (\<lambda>version.
         bindC (liftC (flag_amount (ce_BigFromString env) ''parsing feecap failed '' ctx ''gas-feecap'')) (\<lambda>gasFeeCap.
         bindC (liftC (flag_amount (ce_BigFromString env) ''parsing maxfee failed '' ctx ''max-fee'')) (\<lambda>maxfee.
         bindC (liftC (flag_amount (ce_BigFromString env) ''parsing maxfee failed '' ctx ''base-fee'')) (\<lambda>basefee.
           if \<not> list_ex (x_IsSet ctx) fee_flags then failC (Err ''no argument to save'')
           else rpcC (api_SaveActorCfg (ce_api env)
             \<lparr>ac_ID = ce_NewUUID env, ac_ActorVersion = version, ac_MethodType = \<lparr>mt_Code = codeCid, mt_Method = method\<rparr>,
              ac_FeeSpec = \<lparr>f_GasOverEstimation = (case set_float ctx ''gas-overestimation'' of None \<Rightarrow> 0 | Some x \<Rightarrow> x), f_MaxFee = maxfee,
                f_GasFeeCap = gasFeeCap, f_GasOverPremium = (case set_float ctx ''gas-over-premium'' of None \<Rightarrow> 0 | Some x \<Rightarrow> x), f_BaseFee = basefee\<rparr>,
              ac_CreatedAt = 0, ac_UpdatedAt = 0\<rparr>))))))))"

definition getActorCfgCmd :: "'db cli_env \<Rightarrow> cli_ctx \<Rightarrow> ('db, actor_cfg) comp" where
  "getActorCfgCmd env ctx =
     bindC (connect_both env) (\<lambda>_.
       if length (x_Args ctx) \<noteq> 1 then failC (Err ''must specific one uid argument'')
       else bindC (liftC (ce_ParseUUID env (arg_at ctx 0))) (\<lambda>i. rpcC (queryC (api_GetActorCfgByID (ce_api env) i))))"

section \<open>Batch replacement (tools/internal/batch_replace.go)\<close>

record selector =
  sl_ActorCode :: cid
  sl_Methods :: "int list"

record batch_config =
  bc_BlockTime :: string
  bc_From :: address
  bc_Selectors :: "selector list"

text \<open>A configured method number is converted to the unsigned method type.\<close>

definition selectMsg :: "selector list \<Rightarrow> address \<Rightarrow> actor \<Rightarrow> message list \<Rightarrow> message list result" where
  "selectMsg sels addr act msgs =
     (case filter (\<lambda>sel. sl_ActorCode sel = act_Code act) sels of
        [] \<Rightarrow> Inr []
      | sel # others \<Rightarrow>
          if length others > 0 then Inl (Err ''repeat actor code'')
          else Inr (filter (\<lambda>msg. m_Method msg \<in> to_uint64 ` set (sl_Methods sel) \<and> \<not> m_Nonce msg < act_Nonce act) msgs))"

text \<open>
  The senders are the keys of a map, as is the collection of what is pending: \<open>order\<close> and
  \<open>order2\<close> are the orders in which the two loops meet them. \<open>getActor\<close> is the node's
  \<open>StateGetActor\<close>. An address whose selection fails is skipped. The source's sort leaves the order
  of equal nonces open; the model keeps theirs.
\<close>

definition pending_of :: "'db cli_env \<Rightarrow> (address \<Rightarrow> actor result) \<Rightarrow> selector list \<Rightarrow> time \<Rightarrow> address \<Rightarrow> ('db, message list) comp" where
  "pending_of env getActor sels blockTime addr =
     bindC (liftC (mapErrE (\<lambda>e. Err (''get actor failed: '' @ error_text e)) (getActor addr))) (\<lambda>act.
     bindC (rpcC (queryC (api_ListBlockedMessage (ce_api env) addr blockTime))) (\<lambda>blockedMsgs.
       returnC (case selectMsg sels addr act (sort_key m_Nonce blockedMsgs) of Inl err \<Rightarrow> [] | Inr tmsgs \<Rightarrow> tmsgs)))"

fun pending_all :: "'db cli_env \<Rightarrow> (address \<Rightarrow> actor result) \<Rightarrow> selector list \<Rightarrow> time \<Rightarrow> address list \<Rightarrow> ('db, (address \<times> message list) list) comp" where
  "pending_all env getActor sels blockTime [] = returnC []"
| "pending_all env getActor sels blockTime (addr # addrs) =
     bindC (pending_of env getActor sels blockTime addr) (\<lambda>tmsgs.
     bindC (pending_all env getActor sels blockTime addrs) (\<lambda>rest. returnC ((addr, tmsgs) # rest)))"

definition replace_pending :: "'db cli_env \<Rightarrow> replace_params \<Rightarrow> message list \<Rightarrow> ('db \<times> msg_channel, unit) comp" where
  "replace_pending env params = forC (\<lambda>msg. printed (rpcC (api_ReplaceMessage (ce_api env) (Some (params\<lparr>rp_ID := m_ID msg\<rparr>)))))"

definition BatchReplaceCmd ::
  "'db cli_env \<Rightarrow> (address \<Rightarrow> actor result) \<Rightarrow> batch_config \<Rightarrow> (address list \<Rightarrow> address list) \<Rightarrow>
     ((address \<times> message list) list \<Rightarrow> (address \<times> message list) list) \<Rightarrow> cli_ctx \<Rightarrow> ('db \<times> msg_channel, unit) comp" where
  "BatchReplaceCmd env getActor cfg order order2 ctx =
     bindC (connect env) (\<lambda>_.
     bindC (liftC (ce_getNodeAPI env)) (\<lambda>_.
     bindC (liftC (ce_ParseDuration env (bc_BlockTime cfg))) (\<lambda>blockTime.
       if x_IsSet ctx ''gas-premium'' \<and> x_IsSet ctx ''gas-over-premium'' then failC (Err ''gas-premium and gas-over-premium flag only need one'')
       else if length (bc_Selectors cfg) = 0 then failC (Err ''selects are empty, please check config'')
       else
         bindC (liftC (ParseFlagToReplaceMessaeParams env ctx)) (\<lambda>params.
         bindC (if bc_From cfg \<noteq> AddrUndef then returnC [bc_From cfg]
                else bindC (rpcC (askDb (api_ListAddress (ce_api env)))) (\<lambda>addrList. returnC (order (remdups (map a_Addr addrList))))) (\<lambda>addrs.
         bindC (onDb (pending_all env getActor (bc_Selectors cfg) blockTime addrs)) (\<lambda>pendingMsgs.
           replace_pending env params (concat (map snd (order2 pendingMsgs)))))))))"

end
