(* ===== verification/CliProps.thy ===== *)
theory CliProps
  imports CliAdmin ReplaceProps ApiProps
begin

text \<open>
  What the commands that change messages do to a store that keeps the contract, through the API
  and the service: which messages marking bad, recovering by identifier and the batch
  replacement can touch, and two commands that cannot succeed.
\<close>

section \<open>Calls over RPC\<close>

lemma snd_rpcC [simp]: "snd (rpcC f s) = snd (f s)"
  by (simp add: rpcC_def split: prod.splits sum.splits)

lemma snd_printed [simp]: "snd (printed f s) = snd (f s)"
  by (simp add: printed_def dropC_def attemptC_def split: prod.splits sum.splits)

lemma rpcC_Inr [comp_inv]: "rpcC f s = (Inr x, s') \<longleftrightarrow> f s = (Inr x, s')"
  by (auto simp: rpcC_def split: prod.splits sum.splits)

lemma rpcC_Inl [comp_inv]: "rpcC f s = (Inl e, s') \<longleftrightarrow> (\<exists>e'. f s = (Inl e', s') \<and> e = Err (error_text e'))"
  by (auto simp: rpcC_def split: prod.splits sum.splits)

lemma printed_inv [comp_inv]: "printed f s = (r, s') \<Longrightarrow> \<exists>q. f s = (q, s')"
  by (metis snd_conv snd_printed surj_pair)

lemma api_get_message: "api_GetMessageByUid A i db = Inr m \<Longrightarrow> GetMessageByUid (ae_ms A) i db = Inr m"
  by (auto simp: api_GetMessageByUid_def guard_msg_def comp_inv)

lemma repriced_trans: "repriced x y \<Longrightarrow> repriced y z \<Longrightarrow> repriced x z"
  by (auto simp: repriced_def)

definition repriced_in :: "string set \<Rightarrow> message \<Rightarrow> message \<Rightarrow> bool" where
  "repriced_in S x y \<longleftrightarrow> y = x \<or> m_ID x \<in> S \<and> repriced x y"

lemma repriced_in_trans: "repriced_in S x y \<Longrightarrow> repriced_in S y z \<Longrightarrow> repriced_in S x z"
  unfolding repriced_in_def using repriced_trans by (auto simp: repriced_def)

lemma replaced_in: "replaced_by i m x y \<Longrightarrow> i \<in> S \<Longrightarrow> repriced_in S x y"
  by (auto simp: replaced_by_def repriced_in_def split: if_splits)

text \<open>What one recovery by identifier may do to a row.\<close>

definition recovered_row :: "string set \<Rightarrow> message \<Rightarrow> message \<Rightarrow> bool" where
  "recovered_row S x y \<longleftrightarrow> y = x \<or> m_ID x \<in> S \<and> m_State x = FailedMsg
     \<and> (\<exists>t. y = x\<lparr>m_State := (if m_Nonce x \<noteq> 0 \<and> m_Signature x \<noteq> None then FillMsg else UnFillMsg), m_UpdatedAt := t\<rparr>)"

lemma recovered_row_id: "recovered_row S x y \<Longrightarrow> m_ID y = m_ID x"
  by (auto simp: recovered_row_def)

lemma recovered_row_failed: "recovered_row S x y \<Longrightarrow> m_State y = FailedMsg \<Longrightarrow> y = x"
  by (auto simp: recovered_row_def split: if_splits)

text \<open>Which messages the batch replacement may choose.\<close>

definition eligible :: "selector list \<Rightarrow> (address \<Rightarrow> actor result) \<Rightarrow> message \<Rightarrow> bool" where
  "eligible sels getActor m \<longleftrightarrow> (\<exists>a act. getActor a = Inr act \<and> (a = AddrUndef \<or> m_From m = a)
     \<and> list_ex (\<lambda>sel. sl_ActorCode sel = act_Code act \<and> m_Method m \<in> to_uint64 ` set (sl_Methods sel)) sels \<and> act_Nonce act \<le> m_Nonce m)"

lemma selectMsg_chosen:
  assumes "selectMsg sels addr act l = Inr l'" "m \<in> set l'"
  shows "m \<in> set l \<and> list_ex (\<lambda>sel. sl_ActorCode sel = act_Code act \<and> m_Method m \<in> to_uint64 ` set (sl_Methods sel)) sels \<and> act_Nonce act \<le> m_Nonce m"
proof -
  obtain sel others where sel: "filter (\<lambda>sel. sl_ActorCode sel = act_Code act) sels = sel # others"
    "l' = filter (\<lambda>msg. m_Method msg \<in> to_uint64 ` set (sl_Methods sel) \<and> \<not> m_Nonce msg < act_Nonce act) l"
    using assms by (auto simp: selectMsg_def split: list.splits if_splits)
  have "sel \<in> set (filter (\<lambda>sel. sl_ActorCode sel = act_Code act) sels)" unfolding sel(1) by simp
  then show ?thesis using assms(2) sel(2) by (auto simp: list_ex_iff)
qed

section \<open>Lemmas over a store\<close>

context repo_store
begin

lemma api_replace_effect:
  assumes E: "MessageRepo (me_repo (ae_ms A')) = M" and inv: "inv (fst s)"
    and run: "api_ReplaceMessage A' (Some params) s = (r, s')"
  shows "inv (fst s') \<and> addrs (fst s') = addrs (fst s) \<and> list_all2 (repriced_in {rp_ID params}) (msgs (fst s)) (msgs (fst s'))"
proof (cases "s' = s")
  case True
  then show ?thesis using inv by (simp add: list.rel_refl repriced_in_def)
next
  case False
  obtain q where q: "ReplaceMessage (ae_ms A') (Some params) s = (q, s')"
    using run False by (auto simp: api_ReplaceMessage_def bindC_def askDb_def split: prod.splits sum.splits)
  obtain db ch db' ch' where s: "s = (db, ch)" "s' = (db', ch')" by (metis surj_pair)
  have eff: "inv db'" "addrs db' = addrs db" "db' = db \<or> (\<exists>m. list_all2 (replaced_by (rp_ID params) m) (msgs db) (msgs db'))"
    using replace_effect [OF E _ q [unfolded s]] inv s by auto
  have "list_all2 (repriced_in {rp_ID params}) (msgs db) (msgs db')"
  proof (cases "db' = db")
    case True
    then show ?thesis by (simp add: list.rel_refl repriced_in_def)
  next
    case False
    then obtain m where "list_all2 (replaced_by (rp_ID params) m) (msgs db) (msgs db')" using eff(3) by blast
    then show ?thesis by (rule list_all2_mono) (rule replaced_in [OF _ singletonI])
  qed
  then show ?thesis using eff(1,2) s by simp
qed

lemma replace_pending_effect:
  assumes E: "MessageRepo (me_repo (ae_ms (ce_api env))) = M" and inv: "inv (fst s)"
    and run: "replace_pending env params ms s = (r, s')"
  shows "inv (fst s') \<and> addrs (fst s') = addrs (fst s) \<and> list_all2 (repriced_in (m_ID ` set ms)) (msgs (fst s)) (msgs (fst s'))"
proof -
  let ?R = "repriced_in (m_ID ` set ms)"
  let ?I = "\<lambda>z. inv (fst z) \<and> addrs (fst z) = addrs (fst s) \<and> list_all2 ?R (msgs (fst s)) (msgs (fst z))"
  show ?thesis
  proof (rule forC_invariant [where I = ?I, OF _ run [unfolded replace_pending_def]])
    fix m z q z'
    assume m: "m \<in> set ms" and I: "?I z" and one: "printed (rpcC (api_ReplaceMessage (ce_api env) (Some (params\<lparr>rp_ID := m_ID m\<rparr>)))) z = (q, z')"
    obtain q' where call: "api_ReplaceMessage (ce_api env) (Some (params\<lparr>rp_ID := m_ID m\<rparr>)) z = (q', z')"
      using one by (metis snd_conv snd_printed snd_rpcC surj_pair)
    have e: "inv (fst z')" "addrs (fst z') = addrs (fst z)" "list_all2 (repriced_in {m_ID m}) (msgs (fst z)) (msgs (fst z'))"
      using api_replace_effect [OF E conjunct1 [OF I] call] by auto
    have "list_all2 ?R (msgs (fst z)) (msgs (fst z'))" by (rule list_all2_mono [OF e(3)]) (use m in \<open>auto simp: repriced_in_def\<close>)
    then have "list_all2 ?R (msgs (fst s)) (msgs (fst z'))" using I by (intro list_all2_trans [OF repriced_in_trans]) auto
    then show "?I z'" using e I by simp
  qed (use inv in \<open>simp add: list.rel_refl repriced_in_def\<close>)
qed

lemma pending_of_eligible:
  assumes E: "MessageRepo (me_repo (ae_ms (ce_api env))) = M" and inv: "inv db"
    and run: "pending_of env getActor sels bt addr db = (Inr l, db')" and m: "m \<in> set l"
  shows "m \<in> set (msgs db) \<and> eligible sels getActor m"
proof -
  obtain act l0 where a: "getActor addr = Inr act" "api_ListBlockedMessage (ce_api env) addr bt db = Inr l0"
    "l = (case selectMsg sels addr act (sort_key m_Nonce l0) of Inl err \<Rightarrow> [] | Inr tmsgs \<Rightarrow> tmsgs)"
    using run unfolding pending_of_def by (auto simp: comp_inv)
  obtain l1 where sel: "selectMsg sels addr act (sort_key m_Nonce l0) = Inr l1" "m \<in> set l1"
    using a(3) m by (cases "selectMsg sels addr act (sort_key m_Nonce l0)") auto
  note c = selectMsg_chosen [OF sel]
  have l0: "m \<in> set l0" using c by simp
  obtain q where q: "mr_ListBlockedMessage M q bt db = Inr l0" "addr = AddrUndef \<or> q_From q = [addr]"
    using a(2) by (auto simp: api_ListBlockedMessage_def ListBlockedMessage_def E comp_inv split: if_splits)
  note b = ListBlocked [OF inv q(1) l0]
  have "addr = AddrUndef \<or> m_From m = addr" using b q(2) by auto
  then show ?thesis using a(1) b c unfolding eligible_def by blast
qed

lemma pending_all_eligible:
  assumes E: "MessageRepo (me_repo (ae_ms (ce_api env))) = M" and inv: "inv db"
    and run: "pending_all env getActor sels bt as db = (r, db')"
  shows "db' = db \<and> (\<forall>p. r = Inr p \<longrightarrow> (\<forall>m \<in> set (concat (map snd p)). m \<in> set (msgs db) \<and> eligible sels getActor m))"
  using run
proof (induction "as" arbitrary: r db')
  case Nil
  then show ?case by (auto simp: returnC_def)
next
  case (Cons a "as")
  obtain q d where one: "pending_of env getActor sels bt a db = (q, d)" by fastforce
  have d: "d = db" using one unfolding pending_of_def by (auto simp: comp_simps rpcC_def split: prod.splits sum.splits)
  show ?case
  proof (cases q)
    case (Inl e)
    then show ?thesis using Cons.prems one d by (auto simp: comp_simps)
  next
    case (Inr l)
    obtain q2 d2 where rest: "pending_all env getActor sels bt as db = (q2, d2)" by fastforce
    have "db' = db" using Cons.prems one d Inr rest Cons.IH [OF rest] by (auto simp: comp_simps split: sum.splits)
    moreover have "\<forall>m \<in> set (concat (map snd p)). m \<in> set (msgs db) \<and> eligible sels getActor m" if p: "r = Inr p" for p
    proof -
      obtain p2 where p2: "q2 = Inr p2" "p = (a, l) # p2" using Cons.prems one d Inr rest p by (auto simp: comp_simps split: sum.splits)
      have "\<forall>m \<in> set l. m \<in> set (msgs db) \<and> eligible sels getActor m" using pending_of_eligible [OF E inv one [unfolded Inr]] by blast
      then show ?thesis using Cons.IH [OF rest] p2 by auto
    qed
    ultimately show ?thesis by blast
  qed
qed

text \<open>The row of an identifier is the only one with it.\<close>

lemma same_row: "inv db \<Longrightarrow> x \<in> set (msgs db) \<Longrightarrow> y \<in> set (msgs db) \<Longrightarrow> m_ID x = m_ID y \<Longrightarrow> x = y"
  using ids unfolding distinct_map inj_on_def by blast

lemma batch_effect:
  assumes E: "MessageRepo (me_repo (ae_ms (ce_api env))) = M" and inv: "inv db"
    and order: "\<And>l. set (order2 l) \<subseteq> set l" and run: "BatchReplaceCmd env getActor cfg order order2 ctx (db, ch) = (r, s')"
  shows "inv (fst s') \<and> addrs (fst s') = addrs db
    \<and> list_all2 (\<lambda>x y. y = x \<or> eligible (bc_Selectors cfg) getActor x \<and> repriced x y) (msgs db) (msgs (fst s'))"
proof (cases "s' = (db, ch)")
  case True
  then show ?thesis using inv by (simp add: list.rel_refl)
next
  case False
  obtain params as bt p d where pend: "pending_all env getActor (bc_Selectors cfg) bt as db = (Inr p, d)"
    and rep: "replace_pending env params (concat (map snd (order2 p))) (d, ch) = (r, s')"
    using run False pending_all_eligible [OF E inv] unfolding BatchReplaceCmd_def connect_def
    by (auto simp: comp_simps askDb_def onDb_def rpcC_def simp del: pending_all.simps split: sum.splits prod.splits if_splits)
  let ?ms = "concat (map snd (order2 p))"
  have d: "d = db" and el: "\<forall>m \<in> set (concat (map snd p)). m \<in> set (msgs db) \<and> eligible (bc_Selectors cfg) getActor m"
    using pending_all_eligible [OF E inv pend] by auto
  have ms: "m \<in> set (msgs db) \<and> eligible (bc_Selectors cfg) getActor m" if "m \<in> set ?ms" for m
    using el that order [of p] by fastforce
  have eff: "inv (fst s')" "addrs (fst s') = addrs db" "list_all2 (repriced_in (m_ID ` set ?ms)) (msgs db) (msgs (fst s'))"
    using replace_pending_effect [OF E _ rep] inv d by auto
  have "list_all2 (\<lambda>x y. y = x \<or> eligible (bc_Selectors cfg) getActor x \<and> repriced x y) (msgs db) (msgs (fst s'))"
  proof (rule list.rel_mono_strong [OF eff(3)])
    fix x y assume x: "x \<in> set (msgs db)" and r: "repriced_in (m_ID ` set ?ms) x y"
    show "y = x \<or> eligible (bc_Selectors cfg) getActor x \<and> repriced x y"
    proof (cases "y = x")
      case False
      then obtain m where m: "m \<in> set ?ms" "m_ID x = m_ID m" "repriced x y" using r by (auto simp: repriced_in_def)
      have "x = m" using same_row [OF inv x conjunct1 [OF ms [OF m(1)]] m(2)] .
      then show ?thesis using ms [OF m(1)] m(3) by simp
    qed simp
  qed
  then show ?thesis using eff by simp
qed

lemma api_mark_effect:
  assumes E: "MessageRepo (me_repo (ae_ms A')) = M" and inv: "inv db" and run: "api_MarkBadMessage A' i db = (r, db')"
  shows "inv db' \<and> addrs db' = addrs db \<and> (\<exists>is \<subseteq> {i}. list_all2 (restated FailedMsg is) (msgs db) (msgs db'))"
proof (cases "db' = db")
  case True
  then show ?thesis using inv restated_none by blast
next
  case False
  obtain q where q: "mr_MarkBadMessage M i db = (q, db')"
    using run False by (auto simp: api_MarkBadMessage_def MarkBadMessage_def E comp_simps split: sum.splits)
  obtain u where "q = Inr u" using q False MarkBad_err by (cases q) blast+
  then obtain t where e: "inv db'" "msgs db' = upd_where (\<lambda>m. m_ID m = i) (\<lambda>m. m\<lparr>m_State := FailedMsg, m_UpdatedAt := t\<rparr>) (msgs db)"
    using MarkBad [OF inv, of i db'] q by auto
  have "list_all2 (restated FailedMsg {i}) (msgs db) (msgs db')" unfolding e(2) by (rule restated_one)
  then show ?thesis using e(1) msg_frame(5) [OF q] by blast
qed

lemma mark_each_effect:
  assumes E: "MessageRepo (me_repo (ae_ms (ce_api env))) = M" and inv: "inv db" and run: "mark_each env l db = (r, db')"
  shows "inv db' \<and> addrs db' = addrs db \<and> (\<exists>is \<subseteq> set l. list_all2 (restated FailedMsg is) (msgs db) (msgs db'))"
proof -
  let ?I = "\<lambda>d. inv d \<and> addrs d = addrs db \<and> (\<exists>is \<subseteq> set l. list_all2 (restated FailedMsg is) (msgs db) (msgs d))"
  show ?thesis
  proof (rule forC_invariant [where I = ?I, OF _ run [unfolded mark_each_def]])
    fix i d q d' assume i: "i \<in> set l" and I: "?I d" and one: "printed (rpcC (api_MarkBadMessage (ce_api env) i)) d = (q, d')"
    obtain q' where call: "api_MarkBadMessage (ce_api env) i d = (q', d')" using one by (metis snd_conv snd_printed snd_rpcC surj_pair)
    obtain "is" js where j: "is \<subseteq> set l" "list_all2 (restated FailedMsg is) (msgs db) (msgs d)" "js \<subseteq> {i}"
      "list_all2 (restated FailedMsg js) (msgs d) (msgs d')" using api_mark_effect [OF E conjunct1 [OF I] call] I by blast
    have "is \<union> js \<subseteq> set l" using j(1,3) i by auto
    then have "\<exists>is \<subseteq> set l. list_all2 (restated FailedMsg is) (msgs db) (msgs d')" using restated_all_trans [OF j(2,4)] by blast
    then show "?I d'" using api_mark_effect [OF E conjunct1 [OF I] call] I by simp
  qed (use inv restated_none in blast)
qed

lemma recover_one_effect:
  assumes E: "MessageRepo (me_repo (ae_ms (ce_api env))) = M" and inv: "inv d" and i: "i \<in> S"
    and rel: "list_all2 (recovered_row S) l (msgs d)" and run: "recover_one env i d = (r, d')"
  shows "inv d' \<and> addrs d' = addrs d \<and> list_all2 (recovered_row S) l (msgs d')"
proof (cases "d' = d")
  case True
  then show ?thesis using inv rel by simp
next
  case False
  obtain msg q where get: "GetMessageByUid (ae_ms (ce_api env)) i d = Inr msg" and failed: "m_State msg = FailedMsg"
    and upd: "mr_UpdateMessageStateByID M i (if m_Nonce msg \<noteq> 0 \<and> m_Signature msg \<noteq> None then FillMsg else UnFillMsg) d = (q, d')"
    using run False unfolding recover_one_def
    by (auto simp: comp_simps rpcC_def printed_def dropC_def api_UpdateMessageStateByID_def UpdateMessageStateByID_def E
        split: sum.splits prod.splits if_splits dest!: api_get_message)
  obtain m0 where m0: "mr_GetMessageByUid M i d = Inr m0" "m_State m0 = FailedMsg" "m_Message msg = m_Message m0" "m_Signature msg = m_Signature m0"
    using get failed by (auto simp: GetMessageByUid_def read_one_def with_confidence_def E comp_inv split: if_splits)
  let ?st = "if m_Nonce m0 \<noteq> 0 \<and> m_Signature m0 \<noteq> None then FillMsg else UnFillMsg"
  obtain u where q: "q = Inr u" using upd False StateByID_err by (cases q) blast+
  obtain t where e: "inv d'" "msgs d' = upd_where (\<lambda>m. m_ID m = i) (\<lambda>m. m\<lparr>m_State := ?st, m_UpdatedAt := t\<rparr>) (msgs d)"
    using StateByID [OF inv upd [unfolded q, simplified]] m0(3,4) by auto
  have "list_all2 (recovered_row S) l (msgs d')"
    unfolding e(2) upd_where_def list_all2_map2
  proof (rule list.rel_mono_strong [OF rel])
    fix x y assume y: "y \<in> set (msgs d)" and xy: "recovered_row S x y"
    show "recovered_row S x (if m_ID y = i then y\<lparr>m_State := ?st, m_UpdatedAt := t\<rparr> else y)"
    proof (cases "m_ID y = i")
      case True
      have "y = m0" by (rule Get_unique [OF inv m0(1) y True])
      moreover have "y = x" using recovered_row_failed [OF xy] m0(2) \<open>y = m0\<close> by simp
      ultimately show ?thesis using True i m0(2) by (auto simp: recovered_row_def)
    qed (simp add: xy)
  qed
  then show ?thesis using e(1) msg_frame(6) [OF upd] by simp
qed

lemma recover_each_effect:
  assumes E: "MessageRepo (me_repo (ae_ms (ce_api env))) = M" and inv: "inv db" and run: "forC (recover_one env) is db = (r, db')"
  shows "inv db' \<and> addrs db' = addrs db \<and> list_all2 (recovered_row (set is)) (msgs db) (msgs db')"
proof -
  let ?I = "\<lambda>d. inv d \<and> addrs d = addrs db \<and> list_all2 (recovered_row (set is)) (msgs db) (msgs d)"
  show ?thesis
  proof (rule forC_invariant [where I = ?I, OF _ run])
    show "?I d'" if "i \<in> set is" "?I d" "recover_one env i d = (q, d')" for i d q d'
      using recover_one_effect [OF E _ that(1) _ that(3), where l = "msgs db"] that(2) by simp
  qed (use inv in \<open>simp add: list.rel_refl recovered_row_def\<close>)
qed

lemma mark_bad_effect:
  assumes E: "MessageRepo (me_repo (ae_ms (ce_api env))) = M" and inv: "inv db" and set: "x_IsSet ctx ''from''"
    and run: "markBadCmd env ctx db = (r, db')"
  shows "inv db' \<and> addrs db' = addrs db \<and> list_all2 (\<lambda>x y. y = x \<or> m_State x = UnFillMsg \<and> m_ErrorMsg x \<noteq> ''''
      \<and> ad_parse (ce_codec env) (x_String ctx ''from'') = Inr (m_From x) \<and> (\<exists>t. y = x\<lparr>m_State := FailedMsg, m_UpdatedAt := t\<rparr>)) (msgs db) (msgs db')"
proof (cases "db' = db")
  case True
  then show ?thesis using inv by (simp add: list.rel_refl)
next
  case False
  obtain a l where a: "ad_parse (ce_codec env) (x_String ctx ''from'') = Inr a" "ListMessageByAddress (ae_ms (ce_api env)) a db = Inr l"
    "mark_each env (map m_ID (filter (\<lambda>msg. m_State msg = UnFillMsg \<and> length (m_ErrorMsg msg) > 0) l)) db = (r, db')"
    using run False set unfolding markBadCmd_def confirmed_def connect_def parse_addr_def api_ListMessageByAddress_def
    by (auto simp: comp_simps rpcC_def split: sum.splits if_splits)
  let ?f = "\<lambda>msg. m_State msg = UnFillMsg \<and> length (m_ErrorMsg msg) > 0"
  obtain l0 ts where l0: "mr_ListMessageByAddress M a db = Inr l0" "l = map (with_confidence ts) l0"
    using a(2) by (auto simp: ListMessageByAddress_def read_many_def E comp_inv)
  have ids_l: "m_ID ` set (filter ?f l) \<subseteq> m_ID ` {m \<in> set (msgs db). m_From m = a \<and> ?f m}"
    using mset_eq_setD [OF ListByAddress [OF inv l0(1)]] unfolding l0(2) by (auto simp: with_confidence_def split: if_splits)
  obtain "is" where e: "inv db'" "addrs db' = addrs db" "is \<subseteq> m_ID ` set (filter ?f l)" "list_all2 (restated FailedMsg is) (msgs db) (msgs db')"
    using mark_each_effect [OF E inv a(3)] by auto
  have "list_all2 (\<lambda>x y. y = x \<or> m_State x = UnFillMsg \<and> m_ErrorMsg x \<noteq> ''''
      \<and> ad_parse (ce_codec env) (x_String ctx ''from'') = Inr (m_From x) \<and> (\<exists>t. y = x\<lparr>m_State := FailedMsg, m_UpdatedAt := t\<rparr>)) (msgs db) (msgs db')"
  proof (rule list.rel_mono_strong [OF e(4)])
    fix x y assume x: "x \<in> set (msgs db)" and r: "restated FailedMsg is x y"
    show "y = x \<or> m_State x = UnFillMsg \<and> m_ErrorMsg x \<noteq> ''''
      \<and> ad_parse (ce_codec env) (x_String ctx ''from'') = Inr (m_From x) \<and> (\<exists>t. y = x\<lparr>m_State := FailedMsg, m_UpdatedAt := t\<rparr>)"
    proof (cases "m_ID x \<in> is")
      case True
      then have "m_ID x \<in> m_ID ` {m \<in> set (msgs db). m_From m = a \<and> ?f m}" using e(3) ids_l by blast
      then obtain m where m: "m \<in> set (msgs db)" "m_From m = a" "?f m" "m_ID x = m_ID m" by auto
      have "x = m" by (rule same_row [OF inv x m(1,4)])
      then show ?thesis using m(2,3) a(1) r True by (auto simp: restated_def)
    next
      case False
      then show ?thesis using r by (simp add: restated_def)
    qed
  qed
  then show ?thesis using e(1,2) by simp
qed

lemma recover_cmd_effect:
  assumes E: "MessageRepo (me_repo (ae_ms (ce_api env))) = M" and inv: "inv db" and set: "\<not> x_IsSet ctx ''from''"
    and run: "recoverFailedMsgCmd env ctx db = (r, db')"
  shows "inv db' \<and> addrs db' = addrs db \<and> list_all2 (recovered_row (set (x_Args ctx))) (msgs db) (msgs db')"
proof (cases "db' = db")
  case True
  then show ?thesis using inv by (simp add: list.rel_refl recovered_row_def)
next
  case False
  obtain q where "forC (recover_one env) (x_Args ctx) db = (q, db')"
    using run False set unfolding recoverFailedMsgCmd_def confirmed_def connect_def
    by (auto simp: comp_simps split: sum.splits prod.splits if_splits)
  then show ?thesis by (rule recover_each_effect [OF E inv])
qed

end

section \<open>A sample command line\<close>

definition cli_api :: "sqlite_db api_env" where
  "cli_api = sample_api\<lparr>ae_CheckPermissionBySigner := (\<lambda>_. Inr ())\<rparr>"

definition sample_cli :: "sqlite_db cli_env" where
  "sample_cli = \<lparr>ce_api = cli_api, ce_getAPI = Inr (), ce_getNodeAPI = Inr (), ce_LoadBuiltinActors = Inr (), ce_codec = plain_codec,
     ce_ParseFIL = (\<lambda>s. Inr (int (length s))), ce_BigFromString = (\<lambda>s. Inr (int (length s))), ce_ParseUint = (\<lambda>s. Inr 0),
     ce_ParseDuration = (\<lambda>_. Inr 0), ce_ParseUUID = Inr, ce_NewUUID = ''u'', ce_MessageConfidence = 5, ce_NewMessageParser = Inr (),
     ce_ParseMessage = (\<lambda>_. Inr ()), ce_MethodsMap = (\<lambda>_ _. None)\<rparr>"

definition sample_ctx :: "string list \<Rightarrow> string \<Rightarrow> string list \<Rightarrow> cli_ctx" where
  "sample_ctx flags value args = \<lparr>x_IsSet = (\<lambda>n. n \<in> set flags), x_String = (\<lambda>n. value), x_Bool = (\<lambda>n. n \<in> set flags), x_Int = (\<lambda>_. 0),
     x_Uint64 = (\<lambda>_. 0), x_Float64 = (\<lambda>_. 0), x_State = UnFillMsg, x_Args = args\<rparr>"

lemma sample_cli_store:
  "repo_store (MessageRepo (me_repo (ae_ms (ce_api sample_cli)))) (AddressRepo (me_repo (ae_ms (ce_api sample_cli)))) (sqlite_inv plain_codec)
     (sqlite_msgs plain_codec) (cid_str plain_codec) (sqlite_addrs plain_codec) (Transaction (me_repo (ae_ms (ce_api sample_cli))))"
  using sample_menv_store by (simp add: sample_cli_def cli_api_def sample_api_def)

definition stuck_db :: sqlite_db where
  "stuck_db = sample_db\<lparr>t_messages := [sqlite_fromMessage plain_codec ((sample_message ''x'')\<lparr>m_ErrorMsg := ''gas''\<rparr>),
     sqlite_fromMessage plain_codec (sample_message ''y''), sqlite_fromMessage plain_codec sent_message]\<rparr>"

lemma stuck_db_inv: "sqlite_inv plain_codec stuck_db"
  using sample_db_inv
  by (simp add: sqlite_inv_def stuck_db_def msg_row_ok_def sqlite_fromMessage_def sent_message_def sample_message_def)

section \<open>Properties\<close>

text \<open>
  C30: marking bad by sender, with or without success, changes only unfilled messages of that
  sender that have an error text, and makes them failed; without the confirming flag it changes
  nothing.
\<close>

theorem mark_bad_only_stuck_messages:
  assumes store: "repo_store (MessageRepo (me_repo (ae_ms (ce_api env)))) A ok msgs cstr addrs tx" and ok: "ok db"
    and frm: "x_IsSet ctx ''from''" and run: "markBadCmd env ctx db = (r, db')"
  shows "ok db' \<and> addrs db' = addrs db \<and> (x_Bool ctx ''really-do-it'' \<or> db' = db)
    \<and> list_all2 (\<lambda>x y. y = x \<or> m_State x = UnFillMsg \<and> m_ErrorMsg x \<noteq> ''''
      \<and> ad_parse (ce_codec env) (x_String ctx ''from'') = Inr (m_From x) \<and> (\<exists>t. y = x\<lparr>m_State := FailedMsg, m_UpdatedAt := t\<rparr>)) (msgs db) (msgs db')"
proof -
  have "x_Bool ctx ''really-do-it'' \<or> db' = db"
    using run by (auto simp: markBadCmd_def confirmed_def connect_def comp_simps split: sum.splits if_splits)
  then show ?thesis using repo_store.mark_bad_effect [OF store refl ok frm run] by blast
qed

definition mark_ctx :: cli_ctx where
  "mark_ctx = sample_ctx [''really-do-it'', ''from''] (ad_str plain_codec (Addr 1 ''from'')) []"

theorem mark_bad_only_stuck_messages_witness:
  "sqlite_inv plain_codec (snd (markBadCmd sample_cli mark_ctx stuck_db))
   \<and> map (\<lambda>m. (m_ID m, m_State m)) (sqlite_msgs plain_codec (snd (markBadCmd sample_cli mark_ctx stuck_db)))
       = [(''x'', FailedMsg), (''y'', UnFillMsg), (''a'', FillMsg)]"
proof -
  obtain r db' where run: "markBadCmd sample_cli mark_ctx stuck_db = (r, db')" by fastforce
  have "map (\<lambda>m. (m_ID m, m_State m)) (sqlite_msgs plain_codec (snd (markBadCmd sample_cli mark_ctx stuck_db)))
       = [(''x'', FailedMsg), (''y'', UnFillMsg), (''a'', FillMsg)]" by code_simp
  moreover have "x_IsSet mark_ctx ''from''" by code_simp
  ultimately show ?thesis using mark_bad_only_stuck_messages [OF sample_cli_store stuck_db_inv _ run] by (simp add: run)
qed

text \<open>
  C31: recovering messages by identifier changes only failed messages that were named: one with a
  signature and a nonce other than zero is filled again, every other one goes back to unfilled;
  a signed first message of an account, whose nonce is zero, is among the latter. Without the
  confirming flag nothing changes.
\<close>

theorem recover_by_id_restores_failed:
  assumes store: "repo_store (MessageRepo (me_repo (ae_ms (ce_api env)))) A ok msgs cstr addrs tx" and ok: "ok db"
    and frm: "\<not> x_IsSet ctx ''from''" and run: "recoverFailedMsgCmd env ctx db = (r, db')"
  shows "ok db' \<and> addrs db' = addrs db \<and> (x_Bool ctx ''really-do-it'' \<or> db' = db)
    \<and> list_all2 (recovered_row (set (x_Args ctx))) (msgs db) (msgs db')"
proof -
  have "x_Bool ctx ''really-do-it'' \<or> db' = db"
    using run by (auto simp: recoverFailedMsgCmd_def confirmed_def connect_def comp_simps split: sum.splits if_splits)
  then show ?thesis using repo_store.recover_cmd_effect [OF store refl ok frm run] by blast
qed

definition recover_ctx :: cli_ctx where
  "recover_ctx = sample_ctx [''really-do-it''] '''' [''a'']"

theorem recover_by_id_restores_failed_witness:
  "sqlite_inv plain_codec (snd (recoverFailedMsgCmd sample_cli recover_ctx failed_db))
   \<and> map m_State (sqlite_msgs plain_codec (snd (recoverFailedMsgCmd sample_cli recover_ctx failed_db))) = [FillMsg]"
proof -
  obtain r db' where run: "recoverFailedMsgCmd sample_cli recover_ctx failed_db = (r, db')" by fastforce
  have "map m_State (sqlite_msgs plain_codec (snd (recoverFailedMsgCmd sample_cli recover_ctx failed_db))) = [FillMsg]" by code_simp
  moreover have "\<not> x_IsSet recover_ctx ''from''" by code_simp
  ultimately show ?thesis using recover_by_id_restores_failed [OF sample_cli_store failed_db_inv _ run] by (simp add: run)
qed

text \<open>
  C29: the batch replacement, through the API, the service and the store, reprices only messages
  that are eligible: their sender's actor code has a selector with their method, and the chain has
  not used their nonce. Of an eligible message only gas and fees change, and only while it is
  filled; every other message and every address is as before, whichever of its calls fail.
\<close>

theorem batch_replace_touches_only_eligible:
  assumes store: "repo_store (MessageRepo (me_repo (ae_ms (ce_api env)))) A ok msgs cstr addrs tx" and ok: "ok db"
    and order: "\<And>l. set (order2 l) \<subseteq> set l" and run: "BatchReplaceCmd env getActor cfg order order2 ctx (db, ch) = (r, (db', ch'))"
  shows "ok db' \<and> addrs db' = addrs db
    \<and> list_all2 (\<lambda>x y. y = x \<or> eligible (bc_Selectors cfg) getActor x \<and> repriced x y) (msgs db) (msgs db')"
  using repo_store.batch_effect [OF store refl ok order run] by simp

definition sample_batch :: batch_config where
  "sample_batch = \<lparr>bc_BlockTime = ''5m'', bc_From = Addr 1 ''from'', bc_Selectors = [\<lparr>sl_ActorCode = Cid ''account'', sl_Methods = [0]\<rparr>]\<rparr>"

abbreviation batch_run :: "unit result \<times> (sqlite_db \<times> msg_channel)" where
  "batch_run \<equiv> BatchReplaceCmd sample_cli (me_StateGetActor sample_menv) sample_batch id id (sample_ctx [''gas-premium'', ''gas-feecap''] ''123'' []) (stuck_db, [])"

theorem batch_replace_touches_only_eligible_witness:
  "sqlite_inv plain_codec (fst (snd batch_run))
   \<and> map (\<lambda>m. (m_ID m, m_GasPremium m)) (sqlite_msgs plain_codec (fst (snd batch_run))) = [(''x'', Some 0), (''y'', Some 0), (''a'', Some 3)]"
proof -
  obtain r db' ch' where run: "batch_run = (r, (db', ch'))" by (metis surj_pair)
  have "map (\<lambda>m. (m_ID m, m_GasPremium m)) (sqlite_msgs plain_codec (fst (snd batch_run))) = [(''x'', Some 0), (''y'', Some 0), (''a'', Some 3)]"
    by code_simp
  then show ?thesis using batch_replace_touches_only_eligible [OF sample_cli_store stuck_db_inv _ run] by (simp add: run)
qed

section \<open>Commands that cannot succeed\<close>

text \<open>
  Waiting for a message that failed without a receipt ends in a panic of the command, and sending
  without parameters in an error, although the flags for parameters are optional.
\<close>

theorem wait_panics_without_receipt:
  assumes "ce_getAPI env = Inr ()" "x_Args ctx = [i]" "api_WaitMessage (ce_api env) i (ce_MessageConfidence env) polls db = Inr m" "m_Receipt m = None"
  shows "waitMessagerCmd env polls ctx db = (Inl (Panic ''nil MessageReceipt''), db)"
  using assms by (simp add: waitMessagerCmd_def connect_def arg_at_def comp_simps rpcC_def)

theorem send_needs_parameters:
  assumes "\<not> x_IsSet ctx ''params-json''" "\<not> x_IsSet ctx ''params-hex''"
  shows "\<exists>e. SendCmd env dec hexDecode MethodSend ctx db = (Inl e, db)"
proof -
  have ty: "flag_codec ctx = Inr ('''', CodecOther '''')" using assms by (simp add: flag_codec_def)
  have send: "\<exists>e. rpcC (api_Send (ce_api env) dec hexDecode MethodSend p) db = (Inl e, db)" if "qs_ParamsType p = CodecOther ''''" for p
    using that by (auto simp: api_Send_def Send_def guard_addr_def comp_simps rpcC_def split: sum.splits)
  show ?thesis unfolding SendCmd_def connect_def parse_addr_def ty
    using send by (auto simp: comp_simps split: sum.splits)
qed

end
