(* ===== verification/Columns.thy ===== *)
theory Columns
  imports Codec
begin

text \<open>
  How the column types go to and come from the database driver (\<open>models/mtypes/big.go\<close>,
  \<open>models/mtypes/db_cid.go\<close>): the \<open>Value\<close> and \<open>Scan\<close> methods, and that each pair is a
  round trip.
\<close>

section \<open>Values of the driver\<close>

text \<open>What a driver hands to \<open>Scan\<close>; a value of any other type is known by the type's name.\<close>

datatype driver_value = DbNil | DbInt int | DbBytes string | DbString string | DbOther string

text \<open>\<open>big.Int.SetString\<close> in base 10: an optional sign and at least one digit.\<close>

definition digit_val :: "char \<Rightarrow> int option" where
  "digit_val c = (let n = of_char c :: int in if 48 \<le> n \<and> n \<le> 57 then Some (n - 48) else None)"

fun digits_val :: "int \<Rightarrow> string \<Rightarrow> int option" where
  "digits_val acc [] = Some acc"
| "digits_val acc (c # s) = (case digit_val c of None \<Rightarrow> None | Some d \<Rightarrow> digits_val (10 * acc + d) s)"

definition SetString :: "string \<Rightarrow> int option" where
  "SetString s = (case s of
      [] \<Rightarrow> None
    | c # t \<Rightarrow> if c = CHR ''-'' then (if t = [] then None else map_option uminus (digits_val 0 t))
               else if c = CHR ''+'' then (if t = [] then None else digits_val 0 t)
               else digits_val 0 s)"

section \<open>Amounts (models/mtypes/big.go)\<close>

definition Int_Value :: "bigint \<Rightarrow> driver_value" where
  "Int_Value bi = (case bi of Some i \<Rightarrow> DbString (show_int i) | None \<Rightarrow> DbString ''0'')"

text \<open>A text that is no number leaves the amount undefined: \<open>junk\<close> is what it then holds.\<close>

definition Int_Scan :: "(string \<Rightarrow> int) \<Rightarrow> driver_value \<Rightarrow> bigint result" where
  "Int_Scan junk value = (case value of
      DbNil \<Rightarrow> Inr (Some 0)
    | DbInt t \<Rightarrow> Inr (Some t)
    | DbBytes t \<Rightarrow> Inr (Some (case SetString t of Some i \<Rightarrow> i | None \<Rightarrow> junk t))
    | DbString t \<Rightarrow> Inr (Some (case SetString t of Some i \<Rightarrow> i | None \<Rightarrow> junk t))
    | DbOther T \<Rightarrow> Inl (Err (''could not scan type '' @ T @ '' into BigInt '')))"

section \<open>Identifiers (models/mtypes/db_cid.go)\<close>

definition DBCid_String :: "codec \<Rightarrow> cid \<Rightarrow> string" where
  "DBCid_String C c = (if c = CidUndef then '''' else cid_str C c)"

definition DBCid_Value :: "codec \<Rightarrow> cid \<Rightarrow> driver_value" where
  "DBCid_Value C c = DbString (DBCid_String C c)"

definition DBCid_Scan :: "codec \<Rightarrow> driver_value \<Rightarrow> cid result" where
  "DBCid_Scan C value =
     bindE (case value of DbBytes v \<Rightarrow> Inr v | DbString v \<Rightarrow> Inr v | _ \<Rightarrow> Inl (Err ''address should be a `[]byte` or `string`'')) (\<lambda>val.
       if length val = 0 then Inr CidUndef else cid_dec C val)"

section \<open>Round trips\<close>

lemma digit_val_char: "d < 10 \<Longrightarrow> digit_val (char_of (48 + d :: nat)) = Some (int d)"
proof -
  assume "d < 10"
  then have "d \<in> set [0, 1, 2, 3, 4, 5, 6, 7, 8, 9]" by simp presburger
  moreover have "list_all (\<lambda>d. digit_val (char_of (48 + d)) = Some (int d)) [0, 1, 2, 3, 4, 5, 6, 7, 8, 9 :: nat]" by code_simp
  ultimately show ?thesis unfolding list_all_iff by blast
qed

lemma digits_val_append: "digits_val acc (s @ t) = (case digits_val acc s of None \<Rightarrow> None | Some v \<Rightarrow> digits_val v t)"
  by (induction s arbitrary: acc) (auto split: option.splits)

lemma digits_val_digits_of: "digits_val 0 (digits_of n) = Some (int n)"
proof (induction n rule: digits_of.induct)
  case (1 n)
  show ?case
  proof (cases "n < 10")
    case True
    then show ?thesis by (simp add: digits_of.simps [of n] digit_val_char)
  next
    case False
    have "10 * int (n div 10) + int (n mod 10) = int n" by (simp add: of_nat_div of_nat_mod)
    then show ?thesis using 1 [OF False] digit_val_char [of "n mod 10"] False
      by (simp add: digits_of.simps [of n] digits_val_append)
  qed
qed

lemma digits_of_first: "\<exists>c t. digits_of n = c # t \<and> c \<noteq> CHR ''-'' \<and> c \<noteq> CHR ''+''"
proof (induction n rule: digits_of.induct)
  case (1 n)
  have c: "char_of (48 + d :: nat) \<noteq> CHR ''-'' \<and> char_of (48 + d :: nat) \<noteq> CHR ''+''" if "d < 10" for d
    using digit_val_char [OF that] by (auto simp: digit_val_def)
  show ?case
  proof (cases "n < 10")
    case True
    then show ?thesis using c [OF True] by (simp add: digits_of.simps [of n])
  next
    case False
    then show ?thesis using 1 [OF False] by (auto simp: digits_of.simps [of n])
  qed
qed

lemma SetString_show_int: "SetString (show_int i) = Some i"
proof -
  obtain c t where d: "digits_of (nat \<bar>i\<bar>) = c # t" "c \<noteq> CHR ''-''" "c \<noteq> CHR ''+''" using digits_of_first by blast
  have v: "digits_val 0 (c # t) = Some \<bar>i\<bar>" using digits_val_digits_of [of "nat \<bar>i\<bar>"] d(1) by simp
  show ?thesis
  proof (cases "i < 0")
    case True
    then show ?thesis using d v by (simp add: show_int_def SetString_def)
  next
    case False
    then show ?thesis using d v by (simp add: show_int_def SetString_def)
  qed
qed

text \<open>A stored amount reads back, nil as zero, and a stored identifier reads back, undefined as undefined.\<close>

theorem amount_column_roundtrip: "Int_Scan junk (Int_Value i) = Inr (SafeFromGo i)"
proof (cases i)
  case None
  have "SetString ''0'' = Some 0" by code_simp
  then show ?thesis using None by (simp add: Int_Scan_def Int_Value_def)
next
  case (Some v)
  then show ?thesis by (simp add: Int_Scan_def Int_Value_def SetString_show_int)
qed

theorem cid_column_roundtrip:
  assumes "text_codec C"
  shows "DBCid_Scan C (DBCid_Value C c) = Inr c"
proof (cases c)
  case CidUndef
  then show ?thesis by (simp add: DBCid_Scan_def DBCid_Value_def DBCid_String_def)
next
  case (Cid x)
  have "cid_or_undef (cid_dec C (cid_str C c)) = c" "cid_str C c \<noteq> ''''"
    using text_codec.cid_roundtrip [OF assms] text_codec.cid_nonempty [OF assms] by auto
  then show ?thesis using Cid by (auto simp: DBCid_Scan_def DBCid_Value_def DBCid_String_def cid_or_undef_def split: sum.splits)
qed

end
