(* ===== verification/Config.thy ===== *)
theory Config
  imports Publisher Cli
begin

text \<open>
  The configuration (\<open>config/config.go\<close>), the repository directory it is kept in
  (\<open>filestore/file_store.go\<close>), and what start-up makes of it (\<open>main.go\<close>): defaults, flags
  and the waiting time of a head. The operating system's file operations and the TOML codec are
  parameters. The sections of tracing and metrics belong to a library and are left out.
\<close>

section \<open>The configuration (config/config.go)\<close>

text \<open>Durations are nanoseconds.\<close>

definition Second :: int where "Second = 1000000000"

record mysql_config =
  my_ConnectionString :: string
  my_MaxOpenConn :: int
  my_MaxIdleConn :: int
  my_ConnMaxLifeTime :: int
  my_Debug :: bool

record db_config =
  db_Type :: string
  db_MySql :: mysql_config
  db_SqliteDebug :: bool

record jwt_config =
  jw_AuthURL :: string
  jw_Token :: string

record log_config =
  lg_Path :: string
  lg_Level :: string

record node_config =
  nc_Url :: string
  nc_Token :: string

record message_service_config =
  mc_WaitingChainHeadStableDuration :: int
  mc_DefaultTimeout :: int
  mc_SignMessageTimeout :: int
  mc_EstimateMessageTimeout :: int
  mc_SkipProcessHead :: bool
  mc_SkipPushMessage :: bool

record gateway_config =
  gc_Token :: string
  gc_Url :: "string list"

record libp2p_config =
  lp_ListenAddress :: string
  lp_BootstrapAddresses :: "string list"
  lp_MinPeerThreshold :: int
  lp_ExpandPeriod :: int

record config =
  cf_DB :: db_config
  cf_JWT :: jwt_config
  cf_Log :: log_config
  cf_API :: string
  cf_Node :: node_config
  cf_MessageService :: message_service_config
  cf_Gateway :: gateway_config
  cf_RateLimitRedis :: string
  cf_Libp2pNet :: libp2p_config
  cf_Publisher :: publisher_config

definition DefWaitingChainHeadStableDuration :: int where "DefWaitingChainHeadStableDuration = 8 * Second"
definition DefaultTimeout :: int where "DefaultTimeout = Second"
definition SignMessageTimeout :: int where "SignMessageTimeout = 3 * Second"
definition EstimateMessageTimeout :: int where "EstimateMessageTimeout = 30 * Second"

definition DefaultConfig :: config where
  "DefaultConfig = \<lparr>
     cf_DB = \<lparr>db_Type = ''sqlite'',
       db_MySql = \<lparr>my_ConnectionString = '''', my_MaxOpenConn = 10, my_MaxIdleConn = 10, my_ConnMaxLifeTime = 60 * Second, my_Debug = False\<rparr>,
       db_SqliteDebug = False\<rparr>,
     cf_JWT = \<lparr>jw_AuthURL = ''http://127.0.0.1:8989'', jw_Token = ''''\<rparr>,
     cf_Log = \<lparr>lg_Path = '''', lg_Level = ''info''\<rparr>,
     cf_API = ''/ip4/127.0.0.1/tcp/39812'',
     cf_Node = \<lparr>nc_Url = ''/ip4/127.0.0.1/tcp/3453'', nc_Token = ''''\<rparr>,
     cf_MessageService = \<lparr>mc_WaitingChainHeadStableDuration = DefWaitingChainHeadStableDuration,
       mc_DefaultTimeout = DefaultTimeout, mc_SignMessageTimeout = SignMessageTimeout, mc_EstimateMessageTimeout = EstimateMessageTimeout,
       mc_SkipProcessHead = False, mc_SkipPushMessage = False\<rparr>,
     cf_Gateway = \<lparr>gc_Token = '''', gc_Url = [''/ip4/127.0.0.1/tcp/45132'']\<rparr>,
     cf_RateLimitRedis = '''',
     cf_Libp2pNet = \<lparr>lp_ListenAddress = ''/ip4/0.0.0.0/tcp/0'', lp_BootstrapAddresses = [], lp_MinPeerThreshold = 0, lp_ExpandPeriod = 0\<rparr>,
     cf_Publisher = \<lparr>pc_Concurrency = 5, pc_CacheReleasePeriod = 0, pc_EnableP2P = False, pc_EnableMultiNode = True\<rparr>\<rparr>"

section \<open>The repository directory (filestore/file_store.go)\<close>

text \<open>
  The files are a map from paths to contents. \<open>os_WriteFile\<close> may fail, and what it leaves of
  the file then is its own affair.
\<close>

type_synonym files = "string \<rightharpoonup> string"

record os_env =
  os_Join :: "string \<Rightarrow> string \<Rightarrow> string"
  os_MkdirAll :: "string \<Rightarrow> unit result"
  os_WriteFile :: "string \<Rightarrow> string \<Rightarrow> (files, unit) comp"
  os_Marshal :: "config \<Rightarrow> string result"
  os_Unmarshal :: "string \<Rightarrow> config \<Rightarrow> config result"

definition os_ReadFile :: "string \<Rightarrow> files \<Rightarrow> string result" where
  "os_ReadFile path fs = (case fs path of None \<Rightarrow> Inl (Err ''no such file or directory'') | Some s \<Rightarrow> Inr s)"

definition ReadConfig :: "os_env \<Rightarrow> string \<Rightarrow> config \<Rightarrow> files \<Rightarrow> config result" where
  "ReadConfig os path cfg fs = bindE (os_ReadFile path fs) (\<lambda>configBytes. os_Unmarshal os configBytes cfg)"

definition WriteConfig :: "os_env \<Rightarrow> string \<Rightarrow> config \<Rightarrow> (files, unit) comp" where
  "WriteConfig os path cfg = bindC (liftC (os_Marshal os cfg)) (\<lambda>cfgBytes. os_WriteFile os path cfgBytes)"

definition ConfigFile :: string where "ConfigFile = ''config.toml''"
definition TipsetFile :: string where "TipsetFile = ''tipset.json''"
definition SqliteFile :: string where "SqliteFile = ''message.db''"
definition TokenFile :: string where "TokenFile = ''token''"

record fsRepo =
  fr_path :: string
  fr_cfg :: config

definition positive_or :: "int \<Rightarrow> int \<Rightarrow> int" where
  "positive_or d def = (if d \<le> 0 then def else d)"

definition fill_timeouts :: "config \<Rightarrow> config" where
  "fill_timeouts cfg = cfg\<lparr>cf_MessageService := (cf_MessageService cfg)\<lparr>
     mc_DefaultTimeout := positive_or (mc_DefaultTimeout (cf_MessageService cfg)) DefaultTimeout,
     mc_SignMessageTimeout := positive_or (mc_SignMessageTimeout (cf_MessageService cfg)) SignMessageTimeout,
     mc_EstimateMessageTimeout := positive_or (mc_EstimateMessageTimeout (cf_MessageService cfg)) EstimateMessageTimeout\<rparr>\<rparr>"

definition NewFSRepo :: "os_env \<Rightarrow> string \<Rightarrow> files \<Rightarrow> fsRepo result" where
  "NewFSRepo os repoPath fs =
     bindE (ReadConfig os (os_Join os repoPath ConfigFile) DefaultConfig fs) (\<lambda>cfg. Inr \<lparr>fr_path = repoPath, fr_cfg = fill_timeouts cfg\<rparr>)"

definition InitFSRepo :: "os_env \<Rightarrow> string \<Rightarrow> config \<Rightarrow> (files, fsRepo) comp" where
  "InitFSRepo os repoPath cfg =
     bindC (liftC (os_MkdirAll os repoPath)) (\<lambda>_.
     bindC (WriteConfig os (os_Join os repoPath ConfigFile) cfg) (\<lambda>_. returnC \<lparr>fr_path = repoPath, fr_cfg = cfg\<rparr>))"

definition fs_TipsetFile :: "os_env \<Rightarrow> fsRepo \<Rightarrow> string" where
  "fs_TipsetFile os r = os_Join os (fr_path r) TipsetFile"

definition fs_SqliteFile :: "os_env \<Rightarrow> fsRepo \<Rightarrow> string" where
  "fs_SqliteFile os r = os_Join os (fr_path r) SqliteFile"

definition ReplaceConfig :: "os_env \<Rightarrow> config \<Rightarrow> fsRepo \<Rightarrow> (files, fsRepo) comp" where
  "ReplaceConfig os cfg r = bindC (WriteConfig os (os_Join os (fr_path r) ConfigFile) cfg) (\<lambda>_. returnC (r\<lparr>fr_cfg := cfg\<rparr>))"

definition SaveToken :: "os_env \<Rightarrow> string \<Rightarrow> fsRepo \<Rightarrow> (files, unit) comp" where
  "SaveToken os token r =
     mapErrC (\<lambda>e. Err (''write token to token file failed: '' @ error_text e)) (os_WriteFile os (os_Join os (fr_path r) TokenFile) token)"

definition GetToken :: "os_env \<Rightarrow> fsRepo \<Rightarrow> files \<Rightarrow> string result" where
  "GetToken os r = os_ReadFile (os_Join os (fr_path r) TokenFile)"

section \<open>Start-up (main.go)\<close>

text \<open>One flag of \<open>updateFlag\<close>: \<open>if ctx.IsSet(flag) { ... }\<close>.\<close>

definition if_set :: "cli_ctx \<Rightarrow> string \<Rightarrow> (config \<Rightarrow> config) \<Rightarrow> config \<Rightarrow> config" where
  "if_set ctx flag f cfg = (if x_IsSet ctx flag then f cfg else cfg)"

definition db_flags :: "cli_ctx \<Rightarrow> config \<Rightarrow> config result" where
  "db_flags ctx cfg =
     (if x_IsSet ctx ''db-type''
      then (let dbType = x_String ctx ''db-type''; cfg = cfg\<lparr>cf_DB := (cf_DB cfg)\<lparr>db_Type := dbType\<rparr>\<rparr>
            in if dbType = ''sqlite'' then Inr cfg
               else if dbType = ''mysql''
               then Inr (if_set ctx ''mysql-dsn'' (\<lambda>c. c\<lparr>cf_DB := (cf_DB c)\<lparr>db_MySql :=
                      (db_MySql (cf_DB c))\<lparr>my_ConnectionString := x_String ctx ''mysql-dsn''\<rparr>\<rparr>\<rparr>) cfg)
               else Inl (Err (''unexpected db type '' @ dbType)))
      else Inr cfg)"

text \<open>\<open>urls\<close> is the value of the slice flag \<open>gateway-url\<close>.\<close>

definition updateFlag :: "string list \<Rightarrow> cli_ctx \<Rightarrow> config \<Rightarrow> config result" where
  "updateFlag urls ctx cfg =
     (let cfg = if_set ctx ''listen'' (\<lambda>c. c\<lparr>cf_API := x_String ctx ''listen''\<rparr>) cfg;
          cfg = if_set ctx ''disable-push''
                  (\<lambda>c. c\<lparr>cf_MessageService := (cf_MessageService c)\<lparr>mc_SkipPushMessage := True, mc_SkipProcessHead := True\<rparr>\<rparr>) cfg;
          cfg = if_set ctx ''auth-url'' (\<lambda>c. c\<lparr>cf_JWT := (cf_JWT c)\<lparr>jw_AuthURL := x_String ctx ''auth-url''\<rparr>\<rparr>) cfg;
          cfg = if_set ctx ''node-url'' (\<lambda>c. c\<lparr>cf_Node := (cf_Node c)\<lparr>nc_Url := x_String ctx ''node-url''\<rparr>\<rparr>) cfg;
          cfg = if_set ctx ''gateway-url'' (\<lambda>c. c\<lparr>cf_Gateway := (cf_Gateway c)\<lparr>gc_Url := urls\<rparr>\<rparr>) cfg;
          cfg = if_set ctx ''auth-token'' (\<lambda>c. c\<lparr>
                  cf_Node := (cf_Node c)\<lparr>nc_Token := x_String ctx ''auth-token''\<rparr>,
                  cf_Gateway := (cf_Gateway c)\<lparr>gc_Token := x_String ctx ''auth-token''\<rparr>,
                  cf_JWT := (cf_JWT c)\<lparr>jw_Token := x_String ctx ''auth-token''\<rparr>\<rparr>) cfg;
          cfg = if_set ctx ''node-token'' (\<lambda>c. c\<lparr>cf_Node := (cf_Node c)\<lparr>nc_Token := x_String ctx ''node-token''\<rparr>\<rparr>) cfg;
          cfg = if_set ctx ''gateway-token'' (\<lambda>c. c\<lparr>cf_Gateway := (cf_Gateway c)\<lparr>gc_Token := x_String ctx ''gateway-token''\<rparr>\<rparr>) cfg
      in bindE (db_flags ctx cfg)
           (\<lambda>cfg. Inr (if_set ctx ''rate-limit-redis'' (\<lambda>c. c\<lparr>cf_RateLimitRedis := x_String ctx ''rate-limit-redis''\<rparr>) cfg)))"

text \<open>Go's division of signed integers rounds towards zero.\<close>

definition go_div :: "int \<Rightarrow> int \<Rightarrow> int" where
  "go_div a b = sgn a * (\<bar>a\<bar> div b)"

text \<open>The waiting time of a head is cut to half the block delay when it would not end before the next block.\<close>

definition adjust_waiting :: "u64 \<Rightarrow> config \<Rightarrow> config option" where
  "adjust_waiting BlockDelaySecs cfg =
     (if BlockDelaySecs \<le> to_uint64 (go_div (mc_WaitingChainHeadStableDuration (cf_MessageService cfg)) Second)
      then Some (cfg\<lparr>cf_MessageService := (cf_MessageService cfg)\<lparr>mc_WaitingChainHeadStableDuration :=
             to_int64 (to_uint64 (to_int64 (BlockDelaySecs div 2) * Second))\<rparr>\<rparr>)
      else None)"

text \<open>
  The part of \<open>runAction\<close> that decides the configuration: the directory is read or made, the
  flags are applied, and the waiting time is adjusted and written back. \<open>blockDelay\<close> is what
  \<open>StateGetNetworkParams\<close> answers; connecting to the node and waiting for its chain come
  between and do not touch the configuration.
\<close>

definition open_repo :: "os_env \<Rightarrow> (string \<Rightarrow> bool option result) \<Rightarrow> string \<Rightarrow> string list \<Rightarrow> cli_ctx \<Rightarrow> (files, fsRepo) comp" where
  "open_repo os stat repoPath urls ctx =
     bindC (liftC (hasFSRepo stat repoPath)) (\<lambda>has.
       if has
       then bindC (queryC (NewFSRepo os repoPath)) (\<lambda>r. bindC (liftC (updateFlag urls ctx (fr_cfg r))) (\<lambda>cfg. returnC (r\<lparr>fr_cfg := cfg\<rparr>)))
       else bindC (liftC (updateFlag urls ctx DefaultConfig)) (\<lambda>cfg. InitFSRepo os repoPath cfg))"

definition runAction_config ::
  "os_env \<Rightarrow> (string \<Rightarrow> string result) \<Rightarrow> (string \<Rightarrow> bool option result) \<Rightarrow> string list \<Rightarrow> u64 result \<Rightarrow> cli_ctx \<Rightarrow> (files, fsRepo) comp" where
  "runAction_config os expand stat urls blockDelay ctx =
     bindC (liftC (GetRepoPath expand stat ctx)) (\<lambda>repoPath.
     bindC (open_repo os stat repoPath urls ctx) (\<lambda>r.
     bindC (mapErrC (\<lambda>e. Err (''get network params failed '' @ error_text e)) (liftC blockDelay)) (\<lambda>bd. case adjust_waiting bd (fr_cfg r) of
         None \<Rightarrow> returnC r
       | Some cfg \<Rightarrow> ReplaceConfig os cfg r)))"

section \<open>Lemmas\<close>

definition timeouts_ok :: "config \<Rightarrow> bool" where
  "timeouts_ok cfg \<longleftrightarrow> 0 < mc_DefaultTimeout (cf_MessageService cfg) \<and> 0 < mc_SignMessageTimeout (cf_MessageService cfg)
     \<and> 0 < mc_EstimateMessageTimeout (cf_MessageService cfg)"

lemma fill_timeouts_ok: "timeouts_ok (fill_timeouts cfg)"
  by (simp add: timeouts_ok_def fill_timeouts_def positive_or_def DefaultTimeout_def SignMessageTimeout_def EstimateMessageTimeout_def Second_def)

lemma fill_timeouts_id: "timeouts_ok cfg \<Longrightarrow> fill_timeouts cfg = cfg"
  by (simp add: timeouts_ok_def fill_timeouts_def positive_or_def)

lemma default_timeouts_ok: "timeouts_ok DefaultConfig"
  by (simp add: timeouts_ok_def DefaultConfig_def DefaultTimeout_def SignMessageTimeout_def EstimateMessageTimeout_def Second_def)

lemma timeouts_if_set: "(\<And>c. timeouts_ok (f c) = timeouts_ok c) \<Longrightarrow> timeouts_ok (if_set ctx flag f cfg) = timeouts_ok cfg"
  by (simp add: if_set_def)

lemma timeouts_update [simp]:
  "timeouts_ok (cfg\<lparr>cf_API := a\<rparr>) = timeouts_ok cfg" "timeouts_ok (cfg\<lparr>cf_JWT := j\<rparr>) = timeouts_ok cfg"
  "timeouts_ok (cfg\<lparr>cf_Node := n\<rparr>) = timeouts_ok cfg" "timeouts_ok (cfg\<lparr>cf_Gateway := g\<rparr>) = timeouts_ok cfg"
  "timeouts_ok (cfg\<lparr>cf_DB := d\<rparr>) = timeouts_ok cfg" "timeouts_ok (cfg\<lparr>cf_RateLimitRedis := r\<rparr>) = timeouts_ok cfg"
  "timeouts_ok (cfg\<lparr>cf_MessageService := (cf_MessageService cfg)\<lparr>mc_SkipPushMessage := x, mc_SkipProcessHead := y\<rparr>\<rparr>) = timeouts_ok cfg"
  by (simp_all add: timeouts_ok_def)

lemma db_flags_timeouts: "db_flags ctx cfg = Inr cfg' \<Longrightarrow> timeouts_ok cfg' = timeouts_ok cfg"
  by (auto simp: db_flags_def Let_def timeouts_if_set split: if_splits)

lemma updateFlag_timeouts:
  assumes "updateFlag urls ctx cfg = Inr cfg'" "timeouts_ok cfg"
  shows "timeouts_ok cfg'"
proof -
  from assms(1) obtain c where
    "timeouts_ok c = timeouts_ok cfg" "timeouts_ok cfg' = timeouts_ok c"
    unfolding updateFlag_def Let_def bindE_Inr_iff by (elim exE conjE) (drule db_flags_timeouts, fastforce simp: timeouts_if_set)
  with assms(2) show ?thesis by simp
qed

definition waits_less :: "u64 \<Rightarrow> config \<Rightarrow> bool" where
  "waits_less bd cfg \<longleftrightarrow> to_uint64 (go_div (mc_WaitingChainHeadStableDuration (cf_MessageService cfg)) Second) < bd"

lemma to_int64_to_uint64: "0 \<le> i \<Longrightarrow> i < 2 ^ 63 \<Longrightarrow> to_int64 (to_uint64 i) = i"
  unfolding to_int64_def to_uint64_def by (transfer, simp add: signed_take_bit_int_eq_self)

lemma half_delay:
  assumes "0 < bd" "unat bd < 2 ^ 33"
  shows "to_uint64 (go_div (to_int64 (to_uint64 (to_int64 (bd div 2) * Second))) Second) = bd div 2" "bd div 2 < bd"
proof -
  have h: "unat (bd div 2) = unat bd div 2" by (simp add: unat_div)
  have lt: "unat bd div 2 < 2 ^ 32" using assms(2) by simp
  then have half: "to_int64 (bd div 2) = int (unat bd div 2)" by (subst to_int64_small) (simp_all add: h)
  define n where "n = int (unat bd div 2)"
  have n: "0 \<le> n" "n < 4294967296" using lt by (simp_all add: n_def)
  have "to_int64 (to_uint64 (n * Second)) = n * Second"
    using n by (intro to_int64_to_uint64) (simp_all add: Second_def)
  moreover have "go_div (n * Second) Second = n"
    using n(1) by (cases "n = 0") (simp_all add: go_div_def Second_def sgn_mult abs_mult)
  moreover have "to_uint64 n = bd div 2" unfolding n_def half [symmetric] by simp
  ultimately show "to_uint64 (go_div (to_int64 (to_uint64 (to_int64 (bd div 2) * Second))) Second) = bd div 2"
    unfolding half n_def [symmetric] by simp
  have "unat bd \<noteq> 0" using assms(1) by (simp add: unat_eq_0 word_gt_0)
  then show "bd div 2 < bd" using h by (simp add: word_less_nat_alt)
qed

lemma adjust_waits_less:
  assumes "0 < bd" "unat bd < 2 ^ 33"
  shows "case adjust_waiting bd cfg of None \<Rightarrow> waits_less bd cfg | Some cfg' \<Rightarrow> waits_less bd cfg'"
  using half_delay [OF assms] by (auto simp: adjust_waiting_def waits_less_def not_le)

lemma adjust_timeouts: "adjust_waiting bd cfg = Some cfg' \<Longrightarrow> timeouts_ok cfg \<Longrightarrow> timeouts_ok cfg'"
  by (auto simp: adjust_waiting_def timeouts_ok_def split: if_splits)

lemma NewFSRepo_timeouts: "NewFSRepo os path fs = Inr r \<Longrightarrow> timeouts_ok (fr_cfg r)"
  by (auto simp: NewFSRepo_def bindE_Inr_iff fill_timeouts_ok)

lemma open_repo_timeouts:
  assumes "open_repo os stat path urls ctx fs = (Inr r, fs')"
  shows "timeouts_ok (fr_cfg r)"
  using assms default_timeouts_ok
  by (auto simp: open_repo_def InitFSRepo_def comp_inv split: if_splits dest: NewFSRepo_timeouts intro: updateFlag_timeouts)

lemma ReplaceConfig_inv: "ReplaceConfig os cfg r fs = (Inr r', fs') \<Longrightarrow> r' = r\<lparr>fr_cfg := cfg\<rparr>"
  by (auto simp: ReplaceConfig_def comp_inv)

section \<open>Properties\<close>

text \<open>
  C20: whatever the configuration file and the flags say, the configuration start-up runs with
  has positive timeouts and a waiting time for heads that, in whole seconds, is below the block
  delay of the network, so that a head is acted on before the next one comes.
\<close>

theorem startup_waits_within_block:
  assumes run: "runAction_config os expand stat urls (Inr bd) ctx fs = (Inr r, fs')"
    and delay: "0 < bd" "unat bd < 2 ^ 33"
  shows "waits_less bd (fr_cfg r) \<and> timeouts_ok (fr_cfg r)"
proof -
  from run obtain path r0 fs0 where opened: "open_repo os stat path urls ctx fs = (Inr r0, fs0)"
    and a: "(case adjust_waiting bd (fr_cfg r0) of None \<Rightarrow> returnC r0 | Some cfg \<Rightarrow> ReplaceConfig os cfg r0) fs0 = (Inr r, fs')"
    by (auto simp: runAction_config_def comp_inv)
  have t: "timeouts_ok (fr_cfg r0)" by (rule open_repo_timeouts [OF opened])
  show ?thesis
  proof (cases "adjust_waiting bd (fr_cfg r0)")
    case None
    then show ?thesis using a t adjust_waits_less [OF delay, of "fr_cfg r0"] by (simp add: comp_inv)
  next
    case (Some cfg)
    then have "r = r0\<lparr>fr_cfg := cfg\<rparr>" using a by (auto dest: ReplaceConfig_inv)
    then show ?thesis using Some adjust_timeouts [OF Some t] adjust_waits_less [OF delay, of "fr_cfg r0"] by simp
  qed
qed

text \<open>
  A directory made by \<open>InitFSRepo\<close> opens again with the same configuration: writing stores the
  text, and the codec reads back what it wrote.
\<close>

theorem InitFSRepo_NewFSRepo:
  assumes run: "InitFSRepo os path cfg fs = (Inr r, fs')" and t: "timeouts_ok cfg"
    and stored: "\<And>p s h h'. os_WriteFile os p s h = (Inr (), h') \<Longrightarrow> h' p = Some s"
    and codec: "\<And>s. os_Marshal os cfg = Inr s \<Longrightarrow> os_Unmarshal os s DefaultConfig = Inr cfg"
  shows "NewFSRepo os path fs' = Inr r"
proof -
  from run obtain s where r: "r = \<lparr>fr_path = path, fr_cfg = cfg\<rparr>" and m: "os_Marshal os cfg = Inr s"
    and w: "\<exists>h. os_WriteFile os (os_Join os path ConfigFile) s h = (Inr (), fs')"
    by (auto simp: InitFSRepo_def WriteConfig_def comp_inv)
  from w have "fs' (os_Join os path ConfigFile) = Some s" using stored by blast
  then show ?thesis using codec [OF m] t r by (simp add: NewFSRepo_def ReadConfig_def os_ReadFile_def fill_timeouts_id)
qed

text \<open>A first start on a network with a block delay of four seconds: the default of eight is cut to two and kept.\<close>

definition plain_os :: os_env where
  "plain_os = \<lparr>os_Join = (\<lambda>d f. d @ ''/'' @ f), os_MkdirAll = (\<lambda>_. Inr ()), os_WriteFile = (\<lambda>p s fs. (Inr (), fs(p \<mapsto> s))),
     os_Marshal = (\<lambda>_. Inr ''config''), os_Unmarshal = (\<lambda>_ cfg. Inr cfg)\<rparr>"

definition no_flags :: cli_ctx where
  "no_flags = \<lparr>x_IsSet = (\<lambda>_. False), x_String = (\<lambda>_. ''repo''), x_Bool = (\<lambda>_. False), x_Int = (\<lambda>_. 0), x_Uint64 = (\<lambda>_. 0),
     x_Float64 = (\<lambda>_. 0), x_State = UnKnown, x_Args = []\<rparr>"

definition first_start :: "fsRepo result \<times> files" where
  "first_start = runAction_config plain_os Inr (\<lambda>_. Inr None) [] (Inr 4) no_flags (\<lambda>_. None)"

lemma first_start_eq:
  "first_start = (Inr \<lparr>fr_path = ''repo'', fr_cfg = DefaultConfig\<lparr>cf_MessageService := (cf_MessageService DefaultConfig)\<lparr>
     mc_WaitingChainHeadStableDuration := 2 * Second\<rparr>\<rparr>\<rparr>, [''repo/config.toml'' \<mapsto> ''config''])"
proof -
  have w: "adjust_waiting 4 DefaultConfig = Some (DefaultConfig\<lparr>cf_MessageService := (cf_MessageService DefaultConfig)\<lparr>
      mc_WaitingChainHeadStableDuration := 2 * Second\<rparr>\<rparr>)" by code_simp
  show ?thesis
    by (simp add: first_start_def runAction_config_def GetRepoPath_def hasFSRepo_def no_flags_def open_repo_def updateFlag_def Let_def
        if_set_def db_flags_def InitFSRepo_def WriteConfig_def ReplaceConfig_def plain_os_def ConfigFile_def
        bindC_def liftC_def returnC_def mapErrC_def w)
qed

theorem startup_waits_within_block_witness:
  "waits_less 4 (fr_cfg (projr (fst first_start))) \<and> timeouts_ok (fr_cfg (projr (fst first_start)))"
  by (rule startup_waits_within_block [of plain_os Inr "\<lambda>_. Inr None" "[]" 4 no_flags "\<lambda>_. None" _ "snd first_start"])
    (simp_all add: first_start_eq [unfolded first_start_def] first_start_eq)

end
