(* ===== verification/Spec2Isabelle.thy ===== *)
theory Spec2Isabelle
  imports Gas Utils Tipsets MysqlRepo Messager MessageServiceProps PublisherProps Gateway WorksProps ApiProps PushLoop CliProps Columns Config
begin

text \<open>
  A verification development of sophon-messager, the message pool service of a Filecoin node
  cluster. Clients push unsigned messages; the messager chooses nonces and fees, lets a wallet
  gateway sign, publishes to nodes, and follows the chain to record what became of each message.

  \<^bold>\<open>The program's parts and how they meet.\<close>
  The API (\<open>src/api\<close>) checks the caller's permission and calls the services
  (\<open>src/service\<close>). The services keep their state in a database behind the interfaces of
  \<open>src/models/repo\<close>, implemented over SQLite and MySQL (\<open>src/models/sqlite\<close>,
  \<open>src/models/mysql\<close>) through gorm. A notification of new tipsets goes through
  \<open>ProcessNewHead\<close>, which finds the common ancestor with the cached chain, to the refresh of
  message states, and triggers the push loop; the push loop starts one goroutine per active
  address that selects, signs and saves messages and offers them to the publisher
  (\<open>src/publisher\<close>), which sends them to nodes and to pubsub. Signing goes through the wallet
  proxy (\<open>src/gateway\<close>). The command line (\<open>src/cli\<close>) and the batch replacement tool
  (\<open>src/tools\<close>) are clients of the API; \<open>src/main.go\<close> reads the configuration
  (\<open>src/config\<close>, \<open>src/filestore\<close>) and wires the parts.

  \<^bold>\<open>How Go is modelled.\<close>
  Structs are records; pointers that may be nil are options; a Go function that returns an error
  is a value of \<open>error + 'a\<close>, and one that also changes state a \<open>('s, 'a) comp\<close>, a
  function from a state to a result and the state reached, so that what a failed call has
  already written stays visible. \<open>Panic\<close> is a constructor of the errors that no caller
  handles. Nonces and the other \<open>uint64\<close> fields that are computed with are 64-bit words; token
  amounts (\<open>big.Int\<close>) are integers; heights, gas limits and counts (\<open>int64\<close>) are
  integers, since the code only compares, stores or adds small numbers to them. Floats are their bit
  patterns, which the code only stores and compares with zero. Channels are lists, goroutines are entries of a list with the point they have reached,
  and their interleavings are step relations. Transactions take a body and give the state
  back when it fails.

  \<^bold>\<open>Theories.\<close>

  \<^item> \<open>Prelude\<close>: errors, results and computations, loops over lists, the parts of Go's
    \<open>strings\<close> the sources use, and lemmas that several components share.
  \<^item> \<open>Types\<close>: the data the components exchange, and the conversions of
    \<open>models/mtypes\<close> and \<open>models/repo/repo.go\<close>.
  \<^item> \<open>Gas\<close>: \<open>computeRBF\<close> (\<open>service/message_service.go\<close>), \<open>CapGasFee\<close>,
    \<open>GasSpec\<close> and \<open>mergeMsgSpec\<close> (\<open>service/message_selector.go\<close>). Shown: the
    replacement premium exceeds the old one by more than the pool's minimum, the cap keeps the
    total within the maximum and the premium within the fee cap, and the merge of four sources of
    parameters equals a definition by priority.
  \<^item> \<open>Utils\<close>: \<open>utils/nonceMap.go\<close>, tipset keys and grouping of \<open>utils/util.go\<close>,
    bit-field ranges of \<open>utils/convert_params.go\<close>. Shown: ranges expand to the bits they came
    from and are maximal, and a printed tipset key parses to itself.
  \<^item> \<open>Tipsets\<close>: the tipset cache (\<open>service/cache.go\<close>), \<open>lookAncestors\<close>,
    \<open>ProcessNewHead\<close> and \<open>ReconnectCheck\<close>. Shown: the cache is keyed by height and
    bounded; the search ends for every node that answers, and on a chain it separates
    the cached tipsets off the new chain from the new ones. The search is defined with a measure,
    \<open>LookBackLimit + 1\<close> minus the rounds made; that is the bound in the code.
  \<^item> \<open>Columns\<close>: \<open>Value\<close> and \<open>Scan\<close> of the column types
    (\<open>models/mtypes/big.go\<close>, \<open>models/mtypes/db_cid.go\<close>). Shown: an amount and an
    identifier read back from the driver as they were written, a nil amount as zero.
  \<^item> \<open>Codec\<close>, \<open>Repo\<close>, \<open>Gorm\<close>: the interfaces. The locale \<open>text_codec\<close>
    says that addresses, identifiers and keys read back from their text (go-address, go-cid);
    \<open>gorm_table\<close> is what the back ends rely on of gorm for one table; \<open>message_store\<close>,
    \<open>address_store\<close> and \<open>repo_store\<close> are what the services rely on of a repository,
    stated over the rows as the services read them.
  \<^item> \<open>Sqlite\<close>, \<open>SqliteRepo\<close>, \<open>SqliteContract\<close>: the SQLite rows, every method of its
    five repositories, and that they satisfy \<open>repo_store\<close> for every engine that satisfies
    \<open>gorm_table\<close> and every codec. A list engine and a concrete codec satisfy both and
    carry the witnesses.
  \<^item> \<open>Mysql\<close>, \<open>MysqlRepo\<close>: the same rows and methods for MySQL, and that both back ends
    read the same message back from the row they write.
  \<^item> \<open>AddressService\<close>: \<open>address_service.go\<close>, \<open>shared_params_service.go\<close>,
    \<open>node_service.go\<close> and \<open>MigrateAddress\<close> of \<open>models/modules.go\<close>. Shown:
    forbidding and activating an address change exactly its place in the active listing.
  \<^item> \<open>Selector\<close>, \<open>SelectorProps\<close>: one address' round of
    \<open>service/message_selector.go\<close>, from the chain's nonce to the saved result. Shown: nonces
    are consecutive from the start nonce within the pending bound, and no two filled messages
    of a live address ever share one, whether the round succeeds or fails at any call.
  \<^item> \<open>Works\<close>, \<open>WorksProps\<close>: the manager of the rounds: works, their control channels and
    the goroutines, as a step relation. Shown: at most one goroutine selects for an address; the
    works follow the active addresses; two ways in which dropping a work can crash.
  \<^item> \<open>StateRefresh\<close>, \<open>StateRefreshProps\<close>: \<open>service/message_state_refresh.go\<close>.
    Shown: a refresh changes a message only to what the reverted and applied tipsets justify, and
    settles every applied one.
  \<^item> \<open>MessageService\<close>, \<open>MessageServiceProps\<close>: the other operations of
    \<open>message_service.go\<close>, with \<open>send.go\<close> and \<open>events.go\<close>. Shown: what pushing,
    clearing, recovering, waiting, replacing and republishing do on every branch.
  \<^item> \<open>ReplaceProps\<close>: \<open>ReplaceMessage\<close> over any store of the contract. Shown: it changes
    at most the message asked for, only while that is filled, and of it only what carries the fees.
  \<^item> \<open>PushLoop\<close>: the trigger loop, the waiting time of a head, and the requests to clear
    waiting messages that meet it on two unbuffered channels. Shown: a result can reach a caller
    it is not meant for.
  \<^item> \<open>Publisher\<close>, \<open>PublisherProps\<close>: \<open>publisher/publisher.go\<close> and
    \<open>publisher/modules.go\<close>, with the receiver, cache, workers and node threads as steps. Shown:
    every queued batch is non-empty, of one sender and ascending; the cache hands on exactly what
    was not seen since the last but one release; a node push changes at most error texts.
  \<^item> \<open>Gateway\<close>: \<open>gateway/gateway_client.go\<close>. Shown: signatures come from a configured
    gateway that was cached for the address or has its key, and a stale cache entry is replaced.
  \<^item> \<open>Api\<close>, \<open>ApiProps\<close>: \<open>api/messager_impl.go\<close>. Shown: calls leave the messages
    of senders the caller has no permission for alone, and listings contain permitted senders only.
  \<^item> \<open>Cli\<close>, \<open>CliAdmin\<close>, \<open>CliProps\<close>: the commands of \<open>src/cli\<close> and the
    batch replacement of \<open>src/tools/internal\<close>, run against the API's operations. The flags
    and the parsers of texts are parameters, an error that crosses the connection is its text, and
    of what is printed only the values are kept. Shown: marking bad and recovering change only the
    messages they are meant for, and the batch replacement reprices only messages its selectors
    choose whose nonce the chain has not used.
  \<^item> \<open>Config\<close>: the configuration and its defaults, the repository directory, the flags, and the
    waiting time start-up settles on. Shown: start-up runs with positive timeouts and waits for a
    head less than the network's block delay, for delays below \<open>2 ^ 33\<close> seconds, where
    the product with nanoseconds cannot overflow; a directory reopens with the configuration it was
    made with.
  \<^item> \<open>Messager\<close>: the services together as one step relation on the database, and the
    property that spans them: whatever pushes, selections, refreshes, replacements,
    resynchronisations and publications are interleaved and whatever fails, the nonces of the
    messages ever assigned stay unique per sender and below the sender's next nonce.

  \<^bold>\<open>Parameters.\<close>
  The node (\<open>ChainGetTipSet\<close>, estimation, pool pushes), the wallet, the auth client, gorm, the
  clock, fresh identifiers, the hash of a message, the text forms of addresses and identifiers,
  file operations, the TOML codec, and the order in which Go iterates a map are arguments of the definitions. What a
  property needs of them is a hypothesis of that property: laws of a chain (a parent is lower than
  its child), of a store, of a codec.

  \<^bold>\<open>Bounds.\<close>
  No definition uses fuel. \<open>WaitMessage\<close> runs over the list of polls made until the caller's
  context ends; the loops that run until shutdown are one step of a relation per event. The
  properties on nonces exclude rounds whose nonces come within the selection number of
  \<open>2 ^ 64\<close>, where the code's addition wraps.

  \<^bold>\<open>Simplifications.\<close>
  A stored text that does not parse makes the source panic in some readers; inside
  \<open>getFilledMessage\<close> and the search for the largest nonce the model treats that as a
  failed read. Log lines and metrics are left out.
  Time-outs appear as failures of the calls they cut short.

  \<^bold>\<open>Not modelled.\<close>
  Dependency wiring, clients and servers of start-up (the rest of \<open>src/main.go\<close>,
  \<open>src/api/modules.go\<close>): I/O of third-party frameworks. The libp2p transport
  (\<open>src/publisher/pubsub\<close>), metrics and tracing (\<open>src/metrics\<close>): calls into
  third-party stacks. Mocks and test helpers. Of the command line, the declarations of flags, the
  layout of tables, the listing of built-in actors and the network and logging commands, which
  only pass on. JSON files, reflection and multiaddress helpers. Two methods of the wallet proxy
  that only panic, the API's network and logging pass-throughs, and the periodic metrics of the
  message service.
  Edits by an operator (setting a state or a nonce, deleting an address) are modelled as
  operations but are no steps of the relation in \<open>Messager\<close>: setting a nonce
  or deleting an address can break the uniqueness it states.
\<close>

end
